(* ===== verification/Prelude.thy ===== *)
theory Prelude
  imports Main "HOL-Library.State_Monad"
begin

text \<open>
  The shared layer of the development: Go's \<^verbatim>\<open>time.Time\<close> and \<^verbatim>\<open>time.Duration\<close>
  as integers, the state monad in which the stateful components are written, the
  Hoare-style judgements \<open>keeps\<close> and \<open>triple\<close> with their rule collections, and
  the list lemmas that several components use.

  A \<^verbatim>\<open>time.Time\<close> is the number of nanoseconds since Go's zero time
  (January 1, year 1, UTC), so \<^verbatim>\<open>IsZero\<close> is equality with 0, \<^verbatim>\<open>Before\<close> and
  \<^verbatim>\<open>After\<close> are the order on integers and \<^verbatim>\<open>Add\<close>/\<^verbatim>\<open>Sub\<close> are addition and
  subtraction. A \<^verbatim>\<open>time.Duration\<close> is a number of nanoseconds. The saturation of
  \<^verbatim>\<open>Sub\<close> beyond 292 years is outside the model.
\<close>

section \<open>Time\<close>

type_synonym gotime = int
type_synonym duration = int

abbreviation (input) zero_time :: gotime where
  "zero_time \<equiv> 0"

definition nanosecond_per_second :: int where
  "nanosecond_per_second = 1000000000"

definition seconds :: "int \<Rightarrow> duration" where
  "seconds n = n * nanosecond_per_second"

definition minutes :: "int \<Rightarrow> duration" where
  "minutes n = seconds (60 * n)"

text \<open>\<^verbatim>\<open>Time.Unix\<close>: whole seconds since January 1, 1970 UTC.\<close>

definition unix_of :: "gotime \<Rightarrow> int" where
  "unix_of t = t div nanosecond_per_second - 62135596800"

lemma unix_of_mono: "s \<le> t \<Longrightarrow> unix_of s \<le> unix_of t"
  by (simp add: unix_of_def nanosecond_per_second_def zdiv_mono1)

lemma seconds_nonneg [simp]: "0 \<le> seconds n \<longleftrightarrow> 0 \<le> n"
  by (simp add: seconds_def nanosecond_per_second_def)

lemma seconds_pos [simp]: "0 < seconds n \<longleftrightarrow> 0 < n"
  by (simp add: seconds_def nanosecond_per_second_def)

lemma seconds_le [simp]: "seconds m \<le> seconds n \<longleftrightarrow> m \<le> n"
  by (simp add: seconds_def nanosecond_per_second_def)

lemma seconds_less [simp]: "seconds m < seconds n \<longleftrightarrow> m < n"
  by (simp add: seconds_def nanosecond_per_second_def)

lemma seconds_0 [simp]: "seconds 0 = 0"
  by (simp add: seconds_def)

text \<open>Go's integer division truncates towards zero.\<close>

definition go_div :: "int \<Rightarrow> int \<Rightarrow> int" where
  "go_div a b = (if 0 \<le> a then a div b else - ((- a) div b))"

section \<open>The state monad\<close>

definition gets :: "('s \<Rightarrow> 'a) \<Rightarrow> ('s, 'a) state" where
  "gets f = State (\<lambda>s. (f s, s))"

definition modify :: "('s \<Rightarrow> 's) \<Rightarrow> ('s, unit) state" where
  "modify f = State (\<lambda>s. ((), f s))"

abbreviation returnM :: "'a \<Rightarrow> ('s, 'a) state" where
  "returnM \<equiv> State_Monad.return"

definition whenM :: "bool \<Rightarrow> ('s, unit) state \<Rightarrow> ('s, unit) state" where
  "whenM c m = (if c then m else returnM ())"

primrec forM :: "'a list \<Rightarrow> ('a \<Rightarrow> ('s, unit) state) \<Rightarrow> ('s, unit) state" where
  "forM [] f = returnM ()"
| "forM (x # xs) f = do { f x; forM xs f }"

lemma run_state_gets [simp]: "run_state (gets f) s = (f s, s)"
  by (simp add: gets_def)

lemma run_state_modify [simp]: "run_state (modify f) s = ((), f s)"
  by (simp add: modify_def)

lemma run_state_whenM [simp]:
  "run_state (whenM c m) s = (if c then run_state m s else ((), s))"
  by (simp add: whenM_def)

subsection \<open>Invariants of programs\<close>

text \<open>
  \<open>keeps I m\<close>: running \<open>m\<close> from a state with \<open>I\<close> ends in a state with
  \<open>I\<close>. The collection \<open>keeps_rules\<close> is used with \<open>intro\<close>; each component adds the
  \<open>keeps\<close> lemmas of its operations where it needs them.
\<close>

named_theorems keeps_rules "structural rules for keeps"
named_theorems triple_rules "structural rules for triple"

definition keeps :: "('s \<Rightarrow> bool) \<Rightarrow> ('s, 'a) state \<Rightarrow> bool" where
  "keeps I m \<longleftrightarrow> (\<forall>s. I s \<longrightarrow> I (snd (run_state m s)))"

lemma keepsI: "(\<And>s a s'. I s \<Longrightarrow> run_state m s = (a, s') \<Longrightarrow> I s') \<Longrightarrow> keeps I m"
  unfolding keeps_def by (metis prod.collapse)

lemma keepsD: "keeps I m \<Longrightarrow> I s \<Longrightarrow> run_state m s = (a, s') \<Longrightarrow> I s'"
  unfolding keeps_def by (metis snd_conv)

lemma keeps_return [keeps_rules]: "keeps I (returnM a)"
  by (simp add: keeps_def)

lemma keeps_gets [keeps_rules]: "keeps I (gets f)"
  by (simp add: keeps_def)

lemma keeps_modify: "(\<And>s. I s \<Longrightarrow> I (f s)) \<Longrightarrow> keeps I (modify f)"
  by (simp add: keeps_def)

lemma keeps_bind [keeps_rules]:
  "keeps I m \<Longrightarrow> (\<And>a. keeps I (f a)) \<Longrightarrow> keeps I (m \<bind> f)"
  by (auto simp: keeps_def split: prod.split)

lemma keeps_if [keeps_rules]:
  "(c \<Longrightarrow> keeps I m) \<Longrightarrow> (\<not> c \<Longrightarrow> keeps I n) \<Longrightarrow> keeps I (if c then m else n)"
  by simp

lemma keeps_when [keeps_rules]: "(c \<Longrightarrow> keeps I m) \<Longrightarrow> keeps I (whenM c m)"
  by (simp add: whenM_def keeps_return)

lemma keeps_let [keeps_rules]: "keeps I (f x) \<Longrightarrow> keeps I (let y = x in f y)"
  by simp

lemma keeps_case_sum [keeps_rules]:
  "(\<And>e. keeps I (f e)) \<Longrightarrow> (\<And>a. keeps I (g a)) \<Longrightarrow> keeps I (case x of Inl e \<Rightarrow> f e | Inr a \<Rightarrow> g a)"
  by (cases x) simp_all

lemma keeps_case_option [keeps_rules]:
  "keeps I m \<Longrightarrow> (\<And>a. keeps I (g a)) \<Longrightarrow> keeps I (case x of None \<Rightarrow> m | Some a \<Rightarrow> g a)"
  by (cases x) simp_all

lemma keeps_case_prod [keeps_rules]:
  "(\<And>a b. keeps I (f a b)) \<Longrightarrow> keeps I (case x of (a, b) \<Rightarrow> f a b)"
  by (cases x) simp

lemma keeps_case_list [keeps_rules]:
  "keeps I m \<Longrightarrow> (\<And>a as. keeps I (g a as)) \<Longrightarrow> keeps I (case x of [] \<Rightarrow> m | a # as \<Rightarrow> g a as)"
  by (cases x) simp_all

lemma forM_Cons_state:
  "snd (run_state (forM (x # xs) f) w) = snd (run_state (forM xs f) (snd (run_state (f x) w)))"
  by (cases "run_state (f x) w") simp

lemma keeps_forM [keeps_rules]: "(\<And>x. x \<in> set xs \<Longrightarrow> keeps I (f x)) \<Longrightarrow> keeps I (forM xs f)"
  by (induction xs) (auto intro: keeps_return keeps_bind)

lemma keeps_run: "keeps I m \<Longrightarrow> I s \<Longrightarrow> I (snd (run_state m s))"
  by (simp add: keeps_def)

text \<open>
  \<open>triple P m Q\<close>: from a state with \<open>P\<close> the program \<open>m\<close> returns a result and a
  state that satisfy \<open>Q\<close>. Every program of the model is total, so there is no partial
  correctness here.
\<close>

definition triple :: "('s \<Rightarrow> bool) \<Rightarrow> ('s, 'a) state \<Rightarrow> ('a \<Rightarrow> 's \<Rightarrow> bool) \<Rightarrow> bool" where
  "triple P m Q \<longleftrightarrow> (\<forall>s. P s \<longrightarrow> (case run_state m s of (a, s') \<Rightarrow> Q a s'))"

lemma tripleI: "(\<And>s a s'. P s \<Longrightarrow> run_state m s = (a, s') \<Longrightarrow> Q a s') \<Longrightarrow> triple P m Q"
  by (auto simp: triple_def)

lemma tripleD: "triple P m Q \<Longrightarrow> P s \<Longrightarrow> run_state m s = (a, s') \<Longrightarrow> Q a s'"
  by (auto simp: triple_def)

lemma triple_bind: "triple P m R \<Longrightarrow> (\<And>a. triple (R a) (f a) Q) \<Longrightarrow> triple P (m \<bind> f) Q"
  by (fastforce simp: triple_def split: prod.splits)

lemma triple_return [triple_rules]: "triple (Q a) (returnM a) Q"
  by (simp add: triple_def)

lemma triple_weaken:
  "triple P' m Q' \<Longrightarrow> (\<And>s. P s \<Longrightarrow> P' s) \<Longrightarrow> (\<And>a s. Q' a s \<Longrightarrow> Q a s) \<Longrightarrow> triple P m Q"
  by (fastforce simp: triple_def split: prod.splits)

lemma triple_if: "triple P m Q \<Longrightarrow> triple P n Q \<Longrightarrow> triple P (if c then m else n) Q"
  by simp

lemma triple_keeps: "keeps I m \<longleftrightarrow> triple I m (\<lambda>_. I)"
  by (simp add: keeps_def triple_def split_beta)

section \<open>Lists\<close>

lemma foldl_append_acc: "foldl (\<lambda>acc x. acc @ f x) xs ys = xs @ concat (map f ys)"
  by (induction ys arbitrary: xs) auto

end
