(* ===== verification/GoStrings.thy ===== *)
theory GoStrings
  imports Prelude
begin

text \<open>
  The functions of Go's \<^verbatim>\<open>strings\<close>, \<^verbatim>\<open>strconv\<close> and \<^verbatim>\<open>regexp\<close> packages that
  the modelled code calls, on byte strings. White space is the ASCII white space: the
  guest and hypervisor texts that the code splits are ASCII, and the Unicode spaces that
  \<^verbatim>\<open>strings.TrimSpace\<close> also removes do not occur in them.
\<close>

section \<open>White space, prefixes, splitting\<close>

definition is_space :: "char \<Rightarrow> bool" where
  "is_space c \<longleftrightarrow> c = CHR '' '' \<or> (9 \<le> (of_char c :: nat) \<and> (of_char c :: nat) \<le> 13)"

text \<open>\<^verbatim>\<open>\s\<close> of the regular expression syntax: the vertical tab is not in it.\<close>

definition is_re_space :: "char \<Rightarrow> bool" where
  "is_re_space c \<longleftrightarrow> is_space c \<and> (of_char c :: nat) \<noteq> 11"

definition newline :: char where
  "newline = CHR 0x0A"

definition trim_left :: "(char \<Rightarrow> bool) \<Rightarrow> string \<Rightarrow> string" where
  "trim_left p s = dropWhile p s"

definition trim_right :: "(char \<Rightarrow> bool) \<Rightarrow> string \<Rightarrow> string" where
  "trim_right p s = rev (dropWhile p (rev s))"

definition trim_space :: "string \<Rightarrow> string" where
  "trim_space s = trim_right is_space (trim_left is_space s)"

fun has_prefix :: "string \<Rightarrow> string \<Rightarrow> bool" where
  "has_prefix s [] = True"
| "has_prefix [] (p # ps) = False"
| "has_prefix (c # s) (p # ps) = (c = p \<and> has_prefix s ps)"

definition has_suffix :: "string \<Rightarrow> string \<Rightarrow> bool" where
  "has_suffix s suf = has_prefix (rev s) (rev suf)"

definition trim_suffix :: "string \<Rightarrow> string \<Rightarrow> string" where
  "trim_suffix s suf = (if has_suffix s suf then take (length s - length suf) s else s)"

fun contains :: "string \<Rightarrow> string \<Rightarrow> bool" where
  "contains [] sub = (sub = [])"
| "contains (c # s) sub = (has_prefix (c # s) sub \<or> contains s sub)"

text \<open>\<^verbatim>\<open>strings.Split\<close> at a one-byte separator: \<open>n\<close> separators give \<open>n + 1\<close> pieces.\<close>

fun split_at :: "char \<Rightarrow> string \<Rightarrow> string list" where
  "split_at sep [] = [[]]"
| "split_at sep (c # s) =
     (if c = sep then [] # split_at sep s
      else case split_at sep s of [] \<Rightarrow> [[c]] | w # ws \<Rightarrow> (c # w) # ws)"

text \<open>\<^verbatim>\<open>strings.Cut\<close> and \<^verbatim>\<open>strings.SplitN(s, sep, 2)\<close>: the text before and after the
  first separator, \<open>None\<close> when there is none.\<close>

fun cut :: "char \<Rightarrow> string \<Rightarrow> (string \<times> string) option" where
  "cut sep [] = None"
| "cut sep (c # s) =
     (if c = sep then Some ([], s)
      else case cut sep s of None \<Rightarrow> None | Some (a, b) \<Rightarrow> Some (c # a, b))"

text \<open>\<^verbatim>\<open>strings.Fields\<close>: the maximal runs of non-space bytes.\<close>

function string_fields :: "string \<Rightarrow> string list" where
  "string_fields s =
     (let t = dropWhile is_space s in
      if t = [] then [] else takeWhile (\<lambda>c. \<not> is_space c) t # string_fields (dropWhile (\<lambda>c. \<not> is_space c) t))"
  by pat_completeness auto
termination
proof (relation "measure length")
  fix s t :: string
  assume t: "t = dropWhile is_space s" and ne: "t \<noteq> []"
  have "length t \<le> length s"
    by (simp add: t length_dropWhile_le)
  moreover have "\<not> is_space (hd t)"
    using ne hd_dropWhile t by blast
  then have "length (dropWhile (\<lambda>c. \<not> is_space c) t) < length t"
    using ne by (cases t) (simp_all add: length_dropWhile_le le_imp_less_Suc)
  ultimately show "(dropWhile (\<lambda>c. \<not> is_space c) t, s) \<in> measure length"
    by simp
qed simp

declare string_fields.simps [simp del]

fun join :: "string \<Rightarrow> string list \<Rightarrow> string" where
  "join sep [] = []"
| "join sep [w] = w"
| "join sep (w # v # ws) = w @ sep @ join sep (v # ws)"

lemma has_prefix_iff: "has_prefix s p \<longleftrightarrow> (\<exists>t. s = p @ t)"
  by (induction s p rule: has_prefix.induct) auto

lemma has_prefix_append [simp]: "has_prefix (p @ s) p"
  by (simp add: has_prefix_iff)

lemma has_suffix_iff: "has_suffix s p \<longleftrightarrow> (\<exists>t. s = t @ p)"
proof
  assume "has_suffix s p"
  then obtain t where "rev s = rev p @ t"
    by (auto simp: has_suffix_def has_prefix_iff)
  then have "s = rev t @ p"
    by (metis rev_append rev_rev_ident)
  then show "\<exists>t. s = t @ p" ..
qed (auto simp: has_suffix_def has_prefix_iff)

lemma split_at_ne [simp]: "split_at sep s \<noteq> []"
  by (induction s) (auto split: list.split)

lemma split_at_no_sep: "sep \<notin> set s \<Longrightarrow> split_at sep s = [s]"
  by (induction s) auto

lemma split_at_append: "sep \<notin> set w \<Longrightarrow> split_at sep (w @ sep # s) = w # split_at sep s"
  by (induction w) auto

lemma split_at_pieces: "w \<in> set (split_at sep s) \<Longrightarrow> sep \<notin> set w"
  by (induction s arbitrary: w) (auto split: if_splits list.splits)

lemma cut_append: "sep \<notin> set a \<Longrightarrow> cut sep (a @ sep # b) = Some (a, b)"
  by (induction a) auto

lemma cut_None_iff: "cut sep s = None \<longleftrightarrow> sep \<notin> set s"
  by (induction s) (auto split: option.splits)

text \<open>A string without white space at either end is left alone by \<^const>\<open>trim_space\<close>.\<close>

definition trimmed :: "string \<Rightarrow> bool" where
  "trimmed s \<longleftrightarrow> s = [] \<or> (\<not> is_space (hd s) \<and> \<not> is_space (last s))"

lemma trim_space_trimmed: "trimmed s \<Longrightarrow> trim_space s = s"
proof (cases "s = []")
  case False
  assume "trimmed s"
  with False have "dropWhile is_space s = s" and "dropWhile is_space (rev s) = rev s"
    by (auto simp: trimmed_def dropWhile_eq_self_iff hd_rev)
  then show ?thesis
    by (simp add: trim_space_def trim_left_def trim_right_def)
qed (simp add: trim_space_def trim_left_def trim_right_def)

lemma trimmed_nospace: "(\<And>c. c \<in> set s \<Longrightarrow> \<not> is_space c) \<Longrightarrow> trimmed s"
  by (cases "s = []") (auto simp: trimmed_def)

lemma trimmed_append:
  "a \<noteq> [] \<Longrightarrow> trimmed a \<Longrightarrow> b \<noteq> [] \<Longrightarrow> trimmed b \<Longrightarrow> trimmed (a @ m @ b)"
  by (auto simp: trimmed_def)

lemma trimmed_trim_space: "trimmed (trim_space s)"
proof (cases "trim_space s = []")
  case False
  define t where "t = dropWhile is_space s"
  have ts: "trim_space s = rev (dropWhile is_space (rev t))"
    by (simp add: trim_space_def trim_left_def trim_right_def t_def)
  then have ne: "dropWhile is_space (rev t) \<noteq> []"
    using False by auto
  have "\<not> is_space (hd (dropWhile is_space (rev t)))"
    using ne hd_dropWhile by blast
  then have l: "\<not> is_space (last (trim_space s))"
    using ne by (simp add: ts last_rev)
  obtain u where u: "rev t = u @ dropWhile is_space (rev t)"
    by (metis takeWhile_dropWhile_id)
  then have "t = trim_space s @ rev u"
    by (metis ts rev_append rev_rev_ident)
  moreover have "t \<noteq> []"
    using ne by auto
  then have "\<not> is_space (hd t)"
    unfolding t_def using hd_dropWhile by blast
  ultimately have "\<not> is_space (hd (trim_space s))"
    using False by simp
  with l show ?thesis
    by (simp add: trimmed_def)
qed (simp add: trimmed_def)

lemma trim_space_idem: "trim_space (trim_space s) = trim_space s"
  by (rule trim_space_trimmed [OF trimmed_trim_space])

section \<open>Decimal integers\<close>

definition digit_char :: "nat \<Rightarrow> char" where
  "digit_char d = char_of (48 + d)"

definition is_digit :: "char \<Rightarrow> bool" where
  "is_digit c \<longleftrightarrow> 48 \<le> (of_char c :: nat) \<and> (of_char c :: nat) \<le> 57"

definition digit_val :: "char \<Rightarrow> nat" where
  "digit_val c = of_char c - 48"

fun format_nat :: "nat \<Rightarrow> string" where
  "format_nat n = (if n < 10 then [digit_char n] else format_nat (n div 10) @ [digit_char (n mod 10)])"

declare format_nat.simps [simp del]

text \<open>\<^verbatim>\<open>strconv.FormatInt(n, 10)\<close> and the \<^verbatim>\<open>%d\<close> verb.\<close>

definition format_int :: "int \<Rightarrow> string" where
  "format_int n = (if n < 0 then CHR ''-'' # format_nat (nat (- n)) else format_nat (nat n))"

definition digits_value :: "string \<Rightarrow> nat" where
  "digits_value s = foldl (\<lambda>a c. 10 * a + digit_val c) 0 s"

definition int64_max :: int where
  "int64_max = 9223372036854775807"

definition int64_min :: int where
  "int64_min = -9223372036854775808"

text \<open>The result of arithmetic on a Go \<^verbatim>\<open>int\<close>.\<close>

definition wrap64 :: "int \<Rightarrow> int" where
  "wrap64 n = (n + 9223372036854775808) mod 18446744073709551616 - 9223372036854775808"

lemma wrap64_id: "int64_min \<le> n \<Longrightarrow> n \<le> int64_max \<Longrightarrow> wrap64 n = n"
  by (simp add: wrap64_def int64_min_def int64_max_def)

text \<open>
  \<^verbatim>\<open>strconv.ParseInt(s, 10, 64)\<close> returns a value with its error: 0 with a syntax error,
  the nearest bound with a range error. \<^verbatim>\<open>strconv.Atoi\<close> returns the same pair on a
  64-bit platform.
\<close>

datatype parsed_int = ParseOk int | ParseSyntax | ParseRange int

definition parse_int :: "string \<Rightarrow> parsed_int" where
  "parse_int s =
     (let neg = (s \<noteq> [] \<and> hd s = CHR ''-'');
          ds = (if s \<noteq> [] \<and> (hd s = CHR ''-'' \<or> hd s = CHR ''+'') then tl s else s)
      in if ds = [] \<or> \<not> list_all is_digit ds then ParseSyntax
         else let v = int (digits_value ds)
              in if neg then (if - v < int64_min then ParseRange int64_min else ParseOk (- v))
                 else (if int64_max < v then ParseRange int64_max else ParseOk v))"

fun parsed_value :: "parsed_int \<Rightarrow> int" where
  "parsed_value (ParseOk n) = n"
| "parsed_value ParseSyntax = 0"
| "parsed_value (ParseRange n) = n"

lemma of_char_digit [simp]: "d < 10 \<Longrightarrow> (of_char (digit_char d) :: nat) = 48 + d"
  by (simp add: digit_char_def)

lemma digit_char_is_digit [simp]: "d < 10 \<Longrightarrow> is_digit (digit_char d)"
  by (simp add: is_digit_def)

lemma digit_val_digit_char [simp]: "d < 10 \<Longrightarrow> digit_val (digit_char d) = d"
  by (simp add: digit_val_def)

lemma digits_value_snoc: "digits_value (s @ [c]) = 10 * digits_value s + digit_val c"
  by (simp add: digits_value_def)

lemma format_nat_ne [simp]: "format_nat n \<noteq> []"
  by (subst format_nat.simps) simp

lemma format_nat_digits: "c \<in> set (format_nat n) \<Longrightarrow> is_digit c"
proof (induction n rule: format_nat.induct)
  case (1 n)
  then show ?case
    by (cases "n < 10") (auto simp: format_nat.simps [of n])
qed

lemma digits_value_format_nat: "digits_value (format_nat n) = n"
proof (induction n rule: format_nat.induct)
  case (1 n)
  show ?case
  proof (cases "n < 10")
    case True
    then show ?thesis
      by (simp add: format_nat.simps [of n] digits_value_def)
  next
    case False
    with 1 show ?thesis
      by (simp add: format_nat.simps [of n] digits_value_snoc)
  qed
qed

lemma digit_not_sign: "is_digit c \<Longrightarrow> c \<noteq> CHR ''-'' \<and> c \<noteq> CHR ''+''"
  by (auto simp: is_digit_def)

lemma parse_int_digits:
  assumes "ds \<noteq> []" and "list_all is_digit ds"
  shows "parse_int ds = (if int64_max < int (digits_value ds) then ParseRange int64_max
                         else ParseOk (int (digits_value ds)))"
    and "parse_int (CHR ''-'' # ds) = (if - int (digits_value ds) < int64_min then ParseRange int64_min
                         else ParseOk (- int (digits_value ds)))"
proof -
  have "is_digit (hd ds)"
    using assms by (cases ds) auto
  then have "hd ds \<noteq> CHR ''-''" "hd ds \<noteq> CHR ''+''"
    by (auto dest: digit_not_sign)
  then show "parse_int ds = (if int64_max < int (digits_value ds) then ParseRange int64_max
                         else ParseOk (int (digits_value ds)))"
    using assms by (auto simp: parse_int_def Let_def)
  show "parse_int (CHR ''-'' # ds) = (if - int (digits_value ds) < int64_min then ParseRange int64_min
                         else ParseOk (- int (digits_value ds)))"
    using assms by (auto simp: parse_int_def Let_def)
qed

lemma list_all_format_nat [simp]: "list_all is_digit (format_nat n)"
  by (simp add: list_all_iff format_nat_digits)

lemma parse_format_int: "int64_min \<le> n \<Longrightarrow> n \<le> int64_max \<Longrightarrow> parse_int (format_int n) = ParseOk n"
  by (auto simp: format_int_def parse_int_digits digits_value_format_nat)

lemma format_nat_inj: "format_nat m = format_nat n \<Longrightarrow> m = n"
  by (metis digits_value_format_nat)

lemma format_nat_hd: "format_nat n \<noteq> CHR ''-'' # s"
  using format_nat_digits [of "CHR ''-''" n] digit_not_sign by fastforce

lemma format_int_inj: "format_int m = format_int n \<Longrightarrow> m = n"
  using format_nat_hd format_nat_hd [symmetric]
  by (auto simp: format_int_def split: if_splits dest!: format_nat_inj)

lemma format_int_chars: "c \<in> set (format_int n) \<Longrightarrow> is_digit c \<or> c = CHR ''-''"
  by (auto simp: format_int_def format_nat_digits split: if_splits)

lemma format_int_ne [simp]: "format_int n \<noteq> []"
  by (simp add: format_int_def)

lemma digit_not_space: "is_digit c \<Longrightarrow> \<not> is_space c"
  by (auto simp: is_digit_def is_space_def)

lemma format_int_nospace: "c \<in> set (format_int n) \<Longrightarrow> \<not> is_space c"
  using format_int_chars [of c n] digit_not_space [of c] by (auto simp: is_space_def)

end
