(* ===== verification/GoNet.thy ===== *)
theory GoNet
  imports GoStrings
begin

text \<open>
  The parsers of Go's \<^verbatim>\<open>net\<close>, \<^verbatim>\<open>net/netip\<close> and \<^verbatim>\<open>strconv\<close> packages that the modelled
  code calls on configuration text: IP addresses, host-and-port pairs, hardware addresses and
  unsigned port numbers. An address is its family and value; an IPv6 address carries its zone.
\<close>

section \<open>Addresses\<close>

datatype addr = NoAddr | Addr4 int | Addr6 int string

fun addr_valid :: "addr \<Rightarrow> bool" where
  "addr_valid NoAddr = False"
| "addr_valid _ = True"

fun addr_is4 :: "addr \<Rightarrow> bool" where
  "addr_is4 (Addr4 _) = True"
| "addr_is4 _ = False"

fun addr_is6 :: "addr \<Rightarrow> bool" where
  "addr_is6 (Addr6 _ _) = True"
| "addr_is6 _ = False"

text \<open>A decimal octet has no leading zero and is at most 255.\<close>

definition parse_octet :: "string \<Rightarrow> int option" where
  "parse_octet s =
     (if s = [] \<or> \<not> list_all is_digit s then None
      else if 1 < length s \<and> hd s = CHR ''0'' then None
      else if 255 < digits_value s then None
      else Some (int (digits_value s)))"

definition parse_ipv4 :: "string \<Rightarrow> int option" where
  "parse_ipv4 s =
     (case map parse_octet (split_at CHR ''.'' s) of
        [Some a, Some b, Some c, Some d] \<Rightarrow> Some (((a * 256 + b) * 256 + c) * 256 + d)
      | _ \<Rightarrow> None)"

definition hex_val :: "char \<Rightarrow> int option" where
  "hex_val c =
     (let n = (of_char c :: int) in
      if 48 \<le> n \<and> n \<le> 57 then Some (n - 48)
      else if 97 \<le> n \<and> n \<le> 102 then Some (n - 87)
      else if 65 \<le> n \<and> n \<le> 70 then Some (n - 55)
      else None)"

definition is_hex :: "char \<Rightarrow> bool" where
  "is_hex c \<longleftrightarrow> hex_val c \<noteq> None"

definition hex_value :: "string \<Rightarrow> int" where
  "hex_value s = foldl (\<lambda>a c. 16 * a + (case hex_val c of None \<Rightarrow> 0 | Some v \<Rightarrow> v)) 0 s"

text \<open>
  The loop of \<^verbatim>\<open>parseIPv6\<close> over the groups: the groups read so far, the position of the
  ellipsis among them, and the rest of the text. An embedded IPv4 address is two groups.
\<close>

function parse_groups :: "int list \<Rightarrow> nat option \<Rightarrow> string \<Rightarrow> (int list \<times> nat option \<times> string) option" where
  "parse_groups gs ell s =
     (if 8 \<le> length gs then Some (gs, ell, s)
      else let ds = takeWhile is_hex s; rest = dropWhile is_hex s in
        if ds = [] \<or> 4 < length ds then None
        else if rest \<noteq> [] \<and> hd rest = CHR ''.'' then
          (if (ell = None \<and> length gs \<noteq> 6) \<or> 6 < length gs then None
           else case parse_ipv4 s of
                  None \<Rightarrow> None
                | Some v \<Rightarrow> Some (gs @ [v div 65536, v mod 65536], ell, []))
        else let gs1 = gs @ [hex_value ds] in
          if rest = [] then Some (gs1, ell, [])
          else if hd rest \<noteq> CHR '':'' then None
          else if tl rest = [] then None
          else if hd (tl rest) = CHR '':'' then
            (if ell \<noteq> None then None
             else if tl (tl rest) = [] then Some (gs1, Some (length gs1), [])
             else parse_groups gs1 (Some (length gs1)) (tl (tl rest)))
          else parse_groups gs1 ell (tl rest))"
  by pat_completeness auto
termination
  by (relation "measure (\<lambda>(gs, ell, s). 8 - length gs)") auto

declare parse_groups.simps [simp del]

definition expand_groups :: "int list \<Rightarrow> nat option \<Rightarrow> int list option" where
  "expand_groups gs ell =
     (if length gs < 8 then
        (case ell of
           None \<Rightarrow> None
         | Some k \<Rightarrow> Some (take k gs @ replicate (8 - length gs) 0 @ drop k gs))
      else if ell \<noteq> None then None
      else Some gs)"

definition parse_ipv6 :: "string \<Rightarrow> addr option" where
  "parse_ipv6 s0 =
     (let (s, zone, zone_ok) =
        (case cut CHR ''%'' s0 of None \<Rightarrow> (s0, [], True) | Some (a, z) \<Rightarrow> (a, z, z \<noteq> [])) in
      if \<not> zone_ok then None
      else let lead = has_prefix s ''::''; s1 = (if lead then drop 2 s else s);
               ell = (if lead then Some 0 else None) in
        if lead \<and> s1 = [] then Some (Addr6 0 zone)
        else case parse_groups [] ell s1 of
               None \<Rightarrow> None
             | Some (gs, ell1, rest) \<Rightarrow>
                 if rest \<noteq> [] then None
                 else (case expand_groups gs ell1 of
                         None \<Rightarrow> None
                       | Some gs1 \<Rightarrow> Some (Addr6 (foldl (\<lambda>a g. a * 65536 + g) 0 gs1) zone)))"

text \<open>\<^verbatim>\<open>netip.ParseAddr\<close>: the first of \<^verbatim>\<open>.\<close>, \<^verbatim>\<open>:\<close> and \<^verbatim>\<open>%\<close> decides the family.\<close>

definition parse_addr :: "string \<Rightarrow> addr option" where
  "parse_addr s =
     (case dropWhile (\<lambda>c. c \<notin> set ''.:%'') s of
        [] \<Rightarrow> None
      | c # _ \<Rightarrow> if c = CHR ''.'' then map_option Addr4 (parse_ipv4 s)
                 else if c = CHR '':'' then parse_ipv6 s
                 else None)"

section \<open>Ports and host-port pairs\<close>

text \<open>\<^verbatim>\<open>strconv.ParseUint(s, 10, 16)\<close>.\<close>

definition parse_uint16 :: "string \<Rightarrow> int option" where
  "parse_uint16 s =
     (if s = [] \<or> \<not> list_all is_digit s \<or> 65535 < digits_value s then None
      else Some (int (digits_value s)))"

text \<open>The text before and after the last occurrence of a byte.\<close>

definition cut_last :: "char \<Rightarrow> string \<Rightarrow> (string \<times> string) option" where
  "cut_last sep s =
     (case cut sep (rev s) of None \<Rightarrow> None | Some (b, a) \<Rightarrow> Some (rev a, rev b))"

definition parse_addr_port :: "string \<Rightarrow> (addr \<times> int) option" where
  "parse_addr_port s =
     (case cut_last CHR '':'' s of
        None \<Rightarrow> None
      | Some (ip, port) \<Rightarrow>
          if ip = [] \<or> port = [] then None
          else let br = (hd ip = CHR ''['') in
            if br \<and> (length ip < 2 \<or> last ip \<noteq> CHR '']'') then None
            else case (parse_uint16 port, parse_addr (if br then butlast (tl ip) else ip)) of
                   (Some p, Some a) \<Rightarrow> if (br \<and> addr_is4 a) \<or> (\<not> br \<and> addr_is6 a) then None else Some (a, p)
                 | _ \<Rightarrow> None)"

text \<open>\<^verbatim>\<open>net.SplitHostPort\<close>.\<close>

definition split_host_port :: "string \<Rightarrow> (string \<times> string) option" where
  "split_host_port hostport =
     (case cut_last CHR '':'' hostport of
        None \<Rightarrow> None
      | Some (before, port) \<Rightarrow>
          if hostport \<noteq> [] \<and> hd hostport = CHR ''['' then
            (case cut CHR '']'' hostport of
               None \<Rightarrow> None
             | Some (inside, after) \<Rightarrow>
                 if after \<noteq> CHR '':'' # port then None
                 else if CHR ''['' \<in> set (tl hostport) \<or> CHR '']'' \<in> set after then None
                 else Some (tl inside, port))
          else if CHR '':'' \<in> set before then None
          else if CHR ''['' \<in> set hostport \<or> CHR '']'' \<in> set hostport then None
          else Some (before, port))"

section \<open>Hardware addresses\<close>

text \<open>
  \<^verbatim>\<open>net.ParseMAC\<close> followed by a comparison with \<^verbatim>\<open>String\<close> accepts exactly the canonical form:
  6, 8 or 20 bytes as two lower-case hexadecimal digits each, separated by colons.
\<close>

definition lower_hex :: "char \<Rightarrow> bool" where
  "lower_hex c \<longleftrightarrow> is_digit c \<or> (97 \<le> (of_char c :: nat) \<and> (of_char c :: nat) \<le> 102)"

definition canonical_mac :: "string \<Rightarrow> bool" where
  "canonical_mac s =
     (let bs = split_at CHR '':'' s in
      length bs \<in> {6, 8, 20} \<and> list_all (\<lambda>b. length b = 2 \<and> list_all lower_hex b) bs)"

section \<open>Lemmas\<close>

lemma cut_last_append: "sep \<notin> set b \<Longrightarrow> cut_last sep (a @ sep # b) = Some (a, b)"
  using cut_append [of sep "rev b" "rev a"] by (simp add: cut_last_def)

lemma cut_SomeD: "cut sep s = Some (a, b) \<Longrightarrow> s = a @ sep # b \<and> sep \<notin> set a"
  by (induction s arbitrary: a) (auto split: if_splits option.splits)

lemma cut_last_SomeD:
  assumes "cut_last sep s = Some (a, b)"
  shows "s = a @ sep # b \<and> sep \<notin> set b"
proof -
  obtain a' b' where c: "cut sep (rev s) = Some (b', a')" and ab: "a = rev a'" "b = rev b'"
    using assms by (auto simp: cut_last_def split: option.splits)
  from cut_SomeD [OF c] have "rev s = b' @ sep # a'" and n: "sep \<notin> set b'"
    by auto
  then have "s = rev a' @ sep # rev b'"
    by (metis append.assoc append_Cons append_Nil rev.simps(2) rev_append rev_rev_ident)
  with ab n show ?thesis
    by simp
qed

text \<open>A pair split off a text joins to that text again, with brackets when it has them.\<close>

lemma split_host_port_join:
  assumes "split_host_port s = Some (h, p)"
  shows "s = h @ CHR '':'' # p \<or> s = CHR ''['' # h @ CHR '']'' # CHR '':'' # p"
proof -
  obtain b where c: "cut_last CHR '':'' s = Some (b, p)"
    using assms by (auto simp: split_host_port_def split: option.splits if_splits prod.splits)
  note j = cut_last_SomeD [OF c]
  show ?thesis
  proof (cases "s \<noteq> [] \<and> hd s = CHR ''[''")
    case True
    then obtain i a where i: "cut CHR '']'' s = Some (i, a)" and a: "a = CHR '':'' # p" and h: "h = tl i"
      using assms c by (auto simp: split_host_port_def split: option.splits if_splits)
    from cut_SomeD [OF i] have s: "s = i @ CHR '']'' # a"
      by auto
    then have "i \<noteq> []" "hd i = CHR ''[''"
      using True by (cases i; auto)+
    then have "i = CHR ''['' # h"
      using h by (cases i) auto
    with s a show ?thesis
      by simp
  next
    case False
    then show ?thesis
      using assms c j by (auto simp: split_host_port_def split: if_splits)
  qed
qed

end
