(* ===== verification/Observation.thy ===== *)
theory Observation
  imports GoNet
begin

text \<open>
  The package \<^verbatim>\<open>internal/observation\<close> with its \<^verbatim>\<open>contract\<close> types: what a check asks for, what a
  result retains, the static validation of a check and the acceptance of a result. The
  acceptance of a distribution check re-verifies the packet evidence of every sample; it calls
  the acceptance of the sample's own HTTP request, so the functions are mutually recursive as
  in the source, and terminate because a request is a proper part of its plan.

  \<^verbatim>\<open>net/url.Parse\<close> is a parameter \<open>url_parse\<close>. Executing a probe is not modelled here.
\<close>

section \<open>Types\<close>

type_synonym Operation = string
type_synonym Dimension = string
type_synonym Family = string

definition OperationHTTP :: Operation where "OperationHTTP = ''http''"
definition OperationDNS :: Operation where "OperationDNS = ''dns''"
definition OperationPing :: Operation where "OperationPing = ''ping''"
definition OperationPublicIP :: Operation where "OperationPublicIP = ''public_ip''"
definition OperationDistribution :: Operation where "OperationDistribution = ''distribution''"
definition OperationCloudflarePool :: Operation where "OperationCloudflarePool = ''cloudflare_pool''"
definition OperationSSHBanner :: Operation where "OperationSSHBanner = ''ssh_banner''"

lemmas operation_defs = OperationHTTP_def OperationDNS_def OperationPing_def OperationPublicIP_def
  OperationDistribution_def OperationCloudflarePool_def OperationSSHBanner_def

definition DimensionDownstreamApplication :: Dimension where
  "DimensionDownstreamApplication = ''downstream_application''"
definition DimensionInboundApplication :: Dimension where
  "DimensionInboundApplication = ''inbound_application''"
definition known_dimensions :: "Dimension list" where
  "known_dimensions =
     [DimensionDownstreamApplication, DimensionInboundApplication, ''connection_distribution'',
      ''inbound_pool'', ''provider_egress'', ''ping_path'', ''public_ip'']"

definition FamilyIPv4 :: Family where "FamilyIPv4 = ''ipv4''"
definition FamilyIPv6 :: Family where "FamilyIPv6 = ''ipv6''"
definition RouterPrimary :: string where "RouterPrimary = ''primary''"
definition PublicIPFamilyOnly :: string where "PublicIPFamilyOnly = ''family_only''"
definition PublicIPCurrentAssignment :: string where "PublicIPCurrentAssignment = ''current_assignment''"
definition EndpointLocal :: string where "EndpointLocal = ''local''"
definition EndpointQEMU :: string where "EndpointQEMU = ''qemu''"
definition EndpointLXC :: string where "EndpointLXC = ''lxc''"
definition AvailabilityComplete :: string where "AvailabilityComplete = ''complete''"
definition AvailabilityMissing :: string where "AvailabilityMissing = ''missing''"
definition AvailabilityStale :: string where "AvailabilityStale = ''stale''"
definition OutcomePass :: string where "OutcomePass = ''pass''"
definition OutcomeFail :: string where "OutcomeFail = ''fail''"
definition OutcomeUnknown :: string where "OutcomeUnknown = ''unknown''"

record Endpoint =
  ep_Kind :: string
  ep_VMID :: int
  ep_MachineID :: string
  ep_HostMachineID :: string

record Path =
  path_Source :: addr
  path_Destination :: addr
  path_SourcePort :: int
  path_DestinationPort :: int
  path_NextHop :: addr
  path_Interface :: string
  path_ConnectionID :: string
  path_Router :: string

record TCPIngress =
  tcp_At :: gotime
  tcp_Source :: addr
  tcp_Destination :: addr
  tcp_SourcePort :: int
  tcp_Sequence :: int
  tcp_DestinationPort :: int
  tcp_DestinationMAC :: string
  tcp_ConnectionID :: string

record ProviderIngress =
  pi_ConnectionID :: string
  pi_Family :: Family
  pi_Bridge :: string
  pi_PortInterface :: string
  pi_DestinationMAC :: string
  pi_Tier :: int
  pi_Weight :: int
  pi_Eligible :: bool
  pi_ObservedAt :: gotime

record CalibratedProvider =
  cp_ConnectionID :: string
  cp_Tier :: int
  cp_Weight :: int
  cp_MinSamples :: int
  cp_MaxSamples :: int

record DistributionCalibration =
  cal_HashMode :: string
  cal_ActiveTier :: int
  cal_Samples :: int
  cal_Providers :: "CalibratedProvider list"

record CaptureReady =
  cr_ConnectionID :: string
  cr_Interface :: string
  cr_PortInterface :: string
  cr_DestinationMAC :: string
  cr_At :: gotime

record ProviderShare =
  share_Provider :: ProviderIngress
  share_Samples :: int

record DistributionSample =
  ds_StartedAt :: gotime
  ds_At :: gotime
  ds_CheckID :: string
  ds_Observer :: Endpoint
  ds_Path :: Path
  ds_Ingress :: TCPIngress
  ds_Transit :: TCPIngress
  ds_Availability :: string
  ds_Outcome :: string
  ds_ConnectionID :: string
  ds_HTTPStatus :: int
  ds_ResponseBody :: string

record PoolOrigin =
  origin_Name :: string
  origin_Healthy :: bool

record PoolRegion =
  region_Name :: string
  region_Healthy :: bool
  region_Origins :: "PoolOrigin list"

record PoolHealth =
  pool_ID :: string
  pool_Regions :: "PoolRegion list"

record Result =
  res_CheckID :: string
  res_Dimension :: Dimension
  res_Operation :: Operation
  res_Target :: string
  res_PublicIPPolicy :: string
  res_Family :: Family
  res_Observer :: Endpoint
  res_ObservedAt :: gotime
  res_Availability :: string
  res_Outcome :: string
  res_Reason :: string
  res_Path :: Path
  res_HTTPStatus :: int
  res_ResponseBody :: string
  res_DNSAddresses :: "addr list"
  res_SSHVersion :: string
  res_Distribution :: "DistributionSample list"
  res_DistributionProviders :: "ProviderShare list"
  res_DistributionCaptures :: "CaptureReady list"
  res_TransitCaptures :: "CaptureReady list"
  res_CloudflarePool :: "PoolHealth option"

datatype CheckSpec = CheckSpec
  (spec_ID: string)
  (spec_Dimension: Dimension)
  (spec_Operation: Operation)
  (spec_Observer: Endpoint)
  (spec_Family: Family)
  (spec_ConnectionID: string)
  (spec_Router: string)
  (spec_Interface: string)
  (spec_Source: addr)
  (spec_Target: string)
  (spec_TimeoutSeconds: int)
  (spec_MaxAgeSeconds: int)
  (spec_HTTPMethod: string)
  (spec_ExpectedHTTPStatus: "int list")
  (spec_ExpectedBody: string)
  (spec_ExpectedNextHop: addr)
  (spec_DNSExpectedAddresses: "addr list")
  (spec_DNSServer: string)
  (spec_ExpectedSSHVersion: string)
  (spec_CloudflarePoolID: string)
  (spec_CloudflareExpectedOrigins: "string list")
  (spec_DistributionSamples: int)
  (spec_DistributionPlan: "DistributionPlan option")
  (spec_PublicIPPolicy: string)
and DistributionPlan = DistributionPlan
  (plan_HashMode: string)
  (plan_ActiveTier: int)
  (plan_ObservedAt: gotime)
  (plan_RoutingGeneration: int)
  (plan_Providers: "ProviderIngress list")
  (plan_Transit: "ProviderIngress list")
  (plan_Calibration: "DistributionCalibration option")
  (plan_Requests: "CheckSpec list")

record url =
  url_Scheme :: string
  url_Host :: string
  url_has_user :: bool

text \<open>A request of a plan is a proper part of the check.\<close>

lemma request_smaller:
  assumes "spec_DistributionPlan spec = Some plan" and "r \<in> set (plan_Requests plan)"
  shows "size r < size spec"
proof -
  have "size r < Suc (size_list size (plan_Requests plan))"
    using assms(2) by (simp add: size_list_estimation' less_Suc_eq_le)
  also have "\<dots> \<le> size plan"
    by (cases plan) simp
  also have "\<dots> \<le> size spec"
    using assms(1) by (cases spec) auto
  finally show ?thesis .
qed

section \<open>Static validation of a check\<close>

fun first_error :: "('a \<Rightarrow> string option) \<Rightarrow> 'a list \<Rightarrow> string option" where
  "first_error f [] = None"
| "first_error f (x # xs) = (case f x of Some e \<Rightarrow> Some e | None \<Rightarrow> first_error f xs)"

lemma first_error_cong [fundef_cong]:
  "xs = ys \<Longrightarrow> (\<And>x. x \<in> set ys \<Longrightarrow> f x = g x) \<Longrightarrow> first_error f xs = first_error g ys"
  by (induction ys arbitrary: xs) (auto split: option.split)

lemma first_error_None_iff: "first_error f xs = None \<longleftrightarrow> (\<forall>x \<in> set xs. f x = None)"
  by (induction xs) (auto split: option.split)

definition captureMappingValid :: "ProviderIngress \<Rightarrow> Family \<Rightarrow> bool" where
  "captureMappingValid mapping family \<longleftrightarrow>
     pi_ConnectionID mapping \<noteq> [] \<and> pi_Family mapping = family \<and> pi_Bridge mapping \<noteq> [] \<and>
     pi_PortInterface mapping \<noteq> [] \<and> canonical_mac (pi_DestinationMAC mapping)"

text \<open>The loop over the providers with the map of identities seen.\<close>

fun check_providers :: "Family \<Rightarrow> string set \<Rightarrow> ProviderIngress list \<Rightarrow> bool" where
  "check_providers family identities [] = True"
| "check_providers family identities (provider # rest) =
     (if \<not> captureMappingValid provider family \<or> pi_ConnectionID provider \<in> identities \<or> pi_Weight provider \<le> 0
      then False
      else check_providers family (insert (pi_ConnectionID provider) identities) rest)"

definition validateHTTP :: "(string \<Rightarrow> url option) \<Rightarrow> CheckSpec \<Rightarrow> string option" where
  "validateHTTP url_parse spec =
     (if spec_Operation spec = OperationPublicIP \<and>
         spec_PublicIPPolicy spec \<noteq> PublicIPFamilyOnly \<and> spec_PublicIPPolicy spec \<noteq> PublicIPCurrentAssignment
      then Some ''public address expectation policy is required''
      else if spec_Operation spec = OperationPublicIP \<and>
         spec_PublicIPPolicy spec = PublicIPCurrentAssignment \<and> spec_ConnectionID spec = []
      then Some ''current assignment public address policy requires a connection''
      else if (case url_parse (spec_Target spec) of
                 None \<Rightarrow> True
               | Some target \<Rightarrow> url_Host target = [] \<or> url_has_user target \<or>
                   (url_Scheme target \<noteq> ''http'' \<and> url_Scheme target \<noteq> ''https''))
      then Some ''HTTP target must be an HTTP or HTTPS URL without credentials''
      else if spec_HTTPMethod spec \<noteq> [] \<and> spec_HTTPMethod spec \<noteq> ''GET'' \<and> spec_HTTPMethod spec \<noteq> ''HEAD''
      then Some ''HTTP method must be GET or HEAD''
      else if spec_ExpectedHTTPStatus spec = []
      then Some ''positive HTTP status expectations are required''
      else first_error (\<lambda>status. if status < 100 \<or> 599 < status then Some ''invalid expected HTTP status'' else None)
             (spec_ExpectedHTTPStatus spec))"

function Validate :: "(string \<Rightarrow> url option) \<Rightarrow> CheckSpec \<Rightarrow> string option"
  and validateOperation :: "(string \<Rightarrow> url option) \<Rightarrow> CheckSpec \<Rightarrow> string option"
  and validateDistribution :: "(string \<Rightarrow> url option) \<Rightarrow> CheckSpec \<Rightarrow> string option"
  and validateDistributionRequest :: "(string \<Rightarrow> url option) \<Rightarrow> CheckSpec \<Rightarrow> Family \<Rightarrow> string option" where
  "Validate url_parse spec =
     (if spec_ID spec = [] \<or> spec_Target spec = [] \<or> ep_MachineID (spec_Observer spec) = []
      then Some ''check ID, target and observer machine ID are required''
      else if spec_TimeoutSeconds spec \<le> 0 \<or> spec_MaxAgeSeconds spec \<le> 0
      then Some ''positive timeout and maximum age are required''
      else if spec_Family spec \<noteq> FamilyIPv4 \<and> spec_Family spec \<noteq> FamilyIPv6
      then Some ''IPv4 or IPv6 family is required''
      else if addr_valid (spec_Source spec) \<and> addr_is4 (spec_Source spec) \<noteq> (spec_Family spec = FamilyIPv4)
      then Some ''source address does not match check family''
      else if ep_Kind (spec_Observer spec) = EndpointLocal \<and>
              (ep_VMID (spec_Observer spec) \<noteq> 0 \<or> ep_HostMachineID (spec_Observer spec) \<noteq> [])
      then Some ''local observer cannot specify a guest or host''
      else if ep_Kind (spec_Observer spec) \<in> {EndpointQEMU, EndpointLXC} \<and>
              (ep_VMID (spec_Observer spec) \<le> 0 \<or> ep_HostMachineID (spec_Observer spec) = [])
      then Some ''remote observer requires VMID and host machine ID''
      else if ep_Kind (spec_Observer spec) \<notin> {EndpointLocal, EndpointQEMU, EndpointLXC}
      then Some ''unsupported observer kind''
      else if spec_Dimension spec \<notin> set known_dimensions
      then Some ''unsupported observation dimension''
      else validateOperation url_parse spec)"
| "validateOperation url_parse spec =
     (if spec_Operation spec = OperationHTTP \<or> spec_Operation spec = OperationPublicIP
      then validateHTTP url_parse spec
      else if spec_Operation spec = OperationDistribution then validateDistribution url_parse spec
      else if spec_Operation spec = OperationDNS then
        (case parse_addr_port (spec_DNSServer spec) of
           None \<Rightarrow> Some ''DNS server address and port must match check family''
         | Some (server, port) \<Rightarrow>
             if addr_is4 server \<noteq> (spec_Family spec = FamilyIPv4) \<or> port = 0
             then Some ''DNS server address and port must match check family''
             else if spec_DNSExpectedAddresses spec = [] then Some ''expected DNS addresses are required''
             else None)
      else if spec_Operation spec = OperationPing then
        (case parse_addr (spec_Target spec) of
           None \<Rightarrow> Some ''ping target must match check family''
         | Some address \<Rightarrow>
             if addr_is4 address \<noteq> (spec_Family spec = FamilyIPv4)
             then Some ''ping target must match check family'' else None)
      else if spec_Operation spec = OperationSSHBanner then
        (if split_host_port (spec_Target spec) = None then Some ''invalid SSH target address and port''
         else if \<not> has_prefix (spec_ExpectedSSHVersion spec) ''SSH-2.0-''
         then Some ''expected SSH server version must begin with SSH-2.0-'' else None)
      else if spec_Operation spec = OperationCloudflarePool then
        (if spec_CloudflarePoolID spec = [] \<or> spec_CloudflareExpectedOrigins spec = []
         then Some ''cloudflare pool ID and expected origins are required'' else None)
      else Some ''unsupported observation operation'')"
| "validateDistribution url_parse spec =
     (case spec_DistributionPlan spec of
        None \<Rightarrow> Some ''distribution requires providers, probes and positive sample requirements''
      | Some plan \<Rightarrow>
          if spec_DistributionSamples spec \<le> 0 \<or> plan_Providers plan = [] \<or> plan_Requests plan = [] \<or>
             plan_Transit plan = []
          then Some ''distribution requires providers, probes and positive sample requirements''
          else if ep_Kind (spec_Observer spec) \<noteq> EndpointLocal
          then Some ''distribution coordinator must use local hypervisor observation''
          else if plan_HashMode plan \<notin> {''random'', ''source'', ''source-destination''}
          then Some ''unsupported configured distribution hash mode''
          else if \<not> check_providers (spec_Family spec) {} (plan_Providers plan)
          then Some ''distribution provider requires unique identity, family, kernel mapping, canonical MAC and positive weight''
          else case first_error (\<lambda>request. validateDistributionRequest url_parse request (spec_Family spec)) (plan_Requests plan) of
                 Some err \<Rightarrow> Some err
               | None \<Rightarrow>
                   if list_all (\<lambda>transit. captureMappingValid transit (spec_Family spec)) (plan_Transit plan) then None
                   else Some ''distribution transit requires verified bridge, gateway port and MAC'')"
| "validateDistributionRequest url_parse request family =
     (if spec_Operation request \<noteq> OperationHTTP \<or> spec_Dimension request \<noteq> DimensionDownstreamApplication \<or>
         spec_Family request \<noteq> family \<or> spec_DistributionPlan request \<noteq> None \<or>
         spec_Router request \<noteq> RouterPrimary \<or> \<not> addr_valid (spec_ExpectedNextHop request) \<or>
         \<not> addr_valid (spec_Source request) \<or> spec_ConnectionID request \<noteq> []
      then Some ''distribution requires downstream HTTP over an explicit primary gateway without provider binding''
      else Validate url_parse request)"
  by pat_completeness auto
termination
proof (relation "measure (\<lambda>x. case x of
      Inl (Inl (_, s)) \<Rightarrow> 4 * size s + 3
    | Inl (Inr (_, s)) \<Rightarrow> 4 * size s + 2
    | Inr (Inl (_, s)) \<Rightarrow> 4 * size s + 1
    | Inr (Inr (_, s, _)) \<Rightarrow> 4 * size s + 4)")
qed (auto dest: request_smaller)

declare Validate.simps [simp del] validateOperation.simps [simp del]
  validateDistribution.simps [simp del] validateDistributionRequest.simps [simp del]

section \<open>Acceptance of a result\<close>

definition requiredPathPassed :: "CheckSpec \<Rightarrow> Result \<Rightarrow> bool" where
  "requiredPathPassed spec result =
     (if spec_Router spec \<noteq> [] \<and> path_Router (res_Path result) \<noteq> spec_Router spec then False
      else if spec_ConnectionID spec \<noteq> [] \<and> path_ConnectionID (res_Path result) \<noteq> spec_ConnectionID spec then False
      else if addr_valid (spec_Source spec) \<and> path_Source (res_Path result) \<noteq> spec_Source spec then False
      else if addr_valid (spec_ExpectedNextHop spec) \<and> path_NextHop (res_Path result) \<noteq> spec_ExpectedNextHop spec then False
      else if spec_Interface spec \<noteq> [] \<and> path_Interface (res_Path result) \<noteq> spec_Interface spec then False
      else True)"

definition poolHealthy :: "CheckSpec \<Rightarrow> PoolHealth \<Rightarrow> bool" where
  "poolHealthy spec health =
     (if pool_ID health \<noteq> spec_CloudflarePoolID spec \<or> pool_Regions health = [] then False
      else list_all (\<lambda>region.
             region_Healthy region \<and>
             list_all (\<lambda>expected. list_ex (\<lambda>origin. origin_Name origin = expected \<and> origin_Healthy origin)
                                    (region_Origins region))
               (spec_CloudflareExpectedOrigins spec))
             (pool_Regions health))"

definition poolOriginsPresent :: "CheckSpec \<Rightarrow> PoolHealth \<Rightarrow> bool" where
  "poolOriginsPresent spec health =
     list_all (\<lambda>region.
       list_all (\<lambda>expected. list_ex (\<lambda>origin. origin_Name origin = expected) (region_Origins region))
         (spec_CloudflareExpectedOrigins spec))
       (pool_Regions health)"

definition requiredReplyPassed :: "CheckSpec \<Rightarrow> Result \<Rightarrow> bool" where
  "requiredReplyPassed spec result =
     (if spec_Operation spec = OperationCloudflarePool then
        (case res_CloudflarePool result of
           None \<Rightarrow> False
         | Some pool \<Rightarrow> poolOriginsPresent spec pool \<and> poolHealthy spec pool)
      else if (spec_Operation spec = OperationHTTP \<or> spec_Operation spec = OperationPublicIP) \<and>
              (res_HTTPStatus result \<notin> set (spec_ExpectedHTTPStatus spec) \<or>
               (spec_ExpectedBody spec \<noteq> [] \<and> res_ResponseBody result \<noteq> spec_ExpectedBody spec))
      then False
      else if spec_Operation spec = OperationSSHBanner \<and> res_SSHVersion result \<noteq> spec_ExpectedSSHVersion spec
      then False
      else if spec_Operation spec = OperationDNS
      then list_all (\<lambda>address. address \<in> set (res_DNSAddresses result)) (spec_DNSExpectedAddresses spec)
      else True)"

definition observationCurrent :: "gotime \<Rightarrow> gotime \<Rightarrow> int \<Rightarrow> bool" where
  "observationCurrent observed now ageSeconds =
     (let age = now - observed in observed \<noteq> zero_time \<and> 0 \<le> age \<and> age \<le> seconds ageSeconds)"

definition calibratedProvider :: "DistributionPlan \<Rightarrow> string \<Rightarrow> CalibratedProvider option" where
  "calibratedProvider plan cid =
     (case plan_Calibration plan of
        None \<Rightarrow> None
      | Some cal \<Rightarrow> find (\<lambda>p. cp_ConnectionID p = cid) (cal_Providers cal))"

text \<open>The set of keys that a hash policy may tell apart: sources, or source-destination pairs.\<close>

definition diversity_keys :: "string \<Rightarrow> DistributionSample list \<Rightarrow> (addr \<times> addr option) list" where
  "diversity_keys mode samples =
     map (\<lambda>s. (path_Source (ds_Path s),
               if mode = ''source-destination'' then Some (path_Destination (ds_Path s)) else None)) samples"

definition distributionDiverse :: "string \<Rightarrow> DistributionSample list \<Rightarrow> nat \<Rightarrow> bool" where
  "distributionDiverse mode samples providers =
     (if mode = ''random'' then samples \<noteq> []
      else if \<not> list_all (\<lambda>s. addr_valid (path_Source (ds_Path s))) samples then False
      else providers \<le> length (remdups (diversity_keys mode samples)))"

definition eligible_now :: "DistributionPlan \<Rightarrow> ProviderIngress \<Rightarrow> bool" where
  "eligible_now plan provider \<longleftrightarrow> pi_Eligible provider \<and> pi_Tier provider = plan_ActiveTier plan"

definition distributionSharesPassed :: "DistributionPlan \<Rightarrow> ProviderShare list \<Rightarrow> bool" where
  "distributionSharesPassed plan shares =
     list_all (\<lambda>share.
       if eligible_now plan (share_Provider share) then
         (case calibratedProvider plan (pi_ConnectionID (share_Provider share)) of
            None \<Rightarrow> False
          | Some bound \<Rightarrow> \<not> (share_Samples share < cp_MinSamples bound \<or> cp_MaxSamples bound < share_Samples share))
       else share_Samples share = 0) shares"

text \<open>The loop over the calibrated providers: the map of identities and the two sums.\<close>

fun calibration_sums ::
    "int \<Rightarrow> string set \<Rightarrow> int \<Rightarrow> int \<Rightarrow> CalibratedProvider list \<Rightarrow> (int \<times> int) option" where
  "calibration_sums samples seen minimum maximum [] = Some (minimum, maximum)"
| "calibration_sums samples seen minimum maximum (c # rest) =
     (if cp_ConnectionID c \<in> seen \<or> cp_MinSamples c < 0 \<or> cp_MaxSamples c < cp_MinSamples c \<or>
         samples < cp_MaxSamples c
      then None
      else calibration_sums samples (insert (cp_ConnectionID c) seen)
             (minimum + cp_MinSamples c) (maximum + cp_MaxSamples c) rest)"

definition distributionCalibrated :: "CheckSpec \<Rightarrow> DistributionPlan \<Rightarrow> bool" where
  "distributionCalibrated spec plan =
     (case plan_Calibration plan of
        None \<Rightarrow> False
      | Some calibration \<Rightarrow>
          if cal_HashMode calibration \<noteq> plan_HashMode plan \<or> cal_ActiveTier calibration \<noteq> plan_ActiveTier plan \<or>
             cal_Samples calibration \<noteq> spec_DistributionSamples spec
          then False
          else case calibration_sums (cal_Samples calibration) {} 0 0 (cal_Providers calibration) of
                 None \<Rightarrow> False
               | Some (minimum, maximum) \<Rightarrow>
                   let eligible = filter (eligible_now plan) (plan_Providers plan) in
                   if \<not> list_all (\<lambda>provider.
                          case calibratedProvider plan (pi_ConnectionID provider) of
                            None \<Rightarrow> False
                          | Some calibrated \<Rightarrow> cp_Tier calibrated = pi_Tier provider \<and> cp_Weight calibrated = pi_Weight provider)
                        eligible
                   then False
                   else eligible \<noteq> [] \<and> length eligible = length (cal_Providers calibration) \<and>
                        minimum \<le> cal_Samples calibration \<and> cal_Samples calibration \<le> maximum)"

definition frameCaptureIdentified ::
    "ProviderIngress list \<Rightarrow> CaptureReady list \<Rightarrow> TCPIngress \<Rightarrow> gotime \<Rightarrow> bool" where
  "frameCaptureIdentified mappings captures frame started =
     list_ex (\<lambda>(mapping, capture).
        pi_ConnectionID mapping = tcp_ConnectionID frame \<and>
        pi_DestinationMAC mapping = tcp_DestinationMAC frame \<and> cr_At capture \<le> started)
       (zip mappings captures)"

definition requiredProviderReady ::
    "ProviderIngress \<Rightarrow> ProviderShare \<Rightarrow> CaptureReady \<Rightarrow> gotime \<Rightarrow> int \<Rightarrow> bool" where
  "requiredProviderReady provider share ready now ageSeconds \<longleftrightarrow>
     share_Provider share = provider \<and> observationCurrent (pi_ObservedAt provider) now ageSeconds \<and>
     cr_ConnectionID ready = pi_ConnectionID provider \<and> cr_Interface ready = pi_Bridge provider \<and>
     cr_PortInterface ready = pi_PortInterface provider \<and>
     cr_DestinationMAC ready = pi_DestinationMAC provider \<and> observationCurrent (cr_At ready) now ageSeconds"

definition distributionSampleCaptured :: "CheckSpec \<Rightarrow> DistributionSample \<Rightarrow> bool" where
  "distributionSampleCaptured request sample =
     (let ingress = ds_Ingress sample; transit = ds_Transit sample; path = ds_Path sample;
          sourceValid = (addr_valid (tcp_Source ingress) \<and>
             addr_is4 (tcp_Source ingress) = (spec_Family request = FamilyIPv4) \<and> tcp_SourcePort ingress \<noteq> 0);
          ingressTiming = (ds_StartedAt sample \<le> tcp_At ingress \<and> tcp_At ingress \<le> ds_At sample);
          transitTiming = (ds_StartedAt sample \<le> tcp_At transit \<and> tcp_At transit \<le> ds_At sample);
          sourceMatched = (tcp_Source transit = path_Source path \<and> tcp_SourcePort transit = path_SourcePort path);
          sequenceMatched = (tcp_Sequence transit = tcp_Sequence ingress);
          destinationMatched = (tcp_Destination ingress = path_Destination path \<and>
             tcp_Destination transit = path_Destination path \<and>
             tcp_DestinationPort transit = path_DestinationPort path \<and>
             tcp_DestinationPort ingress = path_DestinationPort path);
          connectionMatched = (tcp_ConnectionID ingress = ds_ConnectionID sample)
      in sourceValid \<and> ingressTiming \<and> transitTiming \<and> sourceMatched \<and> sequenceMatched \<and>
         destinationMatched \<and> connectionMatched)"

text \<open>The result that a sample claims for its own request; the other fields are zero.\<close>

definition sample_reply :: "CheckSpec \<Rightarrow> DistributionSample \<Rightarrow> Result" where
  "sample_reply request sample =
     \<lparr>res_CheckID = ds_CheckID sample, res_Dimension = spec_Dimension request, res_Operation = OperationHTTP,
      res_Target = spec_Target request, res_PublicIPPolicy = [], res_Family = spec_Family request,
      res_Observer = ds_Observer sample, res_ObservedAt = ds_At sample,
      res_Availability = ds_Availability sample, res_Outcome = ds_Outcome sample, res_Reason = [],
      res_Path = ds_Path sample, res_HTTPStatus = ds_HTTPStatus sample,
      res_ResponseBody = ds_ResponseBody sample, res_DNSAddresses = [], res_SSHVersion = [],
      res_Distribution = [], res_DistributionProviders = [], res_DistributionCaptures = [],
      res_TransitCaptures = [], res_CloudflarePool = None\<rparr>"

definition sample_count :: "DistributionSample list \<Rightarrow> string \<Rightarrow> int" where
  "sample_count samples cid = int (length (filter (\<lambda>s. ds_ConnectionID s = cid) samples))"

lemma validateDistribution_requests:
  "validateDistribution url spec = None \<Longrightarrow> spec_DistributionPlan spec = Some plan \<Longrightarrow> plan_Requests plan \<noteq> []"
  by (subst (asm) validateDistribution.simps) (auto split: if_splits)

lemma request_nth_smaller:
  "validateDistribution url spec = None \<Longrightarrow> spec_DistributionPlan spec = Some plan \<Longrightarrow>
     size (plan_Requests plan ! (i mod length (plan_Requests plan))) < size spec"
  using validateDistribution_requests request_smaller by (metis length_greater_0_conv mod_less_divisor nth_mem)

lemma request_bound:
  "validateDistribution url spec = None \<Longrightarrow> spec_DistributionPlan spec = Some plan \<Longrightarrow>
     Suc (Suc (3 * size (plan_Requests plan ! (i mod length (plan_Requests plan))))) < 3 * size spec"
  using request_nth_smaller [of url spec plan i] by simp

function RequiredPassed :: "(string \<Rightarrow> url option) \<Rightarrow> CheckSpec \<Rightarrow> Result \<Rightarrow> gotime \<Rightarrow> bool"
  and requiredDistributionPassed :: "(string \<Rightarrow> url option) \<Rightarrow> CheckSpec \<Rightarrow> Result \<Rightarrow> gotime \<Rightarrow> bool"
  and requiredDistributionSample ::
        "(string \<Rightarrow> url option) \<Rightarrow> CheckSpec \<Rightarrow> DistributionSample \<Rightarrow> gotime \<Rightarrow> bool" where
  "RequiredPassed url_parse spec result now =
     (if res_CheckID result \<noteq> spec_ID spec \<or> res_Dimension result \<noteq> spec_Dimension spec \<or>
         res_Operation result \<noteq> spec_Operation spec \<or> res_Target result \<noteq> spec_Target spec \<or>
         res_PublicIPPolicy result \<noteq> spec_PublicIPPolicy spec \<or> res_Family result \<noteq> spec_Family spec \<or>
         res_Observer result \<noteq> spec_Observer spec
      then False
      else if res_Availability result \<noteq> AvailabilityComplete \<or> res_Outcome result \<noteq> OutcomePass \<or>
         res_ObservedAt result = zero_time \<or> spec_MaxAgeSeconds spec \<le> 0
      then False
      else if now - res_ObservedAt result < 0 \<or> seconds (spec_MaxAgeSeconds spec) < now - res_ObservedAt result
      then False
      else if spec_Operation spec = OperationDistribution
      then requiredDistributionPassed url_parse spec result now
      else requiredPathPassed spec result \<and> requiredReplyPassed spec result)"
| "requiredDistributionPassed url_parse spec result now =
     (if validateDistribution url_parse spec \<noteq> None \<or>
         int (length (res_Distribution result)) \<noteq> spec_DistributionSamples spec
      then False
      else case spec_DistributionPlan spec of
        None \<Rightarrow> False
      | Some plan \<Rightarrow>
          if \<not> distributionCalibrated spec plan \<or> length (res_TransitCaptures result) \<noteq> length (plan_Transit plan)
          then False
          else if \<not> observationCurrent (plan_ObservedAt plan) now (spec_MaxAgeSeconds spec) \<or>
             length (res_DistributionProviders result) \<noteq> length (plan_Providers plan) \<or>
             length (res_DistributionCaptures result) \<noteq> length (plan_Providers plan)
          then False
          else if \<not> list_all (\<lambda>(provider, share, ready).
                    requiredProviderReady provider share ready now (spec_MaxAgeSeconds spec))
                 (zip (plan_Providers plan) (zip (res_DistributionProviders result) (res_DistributionCaptures result)))
          then False
          else if \<not> list_all (\<lambda>(transit, ready).
                    requiredProviderReady transit \<lparr>share_Provider = transit, share_Samples = 0\<rparr> ready now
                      (spec_MaxAgeSeconds spec))
                 (zip (plan_Transit plan) (res_TransitCaptures result))
          then False
          else if \<not> list_all (\<lambda>index. let sample = res_Distribution result ! index in
                    requiredDistributionSample url_parse
                      (plan_Requests plan ! (index mod length (plan_Requests plan))) sample now \<and>
                    frameCaptureIdentified (plan_Providers plan) (res_DistributionCaptures result)
                      (ds_Ingress sample) (ds_StartedAt sample) \<and>
                    frameCaptureIdentified (plan_Transit plan) (res_TransitCaptures result)
                      (ds_Transit sample) (ds_StartedAt sample))
                 [0 ..< length (res_Distribution result)]
          then False
          else if \<not> list_all (\<lambda>share. share_Samples share =
                    sample_count (res_Distribution result) (pi_ConnectionID (share_Provider share)))
                 (res_DistributionProviders result)
          then False
          else let eligible = length (filter (eligible_now plan) (plan_Providers plan)) in
               0 < eligible \<and> distributionDiverse (plan_HashMode plan) (res_Distribution result) eligible \<and>
               distributionSharesPassed plan (res_DistributionProviders result))"
| "requiredDistributionSample url_parse request sample now =
     (RequiredPassed url_parse request (sample_reply request sample) now \<and>
      ds_StartedAt sample \<noteq> zero_time \<and> ds_StartedAt sample \<le> ds_At sample \<and>
      distributionSampleCaptured request sample)"
  by pat_completeness auto

termination
proof (relation "measure (\<lambda>x. case x of
      Inl (_, s, _, _) \<Rightarrow> 3 * size s + 2
    | Inr (Inl (_, s, _, _)) \<Rightarrow> 3 * size s + 1
    | Inr (Inr (_, s, _, _)) \<Rightarrow> 3 * size s + 3)")
qed (auto intro: request_bound)

declare RequiredPassed.simps [simp del] requiredDistributionPassed.simps [simp del]
  requiredDistributionSample.simps [simp del]

definition FreshResult :: "CheckSpec \<Rightarrow> Result \<Rightarrow> gotime \<Rightarrow> Result" where
  "FreshResult check result now =
     (let age = now - res_ObservedAt result in
      if res_ObservedAt result = zero_time
      then result\<lparr>res_Availability := AvailabilityMissing, res_Outcome := OutcomeUnknown,
                  res_Reason := ''observation has no timestamp''\<rparr>
      else if age < 0 \<or> spec_MaxAgeSeconds check \<le> 0 \<or> seconds (spec_MaxAgeSeconds check) < age
      then result\<lparr>res_Availability := AvailabilityStale, res_Outcome := OutcomeUnknown,
                  res_Reason := ''observation freshness expired''\<rparr>
      else result)"

section \<open>Lemmas\<close>

lemma check_providers_distinct:
  "check_providers fam seen ps \<Longrightarrow>
     distinct (map pi_ConnectionID ps) \<and> (\<forall>p \<in> set ps. pi_ConnectionID p \<notin> seen)"
  by (induction ps arbitrary: seen) (fastforce split: if_splits)+

lemma validateDistribution_providers:
  "validateDistribution url spec = None \<Longrightarrow> spec_DistributionPlan spec = Some plan \<Longrightarrow>
     distinct (map pi_ConnectionID (plan_Providers plan))"
  by (subst (asm) validateDistribution.simps) (auto split: if_splits dest: check_providers_distinct)

text \<open>
  Counting samples per connection and summing over distinct connections counts every sample
  once when each sample names one of the connections.
\<close>

lemma sum_counts:
  assumes "distinct ids" and "\<forall>s \<in> set samples. ds_ConnectionID s \<in> set ids"
  shows "sum_list (map (sample_count samples) ids) = int (length samples)"
  using assms(2)
proof (induction samples)
  case (Cons s samples)
  have one: "sum_list (map (\<lambda>cid. if ds_ConnectionID s = cid then 1 else 0) ids) = (1 :: int)"
    if "ds_ConnectionID s \<in> set ids"
    using assms(1) that by (simp add: sum_list_distinct_conv_sum_set)
  have "map (sample_count (s # samples)) ids =
      map (\<lambda>cid. (if ds_ConnectionID s = cid then 1 else 0) + sample_count samples cid) ids"
    by (simp add: sample_count_def)
  then have "sum_list (map (sample_count (s # samples)) ids) =
      sum_list (map (\<lambda>cid. if ds_ConnectionID s = cid then 1 else 0) ids) + sum_list (map (sample_count samples) ids)"
    by (simp only: sum_list_addf)
  also have "\<dots> = 1 + int (length samples)"
    using Cons one by simp
  finally show ?case
    by simp
next
  case Nil
  have "sample_count [] = (\<lambda>_. 0)"
    by (simp add: sample_count_def fun_eq_iff)
  then show ?case
    by simp
qed

lemma distribution_parts:
  assumes "requiredDistributionPassed url spec result now"
  obtains plan where "spec_DistributionPlan spec = Some plan"
    and "validateDistribution url spec = None"
    and "int (length (res_Distribution result)) = spec_DistributionSamples spec"
    and "distributionCalibrated spec plan"
    and "length (res_DistributionProviders result) = length (plan_Providers plan)"
    and "length (res_DistributionCaptures result) = length (plan_Providers plan)"
    and "list_all (\<lambda>(provider, share, ready).
           requiredProviderReady provider share ready now (spec_MaxAgeSeconds spec))
         (zip (plan_Providers plan) (zip (res_DistributionProviders result) (res_DistributionCaptures result)))"
    and "\<And>i. i < length (res_Distribution result) \<Longrightarrow>
           requiredDistributionSample url (plan_Requests plan ! (i mod length (plan_Requests plan)))
             (res_Distribution result ! i) now \<and>
           frameCaptureIdentified (plan_Providers plan) (res_DistributionCaptures result)
             (ds_Ingress (res_Distribution result ! i)) (ds_StartedAt (res_Distribution result ! i))"
    and "list_all (\<lambda>share. share_Samples share =
           sample_count (res_Distribution result) (pi_ConnectionID (share_Provider share)))
         (res_DistributionProviders result)"
    and "distributionSharesPassed plan (res_DistributionProviders result)"
proof -
  have "\<not> requiredDistributionPassed url spec result now" if "spec_DistributionPlan spec = None"
    using that by (simp add: requiredDistributionPassed.simps)
  then obtain plan where plan: "spec_DistributionPlan spec = Some plan"
    using assms by blast
  show ?thesis
    by (rule that [OF plan];
        (insert assms plan, simp add: requiredDistributionPassed.simps [of url spec result now] Let_def
           list_all_iff split: if_splits))
qed

lemma shares_are_providers:
  assumes "length shares = length providers" and "length captures = length providers"
    and "list_all (\<lambda>(provider, share, ready). requiredProviderReady provider share ready now age)
           (zip providers (zip shares captures))"
  shows "map share_Provider shares = providers"
proof (rule nth_equalityI)
  fix i assume "i < length (map share_Provider shares)"
  then have "(providers ! i, shares ! i, captures ! i) \<in> set (zip providers (zip shares captures))"
    using assms(1,2) by (auto simp: set_zip)
  then have "requiredProviderReady (providers ! i) (shares ! i) (captures ! i) now age"
    using assms(3) by (fastforce simp: list_all_iff)
  then show "map share_Provider shares ! i = providers ! i"
    using \<open>i < _\<close> by (simp add: requiredProviderReady_def)
qed (use assms in simp)

lemma frame_provider:
  "frameCaptureIdentified mappings captures frame t \<Longrightarrow> tcp_ConnectionID frame \<in> pi_ConnectionID ` set mappings"
  by (force simp: frameCaptureIdentified_def list_ex_iff dest!: set_zip_leftD)

lemma sample_connection:
  "requiredDistributionSample url request sample now \<Longrightarrow> tcp_ConnectionID (ds_Ingress sample) = ds_ConnectionID sample"
  by (subst (asm) requiredDistributionSample.simps) (simp add: distributionSampleCaptured_def Let_def)

subsection \<open>A concrete distribution check\<close>

definition sample_endpoint :: Endpoint where
  "sample_endpoint = \<lparr>ep_Kind = ''local'', ep_VMID = 0, ep_MachineID = ''m1'', ep_HostMachineID = []\<rparr>"

definition sample_provider :: ProviderIngress where
  "sample_provider =
     \<lparr>pi_ConnectionID = ''att'', pi_Family = ''ipv4'', pi_Bridge = ''br0'', pi_PortInterface = ''tap0'',
      pi_DestinationMAC = ''02:00:00:00:00:01'', pi_Tier = 1, pi_Weight = 1, pi_Eligible = True,
      pi_ObservedAt = 100\<rparr>"

definition sample_request :: CheckSpec where
  "sample_request = CheckSpec ''r1'' ''downstream_application'' ''http'' sample_endpoint ''ipv4'' []
     ''primary'' [] (Addr4 1) ''http://example.test/'' 5 60 [] [200] [] (Addr4 2) [] [] [] [] [] 0 None []"

definition sample_plan :: DistributionPlan where
  "sample_plan = DistributionPlan ''random'' 1 100 7 [sample_provider] [sample_provider]
     (Some \<lparr>cal_HashMode = ''random'', cal_ActiveTier = 1, cal_Samples = 1,
        cal_Providers = [\<lparr>cp_ConnectionID = ''att'', cp_Tier = 1, cp_Weight = 1, cp_MinSamples = 0,
                          cp_MaxSamples = 1\<rparr>]\<rparr>)
     [sample_request]"

definition sample_distribution_check :: CheckSpec where
  "sample_distribution_check = CheckSpec ''d1'' ''connection_distribution'' ''distribution'' sample_endpoint
     ''ipv4'' [] [] [] NoAddr ''example.test'' 5 60 [] [] [] NoAddr [] [] [] [] [] 1 (Some sample_plan) []"

definition sample_path :: Path where
  "sample_path = \<lparr>path_Source = Addr4 1, path_Destination = Addr4 9, path_SourcePort = 4000,
     path_DestinationPort = 80, path_NextHop = Addr4 2, path_Interface = [], path_ConnectionID = [],
     path_Router = ''primary''\<rparr>"

definition sample_frame :: TCPIngress where
  "sample_frame = \<lparr>tcp_At = 120, tcp_Source = Addr4 1, tcp_Destination = Addr4 9, tcp_SourcePort = 4000,
     tcp_Sequence = 55, tcp_DestinationPort = 80, tcp_DestinationMAC = ''02:00:00:00:00:01'',
     tcp_ConnectionID = ''att''\<rparr>"

definition sample_capture :: CaptureReady where
  "sample_capture = \<lparr>cr_ConnectionID = ''att'', cr_Interface = ''br0'', cr_PortInterface = ''tap0'',
     cr_DestinationMAC = ''02:00:00:00:00:01'', cr_At = 105\<rparr>"

definition sample_distribution_result :: Result where
  "sample_distribution_result =
     \<lparr>res_CheckID = ''d1'', res_Dimension = ''connection_distribution'', res_Operation = ''distribution'',
      res_Target = ''example.test'', res_PublicIPPolicy = [], res_Family = ''ipv4'',
      res_Observer = sample_endpoint, res_ObservedAt = 110, res_Availability = ''complete'',
      res_Outcome = ''pass'', res_Reason = [], res_Path = sample_path, res_HTTPStatus = 0,
      res_ResponseBody = [], res_DNSAddresses = [], res_SSHVersion = [],
      res_Distribution = [\<lparr>ds_StartedAt = 110, ds_At = 130, ds_CheckID = ''r1'', ds_Observer = sample_endpoint,
        ds_Path = sample_path, ds_Ingress = sample_frame, ds_Transit = sample_frame,
        ds_Availability = ''complete'', ds_Outcome = ''pass'', ds_ConnectionID = ''att'',
        ds_HTTPStatus = 200, ds_ResponseBody = []\<rparr>],
      res_DistributionProviders = [\<lparr>share_Provider = sample_provider, share_Samples = 1\<rparr>],
      res_DistributionCaptures = [sample_capture], res_TransitCaptures = [sample_capture],
      res_CloudflarePool = None\<rparr>"

definition sample_url_parse :: "string \<Rightarrow> url option" where
  "sample_url_parse target = Some \<lparr>url_Scheme = ''http'', url_Host = ''example.test'', url_has_user = False\<rparr>"

lemmas sample_observation_defs = sample_endpoint_def sample_provider_def sample_request_def sample_plan_def
  sample_distribution_check_def sample_path_def sample_frame_def sample_capture_def
  sample_distribution_result_def sample_url_parse_def

lemmas observation_constants = operation_defs DimensionDownstreamApplication_def
  DimensionInboundApplication_def known_dimensions_def FamilyIPv4_def FamilyIPv6_def RouterPrimary_def
  EndpointLocal_def EndpointQEMU_def EndpointLXC_def AvailabilityComplete_def OutcomePass_def

lemma sample_mac: "canonical_mac ''02:00:00:00:00:01''"
  by (simp add: canonical_mac_def Let_def lower_hex_def is_digit_def)

lemma sample_distribution_valid: "validateDistribution sample_url_parse sample_distribution_check = None"
  by (simp add: validateDistribution.simps validateDistributionRequest.simps Validate.simps
        validateOperation.simps validateHTTP_def captureMappingValid_def sample_mac
        sample_observation_defs observation_constants)

lemma sample_distribution_passes:
  "RequiredPassed sample_url_parse sample_distribution_check sample_distribution_result 200"
  using sample_distribution_valid
  by (simp add: RequiredPassed.simps requiredDistributionPassed.simps requiredDistributionSample.simps
        requiredProviderReady_def observationCurrent_def distributionCalibrated_def eligible_now_def
        calibratedProvider_def frameCaptureIdentified_def distributionSampleCaptured_def sample_reply_def
        requiredPathPassed_def requiredReplyPassed_def sample_count_def distributionDiverse_def
        distributionSharesPassed_def seconds_def nanosecond_per_second_def Let_def
        sample_observation_defs observation_constants)

section \<open>Properties\<close>

text \<open>
  C19: An accepted distribution check accounts for every sample. The shares it reports are those
  of the planned providers in order, they add up to exactly the number of samples the check asks
  for, a provider that is not eligible on the active tier received none, and an eligible one
  received a number within its calibrated bounds.
\<close>

theorem distribution_accounts_for_every_sample:
  assumes "RequiredPassed url spec result now" and "spec_Operation spec = OperationDistribution"
  shows "\<exists>plan. spec_DistributionPlan spec = Some plan
     \<and> map share_Provider (res_DistributionProviders result) = plan_Providers plan
     \<and> sum_list (map share_Samples (res_DistributionProviders result)) = spec_DistributionSamples spec
     \<and> list_all (\<lambda>share. if eligible_now plan (share_Provider share)
           then (case calibratedProvider plan (pi_ConnectionID (share_Provider share)) of
                   None \<Rightarrow> False
                 | Some b \<Rightarrow> cp_MinSamples b \<le> share_Samples share \<and> share_Samples share \<le> cp_MaxSamples b)
           else share_Samples share = 0) (res_DistributionProviders result)"
proof -
  have "requiredDistributionPassed url spec result now"
    using assms by (subst (asm) RequiredPassed.simps) (auto split: if_splits)
  then show ?thesis
  proof (rule distribution_parts)
    fix plan
    let ?S = "res_Distribution result" and ?sh = "res_DistributionProviders result"
    assume plan: "spec_DistributionPlan spec = Some plan"
      and valid: "validateDistribution url spec = None"
      and len: "int (length ?S) = spec_DistributionSamples spec"
      and l1: "length ?sh = length (plan_Providers plan)"
      and l2: "length (res_DistributionCaptures result) = length (plan_Providers plan)"
      and ready: "list_all (\<lambda>(provider, share, ready).
           requiredProviderReady provider share ready now (spec_MaxAgeSeconds spec))
         (zip (plan_Providers plan) (zip ?sh (res_DistributionCaptures result)))"
      and samples: "\<And>i. i < length ?S \<Longrightarrow>
           requiredDistributionSample url (plan_Requests plan ! (i mod length (plan_Requests plan))) (?S ! i) now \<and>
           frameCaptureIdentified (plan_Providers plan) (res_DistributionCaptures result)
             (ds_Ingress (?S ! i)) (ds_StartedAt (?S ! i))"
      and counted: "list_all (\<lambda>share. share_Samples share =
           sample_count ?S (pi_ConnectionID (share_Provider share))) ?sh"
      and shares: "distributionSharesPassed plan ?sh"
    have prov: "map share_Provider ?sh = plan_Providers plan"
      by (rule shares_are_providers [OF l1 l2 ready])
    have known: "\<forall>s \<in> set ?S. ds_ConnectionID s \<in> set (map pi_ConnectionID (plan_Providers plan))"
      using samples frame_provider sample_connection by (fastforce simp: in_set_conv_nth)
    have "map share_Samples ?sh = map (sample_count ?S) (map pi_ConnectionID (plan_Providers plan))"
      using counted unfolding prov [symmetric] by (simp add: list_all_iff)
    then have "sum_list (map share_Samples ?sh) = int (length ?S)"
      using sum_counts [OF validateDistribution_providers [OF valid plan] known] by simp
    with plan prov len shares show ?thesis
      by (auto simp: distributionSharesPassed_def list_all_iff not_less split: option.splits)
  qed
qed

theorem distribution_accounts_for_every_sample_witness:
  "\<exists>plan. spec_DistributionPlan sample_distribution_check = Some plan
     \<and> map share_Provider (res_DistributionProviders sample_distribution_result) = plan_Providers plan
     \<and> sum_list (map share_Samples (res_DistributionProviders sample_distribution_result)) =
         spec_DistributionSamples sample_distribution_check"
  using distribution_accounts_for_every_sample [OF sample_distribution_passes]
  by (auto simp: sample_distribution_check_def OperationDistribution_def)

text \<open>
  C20: Acceptance of a result is bounded in time: a result that is accepted at some moment is not
  accepted at any moment later than its observation plus the maximum age of the check, whatever
  the operation of the check, and \<^verbatim>\<open>FreshResult\<close> then no longer reports it as passing.
\<close>

theorem acceptance_expires:
  assumes "RequiredPassed url spec result now"
    and "res_ObservedAt result + seconds (spec_MaxAgeSeconds spec) < later"
  shows "\<not> RequiredPassed url spec result later \<and> res_Outcome (FreshResult spec result later) \<noteq> OutcomePass
     \<and> FreshResult spec result now = result"
proof -
  have "res_ObservedAt result \<noteq> 0" "0 \<le> now - res_ObservedAt result"
    "now - res_ObservedAt result \<le> seconds (spec_MaxAgeSeconds spec)" "0 < spec_MaxAgeSeconds spec"
    using assms(1) by (subst (asm) RequiredPassed.simps; auto split: if_splits)+
  moreover have "\<not> RequiredPassed url spec result later"
    using assms(2) by (subst RequiredPassed.simps) (auto split: if_splits)
  ultimately show ?thesis
    using assms(2) by (auto simp: FreshResult_def Let_def OutcomeUnknown_def OutcomePass_def)
qed

theorem acceptance_expires_witness:
  "RequiredPassed sample_url_parse sample_distribution_check sample_distribution_result 200 \<and>
   \<not> RequiredPassed sample_url_parse sample_distribution_check sample_distribution_result 70000000000"
  using sample_distribution_passes
    acceptance_expires [OF sample_distribution_passes, of 70000000000]
  by (simp add: sample_distribution_check_def sample_distribution_result_def seconds_def
        nanosecond_per_second_def)

end
