(* ===== verification/Rollback.thy ===== *)
theory Rollback
  imports GoStrings
begin

text \<open>
  The package \<^verbatim>\<open>internal/rollback\<close>: the choice of a rollback snapshot from the output of
  \<^verbatim>\<open>qm listsnapshot\<close>, the list of descendants that must be deleted first, and the
  key-value state file that records for which deploy a rollback was performed. A read of
  the state file (\<open>file_read\<close>) gives its bytes or an error; a missing file is told apart from
  the other errors, as \<^verbatim>\<open>errors.Is(err, os.ErrNotExist)\<close> does. \<open>state_content\<close> is the
  text that \<^verbatim>\<open>WriteState\<close> hands to the file system.
\<close>

section \<open>Snapshot names in hypervisor output\<close>

text \<open>\<^verbatim>\<open>FindAllString\<close> of a regular expression of the form \<^verbatim>\<open>prefix[^\s]+\<close>: scan from
  the left, take the longest run of non-space bytes after the prefix, continue after it.\<close>

function find_all :: "string \<Rightarrow> string \<Rightarrow> string list" where
  "find_all pfx s =
     (if s = [] then []
      else let body = takeWhile (\<lambda>c. \<not> is_re_space c) (drop (length pfx) s) in
           if has_prefix s pfx \<and> body \<noteq> []
           then (pfx @ body) # find_all pfx (drop (length pfx + length body) s)
           else find_all pfx (tl s))"
  by pat_completeness auto
termination
  by (relation "measure (\<lambda>(pfx, s). length s)") auto

declare find_all.simps [simp del]

definition PreDeploySnap :: string where
  "PreDeploySnap = ''pre-deploy-''"

definition KnownGoodSnap :: string where
  "KnownGoodSnap = ''known-good-''"

text \<open>\<^verbatim>\<open>MatchString\<close>: some part of the text matches.\<close>

definition match_string :: "string \<Rightarrow> string \<Rightarrow> bool" where
  "match_string pfx s \<longleftrightarrow> find_all pfx s \<noteq> []"

definition ExtractLatestSnapshot :: "string \<Rightarrow> string" where
  "ExtractLatestSnapshot qmOutput =
     (let pre = find_all PreDeploySnap qmOutput in
      if pre \<noteq> [] then last pre
      else let kg = find_all KnownGoodSnap qmOutput in
           if kg \<noteq> [] then last kg else '''')"

definition tree_char :: "char \<Rightarrow> bool" where
  "tree_char c \<longleftrightarrow> c \<in> set '' `->|''"

text \<open>The loop over the lines of the listing, with the flag \<^verbatim>\<open>past\<close> and the result so far.\<close>

fun snapshots_after_loop :: "string \<Rightarrow> string list \<Rightarrow> bool \<Rightarrow> string list \<Rightarrow> string list" where
  "snapshots_after_loop targetSnap [] past result = result"
| "snapshots_after_loop targetSnap (line # rest) past result =
     (let trimmed_line = trim_left tree_char line in
      if trimmed_line = [] then snapshots_after_loop targetSnap rest past result
      else case string_fields trimmed_line of
             [] \<Rightarrow> snapshots_after_loop targetSnap rest past result
           | name # _ \<Rightarrow>
               if name = ''current'' then snapshots_after_loop targetSnap rest past result
               else if \<not> past then
                 snapshots_after_loop targetSnap rest (name = targetSnap) result
               else if match_string PreDeploySnap name \<or> match_string KnownGoodSnap name
               then snapshots_after_loop targetSnap rest past (result @ [name])
               else snapshots_after_loop targetSnap rest past result)"

definition SnapshotsAfter :: "string \<Rightarrow> string \<Rightarrow> string list" where
  "SnapshotsAfter qmOutput targetSnap =
     snapshots_after_loop targetSnap (split_at newline qmOutput) False []"

section \<open>The rollback state file\<close>

datatype read_err = ErrNotExist | ErrIO

type_synonym file_read = "read_err + string"

fun parse_kv_lines :: "string list \<Rightarrow> (string \<rightharpoonup> string) \<Rightarrow> (string \<rightharpoonup> string)" where
  "parse_kv_lines [] kv = kv"
| "parse_kv_lines (raw # rest) kv =
     (let line = trim_space raw in
      if line = [] \<or> has_prefix line ''#'' then parse_kv_lines rest kv
      else case cut (CHR ''='') line of
             None \<Rightarrow> parse_kv_lines rest kv
           | Some (k, v) \<Rightarrow> parse_kv_lines rest (kv(trim_space k \<mapsto> trim_space v)))"

definition kv_get :: "(string \<rightharpoonup> string) \<Rightarrow> string \<Rightarrow> string" where
  "kv_get kv k = (case kv k of None \<Rightarrow> '''' | Some v \<Rightarrow> v)"

definition parseRollbackStateFile :: "file_read \<Rightarrow> read_err + (string \<times> string \<times> string \<times> string)" where
  "parseRollbackStateFile file =
     (case file of
        Inl err \<Rightarrow> Inl err
      | Inr data \<Rightarrow>
          let kv = parse_kv_lines (split_at newline data) Map.empty;
              st = kv_get kv ''rollback_done'';
              st1 = (if st = ''true'' then ''done'' else st)
          in Inr (kv_get kv ''deploy_timestamp'', st1, kv_get kv ''snapshot'', kv_get kv ''rollback_attempts''))"

text \<open>The outcome is an error, or whether the rollback is done with the recorded attempts.\<close>

definition AlreadyDone :: "file_read \<Rightarrow> int \<Rightarrow> read_err + (bool \<times> int)" where
  "AlreadyDone file deployTS =
     (case parseRollbackStateFile file of
        Inl ErrNotExist \<Rightarrow> Inr (False, 0)
      | Inl ErrIO \<Rightarrow> Inl ErrIO
      | Inr (deployInFile, status, _, attStr) \<Rightarrow>
          if deployInFile \<noteq> format_int deployTS then Inr (False, 0)
          else Inr (status = ''done'' \<or> status = ''exhausted'', parsed_value (parse_int attStr)))"

definition state_content :: "int \<Rightarrow> string \<Rightarrow> int \<Rightarrow> bool \<Rightarrow> gotime \<Rightarrow> string" where
  "state_content deployTS snapshot attempts success timestamp =
     ''deploy_timestamp='' @ format_int deployTS @ [newline] @
     ''rollback_done='' @ (if success then ''done'' else ''failed'') @ [newline] @
     ''rollback_timestamp='' @ format_int (unix_of timestamp) @ [newline] @
     ''snapshot='' @ snapshot @ [newline] @
     ''rollback_attempts='' @ format_int attempts @ [newline]"

section \<open>Lemmas\<close>

subsection \<open>Matches\<close>

lemma find_all_Nil [simp]: "find_all pfx [] = []"
  by (simp add: find_all.simps)

lemma find_all_sound:
  "m \<in> set (find_all pfx s) \<Longrightarrow>
     \<exists>body. m = pfx @ body \<and> body \<noteq> [] \<and> (\<forall>c \<in> set body. \<not> is_re_space c)"
proof (induction pfx s rule: find_all.induct)
  case (1 pfx s)
  show ?case
  proof (cases "s = []")
    case False
    let ?body = "takeWhile (\<lambda>c. \<not> is_re_space c) (drop (length pfx) s)"
    have body: "\<forall>c \<in> set ?body. \<not> is_re_space c"
      by (auto dest: set_takeWhileD)
    show ?thesis
    proof (cases "has_prefix s pfx \<and> ?body \<noteq> []")
      case True
      with 1 False body show ?thesis
        by (auto simp: find_all.simps [of pfx s] Let_def)
    next
      case no: False
      with 1 False show ?thesis
        by (auto simp: find_all.simps [of pfx s] Let_def)
    qed
  qed (use 1 in simp)
qed

lemma find_all_skip:
  assumes "\<not> (has_prefix (c # s) pfx \<and> takeWhile (\<lambda>c. \<not> is_re_space c) (drop (length pfx) (c # s)) \<noteq> [])"
  shows "find_all pfx (c # s) = find_all pfx s"
  using assms by (auto simp: find_all.simps [of pfx "c # s"] Let_def)

text \<open>A text matches exactly when the prefix occurs in it before a non-space byte.\<close>

lemma match_string_iff:
  "match_string pfx s \<longleftrightarrow> (\<exists>a c b. s = a @ pfx @ c # b \<and> \<not> is_re_space c)"
proof
  assume "match_string pfx s"
  then show "\<exists>a c b. s = a @ pfx @ c # b \<and> \<not> is_re_space c"
    unfolding match_string_def
  proof (induction s)
    case (Cons x s)
    show ?case
    proof (cases "has_prefix (x # s) pfx \<and> takeWhile (\<lambda>c. \<not> is_re_space c) (drop (length pfx) (x # s)) \<noteq> []")
      case True
      then obtain t where t: "x # s = pfx @ t"
        by (auto simp: has_prefix_iff)
      with True obtain c b where "t = c # b" "\<not> is_re_space c"
        by (cases t) (auto split: if_splits)
      with t show ?thesis
        by (metis append_Nil)
    next
      case False
      then have "find_all pfx s \<noteq> []"
        using Cons.prems find_all_skip by metis
      with Cons.IH show ?thesis
        by (metis append_Cons)
    qed
  qed simp
next
  assume "\<exists>a c b. s = a @ pfx @ c # b \<and> \<not> is_re_space c"
  then obtain a c b where s: "s = a @ pfx @ c # b" and c: "\<not> is_re_space c"
    by blast
  have "find_all pfx (a @ pfx @ c # b) \<noteq> []"
  proof (induction a)
    case Nil
    show ?case
      using c by (subst find_all.simps) (simp add: Let_def has_prefix_iff)
  next
    case (Cons x a)
    then show ?case
      using find_all_skip [of x "a @ pfx @ c # b" pfx]
      by (cases "has_prefix (x # a @ pfx @ c # b) pfx \<and>
            takeWhile (\<lambda>c. \<not> is_re_space c) (drop (length pfx) (x # a @ pfx @ c # b)) \<noteq> []")
         (simp_all add: find_all.simps [of pfx "x # a @ pfx @ c # b"] Let_def)
  qed
  with s show "match_string pfx s"
    by (simp add: match_string_def)
qed

lemma match_own: "m \<in> set (find_all pfx s) \<Longrightarrow> match_string pfx m"
proof -
  assume "m \<in> set (find_all pfx s)"
  then obtain c b where "m = pfx @ c # b" "\<not> is_re_space c"
    using find_all_sound by (metis list.set_intros(1) neq_Nil_conv)
  then show ?thesis
    by (auto simp: match_string_iff intro: exI [of _ "[]"])
qed

subsection \<open>The descendants of a snapshot\<close>

definition line_name :: "string \<Rightarrow> string option" where
  "line_name line = (case string_fields (trim_left tree_char line) of [] \<Rightarrow> None | name # _ \<Rightarrow> Some name)"

text \<open>The reference: the names of the listing in order, without the live state.\<close>

definition listed_snapshots :: "string \<Rightarrow> string list" where
  "listed_snapshots qmOutput =
     filter (\<lambda>n. n \<noteq> ''current'') (List.map_filter line_name (split_at newline qmOutput))"

definition managed :: "string \<Rightarrow> bool" where
  "managed name \<longleftrightarrow> match_string PreDeploySnap name \<or> match_string KnownGoodSnap name"

lemma string_fields_Nil [simp]: "string_fields [] = []"
  by (simp add: string_fields.simps)

lemma map_filter_Cons [simp]:
  "List.map_filter f (x # xs) = (case f x of None \<Rightarrow> List.map_filter f xs | Some y \<Rightarrow> y # List.map_filter f xs)"
  by (simp add: List.map_filter_simps)

lemma map_filter_Nil [simp]: "List.map_filter f [] = []"
  by (simp add: List.map_filter_simps)

lemma snapshots_after_loop_eq:
  "snapshots_after_loop t ls past r =
     r @ filter managed
       (let ns = filter (\<lambda>n. n \<noteq> ''current'') (List.map_filter line_name ls)
        in if past then ns else tl (dropWhile (\<lambda>n. n \<noteq> t) ns))"
proof (induction ls arbitrary: past r)
  case (Cons l ls)
  show ?case
  proof (cases "string_fields (trim_left tree_char l)")
    case Nil
    then have "line_name l = None"
      by (simp add: line_name_def)
    with Nil Cons.IH show ?thesis
      by (simp add: Let_def)
  next
    case (Cons name rest)
    then have "trim_left tree_char l \<noteq> []" and "line_name l = Some name"
      by (auto simp: line_name_def)
    with Cons Cons.IH show ?thesis
      by (auto simp: managed_def Let_def)
  qed
qed simp

subsection \<open>Writing and reading the state file\<close>

lemma trim_space_entry:
  assumes "k \<noteq> []" and "\<not> is_space (hd k)"
  shows "trim_space (k @ CHR ''='' # v) = k @ CHR ''='' # trim_right is_space v"
proof -
  have "dropWhile is_space (k @ CHR ''='' # v) = k @ CHR ''='' # v"
    using assms by (cases k) auto
  moreover have "\<not> is_space (CHR ''='')"
    by (simp add: is_space_def)
  ultimately show ?thesis
    by (simp add: trim_space_def trim_left_def trim_right_def dropWhile_append3)
qed

text \<open>One written line \<^verbatim>\<open>key=value\<close> sets its key.\<close>

lemma parse_kv_lines_entry:
  assumes "CHR ''='' \<notin> set k" and "k \<noteq> []" and "trimmed k" and "hd k \<noteq> CHR ''#''"
  shows "parse_kv_lines ((k @ CHR ''='' # v) # rest) kv =
           parse_kv_lines rest (kv(k \<mapsto> trim_space (trim_right is_space v)))"
proof -
  have "\<not> has_prefix (k @ CHR ''='' # w) ''#''" for w
    using assms by (cases k) auto
  moreover have "\<not> is_space (hd k)"
    using assms by (simp add: trimmed_def)
  ultimately show ?thesis
    using assms by (simp add: trim_space_entry cut_append trim_space_trimmed)
qed

lemma state_key_entry:
  assumes "k \<in> set [''deploy_timestamp'', ''rollback_done'', ''rollback_timestamp'', ''snapshot'',
                    ''rollback_attempts'']"
  shows "parse_kv_lines ((k @ CHR ''='' # v) # rest) kv =
           parse_kv_lines rest (kv(k \<mapsto> trim_space (trim_right is_space v)))"
  by (rule parse_kv_lines_entry) (use assms in \<open>auto simp: trimmed_def is_space_def\<close>)

lemma trim_right_nospace: "(\<And>c. c \<in> set v \<Longrightarrow> \<not> is_space c) \<Longrightarrow> trim_right is_space v = v"
  by (cases v rule: rev_cases) (simp_all add: trim_right_def)

lemma trim_value_nospace:
  "(\<And>c. c \<in> set v \<Longrightarrow> \<not> is_space c) \<Longrightarrow> trim_space (trim_right is_space v) = v"
  by (simp add: trim_right_nospace trim_space_trimmed trimmed_nospace)

lemma newline_is_space: "is_space newline"
  by (simp add: is_space_def newline_def)

lemma format_int_no_newline [simp]: "newline \<notin> set (format_int n)"
  using format_int_nospace newline_is_space by blast

lemma state_content_lines:
  assumes "newline \<notin> set snapshot"
  shows "split_at newline (state_content d snapshot att ok t) =
     [''deploy_timestamp'' @ CHR ''='' # format_int d,
      ''rollback_done'' @ CHR ''='' # (if ok then ''done'' else ''failed''),
      ''rollback_timestamp'' @ CHR ''='' # format_int (unix_of t),
      ''snapshot'' @ CHR ''='' # snapshot,
      ''rollback_attempts'' @ CHR ''='' # format_int att,
      []]"
proof -
  have "state_content d snapshot att ok t =
     (''deploy_timestamp='' @ format_int d) @ newline #
     (''rollback_done='' @ (if ok then ''done'' else ''failed'')) @ newline #
     (''rollback_timestamp='' @ format_int (unix_of t)) @ newline #
     (''snapshot='' @ snapshot) @ newline #
     (''rollback_attempts='' @ format_int att) @ newline # []"
    by (simp add: state_content_def)
  moreover have "newline \<notin> set ''abcdefghijklmnopqrstuvwxyz_=''"
    by (simp add: newline_def)
  ultimately show ?thesis
    using assms by (simp add: split_at_append del: append_assoc append_Cons)
qed

lemma parse_state_content:
  assumes "newline \<notin> set snapshot"
  shows "parse_kv_lines (split_at newline (state_content d snapshot att ok t)) Map.empty =
     [''deploy_timestamp'' \<mapsto> format_int d,
      ''rollback_done'' \<mapsto> (if ok then ''done'' else ''failed''),
      ''rollback_timestamp'' \<mapsto> format_int (unix_of t),
      ''snapshot'' \<mapsto> trim_space (trim_right is_space snapshot),
      ''rollback_attempts'' \<mapsto> format_int att]"
proof -
  have key: "\<not> is_space c" if "c \<in> set ''abcdefghijklmnopqrstuvwxyz_''" for c
    using that by (auto simp: is_space_def)
  have st: "trim_space (trim_right is_space (if ok then ''done'' else ''failed'')) =
      (if ok then ''done'' else ''failed'')"
    by (rule trim_value_nospace) (auto simp: key split: if_splits)
  have e: "trim_space [] = []"
    by (simp add: trim_space_def trim_left_def trim_right_def)
  have i: "trim_space (trim_right is_space (format_int n)) = format_int n" for n
    by (rule trim_value_nospace) (rule format_int_nospace)
  show ?thesis
    unfolding state_content_lines [OF assms]
    by (simp only: state_key_entry list.set insert_iff simp_thms st i) (simp add: e)
qed

section \<open>Properties\<close>

text \<open>
  C22: The line-by-line loop that finds the descendants of a rollback target returns exactly the
  snapshots the watchdog or the deploy created that the listing shows after the target, in
  listing order; the live state and snapshots with other names are never in the result.
\<close>

theorem snapshots_after_are_managed_descendants:
  "SnapshotsAfter out target =
     filter managed (tl (dropWhile (\<lambda>n. n \<noteq> target) (listed_snapshots out)))"
  by (simp add: SnapshotsAfter_def snapshots_after_loop_eq listed_snapshots_def)

text \<open>
  C21: What a rollback records for a deploy is what the next check of that deploy reads back:
  done exactly when the rollback succeeded, and the number of attempts. For every other deploy
  timestamp the same file says that no rollback was attempted.
\<close>

theorem rollback_state_roundtrip:
  assumes "newline \<notin> set snapshot" and "int64_min \<le> attempts" and "attempts \<le> int64_max"
  shows "AlreadyDone (Inr (state_content deployTS snapshot attempts success t)) d =
           Inr (if d = deployTS then (success, attempts) else (False, 0))"
  using assms format_int_inj [of deployTS d]
  by (auto simp: AlreadyDone_def parseRollbackStateFile_def parse_state_content kv_get_def
        parse_format_int Let_def)

theorem rollback_state_roundtrip_witness:
  "newline \<notin> set ''pre-deploy-20260101'' \<and>
   AlreadyDone (Inr (state_content 1700000000 ''pre-deploy-20260101'' 2 False 0)) 1700000000 = Inr (False, 2)"
  using rollback_state_roundtrip [of "''pre-deploy-20260101''" 2 1700000000 False 0 1700000000]
  by (simp add: newline_def int64_min_def int64_max_def)

text \<open>
  C23: The rollback target is chosen soundly and completely from the hypervisor's listing. A
  pre-deploy snapshot is chosen whenever one is listed, a known-good one only when no
  pre-deploy one is, and nothing exactly when the listing has neither; a chosen name is one
  token without white space that begins with the prefix of its kind.
\<close>

theorem extract_latest_snapshot_choice:
  "ExtractLatestSnapshot out =
     (if match_string PreDeploySnap out then last (find_all PreDeploySnap out)
      else if match_string KnownGoodSnap out then last (find_all KnownGoodSnap out) else [])
   \<and> (ExtractLatestSnapshot out = [] \<longleftrightarrow>
        \<not> (\<exists>a c b. \<not> is_re_space c \<and>
             (out = a @ ''pre-deploy-'' @ c # b \<or> out = a @ ''known-good-'' @ c # b)))
   \<and> (ExtractLatestSnapshot out = [] \<or>
        (\<exists>body. body \<noteq> [] \<and> list_all (\<lambda>c. \<not> is_re_space c) body \<and>
           (ExtractLatestSnapshot out = ''pre-deploy-'' @ body \<or>
            ExtractLatestSnapshot out = ''known-good-'' @ body)))"
  (is "?choice \<and> ?empty \<and> ?token")
proof (intro conjI)
  show choice: ?choice
    by (simp add: ExtractLatestSnapshot_def match_string_def Let_def)
  have tok: "\<exists>body. body \<noteq> [] \<and> list_all (\<lambda>c. \<not> is_re_space c) body \<and> last (find_all p out) = p @ body"
    if "match_string p out" for p
    using find_all_sound [of "last (find_all p out)" p out] that
    by (auto simp: match_string_def list_all_iff)
  show ?token
    using choice tok [of PreDeploySnap] tok [of KnownGoodSnap]
    unfolding PreDeploySnap_def KnownGoodSnap_def by metis
  have "ExtractLatestSnapshot out = [] \<longleftrightarrow>
      \<not> match_string PreDeploySnap out \<and> \<not> match_string KnownGoodSnap out"
    using choice tok [of PreDeploySnap] tok [of KnownGoodSnap] by (auto split: if_splits)
  then show ?empty
    unfolding match_string_iff PreDeploySnap_def KnownGoodSnap_def by blast
qed

end
