(* ===== verification/DeployRecord.thy ===== *)
theory DeployRecord
  imports Observation Rollback
begin

text \<open>
  The data of the package \<^verbatim>\<open>internal/deployoperation\<close>: identities, mutation leases, manifests and
  the persisted record of one deploy operation, with their validation and the pure decisions on
  them. The record extends the manifest, as the embedded struct does. \<^verbatim>\<open>url.Parse\<close> and the UUID
  package are parameters, collected in \<open>libs\<close>: \<open>uuid_parse s\<close> is the canonical text of the UUID
  that \<open>s\<close> denotes, if any.
\<close>

record libs =
  url_parse :: "string \<Rightarrow> url option"
  uuid_parse :: "string \<Rightarrow> string option"

section \<open>Names and identities\<close>

type_synonym Status = string

definition Armed :: Status where "Armed = ''armed''"
definition Recovering :: Status where "Recovering = ''recovering''"
definition Recovered :: Status where "Recovered = ''recovered''"
definition RecoveryFailed :: Status where "RecoveryFailed = ''recovery_failed''"
definition Committed :: Status where "Committed = ''committed''"
definition Disarmed :: Status where "Disarmed = ''disarmed''"

lemmas status_defs = Armed_def Recovering_def Recovered_def RecoveryFailed_def Committed_def Disarmed_def

lemma status_distinct [simp]:
  "Armed \<noteq> Recovering" "Armed \<noteq> Recovered" "Armed \<noteq> RecoveryFailed" "Armed \<noteq> Committed" "Armed \<noteq> Disarmed"
  "Recovering \<noteq> Armed" "Recovering \<noteq> Recovered" "Recovering \<noteq> RecoveryFailed" "Recovering \<noteq> Committed"
  "Recovering \<noteq> Disarmed" "Recovered \<noteq> Armed" "Recovered \<noteq> Recovering" "Recovered \<noteq> RecoveryFailed"
  "Recovered \<noteq> Committed" "Recovered \<noteq> Disarmed" "RecoveryFailed \<noteq> Armed" "RecoveryFailed \<noteq> Recovering"
  "RecoveryFailed \<noteq> Recovered" "RecoveryFailed \<noteq> Committed" "RecoveryFailed \<noteq> Disarmed"
  "Committed \<noteq> Armed" "Committed \<noteq> Recovering" "Committed \<noteq> Recovered" "Committed \<noteq> RecoveryFailed"
  "Committed \<noteq> Disarmed" "Disarmed \<noteq> Armed" "Disarmed \<noteq> Recovering" "Disarmed \<noteq> Recovered"
  "Disarmed \<noteq> RecoveryFailed" "Disarmed \<noteq> Committed"
  by (simp_all add: status_defs)

definition settled :: "Status \<Rightarrow> bool" where
  "settled status \<longleftrightarrow> status = Committed \<or> status = Recovered \<or> status = Disarmed"

definition name_char :: "char \<Rightarrow> bool" where
  "name_char c \<longleftrightarrow>
     (97 \<le> (of_char c :: nat) \<and> (of_char c :: nat) \<le> 122) \<or>
     (65 \<le> (of_char c :: nat) \<and> (of_char c :: nat) \<le> 90) \<or> is_digit c \<or> c = CHR ''-'' \<or> c = CHR ''_''"

definition validName :: "string \<Rightarrow> bool" where
  "validName name = (if name = [] then False else list_all name_char name)"

definition is_abs :: "string \<Rightarrow> bool" where
  "is_abs path = has_prefix path ''/''"

text \<open>\<^verbatim>\<open>hex.DecodeString\<close> succeeds with a given number of bytes.\<close>

definition hex_decodes :: "nat \<Rightarrow> string \<Rightarrow> bool" where
  "hex_decodes n s \<longleftrightarrow> length s = 2 * n \<and> list_all is_hex s"

record Identity =
  MachineID :: string
  BootID :: string
  ExecutableSHA256 :: string
  NetworkSHA256 :: string
  RuntimeSHA256 :: string

definition identity_validate :: "libs \<Rightarrow> Identity \<Rightarrow> string option" where
  "identity_validate lib identity =
     (if \<not> list_all (hex_decodes 32) [ExecutableSHA256 identity, NetworkSHA256 identity, RuntimeSHA256 identity]
      then Some ''deploy identity requires SHA256 digests''
      else if \<not> hex_decodes 16 (MachineID identity) then Some ''deploy machine identity is invalid''
      else case uuid_parse lib (BootID identity) of
             None \<Rightarrow> Some ''deploy identity boot UUID is invalid''
           | Some boot \<Rightarrow>
               if boot \<noteq> BootID identity
               then Some ''deploy boot identity requires the canonical UUID format'' else None)"

definition verifyRestored :: "libs \<Rightarrow> Identity \<Rightarrow> Identity \<Rightarrow> string option" where
  "verifyRestored lib identity baseline =
     (case identity_validate lib identity of
        Some err \<Rightarrow> Some err
      | None \<Rightarrow>
          if MachineID identity \<noteq> MachineID baseline \<or> ExecutableSHA256 identity \<noteq> ExecutableSHA256 baseline \<or>
             NetworkSHA256 identity \<noteq> NetworkSHA256 baseline \<or> RuntimeSHA256 identity \<noteq> RuntimeSHA256 baseline
          then Some ''restored deploy identity does not match the baseline recovery pair''
          else if BootID identity = BootID baseline
          then Some ''restored deploy VM has not booted after snapshot recovery''
          else None)"

section \<open>Manifest and record\<close>

record Paths =
  Executable :: string
  NetworkPath :: string
  Runtime :: string

record ExpectedInterruption =
  int_Phase :: string
  int_CheckIDs :: "string list"
  int_MaxSeconds :: int

record Manifest =
  OperationID :: string
  Generation :: string
  VMID :: string
  Snapshot :: string
  Baseline :: Identity
  Target :: Identity
  ManifestPaths :: Paths
  Deadline :: gotime
  WatchUnit :: string
  PollSeconds :: int
  ObservationTimeoutSeconds :: int
  RecoveryTimeoutSeconds :: int
  FailureThreshold :: int
  RequiredFamilies :: "Family list"
  RequiredChecks :: "CheckSpec list"
  ExpectedInterruptions :: "ExpectedInterruption list"
  RestoredRequiredChecks :: "CheckSpec list"
  MachineIDPath :: string
  ProbeBinary :: string

record Lease =
  lease_ID :: string
  lease_Phase :: string
  StartedAt :: gotime
  ExpiresAt :: gotime

record WatchIdentity =
  Unit :: string
  InvocationID :: string
  PID :: int

record Record = Manifest +
  RecStatus :: Status
  RecLease :: "Lease option"
  Watch :: WatchIdentity
  Reason :: string
  UpdatedAt :: gotime
  RestoredIdentity :: "Identity option"
  Results :: "Result list"
  ObservedAt :: gotime

text \<open>The loops of \<^verbatim>\<open>validateChecks\<close>: families with the map of those seen, then the checks.\<close>

fun families_ok :: "Family list \<Rightarrow> Family list \<Rightarrow> bool" where
  "families_ok seen [] = True"
| "families_ok seen (family # rest) =
     (if (family \<noteq> FamilyIPv4 \<and> family \<noteq> FamilyIPv6) \<or> family \<in> set seen then False
      else families_ok (family # seen) rest)"

fun checks_error :: "libs \<Rightarrow> string list \<Rightarrow> CheckSpec list \<Rightarrow> string option" where
  "checks_error lib seen [] = None"
| "checks_error lib seen (check # rest) =
     (case Validate (url_parse lib) check of
        Some err \<Rightarrow> Some (''validate deploy check '' @ spec_ID check @ '': '' @ err)
      | None \<Rightarrow>
          if spec_ID check \<in> set seen then Some (''deploy check ID '' @ spec_ID check @ '' is duplicated'')
          else checks_error lib (spec_ID check # seen) rest)"

definition application_family :: "Dimension \<Rightarrow> CheckSpec list \<Rightarrow> Family \<Rightarrow> bool" where
  "application_family dim checks family =
     list_ex (\<lambda>check. (spec_Operation check = OperationHTTP \<or> spec_Operation check = OperationSSHBanner) \<and>
        spec_Dimension check = dim \<and> spec_Family check = family) checks"

definition validateChecks :: "libs \<Rightarrow> Family list \<Rightarrow> CheckSpec list \<Rightarrow> string option" where
  "validateChecks lib families checks =
     (if \<not> families_ok [] families then Some ''deploy required families must contain unique IPv4 or IPv6 values''
      else if families = [] then Some ''deploy manifest requires configured IP families''
      else if checks = [] then Some ''deploy manifest requires active and restored application checks''
      else case checks_error lib [] checks of
             Some err \<Rightarrow> Some err
           | None \<Rightarrow>
               if list_all (\<lambda>family. application_family DimensionInboundApplication checks family \<and>
                                     application_family DimensionDownstreamApplication checks family) families
               then None
               else Some ''deploy checks require inbound and downstream application responses'')"

fun check_ids_ok :: "CheckSpec list \<Rightarrow> string list \<Rightarrow> string list \<Rightarrow> bool" where
  "check_ids_ok checks seen [] = True"
| "check_ids_ok checks seen (cid # rest) =
     (case find (\<lambda>check. spec_ID check = cid) (rev checks) of
        None \<Rightarrow> False
      | Some check \<Rightarrow>
          if cid \<in> set seen \<or> spec_Dimension check \<noteq> DimensionInboundApplication then False
          else check_ids_ok checks (cid # seen) rest)"

fun interruptions_error :: "CheckSpec list \<Rightarrow> string list \<Rightarrow> ExpectedInterruption list \<Rightarrow> string option" where
  "interruptions_error checks phases [] = None"
| "interruptions_error checks phases (i # rest) =
     (if trim_space (int_Phase i) = [] \<or> int_Phase i \<in> set phases \<or> int_MaxSeconds i \<le> 0 \<or> int_CheckIDs i = []
      then Some ''expected interruptions require unique nonempty phases, positive bounds and check IDs''
      else if \<not> check_ids_ok checks [] (int_CheckIDs i)
      then Some ''expected interruption check must identify a unique required inbound application check''
      else interruptions_error checks (int_Phase i # phases) rest)"

definition manifest_validate :: "libs \<Rightarrow> 'a Manifest_scheme \<Rightarrow> string option" where
  "manifest_validate lib m =
     (if \<not> validName (OperationID m) \<or> \<not> validName (Generation m) \<or> \<not> validName (Snapshot m)
      then Some ''deploy manifest requires exact operation, generation and snapshot identities''
      else if \<not> has_suffix (WatchUnit m) ''.service'' \<or> \<not> validName (trim_suffix (WatchUnit m) ''.service'')
      then Some ''deploy watch requires an exact systemd service unit''
      else if PollSeconds m \<le> 0 \<or> ObservationTimeoutSeconds m \<le> 0 \<or> RecoveryTimeoutSeconds m \<le> 0 \<or>
              FailureThreshold m \<le> 0 \<or> Deadline m = zero_time
      then Some ''deploy manifest requires positive polling, observation, recovery and failure limits''
      else case identity_validate lib (Baseline m) of
        Some err \<Rightarrow> Some err
      | None \<Rightarrow>
      (case identity_validate lib (Target m) of
        Some err \<Rightarrow> Some err
      | None \<Rightarrow>
          if MachineID (Target m) \<noteq> MachineID (Baseline m)
          then Some ''deploy target machine must match the baseline machine''
          else if \<not> list_all is_abs [Executable (ManifestPaths m), NetworkPath (ManifestPaths m),
                     Runtime (ManifestPaths m), MachineIDPath m, ProbeBinary m]
          then Some ''deploy manifest requires absolute identity and observation paths''
          else case first_error (validateChecks lib (RequiredFamilies m)) [RequiredChecks m, RestoredRequiredChecks m] of
                 Some err \<Rightarrow> Some err
               | None \<Rightarrow> interruptions_error (RequiredChecks m) [] (ExpectedInterruptions m)))"

definition record_validate :: "libs \<Rightarrow> Record \<Rightarrow> string option" where
  "record_validate lib r =
     (case manifest_validate lib r of
        Some err \<Rightarrow> Some err
      | None \<Rightarrow>
          if \<not> validName (OperationID r) \<or> \<not> validName (Generation r) \<or> \<not> validName (Snapshot r) \<or>
             Deadline r = zero_time \<or> UpdatedAt r = zero_time
          then Some ''deploy operation identity, snapshot and timestamps are required''
          else if (case parse_int (VMID r) of ParseOk vmid \<Rightarrow> vmid \<le> 0 | _ \<Rightarrow> True)
          then Some ''deploy operation VMID must be positive''
          else case identity_validate lib (Baseline r) of
            Some err \<Rightarrow> Some err
          | None \<Rightarrow>
              if RecStatus r = Recovered \<and> RestoredIdentity r = None
              then Some ''recovered deploy operation requires actual restored identity''
              else case (if RecStatus r = Recovered then verifyRestored lib (the (RestoredIdentity r)) (Baseline r)
                         else None) of
                Some err \<Rightarrow> Some err
              | None \<Rightarrow>
                  if RecStatus r \<notin> {Armed, Recovering, Recovered, RecoveryFailed, Committed, Disarmed}
                  then Some ''deploy operation status is invalid''
                  else case RecLease r of
                    None \<Rightarrow> None
                  | Some lease \<Rightarrow>
                      if lease_ID lease = [] \<or> lease_Phase lease = [] \<or> ExpiresAt lease = zero_time \<or>
                         Deadline r < ExpiresAt lease
                      then Some ''deploy operation lease is invalid'' else None)"

section \<open>Decisions on a record\<close>

definition checksPassed :: "libs \<Rightarrow> CheckSpec list \<Rightarrow> Result list \<Rightarrow> gotime \<Rightarrow> bool" where
  "checksPassed lib checks results now =
     (if checks = [] \<or> length checks \<noteq> length results then False
      else list_all (\<lambda>(check, result). RequiredPassed (url_parse lib) check result now) (zip checks results))"

definition MutationReady :: "libs \<Rightarrow> Record \<Rightarrow> gotime \<Rightarrow> bool" where
  "MutationReady lib r now =
     (if RecStatus r \<noteq> Armed \<or> PID (Watch r) = 0 \<or> \<not> now < Deadline r then False
      else checksPassed lib (RequiredChecks r) (Results r) now)"

definition expectedInterruptionIDs :: "Record \<Rightarrow> Record \<Rightarrow> gotime \<Rightarrow> string list" where
  "expectedInterruptionIDs previous current now =
     (case (RecLease current, RecLease previous) of
        (Some lease, Some before) \<Rightarrow>
          if lease_ID lease = lease_ID before \<and> lease_Phase lease = lease_Phase before \<and>
             StartedAt lease \<noteq> zero_time \<and> StartedAt lease \<le> now \<and> now < ExpiresAt lease
          then (case find (\<lambda>i. int_Phase i = lease_Phase lease \<and> now < StartedAt lease + seconds (int_MaxSeconds i))
                       (ExpectedInterruptions current) of
                  None \<Rightarrow> []
                | Some i \<Rightarrow> int_CheckIDs i)
          else []
      | _ \<Rightarrow> [])"

definition interruptedObservationFresh :: "CheckSpec \<Rightarrow> Result \<Rightarrow> gotime \<Rightarrow> gotime \<Rightarrow> bool" where
  "interruptedObservationFresh check result startedAt now =
     (if spec_Dimension check \<noteq> DimensionInboundApplication \<or> res_CheckID result \<noteq> spec_ID check \<or>
         res_Dimension result \<noteq> spec_Dimension check \<or> res_Operation result \<noteq> spec_Operation check \<or>
         res_Target result \<noteq> spec_Target check \<or> res_PublicIPPolicy result \<noteq> spec_PublicIPPolicy check \<or>
         res_Family result \<noteq> spec_Family check \<or> res_Observer result \<noteq> spec_Observer check \<or>
         res_Availability result \<noteq> AvailabilityComplete \<or> res_Outcome result \<noteq> OutcomeFail \<or>
         res_ObservedAt result = zero_time \<or> res_ObservedAt result < startedAt \<or> now < res_ObservedAt result
      then False
      else now - res_ObservedAt result \<le> seconds (spec_MaxAgeSeconds check))"

text \<open>An exempt check has a lease, because only a lease gives exemptions.\<close>

definition watchObservationsAllowed ::
    "libs \<Rightarrow> Record \<Rightarrow> Record \<Rightarrow> Result list \<Rightarrow> gotime \<Rightarrow> bool" where
  "watchObservationsAllowed lib previous current results now =
     (if RecStatus current \<noteq> Armed \<or> \<not> now < Deadline current \<or> length results \<noteq> length (RequiredChecks current)
      then False
      else let exemptIDs = expectedInterruptionIDs previous current now in
        list_all (\<lambda>(check, result).
          RequiredPassed (url_parse lib) check result now \<or>
          (spec_ID check \<in> set exemptIDs \<and>
           (case RecLease current of
              None \<Rightarrow> False
            | Some lease \<Rightarrow> interruptedObservationFresh check result (StartedAt lease) now)))
          (zip (RequiredChecks current) results))"

definition observedAfter :: "Result list \<Rightarrow> gotime \<Rightarrow> bool" where
  "observedAfter results start =
     (if results = [] then False else list_all (\<lambda>result. start < res_ObservedAt result) results)"

definition snapshotExists :: "string \<Rightarrow> string \<Rightarrow> bool" where
  "snapshotExists output name =
     list_ex (\<lambda>line. case string_fields (trim_left tree_char line) of [] \<Rightarrow> False | f # _ \<Rightarrow> f = name)
       (split_at newline output)"

end
