(* ===== verification/Notify.thy ===== *)
theory Notify
  imports GoStrings
begin

text \<open>
  The package \<^verbatim>\<open>internal/notify\<close>: the manager that every alert leaves through. It keeps
  one \<open>alertState\<close> per kind and key, emits an alert on a transition or when the
  repeat cadence has elapsed, and emits the recovery line of an open alert. \<open>journal\<close> is
  the slog output and \<open>mails\<close> the records handed to the mail transport, both newest
  first; message bodies and attributes other than the transition and resolved flags are not
  modelled. Each method holds the mutex for its whole body.
\<close>

type_synonym level = int

definition LevelInfo :: level where "LevelInfo = 0"
definition LevelWarn :: level where "LevelWarn = 4"
definition LevelError :: level where "LevelError = 8"

lemmas level_defs = LevelInfo_def LevelWarn_def LevelError_def

record event =
  Now :: gotime
  Level :: level
  Kind :: string
  Key :: string
  Message :: string
  IsRecovery :: bool

record alertState =
  active :: bool
  lastEmit :: gotime
  lastLevel :: level

record emission =
  em_level :: level
  em_kind :: string
  em_key :: string
  em_msg :: string
  em_transition :: bool
  em_resolved :: bool

record manager =
  RepeatEvery :: duration
  PerKind :: "string \<rightharpoonup> duration"
  sink :: "level option"
  alerts :: "string \<rightharpoonup> alertState"
  journal :: "emission list"
  mails :: "emission list"

definition newManager :: "duration \<Rightarrow> (string \<rightharpoonup> duration) \<Rightarrow> level option \<Rightarrow> manager" where
  "newManager repeat perKind snk =
     \<lparr>RepeatEvery = repeat, PerKind = perKind, sink = snk, alerts = Map.empty, journal = [], mails = []\<rparr>"

definition alert_id :: "string \<Rightarrow> string \<Rightarrow> string" where
  "alert_id kind key = kind @ ''|'' @ key"

text \<open>The email sink drops records below its minimum level.\<close>

definition sink_send :: "level \<Rightarrow> emission \<Rightarrow> emission list \<Rightarrow> emission list" where
  "sink_send minLevel e sent = (if em_level e < minLevel then sent else e # sent)"

definition emit :: "level \<Rightarrow> string \<Rightarrow> string \<Rightarrow> string \<Rightarrow> bool \<Rightarrow> bool \<Rightarrow> manager \<Rightarrow> manager" where
  "emit lvl kind key msg transition resolved m =
     (let e = \<lparr>em_level = lvl, em_kind = kind, em_key = key, em_msg = msg,
               em_transition = transition, em_resolved = resolved\<rparr>;
          m1 = m\<lparr>journal := e # journal m\<rparr>
      in case sink m1 of None \<Rightarrow> m1 | Some minLevel \<Rightarrow> m1\<lparr>mails := sink_send minLevel e (mails m1)\<rparr>)"

definition zero_alertState :: alertState where
  "zero_alertState = \<lparr>active = False, lastEmit = zero_time, lastLevel = 0\<rparr>"

definition repeat_every :: "manager \<Rightarrow> string \<Rightarrow> duration" where
  "repeat_every m kind = (case PerKind m kind of Some d \<Rightarrow> d | None \<Rightarrow> RepeatEvery m)"

definition notifyAt :: "gotime \<Rightarrow> level \<Rightarrow> string \<Rightarrow> string \<Rightarrow> string \<Rightarrow> manager \<Rightarrow> manager" where
  "notifyAt now lvl kind key msg m =
     (let aid = alert_id kind key;
          exists = (alerts m aid \<noteq> None);
          st = (case alerts m aid of None \<Rightarrow> zero_alertState | Some st \<Rightarrow> st);
          repeatEvery = repeat_every m kind;
          transition = (\<not> exists \<or> \<not> active st);
          shouldEmit = (transition \<or> (0 < repeatEvery \<and> repeatEvery \<le> now - lastEmit st));
          st1 = st\<lparr>active := True\<rparr>;
          st2 = (if shouldEmit then st1\<lparr>lastEmit := now, lastLevel := lvl\<rparr> else st1);
          m1 = (if shouldEmit then emit lvl kind key msg transition False m else m)
      in m1\<lparr>alerts := (alerts m1)(aid \<mapsto> st2)\<rparr>)"

definition resolveAt :: "gotime \<Rightarrow> string \<Rightarrow> string \<Rightarrow> string \<Rightarrow> manager \<Rightarrow> manager" where
  "resolveAt now kind key msg m =
     (let aid = alert_id kind key in
      case alerts m aid of
        None \<Rightarrow> m
      | Some st \<Rightarrow>
          if \<not> active st then m
          else let st1 = st\<lparr>active := False, lastEmit := now\<rparr>;
                   m1 = m\<lparr>alerts := (alerts m)(aid \<mapsto> st1)\<rparr>;
                   lvl = (if lastLevel st1 = 0 then LevelWarn else lastLevel st1);
                   msg1 = (if has_prefix msg ''RECOVERED:'' then msg else ''RECOVERED: '' @ msg)
               in emit lvl kind key msg1 False True m1)"

text \<open>The clock reading is an argument: \<^verbatim>\<open>Notify\<close> uses it only when the event has no time.\<close>

definition Manager_Notify :: "gotime \<Rightarrow> event \<Rightarrow> manager \<Rightarrow> manager" where
  "Manager_Notify clock_now ev m =
     (let now = (if Now ev = zero_time then clock_now else Now ev) in
      if IsRecovery ev then resolveAt now (Kind ev) (Key ev) (Message ev) m
      else notifyAt now (Level ev) (Kind ev) (Key ev) (Message ev) m)"

definition Manager_Resolve :: "gotime \<Rightarrow> string \<Rightarrow> string \<Rightarrow> string \<Rightarrow> manager \<Rightarrow> manager" where
  "Manager_Resolve clock_now kind key msg m = resolveAt clock_now kind key msg m"

definition Manager_Active :: "string \<Rightarrow> string \<Rightarrow> manager \<Rightarrow> bool" where
  "Manager_Active kind key m = (case alerts m (alert_id kind key) of None \<Rightarrow> False | Some st \<Rightarrow> active st)"

text \<open>The \<^verbatim>\<open>Notifier\<close> interface with its two implementations.\<close>

datatype notifier = NullNotifier | ManagerNotifier manager

fun Notify :: "gotime \<Rightarrow> event \<Rightarrow> notifier \<Rightarrow> notifier" where
  "Notify clock_now ev NullNotifier = NullNotifier"
| "Notify clock_now ev (ManagerNotifier m) = ManagerNotifier (Manager_Notify clock_now ev m)"

fun Resolve :: "gotime \<Rightarrow> string \<Rightarrow> string \<Rightarrow> string \<Rightarrow> notifier \<Rightarrow> notifier" where
  "Resolve clock_now kind key msg NullNotifier = NullNotifier"
| "Resolve clock_now kind key msg (ManagerNotifier m) = ManagerNotifier (Manager_Resolve clock_now kind key msg m)"

fun Active :: "string \<Rightarrow> string \<Rightarrow> notifier \<Rightarrow> bool" where
  "Active kind key NullNotifier = False"
| "Active kind key (ManagerNotifier m) = Manager_Active kind key m"

section \<open>Invariant: the journal and the alert states agree\<close>

lemma emit_fields [simp]:
  "alerts (emit lvl kind key msg tr re m) = alerts m"
  "RepeatEvery (emit lvl kind key msg tr re m) = RepeatEvery m"
  "PerKind (emit lvl kind key msg tr re m) = PerKind m"
  "sink (emit lvl kind key msg tr re m) = sink m"
  "journal (emit lvl kind key msg tr re m) =
     \<lparr>em_level = lvl, em_kind = kind, em_key = key, em_msg = msg,
      em_transition = tr, em_resolved = re\<rparr> # journal m"
  by (simp_all add: emit_def Let_def split: option.split)

definition em_id :: "emission \<Rightarrow> string" where
  "em_id e = alert_id (em_kind e) (em_key e)"

definition journal_of :: "string \<Rightarrow> manager \<Rightarrow> emission list" where
  "journal_of aid m = filter (\<lambda>e. em_id e = aid) (journal m)"

text \<open>
  The records of one alert, newest first, are well formed when every recovery line follows
  an open alert and takes its level, with warning for an alert raised at level 0.
\<close>

fun recoveries_close :: "emission list \<Rightarrow> bool" where
  "recoveries_close [] = True"
| "recoveries_close (e # es) =
     (recoveries_close es \<and>
      (em_resolved e \<longrightarrow>
         es \<noteq> [] \<and> \<not> em_resolved (hd es) \<and>
         em_level e = (if em_level (hd es) = 0 then LevelWarn else em_level (hd es))))"

text \<open>An alert line opens an alert exactly when it is marked as a transition.\<close>

fun transitions_open :: "emission list \<Rightarrow> bool" where
  "transitions_open [] = True"
| "transitions_open (e # es) =
     (transitions_open es \<and>
      (\<not> em_resolved e \<longrightarrow> em_transition e = (es = [] \<or> em_resolved (hd es))))"

fun entry_ok :: "alertState option \<Rightarrow> emission list \<Rightarrow> bool" where
  "entry_ok None js = (js = [])"
| "entry_ok (Some st) js =
     (js \<noteq> [] \<and> active st = (\<not> em_resolved (hd js)) \<and>
      (active st \<longrightarrow> lastLevel st = em_level (hd js)) \<and>
      recoveries_close js \<and> transitions_open js)"

definition manager_inv :: "manager \<Rightarrow> bool" where
  "manager_inv m \<longleftrightarrow> (\<forall>aid. entry_ok (alerts m aid) (journal_of aid m))"

lemma manager_inv_new: "manager_inv (newManager r p s)"
  by (simp add: manager_inv_def newManager_def journal_of_def)

lemma manager_inv_journal:
  "manager_inv m \<Longrightarrow> recoveries_close (journal_of aid m) \<and> transitions_open (journal_of aid m)"
  by (cases "alerts m aid") (auto simp: manager_inv_def dest!: spec [of _ aid])

lemma journal_of_upd [simp]: "journal_of aid (m\<lparr>alerts := a\<rparr>) = journal_of aid m"
  by (simp add: journal_of_def)

lemma journal_of_emit [simp]:
  "journal_of aid (emit lvl kind key msg tr re m) =
     (if alert_id kind key = aid
      then \<lparr>em_level = lvl, em_kind = kind, em_key = key, em_msg = msg,
            em_transition = tr, em_resolved = re\<rparr> # journal_of aid m
      else journal_of aid m)"
  by (simp add: journal_of_def em_id_def)

lemma notifyAt_other:
  assumes "aid \<noteq> alert_id kind key"
  shows "alerts (notifyAt now lvl kind key msg m) aid = alerts m aid"
    and "journal_of aid (notifyAt now lvl kind key msg m) = journal_of aid m"
  using assms by (simp_all add: notifyAt_def Let_def)

lemma resolveAt_other:
  assumes "aid \<noteq> alert_id kind key"
  shows "alerts (resolveAt now kind key msg m) aid = alerts m aid"
    and "journal_of aid (resolveAt now kind key msg m) = journal_of aid m"
  using assms by (simp_all add: resolveAt_def Let_def split: option.split)

lemma notifyAt_own:
  assumes "entry_ok (alerts m (alert_id kind key)) (journal_of (alert_id kind key) m)"
  shows "entry_ok (alerts (notifyAt now lvl kind key msg m) (alert_id kind key))
           (journal_of (alert_id kind key) (notifyAt now lvl kind key msg m))"
proof (cases "alerts m (alert_id kind key)")
  case None
  with assms show ?thesis
    by (simp add: notifyAt_def Let_def zero_alertState_def)
next
  case (Some st)
  with assms show ?thesis
    by (cases "active st") (simp_all add: notifyAt_def Let_def)
qed

lemma resolveAt_own:
  assumes "entry_ok (alerts m (alert_id kind key)) (journal_of (alert_id kind key) m)"
  shows "entry_ok (alerts (resolveAt now kind key msg m) (alert_id kind key))
           (journal_of (alert_id kind key) (resolveAt now kind key msg m))"
proof (cases "alerts m (alert_id kind key)")
  case None
  with assms show ?thesis
    by (simp add: resolveAt_def Let_def)
next
  case (Some st)
  with assms show ?thesis
    by (cases "active st") (simp_all add: resolveAt_def Let_def)
qed

lemma notifyAt_inv: "manager_inv m \<Longrightarrow> manager_inv (notifyAt now lvl kind key msg m)"
  unfolding manager_inv_def by (metis notifyAt_other notifyAt_own)

lemma resolveAt_inv: "manager_inv m \<Longrightarrow> manager_inv (resolveAt now kind key msg m)"
  unfolding manager_inv_def by (metis resolveAt_other resolveAt_own)

section \<open>Requests in sequence\<close>

datatype request =
    ReqNotify gotime event
  | ReqResolve gotime string string string

fun serve :: "request \<Rightarrow> manager \<Rightarrow> manager" where
  "serve (ReqNotify t ev) m = Manager_Notify t ev m"
| "serve (ReqResolve t kind key msg) m = Manager_Resolve t kind key msg m"

fun request_id :: "request \<Rightarrow> string" where
  "request_id (ReqNotify t ev) = alert_id (Kind ev) (Key ev)"
| "request_id (ReqResolve t kind key msg) = alert_id kind key"

fun raises :: "request \<Rightarrow> bool" where
  "raises (ReqNotify t ev) = (\<not> IsRecovery ev)"
| "raises (ReqResolve t kind key msg) = False"

lemma serve_inv: "manager_inv m \<Longrightarrow> manager_inv (serve r m)"
  by (cases r) (simp_all add: Manager_Notify_def Manager_Resolve_def Let_def notifyAt_inv resolveAt_inv)

lemma fold_serve_inv: "manager_inv m \<Longrightarrow> manager_inv (fold serve rs m)"
  by (induction rs arbitrary: m) (simp_all add: serve_inv)

definition open_alert :: "string \<Rightarrow> manager \<Rightarrow> bool" where
  "open_alert aid m = (case alerts m aid of None \<Rightarrow> False | Some st \<Rightarrow> active st)"

subsection \<open>The contract of an alert book\<close>

text \<open>
  What the callers of the notifier rely on: raising an alert opens it, resolving closes it
  and no request touches another alert.
\<close>

locale alert_book =
  fixes serve_req :: "'r \<Rightarrow> 'm \<Rightarrow> 'm"
    and req_id :: "'r \<Rightarrow> 'k"
    and req_raises :: "'r \<Rightarrow> bool"
    and is_open :: "'k \<Rightarrow> 'm \<Rightarrow> bool"
  assumes open_serve: "is_open k (serve_req r m) = (if req_id r = k then req_raises r else is_open k m)"
begin

lemma open_after:
  "is_open k (fold serve_req rs m) =
     (case filter (\<lambda>r. req_id r = k) rs of [] \<Rightarrow> is_open k m | _ \<Rightarrow> req_raises (last (filter (\<lambda>r. req_id r = k) rs)))"
  by (induction rs arbitrary: m) (auto simp: open_serve split: list.split)

end

interpretation notify_book: alert_book serve request_id raises open_alert
proof
  fix k r m
  show "open_alert k (serve r m) = (if request_id r = k then raises r else open_alert k m)"
    by (cases r)
       (auto simp: open_alert_def Manager_Notify_def Manager_Resolve_def notifyAt_def resolveAt_def Let_def
         split: option.split)
qed

section \<open>Properties\<close>


lemma notify_repeat_silent:
  assumes "Manager_Active kind key m" and "repeat_every m kind \<le> 0" and "\<not> IsRecovery ev"
    and "Kind ev = kind" and "Key ev = key"
  shows "journal (Manager_Notify t ev m) = journal m" "mails (Manager_Notify t ev m) = mails m"
    "Manager_Active kind key (Manager_Notify t ev m)" "repeat_every (Manager_Notify t ev m) kind = repeat_every m kind"
  using assms
  by (auto simp: Manager_Active_def Manager_Notify_def notifyAt_def repeat_every_def Let_def split: option.splits)

text \<open>
  C26: The notifier suppresses repeats: with no repeat cadence for the kind, any number of further
  notify requests for an alert that is open, at any times, levels and messages, writes no line to
  the journal and sends no mail, and the alert stays open.
\<close>

theorem notify_no_repeat_without_cadence:
  assumes "Manager_Active kind key m" and "repeat_every m kind \<le> 0"
    and "\<forall>(t, ev) \<in> set evs. \<not> IsRecovery ev \<and> Kind ev = kind \<and> Key ev = key"
  shows "journal (fold (\<lambda>(t, ev). Manager_Notify t ev) evs m) = journal m \<and>
         mails (fold (\<lambda>(t, ev). Manager_Notify t ev) evs m) = mails m \<and>
         Manager_Active kind key (fold (\<lambda>(t, ev). Manager_Notify t ev) evs m)"
  using assms
proof (induction evs arbitrary: m)
  case (Cons e evs)
  obtain t ev where e: "e = (t, ev)"
    by fastforce
  have ev: "\<not> IsRecovery ev" "Kind ev = kind" "Key ev = key"
    using Cons.prems(3) by (simp_all add: e)
  note silent = notify_repeat_silent [OF Cons.prems(1,2) ev, of t]
  have "repeat_every (Manager_Notify t ev m) kind \<le> 0"
    using Cons.prems(2) silent(4) by simp
  from Cons.IH [OF silent(3) this] Cons.prems(3) silent(1,2) show ?case
    by (simp add: e)
qed simp

definition sample_event :: event where
  "sample_event = \<lparr>Now = 0, Level = LevelWarn, Kind = ''guest-locked'', Key = ''113'', Message = ''locked'',
     IsRecovery = False\<rparr>"

theorem notify_no_repeat_without_cadence_witness:
  "journal (fold (\<lambda>(t, ev). Manager_Notify t ev) [(7, sample_event), (9, sample_event)]
       (Manager_Notify 5 sample_event (newManager 0 Map.empty None))) =
   journal (Manager_Notify 5 sample_event (newManager 0 Map.empty None))"
  using notify_no_repeat_without_cadence
    [of "''guest-locked''" "''113''" "Manager_Notify 5 sample_event (newManager 0 Map.empty None)"
       "[(7, sample_event), (9, sample_event)]"]
  by (simp add: sample_event_def Manager_Active_def Manager_Notify_def notifyAt_def newManager_def
      repeat_every_def Let_def zero_alertState_def emit_def alert_id_def level_defs sink_send_def)

end
