(* ===== verification/World.thy ===== *)
theory World
  imports DeployRecord Notify
begin

text \<open>
  The outside of the hypervisor process. \<open>'s sysops\<close> is the interface \<^verbatim>\<open>ops.SysOps\<close>, one field
  per method, over a state \<open>'s\<close>. \<open>env\<close> answers every interaction with the outside: the
  hypervisor and the guest, the clock, the outcome of file operations and of lock acquisition,
  how much of a failed write reached its file, sleeping, cancellation and signals, systemd, probes,
  the status that the gateway pushes, and what other processes do to the operation
  record. An answer is a function of the number of interactions so far (\<open>tick\<close>) and of the
  arguments, so an \<open>env\<close> is an arbitrary outside behaviour and every property that holds for
  all of them holds for all such behaviours, failures included. \<open>trace\<close> records the calls with
  their replies, newest first.
\<close>

section \<open>Replies and events\<close>

record guest_result =
  ExitCode :: int
  Stdout :: string
  Stderr :: string

record bgp_status =
  AllEstablished :: bool
  Announcing :: bool
  AnnouncingIpv4 :: bool
  AnnouncingIpv6 :: bool

record config_state =
  ConfigHash :: string
  ConfigManifest :: string
  LastDeployEpoch :: int

text \<open>The provider verdict that the gateway pushes, \<^verbatim>\<open>statuspush.Status\<close>.\<close>

record push_status =
  SentAt :: gotime
  ActiveTier :: int
  Providers :: "(string \<times> string) list"

datatype sysevent =
    EvVMStatus string "string + bool"
  | EvVMStart string "string + unit"
  | EvVMStop string "string + unit"
  | EvVMSnapshots string "string + string"
  | EvVMSnapshot string string "string + unit"
  | EvVMDelSnapshot string string "string + unit"
  | EvVMDelSnapshotForce string string "string + unit"
  | EvVMRollback string string "string + unit"
  | EvGuestExec string "string list" "string + guest_result"
  | EvPing string string bool
  | EvGetConfigState string "string + (config_state \<times> string)"
  | EvGetBGPStatus string "string + bgp_status option"
  | EvAnnounceRoutes string "string + unit"
  | EvWithdrawRoutes string "string + unit"
  | EvVMLock string "string + string"
  | EvVMUnlock string "string + unit"
  | EvVMHasRunningTask string "string + bool"
  | EvVMFSFreezeStatus string "string + string"
  | EvVMFSFreezeThaw string "string + unit"
  | EvWriteRecord Record
  | EvArchiveRecord Record

record 's sysops =
  VMStatus :: "string \<Rightarrow> ('s, string + bool) state"
  VMStart :: "string \<Rightarrow> ('s, string + unit) state"
  VMStop :: "string \<Rightarrow> ('s, string + unit) state"
  VMSnapshots :: "string \<Rightarrow> ('s, string + string) state"
  VMSnapshot :: "string \<Rightarrow> string \<Rightarrow> ('s, string + unit) state"
  VMDelSnapshot :: "string \<Rightarrow> string \<Rightarrow> ('s, string + unit) state"
  VMDelSnapshotForce :: "string \<Rightarrow> string \<Rightarrow> ('s, string + unit) state"
  VMRollback :: "string \<Rightarrow> string \<Rightarrow> ('s, string + unit) state"
  GuestExec :: "string \<Rightarrow> string list \<Rightarrow> ('s, string + guest_result) state"
  Ping :: "string \<Rightarrow> string \<Rightarrow> ('s, bool) state"
  GetConfigState :: "string \<Rightarrow> ('s, string + (config_state \<times> string)) state"
  GetBGPStatus :: "string \<Rightarrow> ('s, string + bgp_status option) state"
  AnnounceRoutes :: "string \<Rightarrow> ('s, string + unit) state"
  WithdrawRoutes :: "string \<Rightarrow> ('s, string + unit) state"
  VMLock :: "string \<Rightarrow> ('s, string + string) state"
  VMUnlock :: "string \<Rightarrow> ('s, string + unit) state"
  VMHasRunningTask :: "string \<Rightarrow> ('s, string + bool) state"
  VMFSFreezeStatus :: "string \<Rightarrow> ('s, string + string) state"
  VMFSFreezeThaw :: "string \<Rightarrow> ('s, string + unit) state"

text \<open>The operation file holds a record or something that does not decode to one.\<close>

datatype op_content = OpMalformed | OpRecord Record

record world =
  tick :: nat
  trace :: "sysevent list"
  ntf :: notifier
  op_file :: "op_content option"

section \<open>The environment\<close>

record env =
  o_now :: "nat \<Rightarrow> gotime"
  o_io :: "nat \<Rightarrow> bool"
  o_partial :: "nat \<Rightarrow> nat option"
  o_signal :: "nat \<Rightarrow> bool"
  o_status :: "nat \<Rightarrow> (push_status \<times> gotime) option"
  o_done :: "nat \<Rightarrow> bool"
  o_sleep :: "nat \<Rightarrow> bool"
  o_acquire :: "nat \<Rightarrow> string option"
  o_watch :: "nat \<Rightarrow> string \<Rightarrow> string + WatchIdentity"
  o_interfere :: "nat \<Rightarrow> op_content option \<Rightarrow> op_content option"
  o_start_watch :: "nat \<Rightarrow> string option"
  o_lease_id :: "nat \<Rightarrow> string"
  o_check :: "nat \<Rightarrow> CheckSpec \<Rightarrow> Result"
  h_VMStatus :: "nat \<Rightarrow> string \<Rightarrow> string + bool"
  h_VMStart :: "nat \<Rightarrow> string \<Rightarrow> string + unit"
  h_VMStop :: "nat \<Rightarrow> string \<Rightarrow> string + unit"
  h_VMSnapshots :: "nat \<Rightarrow> string \<Rightarrow> string + string"
  h_VMSnapshot :: "nat \<Rightarrow> string \<Rightarrow> string \<Rightarrow> string + unit"
  h_VMDelSnapshot :: "nat \<Rightarrow> string \<Rightarrow> string \<Rightarrow> string + unit"
  h_VMDelSnapshotForce :: "nat \<Rightarrow> string \<Rightarrow> string \<Rightarrow> string + unit"
  h_VMRollback :: "nat \<Rightarrow> string \<Rightarrow> string \<Rightarrow> string + unit"
  h_GuestExec :: "nat \<Rightarrow> string \<Rightarrow> string list \<Rightarrow> string + guest_result"
  h_Ping :: "nat \<Rightarrow> string \<Rightarrow> string \<Rightarrow> bool"
  h_GetConfigState :: "nat \<Rightarrow> string \<Rightarrow> string + (config_state \<times> string)"
  h_GetBGPStatus :: "nat \<Rightarrow> string \<Rightarrow> string + bgp_status option"
  h_AnnounceRoutes :: "nat \<Rightarrow> string \<Rightarrow> string + unit"
  h_WithdrawRoutes :: "nat \<Rightarrow> string \<Rightarrow> string + unit"
  h_VMLock :: "nat \<Rightarrow> string \<Rightarrow> string + string"
  h_VMUnlock :: "nat \<Rightarrow> string \<Rightarrow> string + unit"
  h_VMHasRunningTask :: "nat \<Rightarrow> string \<Rightarrow> string + bool"
  h_VMFSFreezeStatus :: "nat \<Rightarrow> string \<Rightarrow> string + string"
  h_VMFSFreezeThaw :: "nat \<Rightarrow> string \<Rightarrow> string + unit"

definition next_tick :: "('a world_scheme, nat) state" where
  "next_tick = do { n \<leftarrow> gets tick; modify (tick_update Suc); returnM n }"

definition ask :: "(nat \<Rightarrow> 'r) \<Rightarrow> ('a world_scheme, 'r) state" where
  "ask f = do { n \<leftarrow> next_tick; returnM (f n) }"

definition log_event :: "sysevent \<Rightarrow> ('a world_scheme, unit) state" where
  "log_event e = modify (trace_update (\<lambda>es. e # es))"

text \<open>A call of the outside: ask for the reply, record the call with it.\<close>

definition host_call :: "(nat \<Rightarrow> 'r) \<Rightarrow> ('r \<Rightarrow> sysevent) \<Rightarrow> ('a world_scheme, 'r) state" where
  "host_call f ev = do { r \<leftarrow> ask f; log_event (ev r); returnM r }"

definition now_op :: "env \<Rightarrow> ('a world_scheme, gotime) state" where
  "now_op env = ask (o_now env)"

definition io_op :: "env \<Rightarrow> ('a world_scheme, bool) state" where
  "io_op env = ask (o_io env)"

text \<open>The hypervisor operations of the host.\<close>

definition host_ops :: "env \<Rightarrow> 'a world_scheme sysops" where
  "host_ops env =
     \<lparr>VMStatus = (\<lambda>v. host_call (\<lambda>n. h_VMStatus env n v) (EvVMStatus v)),
      VMStart = (\<lambda>v. host_call (\<lambda>n. h_VMStart env n v) (EvVMStart v)),
      VMStop = (\<lambda>v. host_call (\<lambda>n. h_VMStop env n v) (EvVMStop v)),
      VMSnapshots = (\<lambda>v. host_call (\<lambda>n. h_VMSnapshots env n v) (EvVMSnapshots v)),
      VMSnapshot = (\<lambda>v s. host_call (\<lambda>n. h_VMSnapshot env n v s) (EvVMSnapshot v s)),
      VMDelSnapshot = (\<lambda>v s. host_call (\<lambda>n. h_VMDelSnapshot env n v s) (EvVMDelSnapshot v s)),
      VMDelSnapshotForce = (\<lambda>v s. host_call (\<lambda>n. h_VMDelSnapshotForce env n v s) (EvVMDelSnapshotForce v s)),
      VMRollback = (\<lambda>v s. host_call (\<lambda>n. h_VMRollback env n v s) (EvVMRollback v s)),
      GuestExec = (\<lambda>v args. host_call (\<lambda>n. h_GuestExec env n v args) (EvGuestExec v args)),
      Ping = (\<lambda>b t. host_call (\<lambda>n. h_Ping env n b t) (EvPing b t)),
      GetConfigState = (\<lambda>v. host_call (\<lambda>n. h_GetConfigState env n v) (EvGetConfigState v)),
      GetBGPStatus = (\<lambda>v. host_call (\<lambda>n. h_GetBGPStatus env n v) (EvGetBGPStatus v)),
      AnnounceRoutes = (\<lambda>v. host_call (\<lambda>n. h_AnnounceRoutes env n v) (EvAnnounceRoutes v)),
      WithdrawRoutes = (\<lambda>v. host_call (\<lambda>n. h_WithdrawRoutes env n v) (EvWithdrawRoutes v)),
      VMLock = (\<lambda>v. host_call (\<lambda>n. h_VMLock env n v) (EvVMLock v)),
      VMUnlock = (\<lambda>v. host_call (\<lambda>n. h_VMUnlock env n v) (EvVMUnlock v)),
      VMHasRunningTask = (\<lambda>v. host_call (\<lambda>n. h_VMHasRunningTask env n v) (EvVMHasRunningTask v)),
      VMFSFreezeStatus = (\<lambda>v. host_call (\<lambda>n. h_VMFSFreezeStatus env n v) (EvVMFSFreezeStatus v)),
      VMFSFreezeThaw = (\<lambda>v. host_call (\<lambda>n. h_VMFSFreezeThaw env n v) (EvVMFSFreezeThaw v))\<rparr>"

text \<open>Raising and resolving an alert through the notifier of the process.\<close>

definition raise_alert :: "env \<Rightarrow> event \<Rightarrow> ('a world_scheme, unit) state" where
  "raise_alert env ev = do { t \<leftarrow> now_op env; modify (ntf_update (Notify t ev)) }"

definition resolve_alert :: "env \<Rightarrow> string \<Rightarrow> string \<Rightarrow> string \<Rightarrow> ('a world_scheme, unit) state" where
  "resolve_alert env kind key msg = do { t \<leftarrow> now_op env; modify (ntf_update (Resolve t kind key msg)) }"

section \<open>A quiet environment\<close>

text \<open>
  An outside where everything succeeds and nobody else acts, the clock stands still, the guest
  runs, has one pre-deploy snapshot, answers every probe and announces routes. Concrete runs
  start from it and change single answers.
\<close>

definition passing_result :: "gotime \<Rightarrow> CheckSpec \<Rightarrow> Result" where
  "passing_result t spec =
     \<lparr>res_CheckID = spec_ID spec, res_Dimension = spec_Dimension spec, res_Operation = spec_Operation spec,
      res_Target = spec_Target spec, res_PublicIPPolicy = spec_PublicIPPolicy spec, res_Family = spec_Family spec,
      res_Observer = spec_Observer spec, res_ObservedAt = t, res_Availability = AvailabilityComplete,
      res_Outcome = OutcomePass, res_Reason = [], res_Path = sample_path, res_HTTPStatus = 200,
      res_ResponseBody = [], res_DNSAddresses = [], res_SSHVersion = [], res_Distribution = [],
      res_DistributionProviders = [], res_DistributionCaptures = [], res_TransitCaptures = [],
      res_CloudflarePool = None\<rparr>"

definition quiet_time :: gotime where
  "quiet_time = 63800000000000000000"

definition quiet_env :: env where
  "quiet_env =
     \<lparr>o_now = (\<lambda>_. quiet_time), o_io = (\<lambda>_. True), o_partial = (\<lambda>_. None),
      o_signal = (\<lambda>_. False), o_status = (\<lambda>_. None), o_done = (\<lambda>_. False), o_sleep = (\<lambda>_. True),
      o_acquire = (\<lambda>_. None),
      o_watch = (\<lambda>_ u. Inr \<lparr>Unit = u, InvocationID = ''inv'', PID = 42\<rparr>),
      o_interfere = (\<lambda>_ f. f), o_start_watch = (\<lambda>_. None), o_lease_id = (\<lambda>_. ''lease-1''),
      o_check = (\<lambda>_ spec. passing_result quiet_time spec),
      h_VMStatus = (\<lambda>_ _. Inr True), h_VMStart = (\<lambda>_ _. Inr ()), h_VMStop = (\<lambda>_ _. Inr ()),
      h_VMSnapshots = (\<lambda>_ _. Inr ''`-> pre-deploy-1 2026-01-01 before''), h_VMSnapshot = (\<lambda>_ _ _. Inr ()),
      h_VMDelSnapshot = (\<lambda>_ _ _. Inr ()), h_VMDelSnapshotForce = (\<lambda>_ _ _. Inr ()),
      h_VMRollback = (\<lambda>_ _ _. Inr ()),
      h_GuestExec = (\<lambda>_ _ _. Inr \<lparr>ExitCode = 0, Stdout = [], Stderr = []\<rparr>),
      h_Ping = (\<lambda>_ _ _. True),
      h_GetConfigState = (\<lambda>_ _. Inr (\<lparr>ConfigHash = ''h'', ConfigManifest = [], LastDeployEpoch = 0\<rparr>, ''vsock'')),
      h_GetBGPStatus = (\<lambda>_ _. Inr (Some \<lparr>AllEstablished = True, Announcing = True, AnnouncingIpv4 = True,
                                      AnnouncingIpv6 = True\<rparr>)),
      h_AnnounceRoutes = (\<lambda>_ _. Inr ()), h_WithdrawRoutes = (\<lambda>_ _. Inr ()),
      h_VMLock = (\<lambda>_ _. Inr []), h_VMUnlock = (\<lambda>_ _. Inr ()), h_VMHasRunningTask = (\<lambda>_ _. Inr False),
      h_VMFSFreezeStatus = (\<lambda>_ _. Inr ''thawed''), h_VMFSFreezeThaw = (\<lambda>_ _. Inr ())\<rparr>"

lemma quiet_env_fields [simp]:
  "o_now quiet_env n = quiet_time" "o_io quiet_env n" "o_partial quiet_env n = None"
  "\<not> o_signal quiet_env n" "o_status quiet_env n = None" "\<not> o_done quiet_env n" "o_sleep quiet_env n"
  "o_acquire quiet_env n = None" "o_watch quiet_env n u = Inr \<lparr>Unit = u, InvocationID = ''inv'', PID = 42\<rparr>"
  "o_interfere quiet_env n = (\<lambda>f. f)" "o_start_watch quiet_env n = None" "o_lease_id quiet_env n = ''lease-1''"
  "o_check quiet_env n spec = passing_result quiet_time spec"
  "h_VMStatus quiet_env n v = Inr True" "h_VMStart quiet_env n v = Inr ()" "h_VMStop quiet_env n v = Inr ()"
  "h_VMSnapshots quiet_env n v = Inr ''`-> pre-deploy-1 2026-01-01 before''"
  "h_VMSnapshot quiet_env n v s = Inr ()" "h_VMDelSnapshot quiet_env n v s = Inr ()"
  "h_VMDelSnapshotForce quiet_env n v s = Inr ()" "h_VMRollback quiet_env n v s = Inr ()"
  "h_GuestExec quiet_env n v args = Inr \<lparr>ExitCode = 0, Stdout = [], Stderr = []\<rparr>"
  "h_Ping quiet_env n b t"
  "h_GetConfigState quiet_env n v =
     Inr (\<lparr>ConfigHash = ''h'', ConfigManifest = [], LastDeployEpoch = 0\<rparr>, ''vsock'')"
  "h_GetBGPStatus quiet_env n v = Inr (Some \<lparr>AllEstablished = True, Announcing = True,
     AnnouncingIpv4 = True, AnnouncingIpv6 = True\<rparr>)"
  "h_AnnounceRoutes quiet_env n v = Inr ()" "h_WithdrawRoutes quiet_env n v = Inr ()"
  "h_VMLock quiet_env n v = Inr []" "h_VMUnlock quiet_env n v = Inr ()"
  "h_VMHasRunningTask quiet_env n v = Inr False" "h_VMFSFreezeStatus quiet_env n v = Inr ''thawed''"
  "h_VMFSFreezeThaw quiet_env n v = Inr ()"
  by (simp_all add: quiet_env_def)

definition quiet_world :: world where
  "quiet_world = \<lparr>tick = 0, trace = [], ntf = NullNotifier, op_file = None\<rparr>"

section \<open>Lemmas\<close>

lemma run_next_tick [simp]: "run_state next_tick w = (tick w, w\<lparr>tick := Suc (tick w)\<rparr>)"
  by (simp add: next_tick_def)

lemma run_ask [simp]: "run_state (ask f) w = (f (tick w), w\<lparr>tick := Suc (tick w)\<rparr>)"
  by (simp add: ask_def)

lemma run_log_event [simp]: "run_state (log_event e) w = ((), w\<lparr>trace := e # trace w\<rparr>)"
  by (simp add: log_event_def)

lemma run_host_call [simp]:
  "run_state (host_call f ev) w =
     (f (tick w), w\<lparr>tick := Suc (tick w), trace := ev (f (tick w)) # trace w\<rparr>)"
  by (simp add: host_call_def)

end
