(* ===== verification/DeployStore.thy ===== *)
theory DeployStore
  imports World
begin

text \<open>
  The \<^verbatim>\<open>Store\<close> of \<^verbatim>\<open>internal/deployoperation/state.go\<close> and the lease wait of \<^verbatim>\<open>recovery.go\<close>. Every
  method takes the advisory lock of the record, works on the file and releases the lock.
  Other processes change the file only under the same lock, so their effect is one step
  (\<open>o_interfere\<close>) between acquiring the lock and reading. Encoding a record as JSON and
  decoding it again gives the record back; any other content is \<open>OpMalformed\<close>. The update of
  each method is a definition of its own, a program from the record to an error or the new
  record, and \<open>change\<close> runs it under the lock.
\<close>

datatype op_error = OpNotExist | OpError string

text \<open>\<^verbatim>\<open>errors.Join\<close> with the error of closing the coordinator: a missing file stays one.\<close>

fun join_close :: "op_error + 'a \<Rightarrow> bool \<Rightarrow> op_error + 'a" where
  "join_close (Inl OpNotExist) closed = Inl OpNotExist"
| "join_close (Inl (OpError e)) closed = Inl (OpError e)"
| "join_close (Inr a) closed = (if closed then Inr a else Inl (OpError ''release record coordination''))"

definition locked :: "env \<Rightarrow> ('a world_scheme, op_error + 'r) state \<Rightarrow> ('a world_scheme, op_error + 'r) state" where
  "locked env operation = do {
     acq \<leftarrow> ask (o_acquire env);
     case acq of
       Some e \<Rightarrow> returnM (Inl (OpError (''coordinate deployment record: '' @ e)))
     | None \<Rightarrow> do {
         n \<leftarrow> next_tick;
         modify (op_file_update (o_interfere env n));
         r \<leftarrow> operation;
         closed \<leftarrow> io_op env;
         returnM (join_close r closed)
       }
   }"

definition store_read :: "libs \<Rightarrow> env \<Rightarrow> ('a world_scheme, op_error + Record) state" where
  "store_read lib env = do {
     ok \<leftarrow> io_op env;
     content \<leftarrow> gets op_file;
     returnM (if \<not> ok then Inl (OpError ''open deploy operation'')
       else case content of
         None \<Rightarrow> Inl OpNotExist
       | Some OpMalformed \<Rightarrow> Inl (OpError ''decode deploy operation'')
       | Some (OpRecord r) \<Rightarrow>
           (case record_validate lib r of Some e \<Rightarrow> Inl (OpError e) | None \<Rightarrow> Inr r))
   }"

definition store_write :: "libs \<Rightarrow> env \<Rightarrow> Record \<Rightarrow> ('a world_scheme, op_error + unit) state" where
  "store_write lib env r =
     (case record_validate lib r of
        Some e \<Rightarrow> returnM (Inl (OpError e))
      | None \<Rightarrow> do {
          ok \<leftarrow> io_op env;
          if \<not> ok then returnM (Inl (OpError ''write deploy operation''))
          else do {
            modify (op_file_update (\<lambda>_. Some (OpRecord r)));
            log_event (EvWriteRecord r);
            returnM (Inr ())
          }
        })"

definition archive_record :: "env \<Rightarrow> Record \<Rightarrow> ('a world_scheme, op_error + unit) state" where
  "archive_record env r = do {
     ok \<leftarrow> io_op env;
     if \<not> ok then returnM (Inl (OpError ''archive terminal deploy operation''))
     else do { log_event (EvArchiveRecord r); returnM (Inr ()) }
   }"

definition store_Read :: "libs \<Rightarrow> env \<Rightarrow> ('a world_scheme, op_error + Record) state" where
  "store_Read lib env = locked env (store_read lib env)"

text \<open>
  The update is a closure: besides the new record it gives the value that it assigns to a
  variable of the calling method, such as the granted lease.
\<close>

definition change :: "libs \<Rightarrow> env \<Rightarrow> string \<Rightarrow> string
    \<Rightarrow> (Record \<Rightarrow> ('a world_scheme, op_error + (Record \<times> 'x)) state) \<Rightarrow> ('a world_scheme, op_error + 'x) state" where
  "change lib env operationID generation update = locked env (do {
     loaded \<leftarrow> store_read lib env;
     case loaded of
       Inl e \<Rightarrow> returnM (Inl e)
     | Inr r \<Rightarrow>
         if OperationID r \<noteq> operationID \<or> Generation r \<noteq> generation
         then returnM (Inl (OpError ''deploy operation identity does not match''))
         else do {
           updated \<leftarrow> update r;
           case updated of
             Inl e \<Rightarrow> returnM (Inl e)
           | Inr (r1, x) \<Rightarrow> do {
               t \<leftarrow> now_op env;
               written \<leftarrow> store_write lib env (r1\<lparr>UpdatedAt := t\<rparr>);
               returnM (case written of Inl e \<Rightarrow> Inl e | Inr _ \<Rightarrow> Inr x)
             }
         }
   })"

section \<open>Watch identity\<close>

text \<open>\<^verbatim>\<open>ReadWatch\<close> asks systemd and is a parameter; \<^verbatim>\<open>Verify\<close> compares its answer.\<close>

definition watch_verify :: "env \<Rightarrow> WatchIdentity \<Rightarrow> ('a world_scheme, string option) state" where
  "watch_verify env identity = do {
     r \<leftarrow> ask (\<lambda>n. o_watch env n (Unit identity));
     returnM (case r of
         Inl e \<Rightarrow> Some e
       | Inr observed \<Rightarrow>
           if observed \<noteq> identity then Some ''deploy watch invocation or PID has changed'' else None)
   }"

section \<open>The methods\<close>

definition store_Create :: "libs \<Rightarrow> env \<Rightarrow> Record \<Rightarrow> ('a world_scheme, op_error + unit) state" where
  "store_Create lib env rec = locked env (do {
     stat_ok \<leftarrow> io_op env;
     content \<leftarrow> gets op_file;
     prepared \<leftarrow>
       (if \<not> stat_ok then returnM (Inl (OpError ''inspect deploy operation''))
        else case content of
          None \<Rightarrow> returnM (Inr ())
        | Some _ \<Rightarrow> do {
            loaded \<leftarrow> store_read lib env;
            case loaded of
              Inl e \<Rightarrow> returnM (Inl e)
            | Inr previous \<Rightarrow>
                if RecStatus previous \<in> {Armed, Recovering, RecoveryFailed}
                then returnM (Inl (OpError ''an unresolved deploy operation already exists''))
                else if OperationID previous = OperationID rec \<or> Generation previous = Generation rec
                then returnM (Inl (OpError ''deploy operation identity cannot be reused''))
                else archive_record env previous
          });
     case prepared of
       Inl e \<Rightarrow> returnM (Inl e)
     | Inr _ \<Rightarrow>
         if RecStatus rec \<noteq> Armed \<or> RecLease rec \<noteq> None \<or> Generation rec = []
         then returnM (Inl (OpError ''new deploy operation must be armed without a lease''))
         else do {
           t \<leftarrow> now_op env;
           if \<not> t < Deadline rec then returnM (Inl (OpError ''new deploy operation deadline has expired''))
           else store_write lib env (rec\<lparr>UpdatedAt := t\<rparr>)
         }
   })"

definition grant_update ::
    "libs \<Rightarrow> env \<Rightarrow> string \<Rightarrow> gotime \<Rightarrow> Record
    \<Rightarrow> ('a world_scheme, op_error + (Record \<times> Lease)) state" where
  "grant_update lib env phase deadline r = do {
     t \<leftarrow> now_op env;
     if RecStatus r \<noteq> Armed \<or> \<not> t < Deadline r
     then returnM (Inl (OpError ''deploy operation does not permit mutations''))
     else do {
       watchErr \<leftarrow> watch_verify env (Watch r);
       if watchErr \<noteq> None
       then returnM (Inl (OpError ''mutation lease requires the active deploy watch''))
       else if \<not> MutationReady lib r t
       then returnM (Inl (OpError ''mutation lease requires fresh passing application observations''))
       else if RecLease r \<noteq> None
       then returnM (Inl (OpError ''deploy operation already has an outstanding lease''))
       else if trim_space phase = [] \<or> \<not> t < deadline \<or> Deadline r < deadline
       then returnM (Inl (OpError ''mutation lease requires a phase and deadline within the operation deadline''))
       else if list_ex (\<lambda>i. int_Phase i = phase \<and> t + seconds (int_MaxSeconds i) < deadline) (ExpectedInterruptions r)
       then returnM (Inl (OpError ''mutation lease exceeds the expected interruption bound for phase''))
       else do {
         lid \<leftarrow> ask (o_lease_id env);
         let lease = \<lparr>lease_ID = lid, lease_Phase = phase, StartedAt = t, ExpiresAt = deadline\<rparr>;
         returnM (Inr (r\<lparr>RecLease := Some lease\<rparr>, lease))
       }
     }
   }"

definition store_Grant ::
    "libs \<Rightarrow> env \<Rightarrow> string \<Rightarrow> string \<Rightarrow> string \<Rightarrow> gotime
    \<Rightarrow> ('a world_scheme, op_error + Lease) state" where
  "store_Grant lib env operationID generation phase deadline =
     change lib env operationID generation (grant_update lib env phase deadline)"

definition register_update :: "WatchIdentity \<Rightarrow> Record \<Rightarrow> ('a world_scheme, op_error + (Record \<times> unit)) state" where
  "register_update identity r =
     (if RecStatus r \<noteq> Armed \<or> PID (Watch r) \<noteq> 0
      then returnM (Inl (OpError ''deploy watch cannot register for this operation''))
      else returnM (Inr (r\<lparr>Watch := identity\<rparr>, ())))"

text \<open>The process identifier of the registering process is an argument.\<close>

definition store_RegisterWatch ::
    "libs \<Rightarrow> env \<Rightarrow> int \<Rightarrow> string \<Rightarrow> string \<Rightarrow> string \<Rightarrow> ('a world_scheme, op_error + unit) state" where
  "store_RegisterWatch lib env own_pid operationID generation unit_name = do {
     r \<leftarrow> ask (\<lambda>n. o_watch env n unit_name);
     case r of
       Inl e \<Rightarrow> returnM (Inl (OpError e))
     | Inr identity \<Rightarrow>
         if PID identity \<noteq> own_pid
         then returnM (Inl (OpError ''deploy watch PID does not match the registering process''))
         else change lib env operationID generation (register_update identity)
   }"

definition release_update :: "string \<Rightarrow> Record \<Rightarrow> ('a world_scheme, op_error + (Record \<times> unit)) state" where
  "release_update leaseID r =
     (if RecStatus r \<noteq> Armed \<and> RecStatus r \<noteq> Recovering
      then returnM (Inl (OpError ''terminal deploy operation rejects lease release''))
      else case RecLease r of
        None \<Rightarrow> returnM (Inl (OpError ''mutation lease identity does not match''))
      | Some lease \<Rightarrow>
          if lease_ID lease \<noteq> leaseID
          then returnM (Inl (OpError ''mutation lease identity does not match''))
          else returnM (Inr (r\<lparr>RecLease := None\<rparr>, ())))"

definition store_Release ::
    "libs \<Rightarrow> env \<Rightarrow> string \<Rightarrow> string \<Rightarrow> string \<Rightarrow> ('a world_scheme, op_error + unit) state" where
  "store_Release lib env operationID generation leaseID =
     change lib env operationID generation (release_update leaseID)"

definition begin_recovery_update :: "string \<Rightarrow> Record \<Rightarrow> ('a world_scheme, op_error + (Record \<times> unit)) state" where
  "begin_recovery_update reason r =
     (if RecStatus r = Recovering then returnM (Inr (r, ()))
      else if RecStatus r \<noteq> Armed \<and> RecStatus r \<noteq> RecoveryFailed
      then returnM (Inl (OpError ''terminal deploy operation rejects recovery''))
      else if trim_space reason = [] then returnM (Inl (OpError ''deploy recovery requires a reason''))
      else returnM (Inr (r\<lparr>RecStatus := Recovering, Reason := reason\<rparr>, ())))"

definition store_BeginRecovery ::
    "libs \<Rightarrow> env \<Rightarrow> string \<Rightarrow> string \<Rightarrow> string \<Rightarrow> ('a world_scheme, op_error + unit) state" where
  "store_BeginRecovery lib env operationID generation reason =
     change lib env operationID generation (begin_recovery_update reason)"

definition disarm_update :: "string \<Rightarrow> Record \<Rightarrow> ('a world_scheme, op_error + (Record \<times> unit)) state" where
  "disarm_update reason r =
     (if RecStatus r \<noteq> Armed then returnM (Inl (OpError ''deploy operation cannot disarm''))
      else if RecLease r \<noteq> None
      then returnM (Inl (OpError ''deploy operation with a mutation lease cannot disarm''))
      else if trim_space reason = [] then returnM (Inl (OpError ''deploy disarm requires a reason''))
      else returnM (Inr (r\<lparr>RecStatus := Disarmed, Reason := reason\<rparr>, ())))"

definition store_Disarm ::
    "libs \<Rightarrow> env \<Rightarrow> string \<Rightarrow> string \<Rightarrow> string \<Rightarrow> ('a world_scheme, op_error + unit) state" where
  "store_Disarm lib env operationID generation reason =
     change lib env operationID generation (disarm_update reason)"

definition finish_recovery_update ::
    "libs \<Rightarrow> env \<Rightarrow> Identity option \<Rightarrow> string \<Rightarrow> Record \<Rightarrow> ('a world_scheme, op_error + (Record \<times> unit)) state" where
  "finish_recovery_update lib env restored reason r =
     (if RecStatus r \<noteq> Recovering then returnM (Inl (OpError ''deploy operation is not recovering''))
      else case restored of
        None \<Rightarrow> returnM (Inr (r\<lparr>RecStatus := RecoveryFailed, RestoredIdentity := None, Reason := reason\<rparr>, ()))
      | Some identity \<Rightarrow> do {
          t \<leftarrow> (case RecLease r of None \<Rightarrow> returnM 0 | Some _ \<Rightarrow> now_op env);
          if (case RecLease r of None \<Rightarrow> False | Some lease \<Rightarrow> t < ExpiresAt lease)
          then returnM (Inl (OpError ''deploy recovery cannot finish before mutation lease release or expiry''))
          else case verifyRestored lib identity (Baseline r) of
            Some e \<Rightarrow> returnM (Inl (OpError e))
          | None \<Rightarrow> returnM (Inr (r\<lparr>RecStatus := Recovered, RecLease := None,
              RestoredIdentity := Some identity, Reason := reason\<rparr>, ()))
        })"

definition store_finishRecovery :: "libs \<Rightarrow> env \<Rightarrow> string \<Rightarrow> string \<Rightarrow> Identity option \<Rightarrow> string
    \<Rightarrow> ('a world_scheme, op_error + unit) state" where
  "store_finishRecovery lib env operationID generation restored reason =
     change lib env operationID generation (finish_recovery_update lib env restored reason)"

text \<open>
  The commit update returns the record with its verification result and whether the commit
  itself failed: in that case the new observations are still written.
\<close>

definition commit_update :: "libs \<Rightarrow> env \<Rightarrow> (Record \<Rightarrow> ('a world_scheme, op_error + Result list) state) \<Rightarrow> Record
    \<Rightarrow> ('a world_scheme, op_error + (Record \<times> string option)) state" where
  "commit_update lib env verify r = do {
     t0 \<leftarrow> now_op env;
     if RecStatus r \<noteq> Armed \<or> RecLease r \<noteq> None \<or> \<not> t0 < Deadline r
     then returnM (Inl (OpError ''deploy operation cannot commit with an outstanding lease or expired deadline''))
     else do {
       verified \<leftarrow> verify r;
       case verified of
         Inl e \<Rightarrow> returnM (Inl e)
       | Inr results \<Rightarrow> do {
           t1 \<leftarrow> now_op env;
           t2 \<leftarrow> now_op env;
           let r1 = r\<lparr>Results := results, ObservedAt := t1\<rparr>;
           if \<not> t2 < Deadline r
           then returnM (Inr (r1, Some ''deploy operation deadline expired during commit verification''))
           else do {
             watchErr \<leftarrow> watch_verify env (Watch r1);
             if watchErr \<noteq> None
             then returnM (Inr (r1, Some ''deploy commit requires the active deploy watch''))
             else do {
               t3 \<leftarrow> now_op env;
               if \<not> MutationReady lib r1 t3
               then returnM (Inr (r1, Some ''deploy commit requires fresh passing application observations''))
               else returnM (Inr (r1\<lparr>RecStatus := Committed\<rparr>, None))
             }
           }
         }
     }
   }"

definition store_Commit :: "libs \<Rightarrow> env \<Rightarrow> string \<Rightarrow> string
    \<Rightarrow> (Record \<Rightarrow> ('a world_scheme, op_error + Result list) state) \<Rightarrow> ('a world_scheme, op_error + unit) state" where
  "store_Commit lib env operationID generation verify = do {
     transaction \<leftarrow> change lib env operationID generation (commit_update lib env verify);
     returnM (case transaction of
         Inl e \<Rightarrow> Inl e
       | Inr None \<Rightarrow> Inr ()
       | Inr (Some commitErr) \<Rightarrow> Inl (OpError commitErr))
   }"

text \<open>The observed status is returned with the error, as the two results of the source are.\<close>

definition store_observe :: "libs \<Rightarrow> env \<Rightarrow> string \<Rightarrow> string \<Rightarrow> Result list
    \<Rightarrow> ('a world_scheme, op_error + Status) state" where
  "store_observe lib env operationID generation results = locked env (do {
     loaded \<leftarrow> store_read lib env;
     case loaded of
       Inl e \<Rightarrow> returnM (Inl e)
     | Inr r \<Rightarrow>
         if OperationID r \<noteq> operationID \<or> Generation r \<noteq> generation
         then returnM (Inl (OpError ''deploy operation identity does not match''))
         else if settled (RecStatus r) then returnM (Inr (RecStatus r))
         else if RecStatus r \<noteq> Armed \<and> RecStatus r \<noteq> Recovering
         then returnM (Inl (OpError ''terminal deploy operation rejects observations''))
         else do {
           t1 \<leftarrow> now_op env;
           t2 \<leftarrow> now_op env;
           written \<leftarrow> store_write lib env (r\<lparr>Results := results, ObservedAt := t1, UpdatedAt := t2\<rparr>);
           returnM (case written of Inl e \<Rightarrow> Inl e | Inr _ \<Rightarrow> Inr (RecStatus r))
         }
   })"

end
