(* ===== verification/DeployLifecycle.thy ===== *)
theory DeployLifecycle
  imports DeployStore
begin

text \<open>
  The life cycle of a deploy operation as an abstract step relation on the operation file, and
  the proof that every method of the store takes only such steps. The locale \<open>store_update\<close>
  states what a method's update promises; each update of the source is an interpretation, and
  the lemma about \<open>change\<close> is proved once. Other processes run the same code, so what they do
  between two of our transactions is assumed to be a sequence of the same steps
  (\<open>well_behaved\<close>): a rely-guarantee argument over the shared file.
\<close>

section \<open>The abstract life cycle\<close>

definition lifecycle_edges :: "(Status \<times> Status) set" where
  "lifecycle_edges =
     {(Armed, Armed), (Armed, Recovering), (Armed, Committed), (Armed, Disarmed),
      (Recovering, Recovering), (Recovering, Recovered), (Recovering, RecoveryFailed),
      (RecoveryFailed, Recovering)}"

text \<open>
  One step of one operation: the manifest never changes, the status follows an edge, a lease
  appears only on an armed operation that has none, and a settled operation has no lease.
\<close>

definition lifecycle :: "Record \<Rightarrow> Record \<Rightarrow> bool" where
  "lifecycle r r' \<longleftrightarrow>
     Manifest.truncate r' = Manifest.truncate r \<and> (RecStatus r, RecStatus r') \<in> lifecycle_edges \<and>
     (RecLease r' = RecLease r \<or> RecLease r' = None \<or>
      (RecStatus r = Armed \<and> RecStatus r' = Armed \<and> RecLease r = None)) \<and>
     (settled (RecStatus r') \<longrightarrow> RecLease r' = None)"

definition fresh_operation :: "op_content option \<Rightarrow> Record \<Rightarrow> bool" where
  "fresh_operation f r' \<longleftrightarrow>
     RecStatus r' = Armed \<and> RecLease r' = None \<and>
     (case f of
        None \<Rightarrow> True
      | Some OpMalformed \<Rightarrow> False
      | Some (OpRecord r) \<Rightarrow>
          settled (RecStatus r) \<and> OperationID r \<noteq> OperationID r' \<and> Generation r \<noteq> Generation r')"

inductive file_step :: "op_content option \<Rightarrow> op_content option \<Rightarrow> bool" where
  stutter: "file_step f f"
| advance: "lifecycle r r' \<Longrightarrow> file_step (Some (OpRecord r)) (Some (OpRecord r'))"
| create: "fresh_operation f r' \<Longrightarrow> file_step f (Some (OpRecord r'))"

inductive_cases file_stepE: "file_step f f'"

definition well_behaved :: "env \<Rightarrow> bool" where
  "well_behaved env \<longleftrightarrow> (\<forall>n f. file_step\<^sup>*\<^sup>* f (o_interfere env n f))"

lemma truncate_updates [simp]:
  "Manifest.truncate (r\<lparr>RecStatus := a\<rparr>) = Manifest.truncate (r :: Record)"
  "Manifest.truncate (r\<lparr>RecLease := b\<rparr>) = Manifest.truncate (r :: Record)"
  "Manifest.truncate (r\<lparr>Watch := c\<rparr>) = Manifest.truncate (r :: Record)"
  "Manifest.truncate (r\<lparr>Reason := d\<rparr>) = Manifest.truncate (r :: Record)"
  "Manifest.truncate (r\<lparr>UpdatedAt := e\<rparr>) = Manifest.truncate (r :: Record)"
  "Manifest.truncate (r\<lparr>RestoredIdentity := g\<rparr>) = Manifest.truncate (r :: Record)"
  "Manifest.truncate (r\<lparr>Results := h\<rparr>) = Manifest.truncate (r :: Record)"
  "Manifest.truncate (r\<lparr>ObservedAt := i\<rparr>) = Manifest.truncate (r :: Record)"
  by (simp_all add: Manifest.defs)

lemma lifecycle_stamp [simp]: "lifecycle r (r1\<lparr>UpdatedAt := t\<rparr>) = lifecycle r r1"
  by (simp add: lifecycle_def)

lemma lifecycle_manifest:
  "lifecycle r r' \<Longrightarrow> OperationID r' = OperationID r \<and> Generation r' = Generation r \<and> Deadline r' = Deadline r"
  by (cases r; cases r') (auto simp: lifecycle_def Manifest.defs)

lemma settled_simps [simp]:
  "settled Committed" "settled Recovered" "settled Disarmed" "\<not> settled Armed" "\<not> settled Recovering"
  "\<not> settled RecoveryFailed"
  by (simp_all add: settled_def)

lemma settled_final: "settled (RecStatus r) \<Longrightarrow> \<not> lifecycle r r'"
  by (auto simp: lifecycle_def lifecycle_edges_def settled_def)

section \<open>Transactions\<close>

lemma join_close_Inr: "join_close r c = Inr x \<longleftrightarrow> r = Inr x \<and> c"
  by (cases "(r, c)" rule: join_close.cases) auto

lemma run_locked:
  assumes "run_state (locked env m) w = (res, w')"
  obtains (unlocked) e where "res = Inl (OpError e)" and "op_file w' = op_file w" and "trace w' = trace w"
  | (ran) w1 r w2 c where "op_file w1 = o_interfere env (Suc (tick w)) (op_file w)" and "trace w1 = trace w"
      and "run_state m w1 = (r, w2)" and "op_file w' = op_file w2" and "trace w' = trace w2"
      and "res = join_close r c"
proof (cases "o_acquire env (tick w)")
  case None
  let ?w1 = "op_file_update (o_interfere env (Suc (tick w))) (w\<lparr>tick := Suc (Suc (tick w))\<rparr>)"
  obtain r w2 where m: "run_state m ?w1 = (r, w2)"
    by (cases "run_state m ?w1")
  with None assms ran [of ?w1 r w2 "o_io env (tick w2)"] show ?thesis
    by (auto simp: locked_def io_op_def)
next
  case (Some e)
  with assms have "res = Inl (OpError (''coordinate deployment record: '' @ e))"
      and "w' = w\<lparr>tick := Suc (tick w)\<rparr>"
    by (simp_all add: locked_def)
  with unlocked show ?thesis
    by simp
qed

lemma run_store_read:
  assumes "run_state (store_read lib env) w = (res, w')"
  shows "op_file w' = op_file w \<and> trace w' = trace w \<and>
     (\<forall>r. res = Inr r \<longrightarrow> op_file w = Some (OpRecord r) \<and> record_validate lib r = None)"
  using assms
  by (auto simp: store_read_def io_op_def split: if_splits option.splits op_content.splits)

lemma run_store_write:
  assumes "run_state (store_write lib env r) w = (res, w')"
  shows "(res = Inr () \<and> op_file w' = Some (OpRecord r) \<and> trace w' = EvWriteRecord r # trace w \<and>
            record_validate lib r = None) \<or>
         ((\<exists>e. res = Inl e) \<and> op_file w' = op_file w \<and> trace w' = trace w)"
  using assms
  by (auto simp: store_write_def io_op_def split: if_splits option.splits)

locale store_update =
  fixes upd :: "Record \<Rightarrow> ('a world_scheme, op_error + (Record \<times> 'x)) state"
  assumes keeps_file: "run_state (upd r) w = (res, w') \<Longrightarrow> op_file w' = op_file w"
    and steps: "run_state (upd r) w = (Inr (r1, x), w') \<Longrightarrow> lifecycle r r1"
begin

text \<open>A transaction writes the record that the update made of the record it read, or nothing.\<close>

lemma change_cases:
  assumes "run_state (change lib env oid gen upd) w = (res, w')"
  obtains (same) f where "f \<in> {op_file w, o_interfere env (Suc (tick w)) (op_file w)}" and "op_file w' = f"
      and "\<And>x. res \<noteq> Inr x"
  | (wrote) r r1 x w1 w2 t where "o_interfere env (Suc (tick w)) (op_file w) = Some (OpRecord r)"
      and "OperationID r = oid" and "Generation r = gen" and "record_validate lib r = None"
      and "run_state (upd r) w1 = (Inr (r1, x), w2)"
      and "op_file w' = Some (OpRecord (r1\<lparr>UpdatedAt := t\<rparr>))"
      and "record_validate lib (r1\<lparr>UpdatedAt := t\<rparr>) = None"
      and "\<And>y. res = Inr y \<Longrightarrow> y = x"
  using assms unfolding change_def
proof (cases rule: run_locked)
  case (unlocked e)
  then show ?thesis
    using same by auto
next
  case (ran w1 r w2 c)
  obtain l w3 where l: "run_state (store_read lib env) w1 = (l, w3)"
    by (cases "run_state (store_read lib env) w1")
  note read = run_store_read [OF l]
  have quiet: thesis if "op_file w2 = op_file w1" and "\<And>x. r \<noteq> Inr x"
    using that ran same [of "op_file w1"] by (auto simp: join_close_Inr)
  show ?thesis
  proof (cases l)
    case (Inl e)
    then show ?thesis
      using ran l read by (intro quiet) auto
  next
    case (Inr rec)
    show ?thesis
    proof (cases "OperationID rec = oid \<and> Generation rec = gen")
      case False
      then show ?thesis
        using ran l read Inr by (intro quiet) auto
    next
      case own: True
      obtain u w4 where u: "run_state (upd rec) w3 = (u, w4)"
        by (cases "run_state (upd rec) w3")
      show ?thesis
      proof (cases u)
        case (Inl e)
        then show ?thesis
          using ran l read Inr own u keeps_file [OF u] by (intro quiet) auto
      next
        case (Inr rx)
        obtain r1 x where rx: "rx = (r1, x)"
          by (cases rx)
        let ?t = "o_now env (tick w4)"
        obtain v w5 where v: "run_state (store_write lib env (r1\<lparr>UpdatedAt := ?t\<rparr>)) (w4\<lparr>tick := Suc (tick w4)\<rparr>) = (v, w5)"
          by (cases "run_state (store_write lib env (r1\<lparr>UpdatedAt := ?t\<rparr>)) (w4\<lparr>tick := Suc (tick w4)\<rparr>)")
        have r2: "r = (case v of Inl e \<Rightarrow> Inl e | Inr _ \<Rightarrow> Inr x)" "w2 = w5"
          using ran l \<open>l = Inr rec\<close> own u Inr rx v by (auto simp: now_op_def split: sum.splits)
        from run_store_write [OF v] show ?thesis
        proof (elim disjE conjE exE)
          assume w: "v = Inr ()" "op_file w5 = Some (OpRecord (r1\<lparr>UpdatedAt := ?t\<rparr>))"
            "record_validate lib (r1\<lparr>UpdatedAt := ?t\<rparr>) = None"
          show ?thesis
            by (rule wrote [of rec w3 r1 x w4 ?t])
               (use ran l read \<open>l = Inr rec\<close> own u Inr rx r2 w in \<open>auto simp: join_close_Inr split: if_splits\<close>)
        next
          fix e
          assume "v = Inl e" "op_file w5 = op_file (w4\<lparr>tick := Suc (tick w4)\<rparr>)"
          then show ?thesis
            using r2 keeps_file [OF u] read by (intro quiet) auto
        qed
      qed
    qed
  qed
qed

lemma change_steps:
  assumes "well_behaved env" and "run_state (change lib env oid gen upd) w = (res, w')"
  shows "file_step\<^sup>*\<^sup>* (op_file w) (op_file w')"
  using assms(2)
proof (cases rule: change_cases)
  case (same f)
  then show ?thesis
    using assms(1) by (auto simp: well_behaved_def)
next
  case (wrote r r1 x w1 w2 t)
  have "file_step\<^sup>*\<^sup>* (op_file w) (Some (OpRecord r))"
    using assms(1) wrote(1) by (metis well_behaved_def)
  moreover have "file_step (Some (OpRecord r)) (Some (OpRecord (r1\<lparr>UpdatedAt := t\<rparr>)))"
    using steps [OF wrote(5)] by (auto intro: file_step.advance)
  ultimately show ?thesis
    using wrote(6) by simp
qed

text \<open>A settled record is not written again.\<close>

lemma change_settled:
  assumes "run_state (change lib env oid gen upd) w = (res, w')" and "\<And>n f. o_interfere env n f = f"
    and "op_file w = Some (OpRecord r)" and "settled (RecStatus r)"
  shows "op_file w' = op_file w"
  using assms(1)
proof (cases rule: change_cases)
  case (same f)
  then show ?thesis
    using assms(2) by auto
next
  case (wrote r0 r1 x w1 w2 t)
  then have "lifecycle r r1"
    using steps [OF wrote(5)] assms(2,3) by simp
  then show ?thesis
    using settled_final [OF assms(4)] by blast
qed

end

section \<open>The updates of the methods\<close>

lemmas update_defs = grant_update_def register_update_def release_update_def begin_recovery_update_def
  disarm_update_def finish_recovery_update_def commit_update_def watch_verify_def now_op_def

interpretation grant: store_update "grant_update lib env phase deadline"
  by unfold_locales
     (auto simp: update_defs lifecycle_def lifecycle_edges_def MutationReady_def Let_def split: if_splits)

interpretation register: store_update "register_update identity"
  by unfold_locales (auto simp: update_defs lifecycle_def lifecycle_edges_def split: if_splits)

interpretation release: store_update "release_update leaseID"
  by unfold_locales (auto simp: update_defs lifecycle_def lifecycle_edges_def split: if_splits option.splits)

interpretation begin_recovery: store_update "begin_recovery_update reason"
  by unfold_locales (auto simp: update_defs lifecycle_def lifecycle_edges_def split: if_splits)

interpretation disarm: store_update "disarm_update reason"
  by unfold_locales (auto simp: update_defs lifecycle_def lifecycle_edges_def split: if_splits)

interpretation finish: store_update "finish_recovery_update lib env restored reason"
  by unfold_locales
     (auto simp: update_defs lifecycle_def lifecycle_edges_def split: if_splits option.splits)


lemma commit_store_update:
  assumes "\<And>r w res w'. run_state (verify r) w = (res, w') \<Longrightarrow> op_file w' = op_file w"
  shows "store_update (commit_update lib env verify)"
proof unfold_locales
  fix r :: Record and w w' :: "'a world_scheme" and res
  assume run: "run_state (commit_update lib env verify r) w = (res, w')"
  obtain v w1 where v: "run_state (verify r) (w\<lparr>tick := Suc (tick w)\<rparr>) = (v, w1)"
    by (cases "run_state (verify r) (w\<lparr>tick := Suc (tick w)\<rparr>)")
  show "op_file w' = op_file w"
    using run v assms [OF v]
    by (auto simp: commit_update_def now_op_def watch_verify_def Let_def split: if_splits sum.splits)
next
  fix r r1 :: Record and w w' :: "'a world_scheme" and x
  assume run: "run_state (commit_update lib env verify r) w = (Inr (r1, x), w')"
  obtain v w1 where v: "run_state (verify r) (w\<lparr>tick := Suc (tick w)\<rparr>) = (v, w1)"
    by (cases "run_state (verify r) (w\<lparr>tick := Suc (tick w)\<rparr>)")
  show "lifecycle r r1"
    using run v
    by (auto simp: commit_update_def now_op_def watch_verify_def Let_def lifecycle_def lifecycle_edges_def
          MutationReady_def split: if_splits sum.splits)
qed

lemma observe_steps:
  assumes "well_behaved env" and "run_state (store_observe lib env oid gen results) w = (res, w')"
  shows "file_step\<^sup>*\<^sup>* (op_file w) (op_file w')"
  using assms(2) unfolding store_observe_def
proof (cases rule: run_locked)
  case (ran w1 r w2 c)
  have rely: "file_step\<^sup>*\<^sup>* (op_file w) (op_file w1)"
    using assms(1) ran(1) by (simp add: well_behaved_def)
  obtain l w3 where l: "run_state (store_read lib env) w1 = (l, w3)"
    by (cases "run_state (store_read lib env) w1")
  note read = run_store_read [OF l]
  have "file_step (op_file w1) (op_file w2)"
  proof (cases "\<exists>r. l = Inr r \<and> OperationID r = oid \<and> Generation r = gen \<and>
                 (RecStatus r = Armed \<or> RecStatus r = Recovering)")
    case True
    then obtain rec where rec: "l = Inr rec" "OperationID rec = oid" "Generation rec = gen"
        and st: "RecStatus rec = Armed \<or> RecStatus rec = Recovering"
      by blast
    let ?w = "w3\<lparr>tick := Suc (Suc (tick w3))\<rparr>"
    let ?r = "rec\<lparr>Results := results, ObservedAt := o_now env (tick w3), UpdatedAt := o_now env (Suc (tick w3))\<rparr>"
    obtain v w4 where v: "run_state (store_write lib env ?r) ?w = (v, w4)"
      by (cases "run_state (store_write lib env ?r) ?w")
    have "w2 = w4"
      using ran(3) l rec st v by (auto simp: now_op_def split: sum.splits)
    moreover have "lifecycle rec ?r"
      using st by (auto simp: lifecycle_def lifecycle_edges_def)
    then have "file_step (Some (OpRecord rec)) (Some (OpRecord ?r))"
      by (rule file_step.advance)
    ultimately show ?thesis
      using run_store_write [OF v] read rec by (auto simp: file_step.stutter)
  next
    case False
    then have "op_file w2 = op_file w1"
      using ran(3) l read by (cases l) (auto simp: settled_def split: if_splits)
    then show ?thesis
      by (simp add: file_step.stutter)
  qed
  with rely ran(4) show ?thesis
    by simp
qed simp

lemma validated_status:
  "record_validate lib r = None \<Longrightarrow>
     RecStatus r \<in> {Armed, Recovering, RecoveryFailed} \<or> settled (RecStatus r)"
  by (auto simp: record_validate_def settled_def split: if_splits option.splits)

lemma create_steps:
  assumes "well_behaved env" and "run_state (store_Create lib env rec) w = (res, w')"
  shows "file_step\<^sup>*\<^sup>* (op_file w) (op_file w')"
  using assms(2) unfolding store_Create_def
proof (cases rule: run_locked)
  case (ran w1 r w2 c)
  have rely: "file_step\<^sup>*\<^sup>* (op_file w) (op_file w1)"
    using assms(1) ran(1) by (simp add: well_behaved_def)
  have "op_file w2 = op_file w1 \<or> (\<exists>t. op_file w2 = Some (OpRecord (rec\<lparr>UpdatedAt := t\<rparr>)) \<and>
      fresh_operation (op_file w1) rec)"
    using ran(3)
    by (auto simp: io_op_def now_op_def archive_record_def store_read_def store_write_def fresh_operation_def
          dest: validated_status
          split: if_splits option.splits op_content.splits sum.splits)
  then have "file_step (op_file w1) (op_file w2)"
    by (auto simp: fresh_operation_def intro!: file_step.intros split: option.splits op_content.splits)
  with rely ran(4) show ?thesis
    by simp
qed simp

section \<open>Sequences of calls\<close>

text \<open>
  One call of a store method by this process. The verification that a commit runs is an
  argument, as in the source.
\<close>

datatype store_call =
    CallCreate Record
  | CallGrant string gotime
  | CallRegisterWatch int string
  | CallRelease string
  | CallBeginRecovery string
  | CallDisarm string
  | CallFinishRecovery "Identity option" string
  | CallCommit
  | CallObserve "Result list"

definition ignore_result :: "('s, 'r) state \<Rightarrow> ('s, unit) state" where
  "ignore_result m = do { _ \<leftarrow> m; returnM () }"

fun run_call :: "libs \<Rightarrow> env \<Rightarrow> (Record \<Rightarrow> ('a world_scheme, op_error + Result list) state)
    \<Rightarrow> string \<times> string \<times> store_call \<Rightarrow> ('a world_scheme, unit) state" where
  "run_call lib env verify (oid, gen, CallCreate r) = ignore_result (store_Create lib env r)"
| "run_call lib env verify (oid, gen, CallGrant phase deadline) =
     ignore_result (store_Grant lib env oid gen phase deadline)"
| "run_call lib env verify (oid, gen, CallRegisterWatch pid u) =
     ignore_result (store_RegisterWatch lib env pid oid gen u)"
| "run_call lib env verify (oid, gen, CallRelease lease) = ignore_result (store_Release lib env oid gen lease)"
| "run_call lib env verify (oid, gen, CallBeginRecovery reason) =
     ignore_result (store_BeginRecovery lib env oid gen reason)"
| "run_call lib env verify (oid, gen, CallDisarm reason) = ignore_result (store_Disarm lib env oid gen reason)"
| "run_call lib env verify (oid, gen, CallFinishRecovery restored reason) =
     ignore_result (store_finishRecovery lib env oid gen restored reason)"
| "run_call lib env verify (oid, gen, CallCommit) = ignore_result (store_Commit lib env oid gen verify)"
| "run_call lib env verify (oid, gen, CallObserve results) =
     ignore_result (store_observe lib env oid gen results)"

lemma ignore_result_file:
  "(\<And>res w'. run_state m w = (res, w') \<Longrightarrow> file_step\<^sup>*\<^sup>* (op_file w) (op_file w')) \<Longrightarrow>
     file_step\<^sup>*\<^sup>* (op_file w) (op_file (snd (run_state (ignore_result m) w)))"
  by (cases "run_state m w") (simp add: ignore_result_def)

lemma store_call_steps:
  assumes env: "well_behaved env"
    and verify: "\<And>r w res w'. run_state (verify r) w = (res, w') \<Longrightarrow> op_file w' = op_file w"
  shows "file_step\<^sup>*\<^sup>* (op_file w) (op_file (snd (run_state (run_call lib env verify c) w)))"
proof (cases "(lib, env, verify, c)" rule: run_call.cases)
  case (3 lib' env' verify' oid gen pid u)
  have "file_step\<^sup>*\<^sup>* (op_file w) (op_file w')"
    if "run_state (store_RegisterWatch lib env pid oid gen u) w = (res, w')" for res w'
    using that register.change_steps [OF env, where w = "w\<lparr>tick := Suc (tick w)\<rparr>"]
    by (auto simp: store_RegisterWatch_def split: sum.splits if_splits)
  with 3 show ?thesis
    by (auto intro: ignore_result_file)
next
  case (8 lib' env' verify' oid gen)
  have "file_step\<^sup>*\<^sup>* (op_file w) (op_file w')"
    if "run_state (store_Commit lib env oid gen verify) w = (res, w')" for res w'
    using that store_update.change_steps [OF commit_store_update [where verify = verify, OF verify] env]
    by (auto simp: store_Commit_def split: prod.splits)
  with 8 show ?thesis
    by (auto intro: ignore_result_file)
qed (simp_all add: store_Grant_def store_Release_def store_BeginRecovery_def store_Disarm_def
      store_finishRecovery_def,
     (rule ignore_result_file,
      (erule create_steps [OF env] | erule observe_steps [OF env] | erule grant.change_steps [OF env] |
       erule release.change_steps [OF env] | erule begin_recovery.change_steps [OF env] |
       erule disarm.change_steps [OF env] | erule finish.change_steps [OF env]))+)

lemma store_calls_steps:
  assumes "well_behaved env"
    and "\<And>r w res w'. run_state (verify r) w = (res, w') \<Longrightarrow> op_file w' = op_file w"
  shows "file_step\<^sup>*\<^sup>* (op_file w) (op_file (snd (run_state (forM calls (run_call lib env verify)) w)))"
proof (induction calls arbitrary: w)
  case (Cons c calls)
  have "file_step\<^sup>*\<^sup>* (op_file w) (op_file (snd (run_state (run_call lib env verify c) w)))"
    by (rule store_call_steps [OF assms])
  also have "file_step\<^sup>*\<^sup>* \<dots> (op_file (snd (run_state (forM calls (run_call lib env verify))
      (snd (run_state (run_call lib env verify c) w)))))"
    by (rule Cons.IH)
  finally show ?case
    by (simp add: split_beta)
qed simp

text \<open>An operation leaves the file only after it was settled.\<close>

lemma replaced_after_settled:
  assumes "file_step\<^sup>*\<^sup>* (Some (OpRecord r)) f"
  shows "(\<exists>r'. f = Some (OpRecord r') \<and> Manifest.truncate r' = Manifest.truncate r) \<or>
     (\<exists>r'. settled (RecStatus r') \<and> Manifest.truncate r' = Manifest.truncate r \<and>
        file_step\<^sup>*\<^sup>* (Some (OpRecord r)) (Some (OpRecord r')) \<and> file_step\<^sup>*\<^sup>* (Some (OpRecord r')) f)"
  using assms
proof (induction rule: rtranclp_induct)
  case (step f f')
  from step.IH show ?case
  proof (elim disjE exE conjE)
    fix r'
    assume f: "f = Some (OpRecord r')" and m: "Manifest.truncate r' = Manifest.truncate r"
    from step.hyps(2) show ?thesis
    proof (cases rule: file_step.cases)
      case stutter
      with f m show ?thesis by auto
    next
      case (advance r1 r2)
      with f m show ?thesis by (auto simp: lifecycle_def)
    next
      case (create r2)
      then have "settled (RecStatus r')"
        using f by (simp add: fresh_operation_def)
      with f m step.hyps create show ?thesis
        by blast
    qed
  next
    fix r'
    assume "settled (RecStatus r')" "Manifest.truncate r' = Manifest.truncate r"
      "file_step\<^sup>*\<^sup>* (Some (OpRecord r)) (Some (OpRecord r'))" "file_step\<^sup>*\<^sup>* (Some (OpRecord r')) f"
    with step.hyps(2) show ?thesis
      by (meson rtranclp.rtrancl_into_rtrancl)
  qed
qed auto

definition is_create :: "string \<times> string \<times> store_call \<Rightarrow> bool" where
  "is_create c = (case c of (_, _, CallCreate _) \<Rightarrow> True | _ \<Rightarrow> False)"

lemma ignore_result_same:
  "(\<And>res w'. run_state m w = (res, w') \<Longrightarrow> op_file w' = op_file w) \<Longrightarrow>
     op_file (snd (run_state (ignore_result m) w)) = op_file w"
  by (cases "run_state m w") (simp add: ignore_result_def)

lemma observe_settled:
  assumes "run_state (store_observe lib env oid gen results) w = (res, w')" and "\<And>n f. o_interfere env n f = f"
    and "op_file w = Some (OpRecord r)" and "settled (RecStatus r)"
  shows "op_file w' = op_file w"
  using assms(1) unfolding store_observe_def
proof (cases rule: run_locked)
  case (ran w1 q w2 c)
  obtain l w3 where l: "run_state (store_read lib env) w1 = (l, w3)"
    by (cases "run_state (store_read lib env) w1")
  then show ?thesis
    using ran run_store_read [OF l] assms(2-4) by (cases l) (auto split: if_splits)
qed simp

lemma run_call_settled:
  assumes idle: "\<And>n f. o_interfere env n f = f"
    and verify: "\<And>r w res w'. run_state (verify r) w = (res, w') \<Longrightarrow> op_file w' = op_file w"
    and settled_file: "op_file w = Some (OpRecord r)" "settled (RecStatus r)" and "\<not> is_create c"
  shows "op_file (snd (run_state (run_call lib env verify c) w)) = op_file w"
proof (cases "(lib, env, verify, c)" rule: run_call.cases)
  case (1 lib' env' verify' oid gen r')
  with assms(5) show ?thesis
    by (simp add: is_create_def)
next
  case (3 lib' env' verify' oid gen pid u)
  have "op_file w' = op_file w"
    if "run_state (store_RegisterWatch lib env pid oid gen u) w = (res, w')" for res w'
    using that register.change_settled [OF _ idle, where w = "w\<lparr>tick := Suc (tick w)\<rparr>" and r = r] settled_file
    by (auto simp: store_RegisterWatch_def split: sum.splits if_splits)
  with 3 show ?thesis
    by (auto intro: ignore_result_same)
next
  case (8 lib' env' verify' oid gen)
  have "op_file w' = op_file w"
    if "run_state (store_Commit lib env oid gen verify) w = (res, w')" for res w'
    using that store_update.change_settled [OF commit_store_update [where verify = verify, OF verify] _ idle settled_file]
    by (auto simp: store_Commit_def split: prod.splits)
  with 8 show ?thesis
    by (auto intro: ignore_result_same)
qed (simp_all add: store_Grant_def store_Release_def store_BeginRecovery_def store_Disarm_def
      store_finishRecovery_def,
     (rule ignore_result_same,
      (erule observe_settled [OF _ idle settled_file] | erule grant.change_settled [OF _ idle settled_file] |
       erule release.change_settled [OF _ idle settled_file] | erule begin_recovery.change_settled [OF _ idle settled_file] |
       erule disarm.change_settled [OF _ idle settled_file] | erule finish.change_settled [OF _ idle settled_file]))+)

section \<open>A concrete operation\<close>

definition sample_libs :: libs where
  "sample_libs = \<lparr>url_parse = sample_url_parse, uuid_parse = Some\<rparr>"

definition sample_identity :: "string \<Rightarrow> Identity" where
  "sample_identity boot =
     \<lparr>MachineID = replicate 32 (CHR ''a''), BootID = boot, ExecutableSHA256 = replicate 64 (CHR ''b''),
      NetworkSHA256 = replicate 64 (CHR ''c''), RuntimeSHA256 = replicate 64 (CHR ''d'')\<rparr>"

definition sample_app_check :: "string \<Rightarrow> Dimension \<Rightarrow> CheckSpec" where
  "sample_app_check cid dim = CheckSpec cid dim ''http'' sample_endpoint ''ipv4'' [] [] [] NoAddr
     ''http://example.test/'' 5 60 [] [200] [] NoAddr [] [] [] [] [] 0 None []"

definition sample_checks :: "CheckSpec list" where
  "sample_checks = [sample_app_check ''in'' ''inbound_application'', sample_app_check ''down'' ''downstream_application'']"

definition sample_record :: Record where
  "sample_record =
     \<lparr>OperationID = ''op1'', Generation = ''gen1'', VMID = ''113'', Snapshot = ''pre-deploy-1'',
      Baseline = sample_identity ''b0'', Target = sample_identity ''b0'',
      ManifestPaths = \<lparr>Executable = ''/usr/bin/mwan'', NetworkPath = ''/etc/network'', Runtime = ''/etc/mwan''\<rparr>,
      Deadline = quiet_time + seconds 600, WatchUnit = ''watch.service'', PollSeconds = 1,
      ObservationTimeoutSeconds = 5, RecoveryTimeoutSeconds = 60, FailureThreshold = 2,
      RequiredFamilies = [''ipv4''], RequiredChecks = sample_checks, ExpectedInterruptions = [],
      RestoredRequiredChecks = sample_checks, MachineIDPath = ''/etc/machine-id'', ProbeBinary = ''/usr/bin/mwan'',
      RecStatus = Armed, RecLease = None,
      Watch = \<lparr>Unit = ''watch.service'', InvocationID = ''inv'', PID = 42\<rparr>, Reason = [],
      UpdatedAt = quiet_time, RestoredIdentity = None,
      Results = map (passing_result quiet_time) sample_checks, ObservedAt = quiet_time\<rparr>"

lemma sample_app_check_valid:
  "cid \<noteq> [] \<Longrightarrow> dim \<in> set known_dimensions \<Longrightarrow> Validate sample_url_parse (sample_app_check cid dim) = None"
  by (simp add: Validate.simps validateOperation.simps validateHTTP_def sample_app_check_def
        sample_endpoint_def sample_url_parse_def observation_constants)

lemma sample_identity_valid: "identity_validate sample_libs (sample_identity b) = None"
  by (simp add: identity_validate_def sample_identity_def sample_libs_def hex_decodes_def list_all_iff
        is_hex_def hex_val_def Let_def)

lemma sample_checks_valid: "validateChecks sample_libs [''ipv4''] sample_checks = None"
  by (simp add: validateChecks_def sample_checks_def sample_libs_def sample_app_check_valid
        application_family_def observation_constants) (simp add: sample_app_check_def)

lemma sample_record_fields [simp]:
  "OperationID sample_record = ''op1''" "Generation sample_record = ''gen1''" "VMID sample_record = ''113''"
  "Snapshot sample_record = ''pre-deploy-1''" "Baseline sample_record = sample_identity ''b0''"
  "Target sample_record = sample_identity ''b0''"
  "Executable (ManifestPaths sample_record) = ''/usr/bin/mwan''"
  "NetworkPath (ManifestPaths sample_record) = ''/etc/network''"
  "Runtime (ManifestPaths sample_record) = ''/etc/mwan''"
  "Deadline sample_record = quiet_time + seconds 600" "WatchUnit sample_record = ''watch.service''"
  "PollSeconds sample_record = 1" "ObservationTimeoutSeconds sample_record = 5"
  "RecoveryTimeoutSeconds sample_record = 60" "FailureThreshold sample_record = 2"
  "RequiredFamilies sample_record = [''ipv4'']" "RequiredChecks sample_record = sample_checks"
  "ExpectedInterruptions sample_record = []" "RestoredRequiredChecks sample_record = sample_checks"
  "MachineIDPath sample_record = ''/etc/machine-id''" "ProbeBinary sample_record = ''/usr/bin/mwan''"
  "RecStatus sample_record = Armed" "RecLease sample_record = None"
  "Watch sample_record = \<lparr>Unit = ''watch.service'', InvocationID = ''inv'', PID = 42\<rparr>"
  "UpdatedAt sample_record = quiet_time"
  "Results sample_record = map (passing_result quiet_time) sample_checks"
  by (simp_all add: sample_record_def)

lemma sample_record_self: "sample_record\<lparr>RecLease := None, UpdatedAt := quiet_time\<rparr> = sample_record"
  by (simp add: sample_record_def)

lemma truncate_fields:
  "OperationID (Manifest.truncate r) = OperationID r" "Generation (Manifest.truncate r) = Generation r"
  "Snapshot (Manifest.truncate r) = Snapshot r" "WatchUnit (Manifest.truncate r) = WatchUnit r"
  "PollSeconds (Manifest.truncate r) = PollSeconds r" "Deadline (Manifest.truncate r) = Deadline r"
  "ObservationTimeoutSeconds (Manifest.truncate r) = ObservationTimeoutSeconds r"
  "RecoveryTimeoutSeconds (Manifest.truncate r) = RecoveryTimeoutSeconds r"
  "FailureThreshold (Manifest.truncate r) = FailureThreshold r" "Baseline (Manifest.truncate r) = Baseline r"
  "Target (Manifest.truncate r) = Target r" "ManifestPaths (Manifest.truncate r) = ManifestPaths r"
  "MachineIDPath (Manifest.truncate r) = MachineIDPath r" "ProbeBinary (Manifest.truncate r) = ProbeBinary r"
  "RequiredFamilies (Manifest.truncate r) = RequiredFamilies r"
  "RequiredChecks (Manifest.truncate r) = RequiredChecks r"
  "RestoredRequiredChecks (Manifest.truncate r) = RestoredRequiredChecks r"
  "ExpectedInterruptions (Manifest.truncate r) = ExpectedInterruptions r"
  by (simp_all add: Manifest.defs)

lemma manifest_validate_truncate: "manifest_validate lib (Manifest.truncate r) = manifest_validate lib r"
  unfolding manifest_validate_def truncate_fields ..

lemma sample_manifest_valid: "manifest_validate sample_libs sample_record = None"
  by (simp add: manifest_validate_def validName_def name_char_def is_digit_def
        has_suffix_def trim_suffix_def sample_identity_valid sample_checks_valid is_abs_def
        quiet_time_def seconds_def nanosecond_per_second_def)

lemma same_manifest_valid:
  "Manifest.truncate r = Manifest.truncate sample_record \<Longrightarrow> manifest_validate sample_libs (r :: Record) = None"
  using sample_manifest_valid by (metis manifest_validate_truncate)

lemma sample_record_valid:
  assumes "t \<noteq> 0"
    and "lease = None \<or> (\<exists>l. lease = Some l \<and> lease_ID l \<noteq> [] \<and> lease_Phase l \<noteq> [] \<and> ExpiresAt l \<noteq> 0 \<and>
           ExpiresAt l \<le> quiet_time + seconds 600)"
  shows "record_validate sample_libs (sample_record\<lparr>RecLease := lease, UpdatedAt := t\<rparr>) = None"
proof -
  have d: "quiet_time + seconds 600 \<noteq> 0"
    by (simp add: quiet_time_def seconds_def nanosecond_per_second_def)
  have "manifest_validate sample_libs (sample_record\<lparr>RecLease := lease, UpdatedAt := t\<rparr>) = None"
    by (rule same_manifest_valid) simp
  then show ?thesis
    using assms d
    by (auto simp: record_validate_def validName_def name_char_def is_digit_def
        parse_int_def digits_value_def digit_val_def int64_max_def Let_def sample_identity_valid)
qed

lemma sample_record_ready: "MutationReady sample_libs sample_record quiet_time"
  by (simp add: MutationReady_def checksPassed_def sample_checks_def sample_app_check_def
        passing_result_def RequiredPassed.simps requiredPathPassed_def requiredReplyPassed_def sample_libs_def
        observation_constants seconds_def nanosecond_per_second_def quiet_time_def)

lemma quiet_well_behaved: "well_behaved quiet_env"
  by (simp add: well_behaved_def)

section \<open>Properties\<close>



text \<open>
  C6: A mutation lease is granted only under full protection. When a grant succeeds, the record
  it found was armed and had no lease, systemd confirmed the recorded watch process, every
  required check had a passing result that was fresh at the time of the grant, and the lease
  that is stored and returned starts then, ends later and within the deadline of the operation.
\<close>

theorem grant_only_under_protection:
  assumes "run_state (store_Grant lib env oid gen phase deadline) w = (Inr lease, w')"
  shows "\<exists>r r'. o_interfere env (Suc (tick w)) (op_file w) = Some (OpRecord r) \<and>
     op_file w' = Some (OpRecord r') \<and> lifecycle r r' \<and>
     OperationID r = oid \<and> Generation r = gen \<and> RecStatus r = Armed \<and> RecStatus r' = Armed \<and>
     RecLease r = None \<and> RecLease r' = Some lease \<and>
     (\<exists>n. o_watch env n (Unit (Watch r)) = Inr (Watch r)) \<and> PID (Watch r) \<noteq> 0 \<and>
     checksPassed lib (RequiredChecks r) (Results r) (StartedAt lease) \<and>
     StartedAt lease < ExpiresAt lease \<and> ExpiresAt lease \<le> Deadline r"
  using assms unfolding store_Grant_def
proof (cases rule: grant.change_cases)
  case (wrote r r1 x w1 w2 t)
  have "lifecycle r r1"
    by (rule grant.steps [OF wrote(5)])
  moreover have x: "x = lease"
    using wrote(8) [of lease] by simp
  moreover have g: "RecStatus r = Armed \<and> RecLease r = None \<and> r1 = r\<lparr>RecLease := Some x\<rparr> \<and>
      o_watch env (Suc (tick w1)) (Unit (Watch r)) = Inr (Watch r) \<and> MutationReady lib r (StartedAt x) \<and>
      StartedAt x < ExpiresAt x \<and> ExpiresAt x \<le> Deadline r"
    using wrote(5)
    by (auto simp: grant_update_def now_op_def watch_verify_def Let_def split: if_splits sum.splits)
  moreover have "PID (Watch r) \<noteq> 0 \<and> checksPassed lib (RequiredChecks r) (Results r) (StartedAt x)"
    using g by (simp add: MutationReady_def split: if_splits)
  ultimately show ?thesis
    using wrote(1,2,3,6)
    by (intro exI [of _ r] exI [of _ "r1\<lparr>UpdatedAt := t\<rparr>"] conjI exI [of _ "Suc (tick w1)"]) simp_all
next
  case (same f)
  show ?thesis
    using same(3) [of lease] by simp
qed

theorem grant_only_under_protection_witness:
  "let w = quiet_world\<lparr>op_file := Some (OpRecord sample_record)\<rparr>;
       lease = \<lparr>lease_ID = ''lease-1'', lease_Phase = ''apply'', StartedAt = quiet_time,
                ExpiresAt = quiet_time + seconds 300\<rparr>
   in fst (run_state (store_Grant sample_libs quiet_env ''op1'' ''gen1'' ''apply'' (quiet_time + seconds 300)) w)
        = Inr lease
      \<and> (\<exists>r. op_file w = Some (OpRecord r) \<and> checksPassed sample_libs (RequiredChecks r) (Results r) quiet_time)"
proof -
  let ?w = "quiet_world\<lparr>op_file := Some (OpRecord sample_record)\<rparr>"
  let ?l = "\<lparr>lease_ID = ''lease-1'', lease_Phase = ''apply'', StartedAt = quiet_time,
                ExpiresAt = quiet_time + seconds 300\<rparr>"
  have v: "record_validate sample_libs sample_record = None"
    using sample_record_valid [of quiet_time None, unfolded sample_record_self] by (simp add: quiet_time_def)
  have v': "record_validate sample_libs (sample_record\<lparr>RecLease := Some ?l, UpdatedAt := quiet_time\<rparr>) = None"
    by (rule sample_record_valid) (simp_all add: quiet_time_def seconds_def nanosecond_per_second_def)
  obtain w' where run:
    "run_state (store_Grant sample_libs quiet_env ''op1'' ''gen1'' ''apply'' (quiet_time + seconds 300)) ?w = (Inr ?l, w')"
    using v v' sample_record_ready
    by (auto simp: store_Grant_def change_def locked_def store_read_def store_write_def grant_update_def
        watch_verify_def now_op_def io_op_def quiet_world_def
        trim_space_def trim_left_def trim_right_def is_space_def Let_def)
  from grant_only_under_protection [OF run] obtain r
    where r: "o_interfere quiet_env (Suc (tick ?w)) (op_file ?w) = Some (OpRecord r)"
      and c: "checksPassed sample_libs (RequiredChecks r) (Results r) (StartedAt ?l)"
    by blast
  from r have "r = sample_record"
    by simp
  with run c show ?thesis
    by (simp add: Let_def)
qed

text \<open>
  C18: A settled operation is final. While no other process acts, any sequence of calls that
  creates no new operation (grants, watch registrations, releases, recoveries, disarming,
  commits, observations, for any identity and with any failures) leaves a committed, recovered
  or disarmed record exactly as it is.
\<close>

theorem settled_operation_is_final:
  assumes "\<And>n f. o_interfere env n f = f"
    and "\<And>r w res w'. run_state (verify r) w = (res, w') \<Longrightarrow> op_file w' = op_file w"
    and "op_file w = Some (OpRecord r)" and "settled (RecStatus r)"
    and "list_all (\<lambda>c. \<not> is_create c) calls"
  shows "op_file (snd (run_state (forM calls (run_call lib env verify)) w)) = Some (OpRecord r)"
  using assms(3,5)
proof (induction calls arbitrary: w)
  case (Cons c calls)
  have "op_file (snd (run_state (run_call lib env verify c) w)) = Some (OpRecord r)"
    using run_call_settled [OF assms(1,2) Cons.prems(1) assms(4)] Cons.prems by simp
  then show ?case
    using Cons.IH [of "snd (run_state (run_call lib env verify c) w)"] Cons.prems by (simp add: split_beta)
qed simp

theorem settled_operation_is_final_witness:
  "let w = quiet_world\<lparr>op_file := Some (OpRecord (sample_record\<lparr>RecStatus := Committed\<rparr>))\<rparr>
   in op_file (snd (run_state (forM [(''op1'', ''gen1'', CallBeginRecovery ''late''), (''op1'', ''gen1'', CallCommit)]
        (run_call sample_libs quiet_env (\<lambda>r. returnM (Inr [])))) w)) =
      Some (OpRecord (sample_record\<lparr>RecStatus := Committed\<rparr>))"
  unfolding Let_def
  by (rule settled_operation_is_final) (simp_all add: is_create_def)

text \<open>
  The comment on the disarmed status speaks of a generation that granted no lease. The check is
  on the outstanding lease only: an operation whose lease was granted and released can disarm.
\<close>

lemma disarm_after_released_lease:
  assumes "RecStatus r = Armed" and "RecLease r = Some lease" and "trim_space reason \<noteq> []"
  shows "run_state (release_update (lease_ID lease) r) w = (Inr (r\<lparr>RecLease := None\<rparr>, ()), w) \<and>
     run_state (disarm_update reason (r\<lparr>RecLease := None\<rparr>)) w =
       (Inr (r\<lparr>RecLease := None, RecStatus := Disarmed, Reason := reason\<rparr>, ()), w)"
  using assms by (simp add: release_update_def disarm_update_def)

end
