(* ===== verification/Guards.thy ===== *)
theory Guards
  imports World
begin

text \<open>
  What must have happened before a dangerous call. A guard says of an event whether it may
  follow a history (newest first); \<open>guarded\<close> says that every event of a trace satisfied it when
  it happened. \<open>safe_event\<close> is the guard that the watchdog and the deploy engine are proved
  to keep: a rollback only on a guest that was stopped and then seen not running, a forced
  snapshot delete and an unlock only with no task running, routes withdrawn from the primary
  only after the backup was seen announcing.
\<close>

type_synonym guard = "sysevent list \<Rightarrow> sysevent \<Rightarrow> bool"

fun guarded :: "guard \<Rightarrow> sysevent list \<Rightarrow> bool" where
  "guarded G [] = True"
| "guarded G (e # es) = (G es e \<and> guarded G es)"

definition storageSnapshotMissingMarker :: string where
  "storageSnapshotMissingMarker = ''could not find any snapshots to destroy''"

definition recoverableLocks :: "string list" where
  "recoverableLocks = [''snapshot'', ''snapshot-delete'']"

section \<open>Histories\<close>

text \<open>The last start or stop of the guest was a stop that succeeded.\<close>

fun stop_issued :: "string \<Rightarrow> sysevent list \<Rightarrow> bool" where
  "stop_issued v (EvVMStop u r # es) = (if u = v then r = Inr () else stop_issued v es)"
| "stop_issued v (EvVMStart u r # es) = (if u = v then False else stop_issued v es)"
| "stop_issued v (_ # es) = stop_issued v es"
| "stop_issued v [] = False"

text \<open>The last status of the guest was not running, after such a stop and with no start since.\<close>

fun known_stopped :: "string \<Rightarrow> sysevent list \<Rightarrow> bool" where
  "known_stopped v (EvVMStatus u r # es) = (if u = v then r = Inr False \<and> stop_issued v es else known_stopped v es)"
| "known_stopped v (EvVMStart u r # es) = (if u = v then False else known_stopped v es)"
| "known_stopped v (EvVMStop u r # es) = (if u = v then False else known_stopped v es)"
| "known_stopped v (_ # es) = known_stopped v es"
| "known_stopped v [] = False"

definition force_allowed :: "string \<Rightarrow> string \<Rightarrow> sysevent list \<Rightarrow> bool" where
  "force_allowed v name es =
     (case es of
        EvVMHasRunningTask u (Inr False) # EvVMDelSnapshot u' name' (Inl e) # _ \<Rightarrow>
          u = v \<and> u' = v \<and> name' = name \<and> match_string KnownGoodSnap name \<and>
          contains e storageSnapshotMissingMarker
      | _ \<Rightarrow> False)"

definition unlock_allowed :: "string \<Rightarrow> sysevent list \<Rightarrow> bool" where
  "unlock_allowed v es =
     (case es of
        EvVMHasRunningTask u (Inr False) # EvVMLock u' (Inr lock) # _ \<Rightarrow>
          u = v \<and> u' = v \<and> lock \<in> set recoverableLocks
      | _ \<Rightarrow> False)"

definition announces_any :: "bgp_status \<Rightarrow> bool" where
  "announces_any st \<longleftrightarrow> Announcing st \<or> AnnouncingIpv4 st \<or> AnnouncingIpv6 st"

definition withdraw_allowed :: "string \<Rightarrow> sysevent list \<Rightarrow> bool" where
  "withdraw_allowed v es =
     (case es of
        EvGetBGPStatus u (Inr (Some st)) # _ \<Rightarrow> u \<noteq> v \<and> AllEstablished st \<and> announces_any st
      | _ \<Rightarrow> False)"

fun safe_event :: guard where
  "safe_event es (EvVMRollback v s r) = known_stopped v es"
| "safe_event es (EvVMDelSnapshotForce v s r) = force_allowed v s es"
| "safe_event es (EvVMUnlock v r) = unlock_allowed v es"
| "safe_event es (EvWithdrawRoutes v r) = withdraw_allowed v es"
| "safe_event es _ = True"

text \<open>The calls that a dry run must not make.\<close>

fun destructive :: "sysevent \<Rightarrow> bool" where
  "destructive (EvVMStart _ _) = True"
| "destructive (EvVMStop _ _) = True"
| "destructive (EvVMSnapshot _ _ _) = True"
| "destructive (EvVMDelSnapshot _ _ _) = True"
| "destructive (EvVMDelSnapshotForce _ _ _) = True"
| "destructive (EvVMRollback _ _ _) = True"
| "destructive (EvAnnounceRoutes _ _) = True"
| "destructive (EvWithdrawRoutes _ _) = True"
| "destructive (EvVMUnlock _ _) = True"
| "destructive (EvVMFSFreezeThaw _ _) = True"
| "destructive (EvWriteRecord _) = True"
| "destructive (EvArchiveRecord _) = True"
| "destructive _ = False"

section \<open>Programs that keep a guard\<close>

text \<open>
  A predicate on the history as a predicate on states; \<open>trace_ok G\<close> is the history that satisfies
  the guard \<open>G\<close> throughout.
\<close>

definition on_trace :: "(sysevent list \<Rightarrow> bool) \<Rightarrow> 'a world_scheme \<Rightarrow> bool" where
  "on_trace P w \<longleftrightarrow> P (trace w)"

abbreviation trace_ok :: "guard \<Rightarrow> 'a world_scheme \<Rightarrow> bool" where
  "trace_ok G \<equiv> on_trace (guarded G)"

lemma trace_ok_def: "trace_ok G w \<longleftrightarrow> guarded G (trace w)"
  by (simp add: on_trace_def)

lemma on_trace_updates [simp]:
  "on_trace P (w\<lparr>tick := n\<rparr>) = on_trace P w"
  "on_trace P (tick_update f w) = on_trace P w"
  "on_trace P (ntf_update g w) = on_trace P w"
  "on_trace P (op_file_update h w) = on_trace P w"
  by (simp_all add: on_trace_def)

lemma keeps_trace_modify [keeps_rules]:
  "(\<And>w. trace (f w) = trace w) \<Longrightarrow> keeps (on_trace P) (modify f)"
  by (simp add: keeps_def on_trace_def)

lemma keeps_trace_next_tick [keeps_rules]: "keeps (on_trace P) next_tick"
  by (simp add: keeps_def)

lemma keeps_trace_ask [keeps_rules]: "keeps (on_trace P) (ask f)"
  by (simp add: keeps_def)

lemma keeps_trace_now [keeps_rules]: "keeps (on_trace P) (now_op env)"
  by (simp add: now_op_def keeps_trace_ask)

lemma keeps_trace_io [keeps_rules]: "keeps (on_trace P) (io_op env)"
  by (simp add: io_op_def keeps_trace_ask)

lemma keeps_trace_raise [keeps_rules]: "keeps (on_trace P) (raise_alert env ev)"
  by (simp add: raise_alert_def keeps_def now_op_def)

lemma keeps_trace_resolve [keeps_rules]: "keeps (on_trace P) (resolve_alert env kind key msg)"
  by (simp add: resolve_alert_def keeps_def now_op_def)

lemma keeps_trace_log: "(\<And>es. P es \<Longrightarrow> P (e # es)) \<Longrightarrow> keeps (on_trace P) (log_event e)"
  by (simp add: keeps_def on_trace_def)

lemma keeps_trace_call: "(\<And>r es. P es \<Longrightarrow> P (ev r # es)) \<Longrightarrow> keeps (on_trace P) (host_call f ev)"
  by (simp add: keeps_def on_trace_def)

text \<open>
  Most calls of the outside are plain: no guard of the development restricts them. A predicate on
  histories that survives every plain event is kept by every program that makes only such calls.
\<close>

fun plain_event :: "sysevent \<Rightarrow> bool" where
  "plain_event (EvVMSnapshot _ _ _) = False"
| "plain_event (EvVMRollback _ _ _) = False"
| "plain_event (EvVMDelSnapshotForce _ _ _) = False"
| "plain_event (EvVMUnlock _ _) = False"
| "plain_event (EvWithdrawRoutes _ _) = False"
| "plain_event _ = True"

locale plain_trace =
  fixes P :: "sysevent list \<Rightarrow> bool"
  assumes plain: "P es \<Longrightarrow> plain_event e \<Longrightarrow> P (e # es)"
begin

lemma host_ops_plain [keeps_rules]:
  "keeps (on_trace P) (VMStatus (host_ops env) v)"
  "keeps (on_trace P) (VMStart (host_ops env) v)"
  "keeps (on_trace P) (VMStop (host_ops env) v)"
  "keeps (on_trace P) (VMSnapshots (host_ops env) v)"
  "keeps (on_trace P) (VMDelSnapshot (host_ops env) v s)"
  "keeps (on_trace P) (GuestExec (host_ops env) v args)"
  "keeps (on_trace P) (Ping (host_ops env) b t)"
  "keeps (on_trace P) (GetConfigState (host_ops env) v)"
  "keeps (on_trace P) (GetBGPStatus (host_ops env) v)"
  "keeps (on_trace P) (AnnounceRoutes (host_ops env) v)"
  "keeps (on_trace P) (VMLock (host_ops env) v)"
  "keeps (on_trace P) (VMHasRunningTask (host_ops env) v)"
  "keeps (on_trace P) (VMFSFreezeStatus (host_ops env) v)"
  "keeps (on_trace P) (VMFSFreezeThaw (host_ops env) v)"
  by (simp_all add: host_ops_def keeps_trace_call plain)

lemma log_record [keeps_rules]:
  "keeps (on_trace P) (log_event (EvWriteRecord r))"
  "keeps (on_trace P) (log_event (EvArchiveRecord r))"
  by (simp_all add: keeps_trace_log plain)

end

locale rollback_trace = plain_trace +
  assumes rollback_plain: "P es \<Longrightarrow> P (EvVMRollback v s r # es)"
begin

lemma rollback_kept [keeps_rules]: "keeps (on_trace P) (VMRollback (host_ops env) v s)"
  by (simp add: host_ops_def keeps_trace_call rollback_plain)

end

lemma safe_plain: "plain_event e \<Longrightarrow> safe_event es e"
  by (cases e) simp_all

interpretation safe: plain_trace "guarded safe_event"
  by unfold_locales (simp add: safe_plain)

end
