(* ===== verification/DeployEngine.thy ===== *)
theory DeployEngine
  imports DeployLifecycle Guards
begin

text \<open>
  The \<^verbatim>\<open>Engine\<close> of \<^verbatim>\<open>internal/deployoperation\<close> (\<^verbatim>\<open>engine.go\<close>, \<^verbatim>\<open>identity.go\<close>, \<^verbatim>\<open>recovery.go\<close>): reading
  the identity of the guest, arming, watching, committing and recovering an operation. A probe
  (\<^verbatim>\<open>executor.Run\<close>), systemd and the hypervisor are answered by the environment. Each polling loop
  has a number of rounds as its argument: the contexts of the source have a deadline and every
  round waits for a positive time, so a run makes at most deadline divided by interval rounds;
  running out of rounds is the end of the context.
\<close>

section \<open>Programs with errors\<close>

definition bindE :: "('s, 'e + 'a) state \<Rightarrow> ('a \<Rightarrow> ('s, 'e + 'b) state) \<Rightarrow> ('s, 'e + 'b) state" where
  "bindE m f = do { r \<leftarrow> m; case r of Inl e \<Rightarrow> returnM (Inl e) | Inr a \<Rightarrow> f a }"

definition throwE :: "string \<Rightarrow> ('s, op_error + 'a) state" where
  "throwE e = returnM (Inl (OpError e))"

definition op_error_text :: "op_error \<Rightarrow> string" where
  "op_error_text e = (case e of OpNotExist \<Rightarrow> ''open deploy operation: file does not exist'' | OpError s \<Rightarrow> s)"

text \<open>An error of a hypervisor call, wrapped with its context.\<close>

definition wrapE :: "string \<Rightarrow> ('s, string + 'a) state \<Rightarrow> ('s, op_error + 'a) state" where
  "wrapE msg m = do { r \<leftarrow> m; returnM (case r of Inl e \<Rightarrow> Inl (OpError (msg @ e)) | Inr a \<Rightarrow> Inr a) }"

definition context_ended :: op_error where
  "context_ended = OpError ''deployment operation wait interrupted''"

text \<open>\<^verbatim>\<open>wait\<close>: the timer fires, or the context ends.\<close>

definition wait_op :: "env \<Rightarrow> ('a world_scheme, op_error + unit) state" where
  "wait_op env = do { fired \<leftarrow> ask (o_sleep env); returnM (if fired then Inr () else Inl context_ended) }"

section \<open>The identity of the guest\<close>

definition guestText :: "env \<Rightarrow> string \<Rightarrow> string list \<Rightarrow> ('a world_scheme, op_error + string) state" where
  "guestText env vmid command =
     bindE (wrapE ''read deploy identity: '' (GuestExec (host_ops env) vmid command)) (\<lambda>response.
       if ExitCode response \<noteq> 0 then throwE ''deploy identity command exited''
       else let result = trim_space (Stdout response) in
         if result = [] then throwE ''deploy identity command returned no data'' else returnM (Inr result))"

definition guestDigest :: "env \<Rightarrow> string \<Rightarrow> string \<Rightarrow> ('a world_scheme, op_error + string) state" where
  "guestDigest env vmid path =
     bindE (guestText env vmid [''sha256sum'', ''--'', path]) (\<lambda>out.
       case string_fields out of
         [digest, file] \<Rightarrow>
           if length digest \<noteq> 64 \<or> file \<noteq> path
           then throwE ''deploy identity digest response is malformed'' else returnM (Inr digest)
       | _ \<Rightarrow> throwE ''deploy identity digest response is malformed'')"

definition ReadIdentity :: "libs \<Rightarrow> env \<Rightarrow> string \<Rightarrow> Paths \<Rightarrow> ('a world_scheme, op_error + Identity) state" where
  "ReadIdentity lib env vmid paths =
     (if \<not> list_all is_abs [Executable paths, NetworkPath paths, Runtime paths]
      then throwE ''deploy identity requires absolute executable, network and runtime paths''
      else bindE (guestText env vmid [''cat'', ''/etc/machine-id'']) (\<lambda>machine.
           bindE (guestText env vmid [''cat'', ''/proc/sys/kernel/random/boot_id'']) (\<lambda>boot.
           bindE (guestDigest env vmid (Executable paths)) (\<lambda>executable.
           bindE (guestDigest env vmid (NetworkPath paths)) (\<lambda>network.
           bindE (guestDigest env vmid (Runtime paths)) (\<lambda>runtime.
             let identity = \<lparr>MachineID = machine, BootID = boot, ExecutableSHA256 = executable,
                   NetworkSHA256 = network, RuntimeSHA256 = runtime\<rparr>
             in case identity_validate lib identity of
                  Some e \<Rightarrow> throwE (''validate guest deploy identity: '' @ e)
                | None \<Rightarrow> returnM (Inr identity)))))))"

section \<open>Checks, records, alerts\<close>

primrec engine_check :: "env \<Rightarrow> CheckSpec list \<Rightarrow> ('a world_scheme, Result list) state" where
  "engine_check env [] = returnM []"
| "engine_check env (check # checks) = do {
     result \<leftarrow> ask (\<lambda>n. o_check env n check);
     results \<leftarrow> engine_check env checks;
     returnM (result # results)
   }"

definition engine_exact :: "libs \<Rightarrow> env \<Rightarrow> string \<Rightarrow> string \<Rightarrow> ('a world_scheme, op_error + Record) state" where
  "engine_exact lib env operationID generation =
     bindE (store_Read lib env) (\<lambda>r.
       if OperationID r \<noteq> operationID \<or> Generation r \<noteq> generation
       then throwE ''deployment operation identity differs from the request'' else returnM (Inr r))"

definition operation_key :: "string \<Rightarrow> string \<Rightarrow> string" where
  "operation_key operationID generation = operationID @ ''/'' @ generation"

definition engine_alert :: "env \<Rightarrow> string \<Rightarrow> string \<Rightarrow> string \<Rightarrow> ('a world_scheme, unit) state" where
  "engine_alert env kind key message = do {
     t \<leftarrow> now_op env;
     raise_alert env \<lparr>Now = t, Level = LevelWarn, Kind = kind, Key = key, Message = message, IsRecovery = False\<rparr>
   }"

definition transition :: "env \<Rightarrow> Record \<Rightarrow> string \<Rightarrow> string \<Rightarrow> ('a world_scheme, unit) state" where
  "transition env r kind message = engine_alert env kind (operation_key (OperationID r) (Generation r)) message"

section \<open>Restoring the snapshot\<close>

fun delete_descendants :: "env \<Rightarrow> string \<Rightarrow> string list \<Rightarrow> ('a world_scheme, op_error + unit) state" where
  "delete_descendants env vmid [] = returnM (Inr ())"
| "delete_descendants env vmid (snapshot # rest) =
     bindE (wrapE ''remove deploy recovery snapshot descendant: '' (VMDelSnapshot (host_ops env) vmid snapshot))
       (\<lambda>_. delete_descendants env vmid rest)"

definition Restore :: "env \<Rightarrow> Record \<Rightarrow> gotime \<Rightarrow> ('a world_scheme, op_error + unit) state" where
  "Restore env r now =
     (if RecStatus r \<noteq> Recovering \<or> (case RecLease r of None \<Rightarrow> False | Some lease \<Rightarrow> now < ExpiresAt lease)
      then throwE ''snapshot restoration requires recovery state and an expired or released mutation lease''
      else bindE (wrapE ''verify deploy recovery snapshot: '' (VMSnapshots (host_ops env) (VMID r))) (\<lambda>snapshots.
        if \<not> snapshotExists snapshots (Snapshot r) then throwE ''exact deploy recovery snapshot is absent''
        else bindE (wrapE ''stop VM for deploy recovery: '' (VMStop (host_ops env) (VMID r))) (\<lambda>_.
          bindE (wrapE ''verify stopped deploy recovery VM: '' (VMStatus (host_ops env) (VMID r))) (\<lambda>running.
            if running then throwE ''deploy recovery VM remains running after stop''
            else bindE (delete_descendants env (VMID r) (rev (SnapshotsAfter snapshots (Snapshot r)))) (\<lambda>_.
              bindE (wrapE ''restore deploy recovery snapshot: '' (VMRollback (host_ops env) (VMID r) (Snapshot r))) (\<lambda>_.
                wrapE ''start restored deploy recovery VM: '' (VMStart (host_ops env) (VMID r))))))))"

fun WaitForLease :: "nat \<Rightarrow> libs \<Rightarrow> env \<Rightarrow> string \<Rightarrow> string \<Rightarrow> ('a world_scheme, op_error + unit) state" where
  "WaitForLease 0 lib env operationID generation = returnM (Inl context_ended)"
| "WaitForLease (Suc rounds) lib env operationID generation =
     bindE (store_Read lib env) (\<lambda>r.
       if OperationID r \<noteq> operationID \<or> Generation r \<noteq> generation \<or> RecStatus r \<noteq> Recovering
       then throwE ''deploy recovery operation identity or state has changed''
       else case RecLease r of
         None \<Rightarrow> returnM (Inr ())
       | Some lease \<Rightarrow> do {
           t \<leftarrow> now_op env;
           if \<not> t < ExpiresAt lease then returnM (Inr ())
           else bindE (wait_op env) (\<lambda>_. WaitForLease rounds lib env operationID generation)
         })"

text \<open>One round of the wait for the restored guest; \<open>None\<close> asks for another round.\<close>

definition restored_round :: "libs \<Rightarrow> env \<Rightarrow> Record \<Rightarrow> ('a world_scheme, op_error + Identity option) state" where
  "restored_round lib env r = do {
     read \<leftarrow> ReadIdentity lib env (VMID r) (ManifestPaths r);
     case read of
       Inl _ \<Rightarrow> returnM (Inr None)
     | Inr identity \<Rightarrow>
         if verifyRestored lib identity (Baseline r) \<noteq> None then returnM (Inr None)
         else do {
           results \<leftarrow> engine_check env (RestoredRequiredChecks r);
           bindE (store_observe lib env (OperationID r) (Generation r) results) (\<lambda>status.
             if status \<noteq> Armed \<and> status \<noteq> Recovering
             then throwE ''terminal deploy operation rejects restoration observations''
             else do {
               t \<leftarrow> now_op env;
               returnM (Inr (if checksPassed lib (RestoredRequiredChecks r) results t then Some identity else None))
             })
         }
   }"

fun awaitRestored :: "nat \<Rightarrow> libs \<Rightarrow> env \<Rightarrow> Record \<Rightarrow> ('a world_scheme, op_error + Identity) state" where
  "awaitRestored 0 lib env r = returnM (Inl context_ended)"
| "awaitRestored (Suc rounds) lib env r =
     bindE (restored_round lib env r) (\<lambda>found.
       case found of
         Some identity \<Rightarrow> returnM (Inr identity)
       | None \<Rightarrow> bindE (wait_op env) (\<lambda>_. awaitRestored rounds lib env r))"

text \<open>The part of a recovery between its announcement and its outcome.\<close>

definition recover_body :: "nat \<Rightarrow> libs \<Rightarrow> env \<Rightarrow> string \<Rightarrow> string \<Rightarrow> ('a world_scheme, op_error + unit) state" where
  "recover_body rounds lib env operationID generation =
     bindE (WaitForLease rounds lib env operationID generation) (\<lambda>_.
     bindE (engine_exact lib env operationID generation) (\<lambda>r. do {
       t \<leftarrow> now_op env;
       bindE (Restore env r t) (\<lambda>_.
       bindE (awaitRestored rounds lib env r) (\<lambda>identity.
       bindE (store_finishRecovery lib env operationID generation (Some identity)
                ''baseline identity and application responses restored'') (\<lambda>_. do {
         resolve_alert env ''deploy_operation_observation_failed'' (operation_key operationID generation)
           ''Deployment baseline application responses restored'';
         forM [''deploy_operation_watch_failed'', ''deploy_operation_recovery'', ''deploy_operation_recovery_failed'']
           (\<lambda>kind. resolve_alert env kind (operation_key operationID generation)
              ''Deployment baseline identity and application responses restored'');
         returnM (Inr ())
       })))
     }))"

text \<open>What follows the transition to recovering: the alerts, the body, and a failure's record.\<close>

definition recover_begun :: "nat \<Rightarrow> libs \<Rightarrow> env \<Rightarrow> string \<Rightarrow> string \<Rightarrow> Record \<Rightarrow> ('a world_scheme, op_error + unit) state" where
  "recover_begun rounds lib env operationID generation r = do {
     whenM (RecStatus r = Armed) (do {
       watchErr \<leftarrow> watch_verify env (Watch r);
       whenM (watchErr \<noteq> None)
         (transition env r ''deploy_operation_watch_failed'' ''Deployment watch identity could not be verified'')
     });
     transition env r ''deploy_operation_recovery'' ''Deployment snapshot recovery started'';
     outcome \<leftarrow> recover_body rounds lib env operationID generation;
     case outcome of
       Inr u \<Rightarrow> returnM (Inr u)
     | Inl e \<Rightarrow> do {
         _ \<leftarrow> store_finishRecovery lib env operationID generation None (op_error_text e);
         transition env r ''deploy_operation_recovery_failed'' ''Deployment snapshot recovery failed'';
         returnM (Inl e)
       }
   }"

text \<open>\<open>owns\<close>: the caller holds the coordinator of this rollback lock.\<close>

definition RecoverCoordinated :: "nat \<Rightarrow> libs \<Rightarrow> env \<Rightarrow> bool \<Rightarrow> string \<Rightarrow> string \<Rightarrow> string
    \<Rightarrow> ('a world_scheme, op_error + unit) state" where
  "RecoverCoordinated rounds lib env owns operationID generation reason =
     (if \<not> owns then throwE ''deployment recovery requires the hypervisor coordinator''
      else bindE (engine_exact lib env operationID generation) (\<lambda>r.
        if RecStatus r = Recovered then returnM (Inr ())
        else bindE (store_BeginRecovery lib env operationID generation reason) (\<lambda>_.
          recover_begun rounds lib env operationID generation r)))"

text \<open>\<^verbatim>\<open>rollback.Acquire\<close> of the hypervisor coordinator around a program; closing may fail.\<close>

definition coordinated :: "env \<Rightarrow> string \<Rightarrow> ('a world_scheme, op_error + 'r) state \<Rightarrow> ('a world_scheme, op_error + 'r) state" where
  "coordinated env msg m = do {
     acq \<leftarrow> ask (o_acquire env);
     case acq of
       Some e \<Rightarrow> throwE (msg @ e)
     | None \<Rightarrow> do { r \<leftarrow> m; closed \<leftarrow> io_op env; returnM (join_close r closed) }
   }"

definition Recover :: "nat \<Rightarrow> libs \<Rightarrow> env \<Rightarrow> string \<Rightarrow> string \<Rightarrow> string \<Rightarrow> ('a world_scheme, op_error + unit) state" where
  "Recover rounds lib env operationID generation reason =
     coordinated env ''coordinate deployment recovery: ''
       (RecoverCoordinated rounds lib env True operationID generation reason)"

section \<open>Committing\<close>

fun awaitWatchObservations :: "nat \<Rightarrow> libs \<Rightarrow> env \<Rightarrow> gotime \<Rightarrow> string \<Rightarrow> string
    \<Rightarrow> ('a world_scheme, op_error + unit) state" where
  "awaitWatchObservations 0 lib env start operationID generation = returnM (Inl context_ended)"
| "awaitWatchObservations (Suc rounds) lib env start operationID generation =
     bindE (engine_exact lib env operationID generation) (\<lambda>r. do {
       t \<leftarrow> now_op env;
       if RecStatus r \<noteq> Armed \<or> \<not> t < Deadline r
       then throwE ''deploy operation is not armed or its deadline has expired''
       else do {
         watchErr \<leftarrow> watch_verify env (Watch r);
         if watchErr \<noteq> None then throwE ''deploy commit requires the active deploy watch''
         else if MutationReady lib r t \<and> observedAfter (Results r) start then returnM (Inr ())
         else bindE (wait_op env) (\<lambda>_. awaitWatchObservations rounds lib env start operationID generation)
       }
     })"

text \<open>The verification that a commit runs inside its transaction.\<close>

definition commit_verify :: "libs \<Rightarrow> env \<Rightarrow> Record \<Rightarrow> ('a world_scheme, op_error + Result list) state" where
  "commit_verify lib env r =
     bindE (ReadIdentity lib env (VMID r) (ManifestPaths r)) (\<lambda>identity.
       if MachineID identity \<noteq> MachineID (Target r) \<or> ExecutableSHA256 identity \<noteq> ExecutableSHA256 (Target r) \<or>
          NetworkSHA256 identity \<noteq> NetworkSHA256 (Target r) \<or> RuntimeSHA256 identity \<noteq> RuntimeSHA256 (Target r)
       then throwE ''actual deployment target identity differs from the manifest''
       else do { results \<leftarrow> engine_check env (RequiredChecks r); returnM (Inr results) })"

definition engine_Commit :: "nat \<Rightarrow> libs \<Rightarrow> env \<Rightarrow> string \<Rightarrow> string \<Rightarrow> ('a world_scheme, op_error + unit) state" where
  "engine_Commit rounds lib env operationID generation = do {
     start \<leftarrow> now_op env;
     bindE (awaitWatchObservations rounds lib env start operationID generation) (\<lambda>_.
       coordinated env ''coordinate deployment commit: ''
         (store_Commit lib env operationID generation (commit_verify lib env)))
   }"

section \<open>Arming\<close>

fun awaitRegistered :: "nat \<Rightarrow> libs \<Rightarrow> env \<Rightarrow> ('a world_scheme, op_error + unit) state" where
  "awaitRegistered 0 lib env = returnM (Inl context_ended)"
| "awaitRegistered (Suc rounds) lib env =
     bindE (store_Read lib env) (\<lambda>registered.
       if RecStatus registered \<noteq> Armed then throwE ''deploy watch setup no longer permits mutations''
       else do {
         t \<leftarrow> now_op env;
         verified \<leftarrow> (if MutationReady lib registered t
                      then do { e \<leftarrow> watch_verify env (Watch registered); returnM (e = None) }
                      else returnM False);
         if verified then returnM (Inr ())
         else bindE (wait_op env) (\<lambda>_. awaitRegistered rounds lib env)
       })"

definition armed_record :: "Manifest \<Rightarrow> Result list \<Rightarrow> gotime \<Rightarrow> Record" where
  "armed_record m results observed =
     Manifest.extend m (Record.fields Armed None \<lparr>Unit = [], InvocationID = [], PID = 0\<rparr> [] zero_time None results observed)"

text \<open>After the record exists, a failure disarms it, or begins its recovery if it cannot disarm.\<close>

definition abandon_setup :: "libs \<Rightarrow> env \<Rightarrow> Record \<Rightarrow> op_error \<Rightarrow> ('a world_scheme, op_error + unit) state" where
  "abandon_setup lib env r e = do {
     disarmed \<leftarrow> store_Disarm lib env (OperationID r) (Generation r) ''deploy watch setup failed'';
     (case disarmed of
        Inr _ \<Rightarrow> returnM ()
      | Inl _ \<Rightarrow> ignore_result (store_BeginRecovery lib env (OperationID r) (Generation r) ''deploy watch setup failed''));
     transition env r ''deploy_operation_watch_failed'' ''Deployment watch setup failed'';
     returnM (Inl e)
   }"

definition Arm :: "nat \<Rightarrow> libs \<Rightarrow> env \<Rightarrow> Manifest \<Rightarrow> ('a world_scheme, op_error + unit) state" where
  "Arm rounds lib env m =
     (case manifest_validate lib m of
        Some e \<Rightarrow> throwE e
      | None \<Rightarrow> coordinated env ''coordinate deployment recovery: ''
         (bindE (ReadIdentity lib env (VMID m) (ManifestPaths m)) (\<lambda>identity.
          if identity \<noteq> Baseline m then throwE ''actual deployment baseline identity differs from the manifest''
          else bindE (wrapE ''read deployment baseline snapshots: '' (VMSnapshots (host_ops env) (VMID m))) (\<lambda>snapshots.
          if \<not> snapshotExists snapshots (Snapshot m) then throwE ''exact deployment baseline snapshot is absent''
          else do {
            results \<leftarrow> engine_check env (RequiredChecks m);
            t \<leftarrow> now_op env;
            if \<not> checksPassed lib (RequiredChecks m) results t
            then throwE ''deployment baseline application checks did not pass''
            else do {
              observed \<leftarrow> now_op env;
              let r = armed_record m results observed;
              bindE (store_Create lib env r) (\<lambda>_. do {
                started \<leftarrow> ask (o_start_watch env);
                setup \<leftarrow> (case started of
                    Some e \<Rightarrow> throwE e
                  | None \<Rightarrow> awaitRegistered rounds lib env);
                case setup of Inr u \<Rightarrow> returnM (Inr u) | Inl e \<Rightarrow> abandon_setup lib env r e
              })
            }
          }))))"

section \<open>Watching\<close>

fun watch_loop :: "nat \<Rightarrow> libs \<Rightarrow> env \<Rightarrow> int \<Rightarrow> string \<Rightarrow> string \<Rightarrow> ('a world_scheme, op_error + unit) state" where
  "watch_loop 0 lib env failures operationID generation = returnM (Inl context_ended)"
| "watch_loop (Suc rounds) lib env failures operationID generation =
     bindE (engine_exact lib env operationID generation) (\<lambda>r.
       if settled (RecStatus r) then returnM (Inr ())
       else do {
         t0 \<leftarrow> now_op env;
         if RecStatus r \<noteq> Armed \<or> \<not> t0 < Deadline r
         then Recover rounds lib env operationID generation
                ''operation deadline or recovery state requires snapshot restoration''
         else do {
           results \<leftarrow> engine_check env (RequiredChecks r);
           bindE (store_observe lib env operationID generation results) (\<lambda>status.
             if settled status then returnM (Inr ())
             else do {
               t1 \<leftarrow> now_op env;
               whenM (\<not> checksPassed lib (RequiredChecks r) results t1)
                 (raise_alert env \<lparr>Now = t1, Level = LevelWarn, Kind = ''deploy_operation_observation_failed'',
                    Key = operation_key operationID generation,
                    Message = ''Deployment application observations did not pass'', IsRecovery = False\<rparr>);
               bindE (engine_exact lib env operationID generation) (\<lambda>current.
                 if settled (RecStatus current) then returnM (Inr ())
                 else do {
                   t2 \<leftarrow> now_op env;
                   let failures1 = (if watchObservationsAllowed lib r current results t2 then 0 else failures + 1);
                   if FailureThreshold r \<le> failures1
                   then Recover rounds lib env operationID generation ''required application observations failed''
                   else bindE (wait_op env) (\<lambda>_. watch_loop rounds lib env failures1 operationID generation)
                 })
             })
         }
       })"

definition engine_Watch :: "nat \<Rightarrow> libs \<Rightarrow> env \<Rightarrow> int \<Rightarrow> string \<Rightarrow> string \<Rightarrow> ('a world_scheme, op_error + unit) state" where
  "engine_Watch rounds lib env own_pid operationID generation =
     bindE (engine_exact lib env operationID generation) (\<lambda>r.
     bindE (store_RegisterWatch lib env own_pid operationID generation (WatchUnit r)) (\<lambda>_.
       watch_loop rounds lib env 0 operationID generation))"

section \<open>Every call of the engine is safe\<close>

lemma keeps_bindE [keeps_rules]:
  "keeps I m \<Longrightarrow> (\<And>a. keeps I (f a)) \<Longrightarrow> keeps I (bindE m f)"
  unfolding bindE_def by (intro keeps_rules)

lemma keeps_throwE [keeps_rules]: "keeps I (throwE e)"
  unfolding throwE_def by (intro keeps_rules)

lemma keeps_wrapE [keeps_rules]: "keeps I m \<Longrightarrow> keeps I (wrapE msg m)"
  unfolding wrapE_def by (intro keeps_rules)

lemma keeps_ignore_result [keeps_rules]: "keeps I m \<Longrightarrow> keeps I (ignore_result m)"
  unfolding ignore_result_def by (intro keeps_rules)

lemma keeps_wait_op [keeps_rules]: "keeps (on_trace P) (wait_op env)"
  unfolding wait_op_def by (intro keeps_rules)

lemma keeps_watch_verify [keeps_rules]: "keeps (on_trace P) (watch_verify env identity)"
  unfolding watch_verify_def by (intro keeps_rules)

lemma keeps_locked [keeps_rules]: "keeps (on_trace P) m \<Longrightarrow> keeps (on_trace P) (locked env m)"
  unfolding locked_def by (intro keeps_rules keeps_modify) simp

lemma keeps_store_read [keeps_rules]: "keeps (on_trace P) (store_read lib env)"
  unfolding store_read_def by (intro keeps_rules)

lemma keeps_store_Read [keeps_rules]: "keeps (on_trace P) (store_Read lib env)"
  unfolding store_Read_def by (intro keeps_rules)

lemma keeps_engine_exact [keeps_rules]: "keeps (on_trace P) (engine_exact lib env oid gen)"
  unfolding engine_exact_def by (intro keeps_rules)

lemma keeps_engine_check [keeps_rules]: "keeps (on_trace P) (engine_check env checks)"
  by (induction checks) (auto intro!: keeps_rules)

lemma keeps_transition [keeps_rules]: "keeps (on_trace P) (transition env r kind message)"
  unfolding transition_def engine_alert_def by (intro keeps_rules)

text \<open>The store and the parts of a recovery that make only plain calls.\<close>

context plain_trace
begin

lemma engine_store_write [keeps_rules]: "keeps (on_trace P) (store_write lib env r)"
  unfolding store_write_def by (intro keeps_rules) simp_all

lemma engine_archive [keeps_rules]: "keeps (on_trace P) (archive_record env r)"
  unfolding archive_record_def by (intro keeps_rules)

lemma engine_change [keeps_rules]:
  "(\<And>r. keeps (on_trace P) (upd r)) \<Longrightarrow> keeps (on_trace P) (change lib env oid gen upd)"
  unfolding change_def by (intro keeps_rules)

lemma engine_updates [keeps_rules]:
  "keeps (on_trace P) (grant_update lib env phase deadline r)"
  "keeps (on_trace P) (register_update identity r)"
  "keeps (on_trace P) (release_update leaseID r)"
  "keeps (on_trace P) (begin_recovery_update reason r)"
  "keeps (on_trace P) (disarm_update reason r)"
  "keeps (on_trace P) (finish_recovery_update lib env restored reason r)"
  unfolding grant_update_def register_update_def release_update_def begin_recovery_update_def
    disarm_update_def finish_recovery_update_def
  by (intro keeps_rules)+

lemma engine_commit_update [keeps_rules]:
  "(\<And>r. keeps (on_trace P) (verify r)) \<Longrightarrow> keeps (on_trace P) (commit_update lib env verify r)"
  unfolding commit_update_def by (intro keeps_rules)

lemma engine_store [keeps_rules]:
  "keeps (on_trace P) (store_Create lib env r)"
  "keeps (on_trace P) (store_RegisterWatch lib env pid oid gen u)"
  "keeps (on_trace P) (store_BeginRecovery lib env oid gen reason)"
  "keeps (on_trace P) (store_Disarm lib env oid gen reason)"
  "keeps (on_trace P) (store_finishRecovery lib env oid gen restored reason)"
  "keeps (on_trace P) (store_observe lib env oid gen results)"
  unfolding store_Create_def store_RegisterWatch_def store_BeginRecovery_def store_Disarm_def
    store_finishRecovery_def store_observe_def
  by (intro keeps_rules)+

lemma engine_ReadIdentity [keeps_rules]: "keeps (on_trace P) (ReadIdentity lib env vmid paths)"
  unfolding ReadIdentity_def guestDigest_def guestText_def by (intro keeps_rules)

lemma engine_WaitForLease [keeps_rules]: "keeps (on_trace P) (WaitForLease n lib env oid gen)"
  by (induction n) (auto intro!: keeps_rules)

lemma engine_restored_round [keeps_rules]: "keeps (on_trace P) (restored_round lib env r)"
  unfolding restored_round_def by (intro keeps_rules)

lemma engine_awaitRestored [keeps_rules]: "keeps (on_trace P) (awaitRestored n lib env r)"
  by (induction n) (auto intro!: keeps_rules)

end

context rollback_trace
begin

lemma engine_descendants [keeps_rules]: "keeps (on_trace P) (delete_descendants env v ss)"
  by (induction ss) (auto intro!: keeps_rules)

lemma engine_Restore [keeps_rules]: "keeps (on_trace P) (Restore env r t)"
  unfolding Restore_def by (intro keeps_rules)

lemma engine_recover [keeps_rules]:
  "keeps (on_trace P) (RecoverCoordinated n lib env owns oid gen reason)"
  unfolding RecoverCoordinated_def recover_begun_def recover_body_def by (intro keeps_rules)

end

lemma safe_VMSnapshot [keeps_rules]: "keeps (trace_ok safe_event) (VMSnapshot (host_ops env) v s)"
  by (simp add: host_ops_def keeps_trace_call)

text \<open>
  Between the confirmed stop and the rollback the engine only deletes snapshots, which keeps
  the guest known to be stopped.
\<close>

definition stopped_ok :: "string \<Rightarrow> 'a world_scheme \<Rightarrow> bool" where
  "stopped_ok v w \<longleftrightarrow> trace_ok safe_event w \<and> known_stopped v (trace w)"

lemma stopped_ok_delete: "keeps (stopped_ok v) (VMDelSnapshot (host_ops env) u s)"
  by (simp add: keeps_def stopped_ok_def trace_ok_def host_ops_def)

lemma stopped_ok_snapshots: "keeps (stopped_ok v) (VMSnapshots (host_ops env) u)"
  by (simp add: keeps_def stopped_ok_def trace_ok_def host_ops_def)

lemma stopped_ok_rollback: "keeps (stopped_ok v) (VMRollback (host_ops env) v s)"
  by (simp add: keeps_def stopped_ok_def trace_ok_def host_ops_def)

lemma stopped_ok_descendants: "keeps (stopped_ok v) (delete_descendants env u ss)"
  by (induction ss) (auto intro!: keeps_rules stopped_ok_delete)

lemma stopped_ok_trace: "stopped_ok v w \<Longrightarrow> trace_ok safe_event w"
  by (simp add: stopped_ok_def)

text \<open>A stop that succeeds followed by a status that is not running establishes it.\<close>

lemma triple_stop:
  "triple (trace_ok safe_event) (VMStop (host_ops env) v)
     (\<lambda>r w. trace_ok safe_event w \<and> (r = Inr () \<longrightarrow> stop_issued v (trace w)))"
  by (auto simp: triple_def host_ops_def trace_ok_def)

lemma triple_status:
  "triple (\<lambda>w. trace_ok safe_event w \<and> stop_issued v (trace w)) (VMStatus (host_ops env) v)
     (\<lambda>r w. trace_ok safe_event w \<and> (r = Inr False \<longrightarrow> known_stopped v (trace w)))"
  by (auto simp: triple_def host_ops_def trace_ok_def)

lemma triple_bindE:
  "triple P m (\<lambda>r w. case r of Inl e \<Rightarrow> Q (Inl e) w | Inr a \<Rightarrow> R a w) \<Longrightarrow>
   (\<And>a. triple (R a) (f a) Q) \<Longrightarrow> triple P (bindE m f) Q"
  unfolding bindE_def by (erule triple_bind) (auto simp: triple_def split: sum.split)

lemma triple_wrapE:
  "triple P m (\<lambda>r w. case r of Inl e \<Rightarrow> Q (Inl (OpError (msg @ e))) w | Inr a \<Rightarrow> Q (Inr a) w) \<Longrightarrow>
   triple P (wrapE msg m) Q"
  unfolding wrapE_def by (erule triple_bind) (auto simp: triple_def split: sum.split)

lemma triple_safe: "keeps (trace_ok safe_event) m \<Longrightarrow> triple (trace_ok safe_event) m (\<lambda>_. trace_ok safe_event)"
  by (simp add: triple_keeps)

lemma triple_from_stopped:
  "keeps (stopped_ok v) m \<Longrightarrow> triple (stopped_ok v) m (\<lambda>_. stopped_ok v)"
  by (simp add: triple_keeps)

text \<open>The tail of a restoration, from the moment the guest is known to be stopped.\<close>

lemma restore_tail:
  "triple (stopped_ok v)
     (bindE (delete_descendants env v ss) (\<lambda>_.
        bindE (wrapE a (VMRollback (host_ops env) v s)) (\<lambda>_. wrapE b (VMStart (host_ops env) v))))
     (\<lambda>_. trace_ok safe_event)"
proof (rule triple_bindE [where R = "\<lambda>_. stopped_ok v"])
  show "triple (stopped_ok v) (delete_descendants env v ss)
      (\<lambda>r w. case r of Inl e \<Rightarrow> trace_ok safe_event w | Inr x \<Rightarrow> stopped_ok v w)"
    by (rule triple_weaken [OF triple_from_stopped [OF stopped_ok_descendants]])
       (auto simp: stopped_ok_trace split: sum.split)
  show "triple (stopped_ok v) (bindE (wrapE a (VMRollback (host_ops env) v s)) (\<lambda>_. wrapE b (VMStart (host_ops env) v)))
      (\<lambda>_. trace_ok safe_event)"
  proof (rule triple_bindE [where R = "\<lambda>_. trace_ok safe_event"])
    show "triple (stopped_ok v) (wrapE a (VMRollback (host_ops env) v s))
        (\<lambda>r w. case r of Inl e \<Rightarrow> trace_ok safe_event w | Inr x \<Rightarrow> trace_ok safe_event w)"
      by (rule triple_wrapE, rule triple_weaken [OF triple_from_stopped [OF stopped_ok_rollback]])
         (auto simp: stopped_ok_trace split: sum.split)
    show "triple (trace_ok safe_event) (wrapE b (VMStart (host_ops env) v)) (\<lambda>_. trace_ok safe_event)"
      by (intro triple_safe keeps_rules)
  qed
qed

lemma safe_Restore [keeps_rules]: "keeps (trace_ok safe_event) (Restore env r t)"
proof -
  let ?v = "VMID r"
  have stopped: "triple (\<lambda>w. trace_ok safe_event w \<and> known_stopped ?v (trace w))
      (bindE (delete_descendants env ?v ss) (\<lambda>_.
         bindE (wrapE a (VMRollback (host_ops env) ?v s)) (\<lambda>_. wrapE b (VMStart (host_ops env) ?v))))
      (\<lambda>_. trace_ok safe_event)" for ss a s b
    by (rule triple_weaken [OF restore_tail]) (simp_all add: stopped_ok_def)
  have status: "triple (\<lambda>w. trace_ok safe_event w \<and> stop_issued ?v (trace w))
      (bindE (wrapE c (VMStatus (host_ops env) ?v)) (\<lambda>running.
         if running then throwE d
         else bindE (delete_descendants env ?v ss) (\<lambda>_.
           bindE (wrapE a (VMRollback (host_ops env) ?v s)) (\<lambda>_. wrapE b (VMStart (host_ops env) ?v)))))
      (\<lambda>_. trace_ok safe_event)" for ss a s b c d
  proof (rule triple_bindE [where R = "\<lambda>running w. trace_ok safe_event w \<and> (\<not> running \<longrightarrow> known_stopped ?v (trace w))"],
      rule triple_wrapE, rule triple_weaken [OF triple_status])
    fix running
    show "triple (\<lambda>w. trace_ok safe_event w \<and> (\<not> running \<longrightarrow> known_stopped ?v (trace w)))
      (if running then throwE d
       else bindE (delete_descendants env ?v ss) (\<lambda>_.
         bindE (wrapE a (VMRollback (host_ops env) ?v s)) (\<lambda>_. wrapE b (VMStart (host_ops env) ?v))))
      (\<lambda>_. trace_ok safe_event)"
      by (cases running) (simp_all add: stopped, simp add: throwE_def triple_def)
  qed (auto split: sum.split)
  have stop: "triple (trace_ok safe_event)
      (bindE (wrapE e (VMStop (host_ops env) ?v)) (\<lambda>_.
        bindE (wrapE c (VMStatus (host_ops env) ?v)) (\<lambda>running.
         if running then throwE d
         else bindE (delete_descendants env ?v ss) (\<lambda>_.
           bindE (wrapE a (VMRollback (host_ops env) ?v s)) (\<lambda>_. wrapE b (VMStart (host_ops env) ?v))))))
      (\<lambda>_. trace_ok safe_event)" for ss a s b c d e
    by (rule triple_bindE [OF triple_wrapE [OF triple_weaken [OF triple_stop]] status])
       (auto split: sum.split)
  show ?thesis
    unfolding Restore_def by (intro keeps_if keeps_bindE keeps_throwE keeps_wrapE safe.host_ops_plain stop [folded triple_keeps])
qed

lemma safe_recover [keeps_rules]:
  "keeps (trace_ok safe_event) (RecoverCoordinated n lib env owns oid gen reason)"
  unfolding RecoverCoordinated_def recover_begun_def recover_body_def by (intro keeps_rules)

lemma keeps_coordinated [keeps_rules]: "keeps (on_trace P) m \<Longrightarrow> keeps (on_trace P) (coordinated env msg m)"
  unfolding coordinated_def by (intro keeps_rules)

lemma safe_Recover [keeps_rules]: "keeps (trace_ok safe_event) (Recover n lib env oid gen reason)"
  unfolding Recover_def by (intro keeps_rules)

lemma safe_awaitWatchObservations [keeps_rules]:
  "keeps (trace_ok safe_event) (awaitWatchObservations n lib env start oid gen)"
  by (induction n) (auto intro!: keeps_rules)

lemma safe_engine_Commit: "keeps (trace_ok safe_event) (engine_Commit n lib env oid gen)"
  unfolding engine_Commit_def store_Commit_def commit_verify_def by (intro keeps_rules)

lemma safe_awaitRegistered [keeps_rules]: "keeps (trace_ok safe_event) (awaitRegistered n lib env)"
  by (induction n) (auto intro!: keeps_rules)

lemma safe_Arm: "keeps (trace_ok safe_event) (Arm n lib env m)"
  unfolding Arm_def abandon_setup_def by (intro keeps_rules)

lemma safe_watch_loop [keeps_rules]: "keeps (trace_ok safe_event) (watch_loop n lib env k oid gen)"
  by (induction n arbitrary: k) (simp_all add: Let_def, (intro keeps_rules)+)

lemma safe_engine_Watch: "keeps (trace_ok safe_event) (engine_Watch n lib env pid oid gen)"
  unfolding engine_Watch_def by (intro keeps_rules)

section \<open>Properties\<close>

text \<open>The commands of the engine, as the deploy tool and its watch process issue them.\<close>

datatype engine_call =
    CallArm Manifest
  | CallWatch int string string
  | CallCommit string string
  | CallRecover string string string

fun run_engine :: "nat \<Rightarrow> libs \<Rightarrow> env \<Rightarrow> engine_call \<Rightarrow> ('a world_scheme, unit) state" where
  "run_engine rounds lib env (CallArm m) = ignore_result (Arm rounds lib env m)"
| "run_engine rounds lib env (CallWatch pid oid gen) = ignore_result (engine_Watch rounds lib env pid oid gen)"
| "run_engine rounds lib env (CallCommit oid gen) = ignore_result (engine_Commit rounds lib env oid gen)"
| "run_engine rounds lib env (CallRecover oid gen reason) = ignore_result (Recover rounds lib env oid gen reason)"

lemma safe_run_engine: "keeps (trace_ok safe_event) (run_engine rounds lib env call)"
  by (cases call) (auto intro!: keeps_rules safe_Arm safe_engine_Watch safe_engine_Commit)

text \<open>
  C7: The deploy engine never makes a dangerous call outside the state that justifies it: in any
  sequence of its commands, whatever the outside answers and however each command ends, a guest
  is rolled back only after a stop of it succeeded and its status was then not running, with no
  start since.
\<close>

theorem engine_calls_safe:
  "guarded safe_event (trace (snd (run_state (forM calls (run_engine rounds lib env)) (w\<lparr>trace := []\<rparr>))))"
proof -
  have "keeps (trace_ok safe_event) (forM calls (run_engine rounds lib env) :: ('a world_scheme, unit) state)"
    by (intro keeps_forM safe_run_engine)
  from keeps_run [OF this, of "w\<lparr>trace := []\<rparr>"] show ?thesis
    by (simp add: trace_ok_def)
qed

end
