(* ===== verification/Alert.thy ===== *)
theory Alert
  imports Prelude
begin

text \<open>
  The package \<^verbatim>\<open>internal/alert\<close>: the limiter that spaces the partial-loss and total-loss
  alerts, and the coordination flags that hold a shutdown signal back during a rollback.
  Every method of the source takes the mutex for its whole body, so each is one atomic
  function on the record. The locale \<open>cooldown_gate\<close> states what a rate-limited sender
  promises; both severities of the limiter are interpretations of it.
\<close>

section \<open>Coord\<close>

record coord =
  rollingBack :: bool
  shutdownAfterRollback :: bool

definition new_coord :: coord where
  "new_coord = \<lparr>rollingBack = False, shutdownAfterRollback = False\<rparr>"

definition SetRollingBack :: "bool \<Rightarrow> coord \<Rightarrow> coord" where
  "SetRollingBack v c = c\<lparr>rollingBack := v\<rparr>"

definition IsRollingBack :: "coord \<Rightarrow> bool" where
  "IsRollingBack c = rollingBack c"

definition OnSignalDuringRollback :: "coord \<Rightarrow> coord" where
  "OnSignalDuringRollback c = c\<lparr>shutdownAfterRollback := True\<rparr>"

definition TakeShutdownAfterRollback :: "coord \<Rightarrow> bool \<times> coord" where
  "TakeShutdownAfterRollback c = (shutdownAfterRollback c, c\<lparr>shutdownAfterRollback := False\<rparr>)"

lemmas coord_defs = SetRollingBack_def IsRollingBack_def OnSignalDuringRollback_def
  TakeShutdownAfterRollback_def

section \<open>Limiter\<close>

record limiter =
  nextPartialSendAt :: gotime
  nextTotalSendAt :: gotime
  cooldown :: duration

definition NewLimiter :: "int \<Rightarrow> limiter" where
  "NewLimiter cooldownSec =
     \<lparr>nextPartialSendAt = zero_time, nextTotalSendAt = zero_time, cooldown = seconds cooldownSec\<rparr>"

definition TrySendPartial :: "gotime \<Rightarrow> limiter \<Rightarrow> bool \<times> limiter" where
  "TrySendPartial now a =
     (if now < nextPartialSendAt a then (False, a)
      else (True, a\<lparr>nextPartialSendAt := now + cooldown a\<rparr>))"

definition TrySendTotal :: "gotime \<Rightarrow> limiter \<Rightarrow> bool \<times> limiter" where
  "TrySendTotal now a =
     (if now < nextTotalSendAt a then (False, a)
      else (True, a\<lparr>nextTotalSendAt := now + cooldown a\<rparr>))"

definition ResetCooldowns :: "limiter \<Rightarrow> limiter" where
  "ResetCooldowns a = a\<lparr>nextPartialSendAt := zero_time, nextTotalSendAt := zero_time\<rparr>"

definition PartialCooldownRemaining :: "gotime \<Rightarrow> limiter \<Rightarrow> duration" where
  "PartialCooldownRemaining now a =
     (if now < nextPartialSendAt a then nextPartialSendAt a - now else 0)"

definition TotalCooldownRemaining :: "gotime \<Rightarrow> limiter \<Rightarrow> duration" where
  "TotalCooldownRemaining now a =
     (if now < nextTotalSendAt a then nextTotalSendAt a - now else 0)"

lemmas limiter_defs = TrySendPartial_def TrySendTotal_def ResetCooldowns_def
  PartialCooldownRemaining_def TotalCooldownRemaining_def

subsection \<open>The contract of a rate-limited sender\<close>

text \<open>
  \<open>send_times\<close> offers an alert at each of the given times and collects the times at
  which it is sent.
\<close>

fun send_times :: "(gotime \<Rightarrow> 'l \<Rightarrow> bool \<times> 'l) \<Rightarrow> gotime list \<Rightarrow> 'l \<Rightarrow> gotime list" where
  "send_times offer [] l = []"
| "send_times offer (t # ts) l =
     (case offer t l of (sent, l') \<Rightarrow> (if sent then t # send_times offer ts l' else send_times offer ts l'))"

locale cooldown_gate =
  fixes offer :: "gotime \<Rightarrow> 'l \<Rightarrow> bool \<times> 'l"
    and next_at :: "'l \<Rightarrow> gotime"
    and pause :: "'l \<Rightarrow> duration"
    and remaining :: "gotime \<Rightarrow> 'l \<Rightarrow> duration"
  assumes denied: "now < next_at l \<Longrightarrow> offer now l = (False, l)"
    and granted: "\<not> now < next_at l \<Longrightarrow> fst (offer now l)"
    and granted_next: "\<not> now < next_at l \<Longrightarrow> next_at (snd (offer now l)) = now + pause l"
    and pause_kept: "pause (snd (offer now l)) = pause l"
    and remaining_eq: "remaining now l = max 0 (next_at l - now)"
begin

lemma offer_cases:
  obtains (deny) "now < next_at l" "offer now l = (False, l)"
  | (grant) l' where "next_at l \<le> now" "offer now l = (True, l')"
      "next_at l' = now + pause l" "pause l' = pause l"
proof (cases "now < next_at l")
  case True
  with denied deny show ?thesis by blast
next
  case False
  obtain b l' where o: "offer now l = (b, l')"
    by fastforce
  with False granted [of now l] granted_next [of now l] pause_kept [of now l] grant show ?thesis
    by simp
qed

lemma send_times_after: "t \<in> set (send_times offer ts l) \<Longrightarrow> 0 \<le> pause l \<Longrightarrow> next_at l \<le> t"
proof (induction ts arbitrary: l)
  case (Cons u us)
  show ?case
  proof (cases rule: offer_cases [of u l])
    case deny
    with Cons show ?thesis by simp
  next
    case (grant l')
    with Cons.prems Cons.IH [of l'] show ?thesis by auto
  qed
qed simp

lemma sends_spaced:
  "0 \<le> pause l \<Longrightarrow> sorted_wrt (\<lambda>s t. s + pause l \<le> t) (send_times offer ts l)"
proof (induction ts arbitrary: l)
  case (Cons u us)
  show ?case
  proof (cases rule: offer_cases [of u l])
    case deny
    with Cons show ?thesis by simp
  next
    case (grant l')
    with Cons.prems Cons.IH [of l'] send_times_after [of _ us l'] show ?thesis
      by auto
  qed
qed simp

lemma remaining_zero_iff: "remaining now l = 0 \<longleftrightarrow> fst (offer now l)"
  by (cases rule: offer_cases [of now l]) (simp_all add: remaining_eq)

end

interpretation partial_gate: cooldown_gate TrySendPartial nextPartialSendAt cooldown PartialCooldownRemaining
  by unfold_locales (auto simp: limiter_defs)

interpretation total_gate: cooldown_gate TrySendTotal nextTotalSendAt cooldown TotalCooldownRemaining
  by unfold_locales (auto simp: limiter_defs)

subsection \<open>Properties of the limiter\<close>

lemma send_partial_keeps_total [simp]:
  "nextTotalSendAt (snd (TrySendPartial now a)) = nextTotalSendAt a"
  by (simp add: TrySendPartial_def)

lemma send_total_keeps_partial [simp]:
  "nextPartialSendAt (snd (TrySendTotal now a)) = nextPartialSendAt a"
  by (simp add: TrySendTotal_def)

lemma send_keeps_cooldown [simp]:
  "cooldown (snd (TrySendPartial now a)) = cooldown a"
  "cooldown (snd (TrySendTotal now a)) = cooldown a"
  by (simp_all add: limiter_defs)

text \<open>
  The limiter as the watchdog drives it: a sequence of partial alerts, total alerts and
  recoveries, each at its time. The result pairs the total alerts that go out with their
  times.
\<close>

datatype limiter_event = OfferPartial gotime | OfferTotal gotime | ConnectivityRestored

fun limiter_step :: "limiter_event \<Rightarrow> limiter \<Rightarrow> limiter" where
  "limiter_step (OfferPartial t) a = snd (TrySendPartial t a)"
| "limiter_step (OfferTotal t) a = snd (TrySendTotal t a)"
| "limiter_step ConnectivityRestored a = ResetCooldowns a"

fun total_sent :: "limiter_event list \<Rightarrow> limiter \<Rightarrow> gotime list" where
  "total_sent [] a = []"
| "total_sent (OfferTotal t # es) a =
     (if fst (TrySendTotal t a) then t # total_sent es (limiter_step (OfferTotal t) a)
      else total_sent es (limiter_step (OfferTotal t) a))"
| "total_sent (e # es) a = total_sent es (limiter_step e a)"

fun is_partial :: "limiter_event \<Rightarrow> bool" where
  "is_partial (OfferPartial t) = True"
| "is_partial _ = False"

lemma total_sent_cong:
  "nextTotalSendAt a = nextTotalSendAt b \<Longrightarrow> cooldown a = cooldown b \<Longrightarrow> total_sent es a = total_sent es b"
proof (induction es arbitrary: a b)
  case (Cons e es)
  have step: "nextTotalSendAt (limiter_step e a) = nextTotalSendAt (limiter_step e b)"
    "cooldown (limiter_step e a) = cooldown (limiter_step e b)"
    using Cons.prems by (cases e; simp add: TrySendTotal_def ResetCooldowns_def)+
  have "total_sent es (limiter_step e a) = total_sent es (limiter_step e b)"
    by (rule Cons.IH [OF step])
  moreover have "fst (TrySendTotal t a) = fst (TrySendTotal t b)" for t
    using Cons.prems by (simp add: TrySendTotal_def)
  ultimately show ?case
    by (cases e) simp_all
qed simp

subsection \<open>Properties\<close>



text \<open>
  C28: The severities do not interfere. Removing every partial-loss alert from a run of the limiter
  leaves the total-loss alerts that go out, and their times, unchanged.
\<close>

theorem limiter_severities_independent:
  "total_sent (filter (\<lambda>e. \<not> is_partial e) es) a = total_sent es a"
proof (induction es arbitrary: a)
  case (Cons e es)
  show ?case
  proof (cases e)
    case (OfferPartial t)
    have "total_sent es (limiter_step e a) = total_sent es a"
      by (rule total_sent_cong) (simp_all add: OfferPartial)
    with Cons.IH show ?thesis
      by (simp add: OfferPartial)
  qed (simp_all add: Cons.IH)
qed simp

end
