(* ===== verification/WatchdogConfig.thy ===== *)
theory WatchdogConfig
  imports GoStrings
begin

text \<open>
  The package \<^verbatim>\<open>internal/watchdogconfig\<close>: the hypervisor-side configuration that the watchdog
  and the failover check read. Go \<^verbatim>\<open>int\<close> fields are \<open>int\<close>; the notification and mail
  sections enter the model through the notifier they configure.
\<close>

record NetworkConfig =
  PingTargetIPv4 :: string
  PingTargetIPv6 :: string
  LastDeployPath :: string
  LastChangePath :: string

record WatchdogSection =
  DeployWindowMinutes :: int
  ConnectivityTimeoutSeconds :: int
  CheckIntervalHealthy :: int
  CheckIntervalDegraded :: int
  PostRollbackGraceSeconds :: int
  AlertCooldownSeconds :: int
  DeployGracePeriodSeconds :: int
  MaxRollbackAttempts :: int
  MaxIterations :: int
  SnapshotHealthyThreshold :: int
  MaxKnownGoodSnapshots :: int
  HashCheckEveryNHealthy :: int
  MinSnapshotIntervalSeconds :: int
  MaxTotalSnapshots :: int
  VsockCID :: int
  VsockPort :: int
  MwanAgentTCPAddr :: string
  StatusListenPort :: int
  StatusCommand :: "string list"
  ConfigStateCommand :: "string list"
  RollbackLockFile :: string
  RollbackStateFile :: string

definition HealthyInterval :: "WatchdogSection \<Rightarrow> duration" where
  "HealthyInterval ws = seconds (CheckIntervalHealthy ws)"

definition DegradedInterval :: "WatchdogSection \<Rightarrow> duration" where
  "DegradedInterval ws = seconds (CheckIntervalDegraded ws)"

definition PostRollbackGrace :: "WatchdogSection \<Rightarrow> duration" where
  "PostRollbackGrace ws = seconds (PostRollbackGraceSeconds ws)"

record FailoverSection =
  LXCID :: string
  AgentTCPAddr :: string

definition GuestTypeLXC :: string where
  "GuestTypeLXC = ''lxc''"

record Config =
  MwanVMID :: string
  GuestType :: string
  Network :: NetworkConfig
  Watchdog :: WatchdogSection
  Failover :: FailoverSection

text \<open>A configuration like the production one, for the concrete runs of the development.\<close>

definition sample_config :: Config where
  "sample_config =
     \<lparr>MwanVMID = ''113'', GuestType = ''qemu'',
      Network = \<lparr>PingTargetIPv4 = ''1.1.1.1'', PingTargetIPv6 = ''2606:4700:4700::1111'',
        LastDeployPath = ''/var/lib/mwan/last-deploy'', LastChangePath = ''/var/lib/mwan/last-change''\<rparr>,
      Watchdog = \<lparr>DeployWindowMinutes = 30, ConnectivityTimeoutSeconds = 60, CheckIntervalHealthy = 30,
        CheckIntervalDegraded = 5, PostRollbackGraceSeconds = 90, AlertCooldownSeconds = 300,
        DeployGracePeriodSeconds = 0, MaxRollbackAttempts = 3, MaxIterations = 0,
        SnapshotHealthyThreshold = 1, MaxKnownGoodSnapshots = 3, HashCheckEveryNHealthy = 0,
        MinSnapshotIntervalSeconds = 3600, MaxTotalSnapshots = 6, VsockCID = 113, VsockPort = 50051,
        MwanAgentTCPAddr = [], StatusListenPort = 0, StatusCommand = [], ConfigStateCommand = [],
        RollbackLockFile = ''/run/mwan/rollback.lock'', RollbackStateFile = ''/var/lib/mwan/rollback.state''\<rparr>,
      Failover = \<lparr>LXCID = ''116'', AgentTCPAddr = ''10.250.0.6:50051''\<rparr>\<rparr>"

end
