(* ===== verification/FailoverCheck.thy ===== *)
theory FailoverCheck
  imports WatchdogConfig GoNet
begin

text \<open>
  The package \<^verbatim>\<open>internal/failovercheck\<close>: the static preconditions of a failover. Each failed
  precondition is a value of \<open>failure\<close>; \<^verbatim>\<open>Check\<close> lists all of them.
\<close>

datatype hostport_error = SplitFailed | HostEmpty | HostInvalid | PortInvalid | PortZero

datatype failure =
    MissingLXCID
  | MissingVMID
  | SameGuest
  | MissingAgentAddr
  | BadAgentAddr hostport_error
  | NoPrimaryEndpoint

definition is_letter :: "char \<Rightarrow> bool" where
  "is_letter c \<longleftrightarrow>
     (97 \<le> (of_char c :: nat) \<and> (of_char c :: nat) \<le> 122) \<or> (65 \<le> (of_char c :: nat) \<and> (of_char c :: nat) \<le> 90)"

definition isHostnameLabel :: "string \<Rightarrow> bool" where
  "isHostnameLabel label =
     (if label = [] \<or> 63 < length label then False
      else if hd label = CHR ''-'' \<or> last label = CHR ''-'' then False
      else list_all (\<lambda>c. is_letter c \<or> is_digit c \<or> c = CHR ''-'') label)"

definition isAddressOrHostname :: "string \<Rightarrow> bool" where
  "isAddressOrHostname host =
     (if parse_addr host \<noteq> None then True
      else if 253 < length host then False
      else list_all isHostnameLabel (split_at CHR ''.'' host))"

definition validateHostPort :: "string \<Rightarrow> hostport_error option" where
  "validateHostPort address =
     (case split_host_port address of
        None \<Rightarrow> Some SplitFailed
      | Some (host, portText) \<Rightarrow>
          if host = [] then Some HostEmpty
          else if \<not> isAddressOrHostname host then Some HostInvalid
          else case parse_uint16 portText of
                 None \<Rightarrow> Some PortInvalid
               | Some port \<Rightarrow> if port = 0 then Some PortZero else None)"

definition Check :: "Config \<Rightarrow> failure list" where
  "Check cfg =
     (if LXCID (Failover cfg) = [] then [MissingLXCID] else []) @
     (if MwanVMID cfg = [] then [MissingVMID] else []) @
     (if LXCID (Failover cfg) \<noteq> [] \<and> LXCID (Failover cfg) = MwanVMID cfg then [SameGuest] else []) @
     (if AgentTCPAddr (Failover cfg) = [] then [MissingAgentAddr]
      else case validateHostPort (AgentTCPAddr (Failover cfg)) of
             None \<Rightarrow> []
           | Some e \<Rightarrow> [BadAgentAddr e]) @
     (if VsockCID (Watchdog cfg) = 0 \<and> MwanAgentTCPAddr (Watchdog cfg) = [] then [NoPrimaryEndpoint] else [])"

section \<open>Properties\<close>

lemma parse_uint16_bounds: "parse_uint16 s = Some p \<Longrightarrow> 0 \<le> p \<and> p \<le> 65535"
  by (auto simp: parse_uint16_def split: if_splits)

lemma validateHostPort_None_iff:
  "validateHostPort a = None \<longleftrightarrow>
     (\<exists>h t p. split_host_port a = Some (h, t) \<and> h \<noteq> [] \<and> isAddressOrHostname h \<and>
        parse_uint16 t = Some p \<and> p \<noteq> 0)"
  by (auto simp: validateHostPort_def split: option.splits)

lemma validateHostPort_accepts:
  "validateHostPort a = None \<longleftrightarrow>
     (\<exists>h t p. (a = h @ CHR '':'' # t \<or> a = CHR ''['' # h @ CHR '']'' # CHR '':'' # t) \<and>
        split_host_port a = Some (h, t) \<and> h \<noteq> [] \<and> isAddressOrHostname h \<and>
        parse_uint16 t = Some p \<and> 1 \<le> p \<and> p \<le> 65535)" (is "_ \<longleftrightarrow> (\<exists>h t p. ?ok h t p)")
proof
  assume "validateHostPort a = None"
  then obtain h t p where a: "split_host_port a = Some (h, t)" "h \<noteq> []" "isAddressOrHostname h"
      and p: "parse_uint16 t = Some p" "p \<noteq> 0"
    unfolding validateHostPort_None_iff by blast
  have "?ok h t p"
    using a p parse_uint16_bounds [OF p(1)] split_host_port_join [OF a(1)] by simp
  then show "\<exists>h t p. ?ok h t p"
    by blast
next
  assume "\<exists>h t p. ?ok h t p"
  then obtain h t p where "?ok h t p"
    by blast
  then have "p \<noteq> 0"
    by simp
  with \<open>?ok h t p\<close> show "validateHostPort a = None"
    unfolding validateHostPort_None_iff by blast
qed

lemma label_chars: "isHostnameLabel l \<Longrightarrow> c \<in> set l \<Longrightarrow> is_letter c \<or> is_digit c \<or> c = CHR ''-''"
  by (auto simp: isHostnameLabel_def list_all_iff split: if_splits)


lemma sample_config_checks: "Check sample_config = []"
  by (simp add: Check_def sample_config_def validateHostPort_def split_host_port_def cut_last_def
        isAddressOrHostname_def parse_addr_def parse_ipv4_def parse_octet_def is_digit_def
        parse_uint16_def digits_value_def digit_val_def)

end
