(* ===== verification/WatchdogState.thy ===== *)
theory WatchdogState
  imports DeployEngine Alert FailoverCheck "HOL-Library.Char_ord" "HOL-Library.List_Lexorder"
begin

text \<open>
  The state of the watchdog process (\<^verbatim>\<open>internal/watchdog\<close>) and the small operations that all its
  parts use. \<open>wd\<close> extends the outside world with the fields of \<^verbatim>\<open>struct watchdog\<close>, the shutdown
  coordination flags, and the two files the process keeps: the rollback lock and the rollback
  state. \<open>sys\<close> holds what stays fixed during a run: the configuration, the environment, the
  operations behind \<^verbatim>\<open>ops.SysOps\<close>, and the library functions that the model takes as parameters
  (\<open>s_status_decode\<close> and \<open>s_config_decode\<close>, the JSON decoders, and \<open>s_zone\<close>, the offset of the
  local time zone in seconds). Logging has no effect on the state and is left out; the probe log
  is kept as structured entries instead of formatted lines.
\<close>

section \<open>State\<close>

datatype probe_entry =
    HostProbe bool bool
  | VMRoute bool bool
  | StatusNotConfigured
  | StatusNotReceived
  | StatusSeen duration int "string list"

datatype status_source = NoStatus | ListenerStatus | GuestStatus "string list"

record wd = world +
  w_coord :: coord
  w_limiter :: limiter
  w_status :: status_source
  lock_file :: "string option"
  state_file :: "string option"
  exited :: bool
  lastState :: string
  vmStoppedLogged :: bool
  recoveredFromRollback :: bool
  consecutiveTotalFails :: int
  totalDownStartUnix :: int
  lastHeartbeat :: gotime
  probeLog :: "probe_entry list"
  lastConfigHash :: string
  lastManifest :: "string \<rightharpoonup> string"
  hashChangeWindowStart :: int
  consecutiveHealthy :: int
  lastSnapshotAt :: gotime
  healthyCyclesForHash :: int
  consecutiveSnapshotFails :: int
  snapshotBackoffUntil :: gotime
  forcedDeletes :: int
  postRollbackGraceUntil :: gotime
  lastHashCheckOK :: bool
  totalFailStart :: gotime
  failoverActive :: bool
  failoverStartedAt :: gotime
  failoverReason :: string
  requireCompleteBackup :: bool

record sys =
  s_cfg :: Config
  s_env :: env
  s_lib :: libs
  s_ops :: "wd sysops"
  s_real :: bool
  s_rounds :: nat
  s_exit :: bool
  s_heartbeat :: duration
  s_status_decode :: "string \<Rightarrow> push_status option"
  s_config_decode :: "string \<Rightarrow> config_state option"
  s_zone :: "gotime \<Rightarrow> int"

abbreviation vmid :: "sys \<Rightarrow> string" where
  "vmid S \<equiv> MwanVMID (s_cfg S)"

abbreviation wcfg :: "sys \<Rightarrow> WatchdogSection" where
  "wcfg S \<equiv> Watchdog (s_cfg S)"

definition stateUnknown :: string where "stateUnknown = ''unknown''"
definition stateHealthy :: string where "stateHealthy = ''healthy''"
definition statePartial :: string where "statePartial = ''partial''"
definition stateDown :: string where "stateDown = ''down''"
definition stateVMStopped :: string where "stateVMStopped = ''vm_stopped''"

lemmas connectivity_state_defs = stateUnknown_def stateHealthy_def statePartial_def stateDown_def
  stateVMStopped_def

text \<open>
  A new watchdog in a world \<open>w\<close> (its files included): the values that \<^verbatim>\<open>newWatchdog\<close> states.
  \<open>files\<close> are the rollback lock and state file as the previous process left them.
\<close>

definition newWatchdog :: "sys \<Rightarrow> world \<Rightarrow> coord \<Rightarrow> string option \<times> string option \<Rightarrow> wd" where
  "newWatchdog S w c files =
     \<lparr>tick = tick w, trace = trace w, ntf = ntf w, op_file = op_file w,
      w_coord = c, w_limiter = NewLimiter (AlertCooldownSeconds (wcfg S)), w_status = NoStatus,
      lock_file = fst files, state_file = snd files, exited = False,
      lastState = [], vmStoppedLogged = False, recoveredFromRollback = False, consecutiveTotalFails = 0,
      totalDownStartUnix = 0, lastHeartbeat = zero_time, probeLog = [], lastConfigHash = [],
      lastManifest = Map.empty, hashChangeWindowStart = 0, consecutiveHealthy = 0,
      lastSnapshotAt = zero_time, healthyCyclesForHash = 0, consecutiveSnapshotFails = 0,
      snapshotBackoffUntil = zero_time, forcedDeletes = 0, postRollbackGraceUntil = zero_time,
      lastHashCheckOK = False, totalFailStart = zero_time, failoverActive = False,
      failoverStartedAt = zero_time, failoverReason = [], requireCompleteBackup = False\<rparr>"

section \<open>Shared operations\<close>

definition heartbeatInterval :: duration where
  "heartbeatInterval = minutes 5"

definition heartbeatTick :: "sys \<Rightarrow> duration" where
  "heartbeatTick S = (if 0 < s_heartbeat S then s_heartbeat S else heartbeatInterval)"

definition now_w :: "sys \<Rightarrow> (wd, gotime) state" where
  "now_w S = now_op (s_env S)"

definition since :: "sys \<Rightarrow> gotime \<Rightarrow> (wd, duration) state" where
  "since S start = do { t \<leftarrow> now_w S; returnM (t - start) }"

definition appendProbe :: "probe_entry \<Rightarrow> (wd, unit) state" where
  "appendProbe e = modify (probeLog_update (\<lambda>es. es @ [e]))"

definition flushProbeLog :: "(wd, unit) state" where
  "flushProbeLog = modify (probeLog_update (\<lambda>_. []))"

definition sleepOrDone :: "sys \<Rightarrow> duration \<Rightarrow> (wd, bool) state" where
  "sleepOrDone S d = (if d \<le> 0 then returnM True else ask (o_sleep (s_env S)))"

text \<open>
  The coordinator of the recovery lock. The source refuses a relative marker path and a poll
  interval that is not positive; otherwise it waits until it holds the lock or fails.
\<close>

definition Acquire :: "sys \<Rightarrow> (wd, bool) state" where
  "Acquire S =
     (if \<not> is_abs (RollbackLockFile (wcfg S)) \<or> DegradedInterval (wcfg S) \<le> 0 then returnM False
      else do { r \<leftarrow> ask (o_acquire (s_env S)); returnM (r = None) })"

text \<open>Releasing it can fail, which the watchdog only logs.\<close>

definition Release :: "sys \<Rightarrow> (wd, unit) state" where
  "Release S = do { _ \<leftarrow> io_op (s_env S); returnM () }"

subsection \<open>The two files\<close>

definition read_file :: "sys \<Rightarrow> (wd \<Rightarrow> string option) \<Rightarrow> (wd, file_read) state" where
  "read_file S f = do {
     ok \<leftarrow> io_op (s_env S);
     content \<leftarrow> gets f;
     returnM (if \<not> ok then Inl ErrIO
       else case content of None \<Rightarrow> Inl ErrNotExist | Some s \<Rightarrow> Inr s)
   }"

text \<open>
  \<^verbatim>\<open>os.WriteFile\<close> truncates the file before it writes: a failure leaves the old content when the
  file cannot be opened, and some prefix of the new content otherwise.
\<close>

definition write_file :: "sys \<Rightarrow> ((string option \<Rightarrow> string option) \<Rightarrow> wd \<Rightarrow> wd) \<Rightarrow> string \<Rightarrow> (wd, bool) state" where
  "write_file S upd content = do {
     ok \<leftarrow> io_op (s_env S);
     if ok then do { modify (upd (\<lambda>_. Some content)); returnM True }
     else do {
       written \<leftarrow> ask (o_partial (s_env S));
       (case written of
          None \<Rightarrow> returnM ()
        | Some k \<Rightarrow> modify (upd (\<lambda>_. Some (take k content))));
       returnM False
     }
   }"

definition remove_lock :: "sys \<Rightarrow> (wd, unit) state" where
  "remove_lock S = do {
     ok \<leftarrow> io_op (s_env S);
     whenM ok (modify (lock_file_update (\<lambda>_. None)))
   }"

definition lock_exists :: "sys \<Rightarrow> (wd, bool) state" where
  "lock_exists S = do {
     ok \<leftarrow> io_op (s_env S);
     content \<leftarrow> gets lock_file;
     returnM (ok \<and> content \<noteq> None)
   }"

section \<open>The time stamp of a snapshot name\<close>

text \<open>
  \<^verbatim>\<open>Format("20060102-150405")\<close>: the civil date and time of day in the local zone. Days are counted
  from March 1 of year 0 in eras of 400 years.
\<close>

definition civil_date :: "int \<Rightarrow> int \<times> int \<times> int" where
  "civil_date day =
     (let z = day + 306; era = z div 146097; doe = z mod 146097;
          yoe = (doe - doe div 1460 + doe div 36524 - doe div 146096) div 365;
          doy = doe - (365 * yoe + yoe div 4 - yoe div 100);
          mp = (5 * doy + 2) div 153;
          d = doy - (153 * mp + 2) div 5 + 1;
          m = (if mp < 10 then mp + 3 else mp - 9)
      in (yoe + era * 400 + (if m \<le> 2 then 1 else 0), m, d))"

definition pad :: "nat \<Rightarrow> int \<Rightarrow> string" where
  "pad n k = (let s = format_nat (nat k) in replicate (n - length s) CHR ''0'' @ s)"

definition format_stamp :: "int \<Rightarrow> gotime \<Rightarrow> string" where
  "format_stamp zone t =
     (let secs = t div nanosecond_per_second + zone; (y, m, d) = civil_date (secs div 86400); r = secs mod 86400
      in pad 4 y @ pad 2 m @ pad 2 d @ ''-'' @ pad 2 (r div 3600) @ pad 2 (r div 60 mod 60) @ pad 2 (r mod 60))"

section \<open>Lemmas\<close>

lemma keeps_now_w [keeps_rules]: "keeps (on_trace P) (now_w S)"
  unfolding now_w_def by (intro keeps_rules)

lemma keeps_since [keeps_rules]: "keeps (on_trace P) (since S t)"
  unfolding since_def by (intro keeps_rules)

lemma keeps_appendProbe [keeps_rules]: "keeps (on_trace P) (appendProbe e)"
  unfolding appendProbe_def by (intro keeps_rules) simp

lemma keeps_flushProbeLog [keeps_rules]: "keeps (on_trace P) flushProbeLog"
  unfolding flushProbeLog_def by (intro keeps_rules) simp

lemma keeps_sleepOrDone [keeps_rules]: "keeps (on_trace P) (sleepOrDone S d)"
  unfolding sleepOrDone_def by (intro keeps_rules)

lemma keeps_Acquire [keeps_rules]: "keeps (on_trace P) (Acquire S)"
  unfolding Acquire_def by (intro keeps_rules)

lemma keeps_Release [keeps_rules]: "keeps (on_trace P) (Release S)"
  unfolding Release_def by (intro keeps_rules)

lemma keeps_read_file [keeps_rules]: "keeps (on_trace P) (read_file S f)"
  unfolding read_file_def by (intro keeps_rules)

lemma keeps_write_lock [keeps_rules]: "keeps (on_trace P) (write_file S lock_file_update c)"
  unfolding write_file_def by (intro keeps_rules) simp_all

lemma keeps_write_state [keeps_rules]: "keeps (on_trace P) (write_file S state_file_update c)"
  unfolding write_file_def by (intro keeps_rules) simp_all

lemma keeps_remove_lock [keeps_rules]: "keeps (on_trace P) (remove_lock S)"
  unfolding remove_lock_def by (intro keeps_rules) simp

lemma keeps_lock_exists [keeps_rules]: "keeps (on_trace P) (lock_exists S)"
  unfolding lock_exists_def by (intro keeps_rules)

end
