(* ===== verification/WatchdogProbe.thy ===== *)
theory WatchdogProbe
  imports WatchdogState
begin

text \<open>
  Probing and change detection (\<^verbatim>\<open>watchdog/probe.go\<close>, \<^verbatim>\<open>watchdog/confighash.go\<close>,
  \<^verbatim>\<open>watchdog/config_state_guest.go\<close>, \<^verbatim>\<open>watchdog/status_guest.go\<close>): the pings from the host and
  through the guest, the deploy markers in the guest, the configuration hash and the manifest
  comparison. The two pings of \<^verbatim>\<open>probeConnectivity\<close> run in their own goroutines and share nothing;
  they are modelled in the order in which they are started.
\<close>

section \<open>Probes\<close>

definition guestExecProbe :: "sys \<Rightarrow> string list \<Rightarrow> (wd, bool) state" where
  "guestExecProbe S args = do {
     r \<leftarrow> GuestExec (s_ops S) (vmid S) args;
     returnM (case r of Inl e \<Rightarrow> False | Inr parsed \<Rightarrow> ExitCode parsed = 0)
   }"

definition probeConnectivity :: "sys \<Rightarrow> (wd, bool \<times> bool) state" where
  "probeConnectivity S = do {
     v4ok \<leftarrow> Ping (s_ops S) ''ping'' (PingTargetIPv4 (Network (s_cfg S)));
     v6ok \<leftarrow> Ping (s_ops S) ''ping6'' (PingTargetIPv6 (Network (s_cfg S)));
     appendProbe (HostProbe v4ok v6ok);
     returnM (v4ok, v6ok)
   }"

definition testVMConnectivity :: "sys \<Rightarrow> (wd, bool) state" where
  "testVMConnectivity S = do {
     v6ok \<leftarrow> guestExecProbe S [''ping6'', ''-c'', ''2'', ''-W'', ''3'', PingTargetIPv6 (Network (s_cfg S))];
     if v6ok then do { appendProbe (VMRoute False True); returnM True }
     else do {
       v4ok \<leftarrow> guestExecProbe S [''ping'', ''-c'', ''2'', ''-W'', ''3'', PingTargetIPv4 (Network (s_cfg S))];
       appendProbe (VMRoute v4ok False);
       returnM v4ok
     }
   }"

definition guest_unix :: "string + guest_result \<Rightarrow> int \<times> bool" where
  "guest_unix r =
     (case r of
        Inl e \<Rightarrow> (0, False)
      | Inr parsed \<Rightarrow>
          if ExitCode parsed \<noteq> 0 then (0, False)
          else let raw = trim_space (Stdout parsed) in
            if raw = [] \<or> raw = ''null'' then (0, False)
            else (case parse_int raw of ParseOk ts \<Rightarrow> (ts, True) | _ \<Rightarrow> (0, False)))"

definition readGuestUnix :: "sys \<Rightarrow> string \<Rightarrow> (wd, int \<times> bool) state" where
  "readGuestUnix S path = do {
     r \<leftarrow> GuestExec (s_ops S) (vmid S) [''cat'', path];
     returnM (guest_unix r)
   }"

text \<open>The latest of the change markers, \<^verbatim>\<open>effective\<close> in the source.\<close>

fun latest_marker :: "int \<Rightarrow> int list \<Rightarrow> int" where
  "latest_marker effective [] = effective"
| "latest_marker effective (t # ts) = latest_marker (if effective < t then t else effective) ts"

definition effective_marker :: "int list \<Rightarrow> int option" where
  "effective_marker candidates = (case candidates of [] \<Rightarrow> None | t # ts \<Rightarrow> Some (latest_marker t ts))"

definition checkDeploy :: "sys \<Rightarrow> (wd, int \<times> bool) state" where
  "checkDeploy S = do {
     r \<leftarrow> VMStatus (s_ops S) (vmid S);
     case r of
       Inl e \<Rightarrow> returnM (0, False)
     | Inr running \<Rightarrow>
         if \<not> running then returnM (0, False)
         else do {
           (deployTS, dOK) \<leftarrow> readGuestUnix S (LastDeployPath (Network (s_cfg S)));
           (changeTS, cOK) \<leftarrow> readGuestUnix S (LastChangePath (Network (s_cfg S)));
           hashStart \<leftarrow> gets hashChangeWindowStart;
           (case effective_marker ((if dOK then [deployTS] else []) @ (if cOK then [changeTS] else []) @
                 (if 0 < hashStart then [hashStart] else [])) of
              None \<Rightarrow> returnM (0, False)
            | Some effective \<Rightarrow> do {
                now \<leftarrow> now_w S;
                returnM (if DeployWindowMinutes (wcfg S) < go_div (unix_of now - effective) 60
                         then (0, False) else (effective, True))
              })
         }
   }"

section \<open>The configuration hash\<close>

definition routeChannelFallback :: "sys \<Rightarrow> string \<Rightarrow> (wd, unit) state" where
  "routeChannelFallback S usedChannel =
     (let key = vmid S @ '':'' @ format_int (VsockPort (wcfg S)) in
      if usedChannel = ''tcp'' then do {
        now \<leftarrow> now_w S;
        raise_alert (s_env S) \<lparr>Now = now, Level = LevelWarn, Kind = ''vsock-fallback'', Key = key,
          Message = ''getConfigState: vsock unavailable, used TCP fallback'', IsRecovery = False\<rparr>
      }
      else if usedChannel = ''vsock'' then
        resolve_alert (s_env S) ''vsock-fallback'' key ''getConfigState: vsock channel restored''
      else returnM ())"

text \<open>A line in the format of \<^verbatim>\<open>sha256sum\<close>: 64 characters, two spaces and a path.\<close>

definition manifest_line :: "string \<Rightarrow> (string \<times> string) option" where
  "manifest_line raw =
     (let line = trim_space raw in
      if length line < 66 \<or> line ! 64 \<noteq> CHR '' '' \<or> line ! 65 \<noteq> CHR '' '' then None
      else let hash = take 64 line; path = drop 66 line in
        if path \<noteq> [] then Some (path, hash) else None)"

fun parse_manifest_lines :: "string list \<Rightarrow> (string \<rightharpoonup> string) \<Rightarrow> (string \<rightharpoonup> string)" where
  "parse_manifest_lines [] m = m"
| "parse_manifest_lines (l # ls) m =
     parse_manifest_lines ls (case manifest_line l of None \<Rightarrow> m | Some (path, hash) \<Rightarrow> m(path \<mapsto> hash))"

definition parseManifest :: "string \<Rightarrow> (string \<rightharpoonup> string)" where
  "parseManifest raw = parse_manifest_lines (split_at newline raw) Map.empty"

text \<open>
  The source ranges over the maps in an unspecified order and sorts what it collected; the model
  ranges over the keys in the order of the result.
\<close>

definition categorizeManifestChanges :: "(string \<rightharpoonup> string) \<Rightarrow> (string \<rightharpoonup> string)
    \<Rightarrow> string list \<times> string list \<times> string list" where
  "categorizeManifestChanges prev cur =
     (let cs = sorted_list_of_set (dom cur); ps = sorted_list_of_set (dom prev) in
      (filter (\<lambda>path. prev path \<noteq> None \<and> cur path \<noteq> prev path) cs,
       filter (\<lambda>path. prev path = None) cs,
       filter (\<lambda>path. cur path = None) ps))"

definition manifestDiff :: "(string \<rightharpoonup> string) \<Rightarrow> (string \<rightharpoonup> string) \<Rightarrow> string" where
  "manifestDiff prev cur =
     (if dom cur = {} then ''  (manifest unavailable for current state)'' @ [newline]
      else if dom prev = {} then
        join [newline] (sort (map (\<lambda>path. ''  '' @ path) (sorted_list_of_set (dom cur)))) @ [newline]
      else case categorizeManifestChanges prev cur of (changed, added, removed) \<Rightarrow>
        if changed = [] \<and> added = [] \<and> removed = []
        then ''  (no per-file diff available; composite hash changed)'' @ [newline]
        else concat (map (\<lambda>p. ''  modified: '' @ p @ [newline]) changed) @
             concat (map (\<lambda>p. ''  added:    '' @ p @ [newline]) added) @
             concat (map (\<lambda>p. ''  removed:  '' @ p @ [newline]) removed))"

text \<open>The two sources of the configuration state: the agent's RPC and a command in the guest.\<close>

definition rpc_config_state :: "sys \<Rightarrow> (wd, (config_state \<times> string) option) state" where
  "rpc_config_state S = do {
     r \<leftarrow> GetConfigState (s_ops S) (vmid S);
     returnM (case r of Inl e \<Rightarrow> None | Inr state \<Rightarrow> Some state)
   }"

definition guest_config_state :: "sys \<Rightarrow> (wd, (config_state \<times> string) option) state" where
  "guest_config_state S = do {
     r \<leftarrow> GuestExec (s_ops S) (vmid S) (ConfigStateCommand (wcfg S));
     returnM (case r of
         Inl e \<Rightarrow> None
       | Inr result \<Rightarrow>
           if ExitCode result \<noteq> 0 then None
           else (case s_config_decode S (Stdout result) of
                   None \<Rightarrow> None
                 | Some state \<Rightarrow> Some (state, ''pve_rest'')))
   }"

definition config_state_latest :: "sys \<Rightarrow> (wd, (config_state \<times> string) option) state" where
  "config_state_latest S =
     (if ConfigStateCommand (wcfg S) \<noteq> [] then guest_config_state S else rpc_config_state S)"

definition checkConfigHash :: "sys \<Rightarrow> (wd, unit) state" where
  "checkConfigHash S = do {
     r \<leftarrow> config_state_latest S;
     case r of
       None \<Rightarrow> modify (lastHashCheckOK_update (\<lambda>_. False))
     | Some (state, usedChannel) \<Rightarrow> do {
         routeChannelFallback S usedChannel;
         let h = trim_space (ConfigHash state) in
         if h = [] then returnM ()
         else do {
           lastHash \<leftarrow> gets lastConfigHash;
           (if lastHash \<noteq> [] \<and> h \<noteq> lastHash then do {
             grace \<leftarrow> gets postRollbackGraceUntil;
             within \<leftarrow> (if grace \<noteq> zero_time then do { now \<leftarrow> now_w S; returnM (now < grace) } else returnM False);
             if within then returnM ()
             else do { now \<leftarrow> now_w S; modify (hashChangeWindowStart_update (\<lambda>_. unix_of now)) }
           }
           else modify (lastHashCheckOK_update (\<lambda>_. True)));
           modify (lastConfigHash_update (\<lambda>_. h));
           modify (lastManifest_update (\<lambda>_. parseManifest (ConfigManifest state)))
         }
       }
   }"

section \<open>The pushed status\<close>

definition guest_status :: "sys \<Rightarrow> string list \<Rightarrow> (wd, (push_status \<times> gotime) option) state" where
  "guest_status S argv = do {
     r \<leftarrow> GuestExec (s_ops S) (vmid S) argv;
     case r of
       Inl e \<Rightarrow> returnM None
     | Inr result \<Rightarrow>
         if ExitCode result \<noteq> 0 then returnM None
         else (case s_status_decode S (Stdout result) of
                 None \<Rightarrow> returnM None
               | Some status \<Rightarrow> do { now \<leftarrow> now_w S; returnM (Some (status, now)) })
   }"

definition status_latest :: "sys \<Rightarrow> status_source \<Rightarrow> (wd, (push_status \<times> gotime) option) state" where
  "status_latest S src =
     (case src of
        NoStatus \<Rightarrow> returnM None
      | ListenerStatus \<Rightarrow> ask (o_status (s_env S))
      | GuestStatus argv \<Rightarrow> guest_status S argv)"

definition provider_verdicts :: "(string \<times> string) list \<Rightarrow> string list" where
  "provider_verdicts ps = map (\<lambda>name. name @ ''='' @ the (map_of ps name)) (sort (map fst ps))"

text \<open>\<^verbatim>\<open>Round(time.Second)\<close>: to the nearest second, halves away from zero.\<close>

definition round_second :: "duration \<Rightarrow> duration" where
  "round_second d = seconds (go_div (2 * d + (if 0 \<le> d then 1 else -1) * nanosecond_per_second)
     (2 * nanosecond_per_second))"

definition logPushedStatus :: "sys \<Rightarrow> (wd, unit) state" where
  "logPushedStatus S = do {
     src \<leftarrow> gets w_status;
     if src = NoStatus then appendProbe StatusNotConfigured
     else do {
       latest \<leftarrow> status_latest S src;
       case latest of
         None \<Rightarrow> appendProbe StatusNotReceived
       | Some (status, receivedAt) \<Rightarrow> do {
           now \<leftarrow> now_w S;
           appendProbe (StatusSeen (round_second (now - receivedAt)) (ActiveTier status)
             (provider_verdicts (Providers status)))
         }
     }
   }"

end
