(* ===== verification/WatchdogSnapshots.thy ===== *)
theory WatchdogSnapshots
  imports WatchdogProbe
begin

text \<open>
  The known-good snapshots of the guest (\<^verbatim>\<open>watchdog/snapshot_recovery.go\<close>, \<^verbatim>\<open>watchdog/freeze.go\<close>):
  when one is taken, how failures space the attempts out, how a guest left frozen or locked is
  released, and how old snapshots are pruned. An error value is the text of the error; \<open>None\<close>
  is success.
\<close>

section \<open>Pacing\<close>

definition snapshotFailureBackoffBase :: duration where
  "snapshotFailureBackoffBase = minutes 5"

definition snapshotFailureBackoffCap :: duration where
  "snapshotFailureBackoffCap = minutes 60"

definition snapshotFailureAlertThreshold :: int where
  "snapshotFailureAlertThreshold = 3"

definition maxConsecutiveForcedDeletes :: int where
  "maxConsecutiveForcedDeletes = 3"

definition snapshotBackoffActive :: "sys \<Rightarrow> (wd, bool) state" where
  "snapshotBackoffActive S = do {
     until \<leftarrow> gets snapshotBackoffUntil;
     if until = zero_time then returnM False
     else do { now \<leftarrow> now_w S; returnM (now < until) }
   }"

fun backoff_loop :: "nat \<Rightarrow> duration \<Rightarrow> duration" where
  "backoff_loop 0 backoff = backoff"
| "backoff_loop (Suc n) backoff =
     (let b = backoff * 2 in if snapshotFailureBackoffCap \<le> b then snapshotFailureBackoffCap else backoff_loop n b)"

definition snapshotFailureBackoff :: "int \<Rightarrow> duration" where
  "snapshotFailureBackoff failures =
     (if failures \<le> 1 then snapshotFailureBackoffBase
      else backoff_loop (nat (failures - 1)) snapshotFailureBackoffBase)"

definition watchdog_alert :: "sys \<Rightarrow> level \<Rightarrow> string \<Rightarrow> string \<Rightarrow> (wd, unit) state" where
  "watchdog_alert S lvl kind msg = do {
     now \<leftarrow> now_w S;
     raise_alert (s_env S) \<lparr>Now = now, Level = lvl, Kind = kind, Key = vmid S, Message = msg, IsRecovery = False\<rparr>
   }"

definition noteSnapshotFailure :: "sys \<Rightarrow> (wd, unit) state" where
  "noteSnapshotFailure S = do {
     modify (consecutiveSnapshotFails_update (\<lambda>n. n + 1));
     fails \<leftarrow> gets consecutiveSnapshotFails;
     now \<leftarrow> now_w S;
     modify (snapshotBackoffUntil_update (\<lambda>_. now + snapshotFailureBackoff fails));
     modify (consecutiveHealthy_update (\<lambda>_. 0));
     if fails < snapshotFailureAlertThreshold then returnM ()
     else watchdog_alert S LevelError ''snapshot-failed'' ''known-good snapshots keep failing on this guest''
   }"

definition noteSnapshotSuccess :: "sys \<Rightarrow> (wd, unit) state" where
  "noteSnapshotSuccess S = do {
     fails \<leftarrow> gets consecutiveSnapshotFails;
     if fails = 0 then returnM ()
     else do {
       modify (consecutiveSnapshotFails_update (\<lambda>_. 0));
       modify (snapshotBackoffUntil_update (\<lambda>_. zero_time));
       modify (forcedDeletes_update (\<lambda>_. 0));
       resolve_alert (s_env S) ''snapshot-failed'' (vmid S) ''known-good snapshot succeeded''
     }
   }"

section \<open>Locks, frozen filesystems and deletes\<close>

definition clearStaleGuestLock :: "sys \<Rightarrow> (wd, unit) state" where
  "clearStaleGuestLock S = do {
     r \<leftarrow> VMLock (s_ops S) (vmid S);
     case r of
       Inl e \<Rightarrow> returnM ()
     | Inr lock \<Rightarrow>
         if lock = [] then returnM ()
         else if lock \<notin> set recoverableLocks then returnM ()
         else do {
           task \<leftarrow> VMHasRunningTask (s_ops S) (vmid S);
           case task of
             Inl e \<Rightarrow> returnM ()
           | Inr running \<Rightarrow>
               if running then returnM ()
               else do {
                 u \<leftarrow> VMUnlock (s_ops S) (vmid S);
                 case u of
                   Inl e \<Rightarrow> returnM ()
                 | Inr _ \<Rightarrow> watchdog_alert S LevelWarn ''guest-locked''
                     ''cleared a guest lock left behind by a failed snapshot operation''
               }
         }
   }"

definition ensureGuestThawed :: "sys \<Rightarrow> (wd, unit) state" where
  "ensureGuestThawed S =
     (if GuestType (s_cfg S) = GuestTypeLXC then returnM ()
      else do {
        r \<leftarrow> VMFSFreezeStatus (s_ops S) (vmid S);
        case r of
          Inl e \<Rightarrow> returnM ()
        | Inr status \<Rightarrow>
            if \<not> contains status ''frozen'' then returnM ()
            else do {
              t \<leftarrow> VMFSFreezeThaw (s_ops S) (vmid S);
              case t of
                Inl e \<Rightarrow> returnM ()
              | Inr _ \<Rightarrow> do { _ \<leftarrow> VMFSFreezeStatus (s_ops S) (vmid S); returnM () }
            }
      })"

definition canForceDelete :: "sys \<Rightarrow> string \<Rightarrow> string \<Rightarrow> (wd, bool) state" where
  "canForceDelete S name cause =
     (if \<not> match_string KnownGoodSnap name then returnM False
      else if \<not> contains cause storageSnapshotMissingMarker then returnM False
      else do {
        forced \<leftarrow> gets forcedDeletes;
        if maxConsecutiveForcedDeletes \<le> forced then returnM False
        else do {
          r \<leftarrow> VMHasRunningTask (s_ops S) (vmid S);
          returnM (case r of Inl e \<Rightarrow> False | Inr running \<Rightarrow> \<not> running)
        }
      })"

definition deleteSnapshot :: "sys \<Rightarrow> string \<Rightarrow> (wd, string option) state" where
  "deleteSnapshot S name = do {
     r \<leftarrow> VMDelSnapshot (s_ops S) (vmid S) name;
     case r of
       Inr _ \<Rightarrow> returnM None
     | Inl err \<Rightarrow> do {
         can \<leftarrow> canForceDelete S name err;
         if \<not> can then returnM (Some (''delete snapshot '' @ name @ '': '' @ err))
         else do {
           modify (forcedDeletes_update (\<lambda>n. n + 1));
           f \<leftarrow> VMDelSnapshotForce (s_ops S) (vmid S) name;
           case f of
             Inl forceErr \<Rightarrow> returnM (Some (err @ [newline] @ forceErr))
           | Inr _ \<Rightarrow> do {
               watchdog_alert S LevelWarn ''snapshot-forced-delete''
                 ''removed a snapshot entry whose disk snapshot was already gone'';
               returnM None
             }
         }
       }
   }"

section \<open>Pruning\<close>

text \<open>Delete each, keep going after a failure, and report the first one.\<close>

fun delete_each :: "sys \<Rightarrow> string list \<Rightarrow> string option \<Rightarrow> (wd, string option) state" where
  "delete_each S [] firstErr = returnM firstErr"
| "delete_each S (name # names) firstErr = do {
     err \<leftarrow> deleteSnapshot S name;
     delete_each S names (if firstErr = None then err else firstErr)
   }"

fun pre_deploy_loop :: "sys \<Rightarrow> int \<Rightarrow> string list \<Rightarrow> int \<Rightarrow> string option \<Rightarrow> (wd, int \<times> string option) state" where
  "pre_deploy_loop S excess [] deleted resultErr = returnM (deleted, resultErr)"
| "pre_deploy_loop S excess (name # names) deleted resultErr =
     (if excess \<le> deleted then returnM (deleted, resultErr)
      else do {
        err \<leftarrow> deleteSnapshot S name;
        case err of
          Some e \<Rightarrow> pre_deploy_loop S excess names deleted (if resultErr = None then Some e else resultErr)
        | None \<Rightarrow> pre_deploy_loop S excess names (deleted + 1) resultErr
      })"

definition prunePreDeploySnapshots :: "sys \<Rightarrow> string list \<Rightarrow> int \<Rightarrow> (wd, int \<times> string option) state" where
  "prunePreDeploySnapshots S preDeploys excess =
     (if preDeploys = [] then returnM (0, None) else pre_deploy_loop S excess (butlast preDeploys) 0 None)"

definition known_goods :: "string \<Rightarrow> string list" where
  "known_goods s = sort (find_all KnownGoodSnap s)"

definition pre_deploys :: "string \<Rightarrow> string list" where
  "pre_deploys s = find_all PreDeploySnap s"

text \<open>The second half of \<^verbatim>\<open>pruneSnapshots\<close>: the bound on the total, from a listing.\<close>

definition prune_total :: "sys \<Rightarrow> string \<Rightarrow> string option \<Rightarrow> (wd, string option) state" where
  "prune_total S listing firstErr =
     (let knownGoods = known_goods listing; preDeploys = pre_deploys listing;
          total = int (length knownGoods + length preDeploys); maxTotal = MaxTotalSnapshots (wcfg S) in
      if maxTotal \<le> 0 \<or> total \<le> maxTotal then returnM firstErr
      else do {
        (preDeploysDeleted, err) \<leftarrow> prunePreDeploySnapshots S preDeploys (total - maxTotal);
        let excess = min (total - maxTotal - preDeploysDeleted) (int (length knownGoods)) in
        delete_each S (take (nat excess) knownGoods) (if firstErr = None then err else firstErr)
      })"

definition pruneSnapshots :: "sys \<Rightarrow> (wd, string option) state" where
  "pruneSnapshots S = do {
     out \<leftarrow> VMSnapshots (s_ops S) (vmid S);
     case out of
       Inl e \<Rightarrow> returnM (Some (''list snapshots before prune: '' @ e))
     | Inr s \<Rightarrow>
         let knownGoods = known_goods s; maxKG = MaxKnownGoodSnapshots (wcfg S) in
         if 0 < maxKG \<and> maxKG < int (length knownGoods) then do {
           firstErr \<leftarrow> delete_each S (take (length knownGoods - nat maxKG) knownGoods) None;
           again \<leftarrow> VMSnapshots (s_ops S) (vmid S);
           case again of
             Inl e \<Rightarrow> returnM (Some (''list snapshots after known-good rotation: '' @ e))
           | Inr s' \<Rightarrow> prune_total S s' firstErr
         }
         else prune_total S s None
   }"

section \<open>Taking a snapshot\<close>

text \<open>The snapshot call and the freeze check that follows it whatever its outcome.\<close>

definition take_snapshot :: "sys \<Rightarrow> string \<Rightarrow> (wd, string + unit) state" where
  "take_snapshot S name = do {
     snapErr \<leftarrow> VMSnapshot (s_ops S) (vmid S) name;
     ensureGuestThawed S;
     returnM snapErr
   }"

text \<open>The conditions under which \<^verbatim>\<open>maybeSnapshot\<close> returns before it takes a snapshot.\<close>

definition snapshot_due :: "sys \<Rightarrow> (wd, bool) state" where
  "snapshot_due S =
     (if SnapshotHealthyThreshold (wcfg S) \<le> 0 then returnM False
      else do {
        healthy \<leftarrow> gets consecutiveHealthy;
        if healthy < SnapshotHealthyThreshold (wcfg S) then returnM False
        else do {
          backoff \<leftarrow> snapshotBackoffActive S;
          if backoff then returnM False
          else do {
            let windowSec = DeployWindowMinutes (wcfg S) * 60;
            hashStart \<leftarrow> gets hashChangeWindowStart;
            recent \<leftarrow> (if 0 < hashStart then do { now \<leftarrow> now_w S; returnM (unix_of now - hashStart < windowSec) }
                       else returnM False);
            if recent then returnM False
            else do {
              (deployTS, dOK) \<leftarrow> readGuestUnix S (LastDeployPath (Network (s_cfg S)));
              young \<leftarrow> (if dOK then do { now \<leftarrow> now_w S; returnM (unix_of now - deployTS < windowSec) }
                        else returnM False);
              if young then returnM False
              else do {
                lastAt \<leftarrow> gets lastSnapshotAt;
                close \<leftarrow> (if lastAt \<noteq> zero_time then do {
                            gap \<leftarrow> since S lastAt;
                            returnM (gap < seconds (MinSnapshotIntervalSeconds (wcfg S)))
                          } else returnM False);
                hashOK \<leftarrow> gets lastHashCheckOK;
                returnM (\<not> close \<and> \<not> (0 < HashCheckEveryNHealthy (wcfg S) \<and> \<not> hashOK))
              }
            }
          }
        }
      })"

definition maybeSnapshot :: "sys \<Rightarrow> (wd, unit) state" where
  "maybeSnapshot S = do {
     due \<leftarrow> snapshot_due S;
     if \<not> due then returnM ()
     else do {
       t \<leftarrow> now_w S;
       snapErr \<leftarrow> take_snapshot S (''known-good-'' @ format_stamp (s_zone S t) t);
       case snapErr of
         Inl e \<Rightarrow> do { noteSnapshotFailure S; clearStaleGuestLock S }
       | Inr _ \<Rightarrow> do {
           now \<leftarrow> now_w S;
           modify (lastSnapshotAt_update (\<lambda>_. now));
           modify (consecutiveHealthy_update (\<lambda>_. 0));
           noteSnapshotSuccess S;
           pruneErr \<leftarrow> pruneSnapshots S;
           whenM (pruneErr \<noteq> None) (clearStaleGuestLock S)
         }
     }
   }"

end
