(* ===== verification/WatchdogFailover.thy ===== *)
theory WatchdogFailover
  imports WatchdogSnapshots
begin

text \<open>
  BGP failover to the backup container and the recovery of the primary
  (\<^verbatim>\<open>watchdog/failover.go\<close>). \<open>None\<close> is success, \<open>Some e\<close> the text of the error. A missing
  status answers every getter with false, as the generated protobuf getters do on a nil message.
\<close>

definition status_established :: "bgp_status option \<Rightarrow> bool" where
  "status_established st = (case st of None \<Rightarrow> False | Some s \<Rightarrow> AllEstablished s)"

definition status_announcing :: "bgp_status option \<Rightarrow> bool" where
  "status_announcing st = (case st of None \<Rightarrow> False | Some s \<Rightarrow> Announcing s)"

definition status_announces_any :: "bgp_status option \<Rightarrow> bool" where
  "status_announces_any st = (case st of None \<Rightarrow> False | Some s \<Rightarrow> announces_any s)"

definition failover_alert :: "sys \<Rightarrow> string \<Rightarrow> string \<Rightarrow> (wd, unit) state" where
  "failover_alert S kind msg =
     raise_alert (s_env S) \<lparr>Now = zero_time, Level = LevelError, Kind = kind, Key = vmid S, Message = msg,
       IsRecovery = False\<rparr>"

text \<open>The part of the failover after the backup was confirmed: alert, withdraw, record.\<close>

definition finish_failover :: "sys \<Rightarrow> string \<Rightarrow> (wd, string option) state" where
  "finish_failover S reason = do {
     let lxc = LXCID (Failover (s_cfg S));
     failover_alert S ''bgp-failover''
       (''BGP FAILOVER: withdrawing routes from VM '' @ vmid S @ '', announcing on LXC '' @ lxc);
     _ \<leftarrow> WithdrawRoutes (s_ops S) (vmid S);
     failover_alert S ''bgp-failover-complete'' (''BGP FAILOVER COMPLETE: LXC '' @ lxc @ '' announcing'');
     now \<leftarrow> now_w S;
     modify (failoverActive_update (\<lambda>_. True));
     modify (failoverStartedAt_update (\<lambda>_. now));
     modify (failoverReason_update (\<lambda>_. reason));
     returnM None
   }"

definition announce_backup :: "sys \<Rightarrow> bgp_status option \<Rightarrow> (wd, string option) state" where
  "announce_backup S status =
     (let lxc = LXCID (Failover (s_cfg S)) in
      if status_established status \<and> status_announcing status then returnM None
      else do {
        a \<leftarrow> AnnounceRoutes (s_ops S) lxc;
        returnM (case a of
            Inl e \<Rightarrow> Some (''BGP failover AnnounceRoutes on LXC '' @ lxc @ '': '' @ e)
          | Inr _ \<Rightarrow> None)
      })"

definition confirm_backup :: "sys \<Rightarrow> string \<Rightarrow> (wd, string option) state" where
  "confirm_backup S reason = do {
     let lxc = LXCID (Failover (s_cfg S));
     complete \<leftarrow> gets requireCompleteBackup;
     r \<leftarrow> GetBGPStatus (s_ops S) lxc;
     case r of
       Inl e \<Rightarrow> returnM (Some (''BGP failover GetBGPStatus on LXC '' @ lxc @ '': '' @ e))
     | Inr status \<Rightarrow>
         if \<not> status_established status
         then returnM (Some (''BGP failover on LXC '' @ lxc @ '': cannot confirm that every BGP session is established''))
         else if \<not> status_announces_any status
         then returnM (Some (''BGP failover on LXC '' @ lxc @ '': LXC does not announce any configured address family''))
         else if complete \<and> \<not> status_announcing status
         then returnM (Some (''BGP failover on LXC '' @ lxc @ '': LXC does not announce every configured address family''))
         else finish_failover S reason
   }"

definition triggerBGPFailover :: "sys \<Rightarrow> string \<Rightarrow> (wd, string option) state" where
  "triggerBGPFailover S reason = do {
     let lxc = LXCID (Failover (s_cfg S));
     r \<leftarrow> GetBGPStatus (s_ops S) lxc;
     case r of
       Inl e \<Rightarrow> returnM (Some (''BGP failover GetBGPStatus on LXC '' @ lxc @ '': '' @ e))
     | Inr status \<Rightarrow> do {
         err \<leftarrow> announce_backup S status;
         case err of
           Some e \<Rightarrow> returnM (Some e)
         | None \<Rightarrow> confirm_backup S reason
       }
   }"

definition triggerFailover :: "sys \<Rightarrow> string \<Rightarrow> (wd, string option) state" where
  "triggerFailover S reason =
     (if Check (s_cfg S) \<noteq> [] then returnM (Some ''failover preconditions'')
      else triggerBGPFailover S reason)"

definition tryFailover :: "sys \<Rightarrow> string \<Rightarrow> (wd, bool) state" where
  "tryFailover S reason =
     (let lxc = LXCID (Failover (s_cfg S)) in
      if lxc = [] then returnM False
      else do {
        r4 \<leftarrow> GuestExec (s_ops S) lxc [''ping'', PingTargetIPv4 (Network (s_cfg S))];
        r6 \<leftarrow> GuestExec (s_ops S) lxc [''ping6'', PingTargetIPv6 (Network (s_cfg S))];
        let lxcV4 = (case r4 of Inl e \<Rightarrow> False | Inr p \<Rightarrow> ExitCode p = 0);
        let lxcV6 = (case r6 of Inl e \<Rightarrow> False | Inr p \<Rightarrow> ExitCode p = 0);
        if \<not> lxcV4 \<and> \<not> lxcV6 then returnM False
        else do { err \<leftarrow> triggerFailover S reason; returnM (err = None) }
      })"

definition triggerBGPRecovery :: "sys \<Rightarrow> (wd, string option) state" where
  "triggerBGPRecovery S = do {
     v4ok \<leftarrow> guestExecProbe S [''ping'', ''-c'', ''2'', ''-W'', ''3'', PingTargetIPv4 (Network (s_cfg S))];
     v6ok \<leftarrow> guestExecProbe S [''ping6'', ''-c'', ''2'', ''-W'', ''3'', PingTargetIPv6 (Network (s_cfg S))];
     if \<not> v4ok \<and> \<not> v6ok then returnM (Some (''BGP recovery: primary VM '' @ vmid S @ '' still unreachable''))
     else do {
       r \<leftarrow> GetBGPStatus (s_ops S) (vmid S);
       case r of
         Inl e \<Rightarrow> returnM (Some (''BGP recovery: GetBGPStatus on primary VM '' @ vmid S @ '': '' @ e))
       | Inr status \<Rightarrow>
           if \<not> status_established status
           then returnM (Some (''BGP recovery: primary VM '' @ vmid S @ '' BGP not established''))
           else do {
             a \<leftarrow> AnnounceRoutes (s_ops S) (vmid S);
             case a of
               Inl e \<Rightarrow> returnM (Some (''BGP recovery AnnounceRoutes on primary VM '' @ vmid S @ '': '' @ e))
             | Inr _ \<Rightarrow> do {
                 let msg = ''BGP RECOVERED: primary VM '' @ vmid S @ '' accepted the announcement; backup remains available'';
                 resolve_alert (s_env S) ''bgp-failover'' (vmid S) msg;
                 failover_alert S ''bgp-recovered'' msg;
                 modify (failoverActive_update (\<lambda>_. False));
                 modify (failoverStartedAt_update (\<lambda>_. zero_time));
                 modify (failoverReason_update (\<lambda>_. []));
                 returnM None
               }
           }
     }
   }"

definition maybeTriggerRecovery :: "sys \<Rightarrow> (wd, unit) state" where
  "maybeTriggerRecovery S = do {
     active \<leftarrow> gets failoverActive;
     if \<not> active then returnM ()
     else do { _ \<leftarrow> triggerBGPRecovery S; returnM () }
   }"

text \<open>The manual command builds its own watchdog and requires every address family.\<close>

definition FailoverRun :: "sys \<Rightarrow> world \<Rightarrow> string option \<times> wd" where
  "FailoverRun S w =
     run_state (triggerFailover S ''manual trigger via `mwan watchdog failover`'')
       ((newWatchdog S w new_coord (None, None))\<lparr>requireCompleteBackup := True\<rparr>)"

end
