(* ===== verification/WatchdogRollback.thy ===== *)
theory WatchdogRollback
  imports WatchdogFailover
begin

text \<open>
  Rolling the guest back after a bad change (\<^verbatim>\<open>watchdog/watchdog.go\<close>), taking over a deploy
  operation whose own watch is gone (\<^verbatim>\<open>watchdog/deploy_operation.go\<close>), and finishing a rollback
  that a previous process left behind.
\<close>

section \<open>The rollback of the guest\<close>

definition findSnapshot :: "sys \<Rightarrow> (wd, string) state" where
  "findSnapshot S = do {
     r \<leftarrow> VMSnapshots (s_ops S) (vmid S);
     returnM (case r of Inl e \<Rightarrow> [] | Inr out \<Rightarrow> ExtractLatestSnapshot out)
   }"

definition delete_intermediate :: "sys \<Rightarrow> string \<Rightarrow> (wd, unit) state" where
  "delete_intermediate S snap = do {
     r \<leftarrow> VMSnapshots (s_ops S) (vmid S);
     case r of
       Inl e \<Rightarrow> returnM ()
     | Inr listOut \<Rightarrow>
         forM (rev (SnapshotsAfter listOut snap))
           (\<lambda>child. do { _ \<leftarrow> VMDelSnapshot (s_ops S) (vmid S) child; returnM () })
   }"

text \<open>The errors of the rollback and of the start, joined as \<^verbatim>\<open>errors.Join\<close> does.\<close>

definition join_errors :: "string option \<Rightarrow> string \<Rightarrow> string" where
  "join_errors first second = (case first of None \<Rightarrow> second | Some e \<Rightarrow> e @ [newline] @ second)"

definition executeRollbackVM :: "sys \<Rightarrow> string \<Rightarrow> (wd, string option) state" where
  "executeRollbackVM S snap = do {
     stop \<leftarrow> VMStop (s_ops S) (vmid S);
     case stop of
       Inl e \<Rightarrow> returnM (Some (''stop VM before rollback: '' @ e))
     | Inr _ \<Rightarrow> do {
         status \<leftarrow> VMStatus (s_ops S) (vmid S);
         case status of
           Inl e \<Rightarrow> returnM (Some (''verify stopped VM before rollback: '' @ e))
         | Inr running \<Rightarrow>
             if running then returnM (Some ''VM remains running after stop; rollback rejected'')
             else do {
               delete_intermediate S snap;
               rolled \<leftarrow> VMRollback (s_ops S) (vmid S) snap;
               let rollbackErr = (case rolled of Inl e \<Rightarrow> Some e | Inr _ \<Rightarrow> None);
               started \<leftarrow> VMStart (s_ops S) (vmid S);
               returnM (case started of
                   Inl e \<Rightarrow> Some (join_errors rollbackErr (''start VM after rollback: '' @ e))
                 | Inr _ \<Rightarrow> rollbackErr)
             }
       }
   }"

definition already_done :: "sys \<Rightarrow> int \<Rightarrow> (wd, read_err + (bool \<times> int)) state" where
  "already_done S deployTS = do {
     content \<leftarrow> read_file S state_file;
     returnM (AlreadyDone content deployTS)
   }"

definition WriteState :: "sys \<Rightarrow> int \<Rightarrow> string \<Rightarrow> int \<Rightarrow> bool \<Rightarrow> (wd, unit) state" where
  "WriteState S deployTS snap attempts success = do {
     now \<leftarrow> now_w S;
     _ \<leftarrow> write_file S state_file_update (state_content deployTS snap attempts success now);
     returnM ()
   }"

definition recordRollbackResult :: "sys \<Rightarrow> int \<Rightarrow> string \<Rightarrow> string option \<Rightarrow> (wd, unit) state" where
  "recordRollbackResult S deployTS snap rollbackErr = do {
     whenM (rollbackErr = None) (remove_lock S);
     r \<leftarrow> already_done S deployTS;
     let attempts = (case r of Inl e \<Rightarrow> 1 | Inr (existing, att) \<Rightarrow> if existing then 1 else att + 1);
     WriteState S deployTS snap attempts (rollbackErr = None)
   }"

section \<open>Deploy operations\<close>

definition set_rolling :: "bool \<Rightarrow> (wd, unit) state" where
  "set_rolling v = modify (w_coord_update (SetRollingBack v))"

text \<open>
  \<^verbatim>\<open>inspectDeployOperation\<close>: whether an unfinished deploy operation takes precedence over the
  watchdog's own diagnosis. The caller holds the coordinator.
\<close>

definition inspectDeployOperation :: "sys \<Rightarrow> (wd, bool) state" where
  "inspectDeployOperation S = do {
     loaded \<leftarrow> store_Read (s_lib S) (s_env S);
     case loaded of
       Inl OpNotExist \<Rightarrow> returnM False
     | Inl (OpError e) \<Rightarrow> returnM True
     | Inr r \<Rightarrow>
         if RecStatus r = Committed \<or> RecStatus r = Recovered \<or> RecStatus r = Disarmed then returnM False
         else if VMID r \<noteq> vmid S then returnM True
         else do {
           watchErr \<leftarrow> watch_verify (s_env S) (Watch r);
           live \<leftarrow> (if RecStatus r = Armed then do { now \<leftarrow> now_w S; returnM (now < Deadline r \<and> watchErr = None) }
                    else returnM False);
           if live then returnM True
           else if \<not> s_real S then returnM True
           else do {
             set_rolling True;
             _ \<leftarrow> RecoverCoordinated (s_rounds S) (s_lib S) (s_env S) True (OperationID r) (Generation r)
               ''deployment watch is absent, operation deadline expired or recovery already started'';
             set_rolling False;
             returnM True
           }
         }
   }"

definition handleDeployOperation :: "sys \<Rightarrow> (wd, bool) state" where
  "handleDeployOperation S = do {
     n \<leftarrow> next_tick;
     modify (op_file_update (o_interfere (s_env S) n));
     stat_ok \<leftarrow> io_op (s_env S);
     content \<leftarrow> gets op_file;
     if stat_ok \<and> content = None then returnM False
     else if \<not> stat_ok then returnM True
     else do {
       held \<leftarrow> Acquire S;
       if \<not> held then returnM True
       else do {
         taken \<leftarrow> inspectDeployOperation S;
         Release S;
         returnM taken
       }
     }
   }"

section \<open>The rollback as a whole\<close>

definition lock_content :: "int \<Rightarrow> string \<Rightarrow> gotime \<Rightarrow> string" where
  "lock_content deployTS snap now =
     ''deploy_ts='' @ format_int deployTS @ '' snapshot='' @ snap @ '' ts='' @ format_int (unix_of now) @ [newline]"

text \<open>
  The body that runs with the coordinator held. A signal that arrives while the rollback is in
  progress is recorded by the signal handler; \<open>o_signal\<close> says whether one did. \<open>exited\<close> records
  the call of \<^verbatim>\<open>exitFn\<close>, which happens only when one is set.
\<close>

definition rollback_body :: "sys \<Rightarrow> int \<Rightarrow> string \<Rightarrow> (wd, unit) state" where
  "rollback_body S deployTS snap = do {
     modify (hashChangeWindowStart_update (\<lambda>_. 0));
     set_rolling True;
     modify (totalFailStart_update (\<lambda>_. zero_time));
     modify (consecutiveHealthy_update (\<lambda>_. 0));
     flushProbeLog;
     now \<leftarrow> now_w S;
     _ \<leftarrow> write_file S lock_file_update (lock_content deployTS snap now);
     rollbackErr \<leftarrow> executeRollbackVM S snap;
     recordRollbackResult S deployTS snap rollbackErr;
     signalled \<leftarrow> ask (o_signal (s_env S));
     whenM signalled (modify (w_coord_update OnSignalDuringRollback));
     whenM (rollbackErr = None) (do {
       later \<leftarrow> now_w S;
       modify (postRollbackGraceUntil_update (\<lambda>_. later + minutes (DeployWindowMinutes (wcfg S))));
       c \<leftarrow> gets w_coord;
       (let (deferred, c') = TakeShutdownAfterRollback c in do {
          modify (w_coord_update (\<lambda>_. c'));
          whenM (deferred \<and> s_exit S) (modify (exited_update (\<lambda>_. True)))
        })
     });
     set_rolling False
   }"

definition rollback :: "sys \<Rightarrow> int \<Rightarrow> string \<Rightarrow> (wd, unit) state" where
  "rollback S deployTS snap = do {
     held \<leftarrow> Acquire S;
     if \<not> held then returnM ()
     else do {
       taken \<leftarrow> inspectDeployOperation S;
       (if taken then returnM ()
        else do {
          r \<leftarrow> already_done S deployTS;
          case r of
            Inl e \<Rightarrow> returnM ()
          | Inr (finished, att) \<Rightarrow> if finished then returnM () else rollback_body S deployTS snap
        });
       Release S
     }
   }"

text \<open>What follows the coordinator's acquisition in \<^verbatim>\<open>recoverInterrupted\<close>.\<close>

definition finish_interrupted :: "sys \<Rightarrow> (wd, unit) state" where
  "finish_interrupted S = do {
     content \<leftarrow> read_file S lock_file;
     case content of
       Inl e \<Rightarrow> returnM ()
     | Inr _ \<Rightarrow> do {
         status \<leftarrow> VMStatus (s_ops S) (vmid S);
         case status of
           Inl e \<Rightarrow> returnM ()
         | Inr running \<Rightarrow>
             if running then remove_lock S
             else do {
               started \<leftarrow> VMStart (s_ops S) (vmid S);
               case started of
                 Inl e \<Rightarrow> returnM ()
               | Inr _ \<Rightarrow> do {
                   remove_lock S;
                   modify (recoveredFromRollback_update (\<lambda>_. True));
                   _ \<leftarrow> sleepOrDone S (PostRollbackGrace (wcfg S));
                   returnM ()
                 }
             }
       }
   }"

definition recoverInterrupted :: "sys \<Rightarrow> (wd, unit) state" where
  "recoverInterrupted S = do {
     held \<leftarrow> Acquire S;
     if \<not> held then returnM ()
     else do {
       taken \<leftarrow> inspectDeployOperation S;
       (if taken then returnM () else finish_interrupted S);
       Release S
     }
   }"

section \<open>Deciding on a rollback\<close>

definition sendPartialAlert :: "sys \<Rightarrow> (wd, unit) state" where
  "sendPartialAlert S = do {
     now \<leftarrow> now_w S;
     a \<leftarrow> gets w_limiter;
     modify (w_limiter_update (\<lambda>_. snd (TrySendPartial now a)))
   }"

definition sendTotalAlert :: "sys \<Rightarrow> (wd, unit) state" where
  "sendTotalAlert S = do {
     now \<leftarrow> now_w S;
     a \<leftarrow> gets w_limiter;
     modify (w_limiter_update (\<lambda>_. snd (TrySendTotal now a)))
   }"

definition attemptRollbackForDeploy :: "sys \<Rightarrow> int \<Rightarrow> (wd, bool) state" where
  "attemptRollbackForDeploy S deployTS = do {
     r \<leftarrow> already_done S deployTS;
     let (already, attempts) = (case r of Inl e \<Rightarrow> (False, 0) | Inr p \<Rightarrow> p);
     if already then returnM False
     else if 0 < MaxRollbackAttempts (wcfg S) \<and> MaxRollbackAttempts (wcfg S) \<le> attempts then returnM False
     else do {
       snap \<leftarrow> findSnapshot S;
       if snap = [] then do { sendTotalAlert S; returnM False }
       else do { rollback S deployTS snap; returnM True }
     }
   }"

end
