(* ===== verification/WatchdogLoop.thy ===== *)
theory WatchdogLoop
  imports WatchdogRollback
begin

text \<open>
  The connectivity loop of the watchdog (\<^verbatim>\<open>watchdog/watchdog.go\<close>, \<^verbatim>\<open>watchdog/diagnosis.go\<close>,
  \<^verbatim>\<open>watchdog/startup.go\<close>) and the dry-run operations (\<^verbatim>\<open>watchdog/dryrun.go\<close>). The loop has no
  bound unless \<^verbatim>\<open>MaxIterations\<close> is positive, so \<open>run_loop\<close> takes the number of iterations to
  execute; properties hold for every such number. The status listener and the interface monitor
  are goroutines of their own: what the listener received is an answer of the environment, and
  the monitor only logs.
\<close>

section \<open>Diagnosis\<close>

definition diagnoseNoRecentChange :: "sys \<Rightarrow> (wd, bool) state" where
  "diagnoseNoRecentChange S = do {
     vmOK \<leftarrow> testVMConnectivity S;
     logPushedStatus S;
     failedOver \<leftarrow>
       (if vmOK then returnM False
        else if LXCID (Failover (s_cfg S)) \<noteq> []
        then tryFailover S ''Total connectivity loss on primary, no recent config change''
        else returnM False);
     if failedOver then returnM True
     else do { sendTotalAlert S; returnM False }
   }"

text \<open>The remaining deploy grace in seconds, when the last deploy is still within it.\<close>

definition deploy_grace :: "sys \<Rightarrow> (wd, int option) state" where
  "deploy_grace S =
     (if 0 < DeployGracePeriodSeconds (wcfg S) then do {
        (rawDeployTS, dOK) \<leftarrow> readGuestUnix S (LastDeployPath (Network (s_cfg S)));
        if dOK then do {
          now \<leftarrow> now_w S;
          let deployAge = unix_of now - rawDeployTS; grace = DeployGracePeriodSeconds (wcfg S) in
          returnM (if 0 \<le> deployAge \<and> deployAge < grace then Some (grace - deployAge) else None)
        }
        else returnM None
      }
      else returnM None)"

definition handleTimeoutExceeded :: "sys \<Rightarrow> (wd, unit) state" where
  "handleTimeoutExceeded S = do {
     (deployTS, recent) \<leftarrow> checkDeploy S;
     if \<not> recent then do {
       _ \<leftarrow> diagnoseNoRecentChange S;
       _ \<leftarrow> sleepOrDone S (seconds 60);
       returnM ()
     }
     else do {
       remaining \<leftarrow> deploy_grace S;
       case remaining of
         Some sec \<Rightarrow> do { _ \<leftarrow> sleepOrDone S (seconds sec); returnM () }
       | None \<Rightarrow> do {
           attempted \<leftarrow> attemptRollbackForDeploy S deployTS;
           _ \<leftarrow> sleepOrDone S (if attempted then PostRollbackGrace (wcfg S) else seconds 60);
           returnM ()
         }
     }
   }"

section \<open>The cases of an iteration\<close>

definition handleVMStopped :: "sys \<Rightarrow> (wd, unit) state" where
  "handleVMStopped S = do {
     logged \<leftarrow> gets vmStoppedLogged;
     if logged then returnM ()
     else do {
       modify (vmStoppedLogged_update (\<lambda>_. True));
       modify (lastState_update (\<lambda>_. stateVMStopped));
       locked \<leftarrow> lock_exists S;
       recovered \<leftarrow> gets recoveredFromRollback;
       if locked \<or> recovered then returnM ()
       else do { _ \<leftarrow> VMStart (s_ops S) (vmid S); returnM () }
     }
   }"

definition handleHealthyProbe :: "sys \<Rightarrow> (wd, unit) state" where
  "handleHealthyProbe S = do {
     modify (consecutiveHealthy_update (\<lambda>n. n + 1));
     modify (healthyCyclesForHash_update (\<lambda>n. n + 1));
     cycles \<leftarrow> gets healthyCyclesForHash;
     whenM (0 < HashCheckEveryNHealthy (wcfg S) \<and> HashCheckEveryNHealthy (wcfg S) \<le> cycles) (do {
       modify (healthyCyclesForHash_update (\<lambda>_. 0));
       checkConfigHash S
     });
     maybeSnapshot S;
     state \<leftarrow> gets lastState;
     whenM (state = stateHealthy) (do {
       beat \<leftarrow> gets lastHeartbeat;
       elapsed \<leftarrow> since S beat;
       whenM (heartbeatTick S \<le> elapsed) (do {
         now \<leftarrow> now_w S;
         modify (lastHeartbeat_update (\<lambda>_. now))
       })
     });
     modify (lastState_update (\<lambda>_. stateHealthy));
     modify (consecutiveTotalFails_update (\<lambda>_. 0));
     modify (totalDownStartUnix_update (\<lambda>_. 0));
     modify (w_limiter_update ResetCooldowns);
     flushProbeLog
   }"

definition handlePartialProbe :: "sys \<Rightarrow> (wd, unit) state" where
  "handlePartialProbe S = do {
     modify (lastState_update (\<lambda>_. statePartial));
     modify (consecutiveTotalFails_update (\<lambda>_. 0));
     modify (totalDownStartUnix_update (\<lambda>_. 0));
     sendPartialAlert S
   }"

definition handleTotalLoss :: "sys \<Rightarrow> (wd, bool) state" where
  "handleTotalLoss S = do {
     modify (consecutiveTotalFails_update (\<lambda>n. n + 1));
     t \<leftarrow> now_w S;
     let now = unix_of t;
     start \<leftarrow> gets totalDownStartUnix;
     whenM (start = 0) (modify (totalDownStartUnix_update (\<lambda>_. now)));
     modify (lastState_update (\<lambda>_. stateDown));
     since_unix \<leftarrow> gets totalDownStartUnix;
     returnM (\<not> now - since_unix < ConnectivityTimeoutSeconds (wcfg S))
   }"

section \<open>The loop\<close>

definition runIteration :: "sys \<Rightarrow> (wd, bool) state" where
  "runIteration S = do {
     cancelled \<leftarrow> ask (o_done (s_env S));
     if cancelled then returnM False
     else do {
       operation \<leftarrow> handleDeployOperation S;
       if operation then sleepOrDone S (DegradedInterval (wcfg S))
       else do {
         status \<leftarrow> VMStatus (s_ops S) (vmid S);
         case status of
           Inl e \<Rightarrow> sleepOrDone S (DegradedInterval (wcfg S))
         | Inr running \<Rightarrow>
             if \<not> running then do {
               handleVMStopped S;
               sleepOrDone S (DegradedInterval (wcfg S))
             }
             else do {
               modify (vmStoppedLogged_update (\<lambda>_. False));
               (v4ok, v6ok) \<leftarrow> probeConnectivity S;
               whenM (\<not> v4ok \<or> \<not> v6ok) (do {
                 modify (consecutiveHealthy_update (\<lambda>_. 0));
                 modify (healthyCyclesForHash_update (\<lambda>_. 0))
               });
               if v4ok \<and> v6ok then do {
                 handleHealthyProbe S;
                 maybeTriggerRecovery S;
                 sleepOrDone S (HealthyInterval (wcfg S))
               }
               else if v4ok \<or> v6ok then do {
                 handlePartialProbe S;
                 sleepOrDone S (DegradedInterval (wcfg S))
               }
               else do {
                 exceeded \<leftarrow> handleTotalLoss S;
                 whenM exceeded (handleTimeoutExceeded S);
                 sleepOrDone S (DegradedInterval (wcfg S))
               }
             }
       }
     }
   }"

definition runStartupChecks :: "sys \<Rightarrow> (wd, unit) state" where
  "runStartupChecks S = do {
     operation \<leftarrow> handleDeployOperation S;
     if operation then returnM ()
     else do {
       recoverInterrupted S;
       ensureGuestThawed S;
       _ \<leftarrow> VMSnapshots (s_ops S) (vmid S);
       _ \<leftarrow> read_file S lock_file;
       status \<leftarrow> VMStatus (s_ops S) (vmid S);
       whenM (status = Inr True) (do {
         _ \<leftarrow> probeConnectivity S;
         checkConfigHash S
       })
     }
   }"

text \<open>
  \<open>run_loop n k S\<close>: at most \<open>n\<close> iterations, of which \<open>k\<close> have run; it stops where the source does.
\<close>

fun run_loop :: "nat \<Rightarrow> int \<Rightarrow> sys \<Rightarrow> (wd, unit) state" where
  "run_loop 0 iteration S = returnM ()"
| "run_loop (Suc n) iteration S =
     (if MaxIterations (wcfg S) \<le> 0 \<or> iteration < MaxIterations (wcfg S) then do {
        continue \<leftarrow> runIteration S;
        if continue then run_loop n (iteration + 1) S else returnM ()
      }
      else returnM ())"

definition run :: "nat \<Rightarrow> sys \<Rightarrow> (wd, unit) state" where
  "run n S = do {
     runStartupChecks S;
     modify (lastState_update (\<lambda>_. stateUnknown));
     now \<leftarrow> now_w S;
     modify (lastHeartbeat_update (\<lambda>_. now));
     whenM (StatusListenPort (wcfg S) \<noteq> 0) (modify (w_status_update (\<lambda>_. ListenerStatus)));
     whenM (StatusCommand (wcfg S) \<noteq> []) (modify (w_status_update (\<lambda>_. GuestStatus (StatusCommand (wcfg S)))));
     run_loop n 0 S
   }"

section \<open>The dry run\<close>

definition wrap_read :: "string \<Rightarrow> ('s, string + 'a) state \<Rightarrow> ('s, string + 'a) state" where
  "wrap_read msg m = do { r \<leftarrow> m; returnM (case r of Inl e \<Rightarrow> Inl (msg @ e) | Inr a \<Rightarrow> Inr a) }"

definition zero_bgp_status :: bgp_status where
  "zero_bgp_status = \<lparr>AllEstablished = False, Announcing = False, AnnouncingIpv4 = False, AnnouncingIpv6 = False\<rparr>"

definition dryRunOps :: "'s sysops \<Rightarrow> 's sysops" where
  "dryRunOps inner =
     \<lparr>VMStatus = (\<lambda>v. wrap_read ''read vm status: '' (VMStatus inner v)),
      VMStart = (\<lambda>v. returnM (Inr ())),
      VMStop = (\<lambda>v. returnM (Inr ())),
      VMSnapshots = (\<lambda>v. wrap_read ''list snapshots: '' (VMSnapshots inner v)),
      VMSnapshot = (\<lambda>v s. returnM (Inr ())),
      VMDelSnapshot = (\<lambda>v s. returnM (Inr ())),
      VMDelSnapshotForce = (\<lambda>v s. returnM (Inr ())),
      VMRollback = (\<lambda>v s. returnM (Inr ())),
      GuestExec = (\<lambda>v args. wrap_read ''guest exec: '' (GuestExec inner v args)),
      Ping = Ping inner,
      GetConfigState = (\<lambda>v. wrap_read ''get config state: '' (GetConfigState inner v)),
      GetBGPStatus = (\<lambda>v. returnM (Inr (Some zero_bgp_status))),
      AnnounceRoutes = (\<lambda>v. returnM (Inr ())),
      WithdrawRoutes = (\<lambda>v. returnM (Inr ())),
      VMLock = (\<lambda>v. wrap_read ''read guest lock: '' (VMLock inner v)),
      VMUnlock = (\<lambda>v. returnM (Inr ())),
      VMHasRunningTask = (\<lambda>v. wrap_read ''task liveness: '' (VMHasRunningTask inner v)),
      VMFSFreezeStatus = (\<lambda>v. wrap_read ''fsfreeze-status: '' (VMFSFreezeStatus inner v)),
      VMFSFreezeThaw = (\<lambda>v. returnM (Inr ()))\<rparr>"

text \<open>
  The system of a run: the production operations of the host, or the dry-run operations around
  them. Only the production operations are \<^verbatim>\<open>RealOps\<close>, which \<^verbatim>\<open>inspectDeployOperation\<close> requires for
  a recovery.
\<close>

definition live_system :: "sys \<Rightarrow> sys" where
  "live_system S = S\<lparr>s_ops := host_ops (s_env S), s_real := True\<rparr>"

definition dry_system :: "sys \<Rightarrow> sys" where
  "dry_system S = S\<lparr>s_ops := dryRunOps (host_ops (s_env S)), s_real := False\<rparr>"

end
