(* ===== verification/WatchdogSafety.thy ===== *)
theory WatchdogSafety
  imports WatchdogLoop
begin

text \<open>
  What every run of the watchdog keeps, whatever the outside answers. The locale \<open>watchdog_trace\<close>
  is the contract between the loop and the operations below it: when the plain calls and the few
  guarded sequences keep a predicate on the history, so does the whole run. It is interpreted
  three times: for the safety guard and for the freeze check on the production operations, and
  for the absence of changes on the dry-run operations.
\<close>

locale watchdog_trace =
  fixes S :: sys and P :: "sysevent list \<Rightarrow> bool"
  assumes ops_kept:
      "keeps (on_trace P) (VMStatus (s_ops S) v)"
      "keeps (on_trace P) (VMStart (s_ops S) v)"
      "keeps (on_trace P) (VMSnapshots (s_ops S) v)"
      "keeps (on_trace P) (GuestExec (s_ops S) v args)"
      "keeps (on_trace P) (Ping (s_ops S) b t)"
      "keeps (on_trace P) (GetConfigState (s_ops S) v)"
      "keeps (on_trace P) (GetBGPStatus (s_ops S) v)"
      "keeps (on_trace P) (AnnounceRoutes (s_ops S) v)"
    and thaw_kept: "keeps (on_trace P) (ensureGuestThawed S)"
    and snapshot_kept: "keeps (on_trace P) (take_snapshot S name)"
    and delete_kept: "keeps (on_trace P) (deleteSnapshot S name)"
    and unlock_kept: "keeps (on_trace P) (clearStaleGuestLock S)"
    and failover_kept: "keeps (on_trace P) (triggerFailover S reason)"
    and execute_kept: "keeps (on_trace P) (executeRollbackVM S name)"
    and recover_kept: "s_real S \<Longrightarrow>
      keeps (on_trace P) (RecoverCoordinated n lib env owns oid gen reason :: (wd, op_error + unit) state)"
begin

lemmas kept [keeps_rules] = ops_kept thaw_kept snapshot_kept delete_kept unlock_kept failover_kept
  execute_kept recover_kept

lemma probe_kept [keeps_rules]:
  "keeps (on_trace P) (guestExecProbe S args)"
  "keeps (on_trace P) (probeConnectivity S)"
  "keeps (on_trace P) (readGuestUnix S path)"
  "keeps (on_trace P) (config_state_latest S)"
  "keeps (on_trace P) (routeChannelFallback S ch)"
  unfolding guestExecProbe_def probeConnectivity_def readGuestUnix_def config_state_latest_def
    guest_config_state_def rpc_config_state_def routeChannelFallback_def Let_def
  by (intro keeps_rules)+

lemma probes_kept [keeps_rules]:
  "keeps (on_trace P) (testVMConnectivity S)"
  "keeps (on_trace P) (checkDeploy S)"
  unfolding testVMConnectivity_def checkDeploy_def Let_def by (intro keeps_rules)+

lemma status_kept [keeps_rules]: "keeps (on_trace P) (logPushedStatus S)"
proof -
  have "keeps (on_trace P) (status_latest S src)" for src
    unfolding status_latest_def guest_status_def by (cases src; simp; intro keeps_rules)
  then show ?thesis
    unfolding logPushedStatus_def by (intro keeps_rules)
qed

lemma hash_kept [keeps_rules]: "keeps (on_trace P) (checkConfigHash S)"
  unfolding checkConfigHash_def Let_def by (intro keeps_rules) simp_all

lemma alert_kept [keeps_rules]:
  "keeps (on_trace P) (watchdog_alert S lvl kind msg)"
  "keeps (on_trace P) (failover_alert S kind msg)"
  "keeps (on_trace P) (sendPartialAlert S)"
  "keeps (on_trace P) (sendTotalAlert S)"
  unfolding watchdog_alert_def failover_alert_def sendPartialAlert_def sendTotalAlert_def
  by (intro keeps_rules; simp)+

lemma note_kept [keeps_rules]:
  "keeps (on_trace P) (noteSnapshotFailure S)"
  "keeps (on_trace P) (noteSnapshotSuccess S)"
  unfolding noteSnapshotFailure_def noteSnapshotSuccess_def by (intro keeps_rules; simp)+

lemma delete_each_kept [keeps_rules]: "keeps (on_trace P) (delete_each S names err)"
  by (induction names arbitrary: err) (auto intro!: keeps_rules)

lemma pre_deploy_loop_kept [keeps_rules]: "keeps (on_trace P) (pre_deploy_loop S excess names d err)"
  by (induction names arbitrary: d err) (auto intro!: keeps_rules)

lemma prune_kept [keeps_rules]: "keeps (on_trace P) (pruneSnapshots S)"
  unfolding pruneSnapshots_def prune_total_def prunePreDeploySnapshots_def Let_def
  by (intro keeps_rules)

lemma snapshot_due_kept [keeps_rules]: "keeps (on_trace P) (snapshot_due S)"
  unfolding snapshot_due_def snapshotBackoffActive_def Let_def by (intro keeps_rules)

lemma maybeSnapshot_kept [keeps_rules]: "keeps (on_trace P) (maybeSnapshot S)"
  unfolding maybeSnapshot_def by (intro keeps_rules) simp_all

lemma recovery_kept [keeps_rules]:
  "keeps (on_trace P) (tryFailover S reason)"
  "keeps (on_trace P) (maybeTriggerRecovery S)"
  unfolding tryFailover_def maybeTriggerRecovery_def triggerBGPRecovery_def Let_def
  by (intro keeps_rules; simp)+

lemma operation_kept [keeps_rules]:
  "keeps (on_trace P) (inspectDeployOperation S)"
  "keeps (on_trace P) (handleDeployOperation S)"
proof -
  show inspect: "keeps (on_trace P) (inspectDeployOperation S)"
    unfolding inspectDeployOperation_def set_rolling_def
    by (intro keeps_rules; (simp split: op_error.split add: keeps_return)?)
  show "keeps (on_trace P) (handleDeployOperation S)"
    unfolding handleDeployOperation_def by (intro keeps_rules inspect; simp)
qed

lemma rollback_kept [keeps_rules]:
  "keeps (on_trace P) (rollback S ts snap)"
  "keeps (on_trace P) (recoverInterrupted S)"
  unfolding rollback_def rollback_body_def recoverInterrupted_def finish_interrupted_def set_rolling_def
    recordRollbackResult_def already_done_def WriteState_def Let_def
  by (intro keeps_rules; simp)+

lemma attempt_kept [keeps_rules]: "keeps (on_trace P) (attemptRollbackForDeploy S ts)"
  unfolding attemptRollbackForDeploy_def findSnapshot_def already_done_def Let_def by (intro keeps_rules)

lemma diagnosis_kept [keeps_rules]: "keeps (on_trace P) (handleTimeoutExceeded S)"
  unfolding handleTimeoutExceeded_def diagnoseNoRecentChange_def deploy_grace_def Let_def
  by (intro keeps_rules)

lemma handlers_kept [keeps_rules]:
  "keeps (on_trace P) (handleVMStopped S)"
  "keeps (on_trace P) (handleHealthyProbe S)"
  "keeps (on_trace P) (handlePartialProbe S)"
  "keeps (on_trace P) (handleTotalLoss S)"
  unfolding handleVMStopped_def handleHealthyProbe_def handlePartialProbe_def handleTotalLoss_def Let_def
  by (intro keeps_rules; simp)+

lemma iteration_kept [keeps_rules]: "keeps (on_trace P) (runIteration S)"
  unfolding runIteration_def by (intro keeps_rules) simp_all

lemma loop_kept [keeps_rules]: "keeps (on_trace P) (run_loop n k S)"
  by (induction n arbitrary: k) (auto intro!: keeps_rules)

lemma startup_kept [keeps_rules]: "keeps (on_trace P) (runStartupChecks S)"
  unfolding runStartupChecks_def by (intro keeps_rules)

lemma run_kept: "keeps (on_trace P) (run n S)"
  unfolding run_def by (intro keeps_rules) simp_all

lemma run_from_new: "P (trace w) \<Longrightarrow> P (trace (snd (run_state (run n S) (newWatchdog S w c files))))"
  using keeps_run [OF run_kept, of "newWatchdog S w c files" n]
  by (simp add: on_trace_def newWatchdog_def)

end

section \<open>The guarded sequences on the production operations\<close>

lemma live_system_fields [simp]:
  "s_cfg (live_system S) = s_cfg S" "s_env (live_system S) = s_env S" "s_lib (live_system S) = s_lib S"
  "s_ops (live_system S) = host_ops (s_env S)" "s_real (live_system S)"
  by (simp_all add: live_system_def)

lemma run_watchdog_alert [simp]:
  "run_state (watchdog_alert S lvl kind msg) w =
     ((), w\<lparr>tick := Suc (Suc (tick w)),
            ntf := Notify (o_now (s_env S) (Suc (tick w))) \<lparr>Now = o_now (s_env S) (tick w), Level = lvl, Kind = kind,
              Key = vmid S, Message = msg, IsRecovery = False\<rparr> (ntf w)\<rparr>)"
  by (simp add: watchdog_alert_def raise_alert_def now_w_def now_op_def)

lemma run_failover_alert [simp]:
  "run_state (failover_alert S kind msg) w =
     ((), w\<lparr>tick := Suc (tick w),
            ntf := Notify (o_now (s_env S) (tick w)) \<lparr>Now = zero_time, Level = LevelError, Kind = kind,
              Key = vmid S, Message = msg, IsRecovery = False\<rparr> (ntf w)\<rparr>)"
  by (simp add: failover_alert_def raise_alert_def now_op_def)

lemma live_delete_safe: "keeps (trace_ok safe_event) (deleteSnapshot (live_system S) name)"
  unfolding deleteSnapshot_def canForceDelete_def
  by (auto simp: keeps_def trace_ok_def host_ops_def force_allowed_def split: sum.splits prod.splits)

lemma live_unlock_safe: "keeps (trace_ok safe_event) (clearStaleGuestLock (live_system S))"
  unfolding clearStaleGuestLock_def
  by (auto simp: keeps_def trace_ok_def host_ops_def unlock_allowed_def split: sum.splits prod.splits)

text \<open>A failover withdraws only from a guest other than the backup that was just seen announcing.\<close>

lemma Check_distinct: "Check cfg = [] \<Longrightarrow> LXCID (Failover cfg) \<noteq> MwanVMID cfg"
  by (auto simp: Check_def split: if_splits)

lemma confirmed_withdraw_safe:
  assumes "LXCID (Failover (s_cfg S)) \<noteq> vmid S"
  shows "keeps (trace_ok safe_event) (confirm_backup (live_system S) reason)"
  using assms unfolding confirm_backup_def finish_failover_def Let_def
  by (auto simp: keeps_def trace_ok_def host_ops_def withdraw_allowed_def now_w_def now_op_def
      status_established_def status_announces_any_def split: sum.splits prod.splits option.splits)

lemma live_failover_safe: "keeps (trace_ok safe_event) (triggerFailover (live_system S) reason)"
proof (cases "Check (s_cfg S) = []")
  case True
  then have "keeps (trace_ok safe_event) (confirm_backup (live_system S) reason)"
    by (intro confirmed_withdraw_safe Check_distinct)
  then show ?thesis
    unfolding triggerFailover_def triggerBGPFailover_def announce_backup_def Let_def live_system_fields
    by (intro keeps_rules)
next
  case False
  then show ?thesis
    by (simp add: triggerFailover_def keeps_return)
qed

text \<open>The rollback happens between the confirmed stop and the start.\<close>

lemma live_intermediate: "keeps (stopped_ok (vmid S)) (delete_intermediate (live_system S) snap)"
  unfolding delete_intermediate_def
  by (simp, intro keeps_rules stopped_ok_delete stopped_ok_snapshots)

lemma live_execute_safe: "keeps (trace_ok safe_event) (executeRollbackVM (live_system S) snap)"
proof -
  let ?v = "vmid S" and ?ops = "host_ops (s_env S) :: wd sysops"
  have tail: "triple (stopped_ok ?v)
      (do { delete_intermediate (live_system S) snap; rolled \<leftarrow> VMRollback ?ops ?v snap; k rolled })
      (\<lambda>_. trace_ok safe_event)"
    if "\<And>r. keeps (trace_ok safe_event) (k r)" for k :: "string + unit \<Rightarrow> (wd, string option) state"
  proof -
    have "triple (stopped_ok ?v) (VMRollback ?ops ?v snap) (\<lambda>_. trace_ok safe_event)"
      by (rule triple_weaken [OF triple_from_stopped [OF stopped_ok_rollback]]) (auto simp: stopped_ok_def)
    then have "triple (stopped_ok ?v) (VMRollback ?ops ?v snap \<bind> k) (\<lambda>_. trace_ok safe_event)"
      by (rule triple_bind) (rule triple_safe [OF that])
    then show ?thesis
      by (intro triple_bind [OF triple_from_stopped [OF live_intermediate]])
  qed
  have checked: "triple (\<lambda>w. trace_ok safe_event w \<and> stop_issued ?v (trace w))
      (do { status \<leftarrow> VMStatus ?ops ?v;
            case status of Inl e \<Rightarrow> returnM (f e) | Inr running \<Rightarrow> if running then returnM c else m })
      (\<lambda>_. trace_ok safe_event)"
    if "triple (stopped_ok ?v) m (\<lambda>_. trace_ok safe_event)" for f c and m :: "(wd, string option) state"
    by (rule triple_bind [OF triple_status])
       (use that in \<open>auto simp: triple_def stopped_ok_def split: sum.split prod.splits\<close>)
  show ?thesis
    unfolding executeRollbackVM_def triple_keeps Let_def live_system_fields
  proof (rule triple_bind [OF triple_stop], goal_cases)
    case (1 stop)
    show ?case
    proof (cases stop)
      case (Inr u)
      show ?thesis
        by (simp add: Inr, rule triple_weaken [OF checked [OF tail]]) (auto intro!: keeps_rules)
    qed (auto simp: triple_def)
  qed
qed

lemma live_plain_safe:
  "keeps (trace_ok safe_event) (ensureGuestThawed (live_system S))"
  "keeps (trace_ok safe_event) (take_snapshot (live_system S) name)"
  unfolding take_snapshot_def ensureGuestThawed_def live_system_fields by (intro keeps_rules)+

interpretation live_safe: watchdog_trace "live_system S" "guarded safe_event" for S
  by unfold_locales
     (simp_all add: live_delete_safe live_unlock_safe live_failover_safe live_execute_safe live_plain_safe
        safe_recover safe.host_ops_plain)

section \<open>Every snapshot is followed by a freeze check\<close>

text \<open>
  In a history (newest first), the call right after every snapshot of a guest asks for the freeze
  state of that guest. The first argument is the event that came next.
\<close>

fun thaw_ok :: "sysevent option \<Rightarrow> sysevent list \<Rightarrow> bool" where
  "thaw_ok later [] = True"
| "thaw_ok later (EvVMSnapshot v s r # es) =
     ((case later of Some (EvVMFSFreezeStatus u _) \<Rightarrow> u = v | _ \<Rightarrow> False) \<and> thaw_ok (Some (EvVMSnapshot v s r)) es)"
| "thaw_ok later (e # es) = thaw_ok (Some e) es"

lemma thaw_ok_any: "thaw_ok None es \<Longrightarrow> thaw_ok e es"
  by (cases "(None :: sysevent option, es)" rule: thaw_ok.cases) simp_all

lemma thaw_ok_step: "thaw_ok None es \<Longrightarrow> (\<And>v s r. e \<noteq> EvVMSnapshot v s r) \<Longrightarrow> thaw_ok None (e # es)"
  by (cases e) (auto intro: thaw_ok_any)

interpretation thaw: rollback_trace "thaw_ok None"
  by unfold_locales (auto intro: thaw_ok_step thaw_ok_any)

lemma thaw_host_ops [keeps_rules]:
  "keeps (on_trace (thaw_ok None)) (VMDelSnapshotForce (host_ops env) v s)"
  "keeps (on_trace (thaw_ok None)) (VMUnlock (host_ops env) v)"
  "keeps (on_trace (thaw_ok None)) (WithdrawRoutes (host_ops env) v)"
  by (simp_all add: host_ops_def keeps_trace_call thaw_ok_any)

lemma keeps_watchdog_alert [keeps_rules]: "keeps (on_trace P) (watchdog_alert S lvl kind msg)"
  by (simp add: keeps_def on_trace_def)

lemma keeps_failover_alert [keeps_rules]: "keeps (on_trace P) (failover_alert S kind msg)"
  by (simp add: keeps_def on_trace_def)

lemma live_thaw_kept:
  "keeps (on_trace (thaw_ok None)) (ensureGuestThawed (live_system S))"
  "keeps (on_trace (thaw_ok None)) (deleteSnapshot (live_system S) name)"
  "keeps (on_trace (thaw_ok None)) (clearStaleGuestLock (live_system S))"
  "keeps (on_trace (thaw_ok None)) (triggerFailover (live_system S) reason)"
  "keeps (on_trace (thaw_ok None)) (executeRollbackVM (live_system S) name)"
  unfolding ensureGuestThawed_def deleteSnapshot_def canForceDelete_def clearStaleGuestLock_def
    triggerFailover_def triggerBGPFailover_def announce_backup_def confirm_backup_def finish_failover_def
    executeRollbackVM_def delete_intermediate_def Let_def live_system_fields
  by (intro keeps_rules; simp)+

lemma live_thaw_snapshot:
  assumes "GuestType (s_cfg S) \<noteq> GuestTypeLXC"
  shows "keeps (on_trace (thaw_ok None)) (take_snapshot (live_system S) name)"
  using assms unfolding take_snapshot_def ensureGuestThawed_def
  by (auto simp: keeps_def on_trace_def host_ops_def thaw_ok_any split: sum.splits prod.splits)

interpretation live_thaw: watchdog_trace "live_system S"
  "\<lambda>es. GuestType (s_cfg S) \<noteq> GuestTypeLXC \<longrightarrow> thaw_ok None es" for S
proof (cases "GuestType (s_cfg S) = GuestTypeLXC")
  case True
  then show "watchdog_trace (live_system S) (\<lambda>es. GuestType (s_cfg S) \<noteq> GuestTypeLXC \<longrightarrow> thaw_ok None es)"
    by unfold_locales (simp_all add: keeps_def on_trace_def)
next
  case False
  then show "watchdog_trace (live_system S) (\<lambda>es. GuestType (s_cfg S) \<noteq> GuestTypeLXC \<longrightarrow> thaw_ok None es)"
    by unfold_locales
       (simp_all add: live_thaw_kept live_thaw_snapshot thaw.engine_recover thaw.host_ops_plain)
qed

section \<open>The dry run\<close>

abbreviation no_change :: guard where
  "no_change es e \<equiv> \<not> destructive e"

lemma dry_system_fields [simp]:
  "s_cfg (dry_system S) = s_cfg S" "s_env (dry_system S) = s_env S" "s_lib (dry_system S) = s_lib S"
  "s_ops (dry_system S) = dryRunOps (host_ops (s_env S))" "\<not> s_real (dry_system S)"
  by (simp_all add: dry_system_def)

lemma keeps_wrap_read [keeps_rules]: "keeps I m \<Longrightarrow> keeps I (wrap_read msg m)"
  unfolding wrap_read_def by (intro keeps_rules)

lemma dry_ops_kept [keeps_rules]:
  "keeps (trace_ok no_change) (VMStatus (dryRunOps (host_ops env)) v)"
  "keeps (trace_ok no_change) (VMStart (dryRunOps (host_ops env)) v)"
  "keeps (trace_ok no_change) (VMStop (dryRunOps (host_ops env)) v)"
  "keeps (trace_ok no_change) (VMSnapshots (dryRunOps (host_ops env)) v)"
  "keeps (trace_ok no_change) (VMSnapshot (dryRunOps (host_ops env)) v s)"
  "keeps (trace_ok no_change) (VMDelSnapshot (dryRunOps (host_ops env)) v s)"
  "keeps (trace_ok no_change) (VMDelSnapshotForce (dryRunOps (host_ops env)) v s)"
  "keeps (trace_ok no_change) (VMRollback (dryRunOps (host_ops env)) v s)"
  "keeps (trace_ok no_change) (GuestExec (dryRunOps (host_ops env)) v args)"
  "keeps (trace_ok no_change) (Ping (dryRunOps (host_ops env)) b t)"
  "keeps (trace_ok no_change) (GetConfigState (dryRunOps (host_ops env)) v)"
  "keeps (trace_ok no_change) (GetBGPStatus (dryRunOps (host_ops env)) v)"
  "keeps (trace_ok no_change) (AnnounceRoutes (dryRunOps (host_ops env)) v)"
  "keeps (trace_ok no_change) (WithdrawRoutes (dryRunOps (host_ops env)) v)"
  "keeps (trace_ok no_change) (VMLock (dryRunOps (host_ops env)) v)"
  "keeps (trace_ok no_change) (VMUnlock (dryRunOps (host_ops env)) v)"
  "keeps (trace_ok no_change) (VMHasRunningTask (dryRunOps (host_ops env)) v)"
  "keeps (trace_ok no_change) (VMFSFreezeStatus (dryRunOps (host_ops env)) v)"
  "keeps (trace_ok no_change) (VMFSFreezeThaw (dryRunOps (host_ops env)) v)"
  by (simp_all add: dryRunOps_def host_ops_def keeps_wrap_read keeps_return keeps_trace_call)

lemma dry_kept:
  "keeps (trace_ok no_change) (ensureGuestThawed (dry_system S))"
  "keeps (trace_ok no_change) (take_snapshot (dry_system S) name)"
  "keeps (trace_ok no_change) (deleteSnapshot (dry_system S) name)"
  "keeps (trace_ok no_change) (clearStaleGuestLock (dry_system S))"
  "keeps (trace_ok no_change) (triggerFailover (dry_system S) reason)"
  "keeps (trace_ok no_change) (executeRollbackVM (dry_system S) name)"
  unfolding ensureGuestThawed_def take_snapshot_def deleteSnapshot_def canForceDelete_def clearStaleGuestLock_def
    triggerFailover_def triggerBGPFailover_def announce_backup_def confirm_backup_def finish_failover_def
    executeRollbackVM_def delete_intermediate_def Let_def dry_system_fields
  by (intro keeps_rules; simp)+

interpretation dry: watchdog_trace "dry_system S" "guarded no_change" for S
  by unfold_locales (simp_all add: dry_kept dry_ops_kept)

section \<open>Properties\<close>

text \<open>
  C1: The watchdog never makes a dangerous call outside the state that justifies it. Whatever the
  configuration, the operation record and files it finds and the answers of the outside, in every
  run of any length on the production operations: a guest is rolled back only after a stop of it
  succeeded and its status was then not running, with no start since; a snapshot is force-deleted
  only when it is a known-good one, the delete just before failed because the storage had no such
  snapshot, and no task was running; a guest is unlocked only when it held one of the snapshot
  locks and no task was running; and routes are withdrawn only right after another guest was seen
  with every BGP session established and announcing.
\<close>

theorem watchdog_run_safe:
  "guarded safe_event (trace (snd (run_state (run n (live_system S))
     (newWatchdog (live_system S) (w\<lparr>trace := []\<rparr>) c files))))"
  by (rule live_safe.run_from_new) simp

text \<open>
  C2: A dry run changes nothing outside its own process. In every run of any length on the
  dry-run operations, no guest is started, stopped, snapshotted, rolled back, unlocked or thawed,
  no snapshot is deleted, no route is announced or withdrawn and no operation record is written.
\<close>

theorem dry_run_changes_nothing:
  "guarded no_change (trace (snd (run_state (run n (dry_system S))
     (newWatchdog (dry_system S) (w\<lparr>trace := []\<rparr>) c files))))"
  by (rule dry.run_from_new) simp

text \<open>
  C8: No snapshot leaves a QEMU guest unchecked. In every run of any length, the call right after
  each snapshot, failed ones included, asks that guest for its freeze state.
\<close>

theorem watchdog_snapshots_freeze_checked:
  assumes "GuestType (s_cfg S) \<noteq> GuestTypeLXC"
  shows "thaw_ok None (trace (snd (run_state (run n (live_system S))
     (newWatchdog (live_system S) (w\<lparr>trace := []\<rparr>) c files))))"
  using live_thaw.run_from_new [of S "w\<lparr>trace := []\<rparr>" n c files] assms by simp

text \<open>A concrete system: the sample configuration in the quiet environment.\<close>

definition sample_sys :: sys where
  "sample_sys =
     \<lparr>s_cfg = sample_config, s_env = quiet_env, s_lib = sample_libs, s_ops = host_ops quiet_env, s_real = True,
      s_rounds = 1, s_exit = False, s_heartbeat = 0, s_status_decode = (\<lambda>_. None), s_config_decode = (\<lambda>_. None),
      s_zone = (\<lambda>_. 0)\<rparr>"

lemma sample_sys_fields [simp]:
  "s_cfg sample_sys = sample_config" "s_env sample_sys = quiet_env" "s_lib sample_sys = sample_libs"
  "s_ops sample_sys = host_ops quiet_env" "s_real sample_sys" "s_rounds sample_sys = 1" "\<not> s_exit sample_sys"
  "s_heartbeat sample_sys = 0" "s_status_decode sample_sys x = None" "s_config_decode sample_sys x = None"
  "s_zone sample_sys t = 0"
  by (simp_all add: sample_sys_def)

definition unlisted_sys :: sys where
  "unlisted_sys = sample_sys\<lparr>s_env := quiet_env\<lparr>h_VMSnapshots := (\<lambda>_ _. Inl ''busy'')\<rparr>\<rparr>"

theorem watchdog_snapshots_freeze_checked_witness:
  "thaw_ok None (trace (snd (run_state (run 1 (live_system unlisted_sys))
     (newWatchdog (live_system unlisted_sys) (quiet_world\<lparr>trace := []\<rparr>) new_coord (None, None))))) \<and>
   (\<exists>name. EvVMSnapshot ''113'' name (Inr ()) \<in> set (trace (snd (run_state (run 1 (live_system unlisted_sys))
     (newWatchdog (live_system unlisted_sys) (quiet_world\<lparr>trace := []\<rparr>) new_coord (None, None))))))"
proof
  show "thaw_ok None (trace (snd (run_state (run 1 (live_system unlisted_sys))
     (newWatchdog (live_system unlisted_sys) (quiet_world\<lparr>trace := []\<rparr>) new_coord (None, None)))))"
    by (rule watchdog_snapshots_freeze_checked) (simp add: unlisted_sys_def sample_config_def GuestTypeLXC_def)
next
  show "\<exists>name. EvVMSnapshot ''113'' name (Inr ()) \<in> set (trace (snd (run_state (run 1 (live_system unlisted_sys))
     (newWatchdog (live_system unlisted_sys) (quiet_world\<lparr>trace := []\<rparr>) new_coord (None, None)))))"
    by (simp add: unlisted_sys_def live_system_def sample_config_def GuestTypeLXC_def newWatchdog_def quiet_world_def
        host_ops_def trim_space_def trim_left_def trim_right_def now_w_def now_op_def io_op_def Let_def since_def
        resolve_alert_def is_abs_def DegradedInterval_def connectivity_state_defs parseManifest_def is_space_def
        manifest_line_def seconds_def nanosecond_per_second_def minutes_def
        run_def runStartupChecks_def handleDeployOperation_def recoverInterrupted_def finish_interrupted_def
      inspectDeployOperation_def Acquire_def Release_def checkConfigHash_def config_state_latest_def rpc_config_state_def
      routeChannelFallback_def probeConnectivity_def appendProbe_def flushProbeLog_def
      runIteration_def handleHealthyProbe_def maybeTriggerRecovery_def sleepOrDone_def read_file_def
      maybeSnapshot_def snapshot_due_def take_snapshot_def ensureGuestThawed_def snapshotBackoffActive_def
      readGuestUnix_def guest_unix_def noteSnapshotSuccess_def pruneSnapshots_def clearStaleGuestLock_def
      store_Read_def store_read_def locked_def)
qed

end
