(* ===== verification/WatchdogPacing.thy ===== *)
theory WatchdogPacing
  imports WatchdogSafety
begin

text \<open>
  When the watchdog acts: the spacing of failed snapshots, the conditions that hold a snapshot
  back, the timeout of a total loss, the change window, and the comparison of manifests.
\<close>

section \<open>Backoff\<close>

lemma backoff_loop_eq:
  "0 < b \<Longrightarrow> b < snapshotFailureBackoffCap \<Longrightarrow> backoff_loop n b = min snapshotFailureBackoffCap (b * 2 ^ n)"
proof (induction n arbitrary: b)
  case (Suc n)
  show ?case
  proof (cases "snapshotFailureBackoffCap \<le> b * 2")
    case True
    have "b * 2 * 1 \<le> b * 2 * 2 ^ n"
      using Suc.prems(1) by (intro mult_left_mono) simp_all
    with True show ?thesis
      by (simp add: Let_def min_def algebra_simps)
  next
    case False
    with Suc.IH [of "b * 2"] Suc.prems(1) show ?thesis
      by (simp add: Let_def algebra_simps)
  qed
qed simp

text \<open>
  C16: The wait after a run of failed snapshots is five minutes doubled once per further failure,
  never more than an hour and never less than five minutes.
\<close>

theorem snapshot_backoff_doubles:
  "snapshotFailureBackoff n = min (minutes 60) (minutes 5 * 2 ^ nat (n - 1)) \<and>
   minutes 5 \<le> snapshotFailureBackoff n \<and> snapshotFailureBackoff n \<le> minutes 60"
proof -
  have base: "0 < snapshotFailureBackoffBase" "snapshotFailureBackoffBase < snapshotFailureBackoffCap"
    by (simp_all add: snapshotFailureBackoffBase_def snapshotFailureBackoffCap_def minutes_def)
  have eq: "snapshotFailureBackoff n = min (minutes 60) (minutes 5 * 2 ^ nat (n - 1))"
    using backoff_loop_eq [OF base, of "nat (n - 1)"]
    by (auto simp: snapshotFailureBackoff_def snapshotFailureBackoffBase_def snapshotFailureBackoffCap_def
        minutes_def min_def)
  have "minutes 5 * 1 \<le> minutes 5 * 2 ^ nat (n - 1)"
    by (intro mult_left_mono) (simp_all add: minutes_def)
  with eq show ?thesis
    by (simp add: minutes_def)
qed

section \<open>Manifests\<close>

lemma finite_parse_manifest: "finite (dom m) \<Longrightarrow> finite (dom (parse_manifest_lines ls m))"
  by (induction ls arbitrary: m) (auto split: option.split prod.split)

lemma finite_manifest [simp]: "finite (dom (parseManifest raw))"
  unfolding parseManifest_def by (rule finite_parse_manifest) simp


section \<open>The timeout of a total loss\<close>

text \<open>The verdicts of consecutive cycles that all find both families down.\<close>

fun total_loss_cycles :: "nat \<Rightarrow> sys \<Rightarrow> (wd, bool list) state" where
  "total_loss_cycles 0 S = returnM []"
| "total_loss_cycles (Suc n) S = do {
     b \<leftarrow> handleTotalLoss S;
     bs \<leftarrow> total_loss_cycles n S;
     returnM (b # bs)
   }"

lemma run_handleTotalLoss:
  "run_state (handleTotalLoss S) w =
     (let t = unix_of (o_now (s_env S) (tick w));
          start = (if totalDownStartUnix w = 0 then t else totalDownStartUnix w)
      in (\<not> t - start < ConnectivityTimeoutSeconds (wcfg S),
          w\<lparr>tick := Suc (tick w), consecutiveTotalFails := consecutiveTotalFails w + 1,
            totalDownStartUnix := start, lastState := stateDown\<rparr>))"
  by (simp add: handleTotalLoss_def now_w_def now_op_def Let_def)

lemma total_loss_cycles_later:
  assumes "totalDownStartUnix w \<noteq> 0"
  shows "fst (run_state (total_loss_cycles n S) w) =
    map (\<lambda>i. ConnectivityTimeoutSeconds (wcfg S) \<le> unix_of (o_now (s_env S) (tick w + i)) - totalDownStartUnix w) [0..<n]"
  using assms
proof (induction n arbitrary: w)
  case (Suc n)
  let ?w = "w\<lparr>tick := Suc (tick w), consecutiveTotalFails := consecutiveTotalFails w + 1,
              totalDownStartUnix := totalDownStartUnix w, lastState := stateDown\<rparr>"
  have "[0..<Suc n] = 0 # map Suc [0..<n]"
    by (metis map_Suc_upt upt_conv_Cons zero_less_Suc)
  with Suc.IH [of ?w] Suc.prems show ?case
    by (simp add: run_handleTotalLoss Let_def split_beta not_less)
qed simp

text \<open>
  C12: A total loss is diagnosed exactly when it has lasted the configured time. Over any number of
  consecutive total-loss cycles that follow a cycle without one, the verdict of each cycle is
  whether the seconds since the first of them have reached the connectivity timeout.
\<close>

theorem total_loss_threshold:
  assumes "totalDownStartUnix w = 0" and "unix_of (o_now (s_env S) (tick w)) \<noteq> 0"
  shows "fst (run_state (total_loss_cycles n S) w) =
    map (\<lambda>i. ConnectivityTimeoutSeconds (wcfg S) \<le>
               unix_of (o_now (s_env S) (tick w + i)) - unix_of (o_now (s_env S) (tick w))) [0..<n]"
proof (cases n)
  case (Suc k)
  have "[0..<Suc k] = 0 # map Suc [0..<k]"
    by (metis map_Suc_upt upt_conv_Cons zero_less_Suc)
  with assms show ?thesis
    by (simp add: Suc run_handleTotalLoss Let_def split_beta not_less total_loss_cycles_later)
qed simp

definition loss_sys :: sys where
  "loss_sys = sample_sys\<lparr>s_env := quiet_env\<lparr>o_now := (\<lambda>n. quiet_time + seconds (40 * int n))\<rparr>\<rparr>"

theorem total_loss_threshold_witness:
  "fst (run_state (total_loss_cycles 3 loss_sys) (newWatchdog loss_sys quiet_world new_coord (None, None))) =
     [False, False, True]"
  using total_loss_threshold [of "newWatchdog loss_sys quiet_world new_coord (None, None)" loss_sys 3]
  by (simp add: newWatchdog_def quiet_world_def loss_sys_def sample_config_def quiet_time_def unix_of_def
      seconds_def nanosecond_per_second_def upt_conv_Cons)

section \<open>The change window\<close>

lemma latest_marker_max: "latest_marker t ts = Max (set (t # ts))"
proof (induction ts arbitrary: t)
  case (Cons u us)
  have "Max (set (t # u # us)) = Max (set ((if t < u then u else t) # us))"
    by (cases us) (auto simp: max_def Max_insert)
  with Cons.IH show ?case
    by (metis latest_marker.simps(2))
qed simp

lemma effective_marker_max: "effective_marker ms = (if ms = [] then None else Some (Max (set ms)))"
  using latest_marker_max by (auto simp: effective_marker_def split: list.split)

lemma go_div_le: "a < 60 * (w + 1) \<Longrightarrow> 0 \<le> w \<Longrightarrow> go_div a 60 \<le> w"
  by (auto simp: go_div_def)

lemma go_div_leD: "go_div a 60 \<le> w \<Longrightarrow> a < 60 * (w + 1)"
  by (auto simp: go_div_def split: if_splits)

text \<open>The markers of a check: the two files of the guest and the start of the hash window.\<close>

definition markers :: "sys \<Rightarrow> wd \<Rightarrow> int list" where
  "markers S w =
     (let (d, dOK) = guest_unix (h_GuestExec (s_env S) (Suc (tick w)) (vmid S)
                                   [''cat'', LastDeployPath (Network (s_cfg S))]);
          (c, cOK) = guest_unix (h_GuestExec (s_env S) (Suc (Suc (tick w))) (vmid S)
                                   [''cat'', LastChangePath (Network (s_cfg S))])
      in (if dOK then [d] else []) @ (if cOK then [c] else []) @
         (if 0 < hashChangeWindowStart w then [hashChangeWindowStart w] else []))"

lemma run_checkDeploy:
  "fst (run_state (checkDeploy (live_system S)) w) =
     (if h_VMStatus (s_env S) (tick w) (vmid S) = Inr True \<and> markers S w \<noteq> [] \<and>
         go_div (unix_of (o_now (s_env S) (Suc (Suc (Suc (tick w))))) - Max (set (markers S w))) 60
           \<le> DeployWindowMinutes (wcfg S)
      then (Max (set (markers S w)), True) else (0, False))"
proof -
  let ?exec = "\<lambda>n path. guest_unix (h_GuestExec (s_env S) n (vmid S) [''cat'', path])"
  obtain d dOK where d: "?exec (Suc (tick w)) (LastDeployPath (Network (s_cfg S))) = (d, dOK)"
    by fastforce
  obtain c cOK where c: "?exec (Suc (Suc (tick w))) (LastChangePath (Network (s_cfg S))) = (c, cOK)"
    by fastforce
  have ms: "(if dOK then [d] else []) @ (if cOK then [c] else []) @
      (if 0 < hashChangeWindowStart w then [hashChangeWindowStart w] else []) = markers S w"
    by (simp add: markers_def d c)
  show ?thesis
    by (cases "h_VMStatus (s_env S) (tick w) (vmid S)")
       (simp_all add: checkDeploy_def readGuestUnix_def host_ops_def now_w_def now_op_def d c ms
         effective_marker_max [of "markers S w"] not_less)
qed


definition changed_sys :: sys where
  "changed_sys = sample_sys\<lparr>s_env := quiet_env\<lparr>h_GuestExec := (\<lambda>_ _ args.
     Inr \<lparr>ExitCode = 0, Stdout = ''1664403100'', Stderr = []\<rparr>)\<rparr>\<rparr>"


end
