(* ===== verification/WatchdogActions.thy ===== *)
theory WatchdogActions
  imports WatchdogPacing
begin

text \<open>
  What the watchdog does when it acts: a rollback always tries to start the guest again, pruning
  keeps the newest pre-deploy snapshot, forced deletes stay within their budget, a failover is all
  or nothing and its recovery happens once, and the rollbacks for one deploy are bounded.
\<close>

section \<open>What a program adds to the history\<close>

definition since_trace :: "(sysevent \<Rightarrow> bool) \<Rightarrow> sysevent list \<Rightarrow> sysevent list \<Rightarrow> bool" where
  "since_trace Q base es \<longleftrightarrow> (\<exists>new. es = new @ base \<and> list_all Q new)"

lemma since_trace_refl [simp]: "since_trace Q base base"
  by (simp add: since_trace_def)

lemma since_trace_step: "since_trace Q base es \<Longrightarrow> Q e \<Longrightarrow> since_trace Q base (e # es)"
  by (force simp: since_trace_def)

lemma keeps_since_call: "(\<And>r. Q (ev r)) \<Longrightarrow> keeps (on_trace (since_trace Q base)) (host_call f ev)"
  by (intro keeps_trace_call since_trace_step)

lemma since_traceE:
  assumes "keeps (on_trace (since_trace Q (trace w))) m"
  obtains new where "trace (snd (run_state m w)) = new @ trace w" "list_all Q new"
  using keeps_run [OF assms, of w] by (auto simp: on_trace_def since_trace_def)

section \<open>A rollback starts the guest again\<close>

fun lists_or_deletes :: "sysevent \<Rightarrow> bool" where
  "lists_or_deletes (EvVMSnapshots v r) = True"
| "lists_or_deletes (EvVMDelSnapshot v s r) = True"
| "lists_or_deletes _ = False"

lemma intermediate_since:
  "keeps (on_trace (since_trace lists_or_deletes base)) (delete_intermediate (live_system S) snap)"
  unfolding delete_intermediate_def live_system_fields
  by (intro keeps_rules) (simp_all add: host_ops_def keeps_since_call)

lemma run_intermediate:
  obtains new t where "run_state (delete_intermediate (live_system S) snap) w = ((), w\<lparr>tick := t, trace := new @ trace w\<rparr>)"
    "list_all lists_or_deletes new"
proof -
  define same where "same w' \<longleftrightarrow> (\<exists>t es. w' = w\<lparr>tick := t, trace := es\<rparr>)" for w'
  have call: "keeps same (host_call f ev)" for f ev
    unfolding keeps_def same_def by (clarsimp, intro exI, rule refl)
  have "keeps same (delete_intermediate (live_system S) snap)"
    unfolding delete_intermediate_def live_system_fields
    by (intro keeps_rules) (simp_all add: host_ops_def call)
  moreover have "same w"
    unfolding same_def by (rule exI [of _ "tick w"], rule exI [of _ "trace w"]) simp
  ultimately have "same (snd (run_state (delete_intermediate (live_system S) snap) w))"
    by (rule keeps_run)
  then obtain t es where run: "snd (run_state (delete_intermediate (live_system S) snap) w) = w\<lparr>tick := t, trace := es\<rparr>"
    unfolding same_def by (elim exE)
  obtain new where tr: "trace (snd (run_state (delete_intermediate (live_system S) snap) w)) = new @ trace w"
      and new: "list_all lists_or_deletes new"
    by (rule since_traceE [OF intermediate_since])
  have es: "es = new @ trace w"
    using tr unfolding run by simp
  have "run_state (delete_intermediate (live_system S) snap) w = ((), w\<lparr>tick := t, trace := new @ trace w\<rparr>)"
    by (rule prod_eqI) (simp_all add: run es)
  from that [OF this new] show thesis .
qed

text \<open>
  C10: A rollback never leaves the guest stopped without trying to start it. Whatever fails, once
  the guest was rolled back the last call is its start; and the rollback reports success only when
  both the rollback to the chosen snapshot and the start succeeded.
\<close>

theorem rollback_restarts_guest:
  "\<exists>new. trace (snd (run_state (executeRollbackVM (live_system S) snap) w)) = new @ trace w \<and>
     ((\<exists>s r. EvVMRollback (vmid S) s r \<in> set new) \<longrightarrow> (\<exists>r. hd new = EvVMStart (vmid S) r)) \<and>
     (fst (run_state (executeRollbackVM (live_system S) snap) w) = None \<longrightarrow>
        hd new = EvVMStart (vmid S) (Inr ()) \<and> EvVMRollback (vmid S) snap (Inr ()) \<in> set new)"
proof -
  let ?v = "vmid S" and ?e = "s_env S" and ?t = "tick w"
  let ?w2 = "w\<lparr>tick := Suc (Suc ?t), trace := EvVMStatus ?v (Inr False) # EvVMStop ?v (Inr ()) # trace w\<rparr>"
  obtain t new where inter: "run_state (delete_intermediate (live_system S) snap) ?w2 =
      ((), ?w2\<lparr>tick := t, trace := new @ trace ?w2\<rparr>)" and quiet: "list_all lists_or_deletes new"
    by (rule run_intermediate)
  then have none: "EvVMRollback v s r \<notin> set new" for v s r
    by (auto simp: list_all_iff)
  show ?thesis
  proof (cases "h_VMStop ?e ?t ?v = Inr () \<and> h_VMStatus ?e (Suc ?t) ?v = Inr False")
    case True
    let ?new = "[EvVMStart ?v (h_VMStart ?e (Suc t) ?v), EvVMRollback ?v snap (h_VMRollback ?e t ?v snap)] @ new @
        [EvVMStatus ?v (Inr False), EvVMStop ?v (Inr ())]"
    from True inter show ?thesis
      by (intro exI [of _ ?new]) (auto simp: executeRollbackVM_def host_ops_def Let_def split: sum.splits)
  next
    case False
    let ?new = "if h_VMStop ?e ?t ?v = Inr () then [EvVMStatus ?v (h_VMStatus ?e (Suc ?t) ?v), EvVMStop ?v (Inr ())]
        else [EvVMStop ?v (h_VMStop ?e ?t ?v)]"
    from False show ?thesis
      by (intro exI [of _ ?new]) (auto simp: executeRollbackVM_def host_ops_def Let_def split: sum.splits)
  qed
qed

definition stopped_sys :: sys where
  "stopped_sys = sample_sys\<lparr>s_env := quiet_env\<lparr>h_VMStatus := (\<lambda>_ _. Inr False), h_VMSnapshots := (\<lambda>_ _. Inl ''busy'')\<rparr>\<rparr>"

theorem rollback_restarts_guest_witness:
  "fst (run_state (executeRollbackVM (live_system stopped_sys) ''pre-deploy-1'')
      (newWatchdog stopped_sys quiet_world new_coord (None, None))) = None \<and>
   hd (trace (snd (run_state (executeRollbackVM (live_system stopped_sys) ''pre-deploy-1'')
      (newWatchdog stopped_sys quiet_world new_coord (None, None))))) = EvVMStart ''113'' (Inr ())"
proof -
  let ?w = "newWatchdog stopped_sys quiet_world new_coord (None, None)"
  have ok: "fst (run_state (executeRollbackVM (live_system stopped_sys) ''pre-deploy-1'') ?w) = None"
    by (simp add: executeRollbackVM_def delete_intermediate_def stopped_sys_def host_ops_def newWatchdog_def
        quiet_world_def)
  obtain new where "trace (snd (run_state (executeRollbackVM (live_system stopped_sys) ''pre-deploy-1'') ?w)) = new @ trace ?w"
      and "hd new = EvVMStart (vmid stopped_sys) (Inr ())"
    using rollback_restarts_guest [of stopped_sys "''pre-deploy-1''" ?w] ok by blast
  moreover have "vmid stopped_sys = ''113''" and "trace ?w = []"
    by (simp_all add: stopped_sys_def sample_config_def newWatchdog_def quiet_world_def)
  ultimately show ?thesis
    using ok by simp
qed

section \<open>Pruning\<close>

text \<open>The last listing of a guest's snapshots that succeeded.\<close>

fun latest_listing :: "string \<Rightarrow> sysevent list \<Rightarrow> string option" where
  "latest_listing v (EvVMSnapshots u (Inr s) # es) = (if u = v then Some s else latest_listing v es)"
| "latest_listing v (_ # es) = latest_listing v es"
| "latest_listing v [] = None"

text \<open>What pruning may delete from a listing: a known-good snapshot, or a pre-deploy one before the last.\<close>

definition prunable :: "string \<Rightarrow> string \<Rightarrow> bool" where
  "prunable s name \<longleftrightarrow> name \<in> set (known_goods s) \<or> name \<in> set (butlast (pre_deploys s))"

fun prune_safe :: guard where
  "prune_safe es (EvVMDelSnapshot v name r) = (\<exists>s. latest_listing v es = Some s \<and> prunable s name)"
| "prune_safe es (EvVMDelSnapshotForce v name r) = (\<exists>s. latest_listing v es = Some s \<and> prunable s name)"
| "prune_safe es _ = True"

abbreviation pruning_from :: "string \<Rightarrow> string \<Rightarrow> sysevent list \<Rightarrow> bool" where
  "pruning_from v s es \<equiv> guarded prune_safe es \<and> latest_listing v es = Some s"

lemma delete_prunable:
  assumes "prunable s name"
  shows "keeps (on_trace (pruning_from (vmid S) s)) (deleteSnapshot (live_system S) name)"
  using assms unfolding deleteSnapshot_def canForceDelete_def
  by (auto simp: keeps_def on_trace_def host_ops_def split: sum.splits)

lemma delete_each_prunable:
  "(\<And>n. n \<in> set names \<Longrightarrow> prunable s n) \<Longrightarrow>
   keeps (on_trace (pruning_from (vmid S) s)) (delete_each (live_system S) names err)"
  by (induction names arbitrary: err) (auto intro!: keeps_rules delete_prunable)

lemma pre_deploy_loop_prunable:
  "(\<And>n. n \<in> set names \<Longrightarrow> prunable s n) \<Longrightarrow>
   keeps (on_trace (pruning_from (vmid S) s)) (pre_deploy_loop (live_system S) excess names d err)"
  by (induction names arbitrary: d err) (auto intro!: keeps_rules delete_prunable)

lemma prune_total_prunable:
  "keeps (on_trace (pruning_from (vmid S) s)) (prune_total (live_system S) s err)"
  unfolding prune_total_def prunePreDeploySnapshots_def Let_def live_system_fields
  by (intro keeps_rules delete_each_prunable pre_deploy_loop_prunable)
     (auto simp: prunable_def dest: in_set_takeD)

lemma listing_step:
  "triple (on_trace (guarded prune_safe)) (VMSnapshots (host_ops env) v)
     (\<lambda>r w. case r of Inl e \<Rightarrow> on_trace (guarded prune_safe) w | Inr s \<Rightarrow> on_trace (pruning_from v s) w)"
  by (auto simp: triple_def host_ops_def on_trace_def split: sum.split)

lemma prune_total_guarded:
  "triple (on_trace (pruning_from (vmid S) s)) (prune_total (live_system S) s err) (\<lambda>_. on_trace (guarded prune_safe))"
  by (rule triple_weaken [OF prune_total_prunable [unfolded triple_keeps]]) (auto simp: on_trace_def)

lemma rotation_guarded:
  "triple (on_trace (pruning_from (vmid S) s)) (delete_each (live_system S) (take n (known_goods s)) err)
     (\<lambda>_. on_trace (guarded prune_safe))"
  by (rule triple_weaken [OF delete_each_prunable [unfolded triple_keeps, of "take n (known_goods s)" s]])
     (auto simp: on_trace_def prunable_def dest: in_set_takeD)

lemma prune_guarded: "keeps (on_trace (guarded prune_safe)) (pruneSnapshots (live_system S))"
proof -
  have second: "triple (on_trace (guarded prune_safe))
      (do { again \<leftarrow> VMSnapshots (host_ops (s_env S)) (vmid S);
            case again of Inl e \<Rightarrow> returnM (f e) | Inr s' \<Rightarrow> prune_total (live_system S) s' err })
      (\<lambda>_. on_trace (guarded prune_safe))" for f err
    by (rule triple_bind [OF listing_step])
       (auto simp: triple_def prune_total_guarded [unfolded triple_def] split: sum.split)
  have rotate: "triple (on_trace (pruning_from (vmid S) s))
      (do { firstErr \<leftarrow> delete_each (live_system S) (take n (known_goods s)) None;
            again \<leftarrow> VMSnapshots (host_ops (s_env S)) (vmid S);
            case again of Inl e \<Rightarrow> returnM (f e) | Inr s' \<Rightarrow> prune_total (live_system S) s' firstErr })
      (\<lambda>_. on_trace (guarded prune_safe))" for s n f
    by (rule triple_bind [OF rotation_guarded second])
  show ?thesis
    unfolding pruneSnapshots_def triple_keeps Let_def live_system_fields
  proof (rule triple_bind [OF listing_step], goal_cases)
    case (1 out)
    show ?case
    proof (cases out)
      case (Inl e)
      then show ?thesis
        by (simp add: triple_def)
    next
      case (Inr s)
      show ?thesis
        unfolding Inr sum.case by (rule triple_if, rule rotate, rule prune_total_guarded)
    qed
  qed
qed



section \<open>Forced deletes\<close>

fun forced :: "sysevent \<Rightarrow> bool" where
  "forced (EvVMDelSnapshotForce v s r) = True"
| "forced _ = False"

definition force_count :: "sysevent list \<Rightarrow> int" where
  "force_count es = int (length (filter forced es))"

lemma force_count_simps [simp]:
  "force_count [] = 0"
  "force_count (e # es) = (if forced e then force_count es + 1 else force_count es)"
  by (simp_all add: force_count_def)

text \<open>The forced deletes so far and the counter move together, and the counter stays in its budget.\<close>

definition force_budget :: "int \<Rightarrow> wd \<Rightarrow> bool" where
  "force_budget k w \<longleftrightarrow> force_count (trace w) - forcedDeletes w = k \<and> forcedDeletes w \<le> maxConsecutiveForcedDeletes"

lemma budget_delete: "keeps (force_budget k) (deleteSnapshot (live_system S) name)"
  unfolding deleteSnapshot_def canForceDelete_def
  by (auto simp: keeps_def force_budget_def host_ops_def split: sum.splits)

lemma budget_listing: "keeps (force_budget k) (VMSnapshots (host_ops env) v)"
  by (simp add: keeps_def force_budget_def host_ops_def)

lemma budget_delete_each: "keeps (force_budget k) (delete_each (live_system S) names err)"
  by (induction names arbitrary: err) (auto intro!: keeps_rules budget_delete)

lemma budget_pre_deploy: "keeps (force_budget k) (pre_deploy_loop (live_system S) excess names d err)"
  by (induction names arbitrary: d err) (auto intro!: keeps_rules budget_delete)

lemma budget_prune: "keeps (force_budget k) (pruneSnapshots (live_system S))"
  unfolding pruneSnapshots_def prune_total_def prunePreDeploySnapshots_def Let_def live_system_fields
  by (intro keeps_rules budget_listing budget_delete_each budget_pre_deploy)



section \<open>Failover and recovery\<close>

fun is_withdraw :: "sysevent \<Rightarrow> bool" where
  "is_withdraw (EvWithdrawRoutes v r) = True"
| "is_withdraw _ = False"

definition no_withdraw_since :: "sysevent list \<Rightarrow> sysevent list \<Rightarrow> bool" where
  "no_withdraw_since base es \<longleftrightarrow> since_trace (\<lambda>e. \<not> is_withdraw e) base es"



text \<open>Successful announcements of the primary.\<close>

fun announces :: "string \<Rightarrow> sysevent \<Rightarrow> bool" where
  "announces v (EvAnnounceRoutes u r) = (u = v \<and> r = Inr ())"
| "announces v _ = False"

definition announce_count :: "string \<Rightarrow> sysevent list \<Rightarrow> nat" where
  "announce_count v es = length (filter (announces v) es)"

lemma announce_count_simps [simp]:
  "announce_count v [] = 0"
  "announce_count v (e # es) = (if announces v e then Suc (announce_count v es) else announce_count v es)"
  by (simp_all add: announce_count_def)

lemma recovery_step:
  "let w' = snd (run_state (maybeTriggerRecovery (live_system S)) w) in
   (failoverActive w' \<longrightarrow> failoverActive w) \<and>
   announce_count (vmid S) (trace w') =
     announce_count (vmid S) (trace w) + (if failoverActive w \<and> \<not> failoverActive w' then 1 else 0)"
  unfolding maybeTriggerRecovery_def triggerBGPRecovery_def guestExecProbe_def Let_def
  by (auto simp: host_ops_def resolve_alert_def now_op_def split: sum.splits)

text \<open>
  C14: A failover is recovered exactly once. Over any number of healthy cycles the primary is
  announced successfully at most once, namely in the cycle that ends the failover; before that
  cycle the failover stays active and is retried, after it no cycle announces again.
\<close>

theorem failover_recovered_once:
  "let w' = snd (run_state (forM [0..<n] (\<lambda>_. maybeTriggerRecovery (live_system S))) w) in
   (failoverActive w' \<longrightarrow> failoverActive w) \<and>
   announce_count (vmid S) (trace w') =
     announce_count (vmid S) (trace w) + (if failoverActive w \<and> \<not> failoverActive w' then 1 else 0)"
proof -
  have "let w' = snd (run_state (forM xs (\<lambda>_. maybeTriggerRecovery (live_system S))) w) in
     (failoverActive w' \<longrightarrow> failoverActive w) \<and>
     announce_count (vmid S) (trace w') =
       announce_count (vmid S) (trace w) + (if failoverActive w \<and> \<not> failoverActive w' then 1 else 0)" for xs :: "nat list"
  proof (induction xs arbitrary: w)
    case (Cons x xs)
    define w1 where "w1 = snd (run_state (maybeTriggerRecovery (live_system S)) w)"
    define w2 where "w2 = snd (run_state (forM xs (\<lambda>_. maybeTriggerRecovery (live_system S))) w1)"
    have split: "snd (run_state (forM (x # xs) (\<lambda>_. maybeTriggerRecovery (live_system S))) w) = w2"
      unfolding w1_def w2_def by (rule forM_Cons_state)
    from recovery_step [of S w, folded w1_def] Cons.IH [of w1, folded w2_def]
    show ?case
      unfolding Let_def split by (cases "failoverActive w"; cases "failoverActive w1"; cases "failoverActive w2"; simp)
  qed simp
  then show ?thesis .
qed

theorem failover_recovered_once_witness:
  "let w = (newWatchdog sample_sys quiet_world new_coord (None, None))\<lparr>failoverActive := True\<rparr>;
       w' = snd (run_state (forM [0..<2] (\<lambda>_. maybeTriggerRecovery (live_system sample_sys))) w) in
   \<not> failoverActive w' \<and> announce_count ''113'' (trace w') = 1"
proof -
  define w where "w = (newWatchdog sample_sys quiet_world new_coord (None, None))\<lparr>failoverActive := True\<rparr>"
  define w' where "w' = snd (run_state (forM [0..<2] (\<lambda>_. maybeTriggerRecovery (live_system sample_sys))) w)"
  have inactive: "\<not> failoverActive w'"
    unfolding w'_def w_def
    by (simp add: upt_conv_Cons maybeTriggerRecovery_def triggerBGPRecovery_def guestExecProbe_def host_ops_def
        resolve_alert_def now_op_def status_established_def Let_def)
  have start: "vmid sample_sys = ''113''" "failoverActive w" "trace w = []"
    by (simp_all add: w_def sample_config_def newWatchdog_def quiet_world_def)
  have "announce_count ''113'' (trace w') = 1"
    using failover_recovered_once [of 2 sample_sys w, folded w'_def, unfolded Let_def start] inactive start by simp
  with inactive show ?thesis
    unfolding Let_def w'_def w_def by (rule conjI)
qed

end
