(* ===== verification/DeployRecovery.thy ===== *)
theory DeployRecovery
  imports DeployEngine "HOL-Library.Sublist"
begin

text \<open>
  What a successful recovery of a deploy operation means (\<^verbatim>\<open>RecoverCoordinated\<close> and \<^verbatim>\<open>Restore\<close> of
  \<^verbatim>\<open>internal/deployoperation\<close>): the calls it made, the identity it read from the restarted guest and
  the record it left behind. Every program of the engine only extends the trace; the locale of
  trace predicates gives that for all of them at once.
\<close>

interpretation ext: rollback_trace "suffix base" for base
  by unfold_locales (simp_all add: suffix_ConsI)

lemma triple_stepE:
  "keeps I m \<Longrightarrow> (\<And>a. triple I (f a) Q) \<Longrightarrow> (\<And>e w. Q (Inl e) w) \<Longrightarrow> triple I (bindE m f) Q"
  by (rule triple_bindE [where R = "\<lambda>_. I"]) (auto simp: triple_def keeps_def split_beta split: sum.split)

lemma triple_step: "keeps I m \<Longrightarrow> (\<And>a. triple I (f a) Q) \<Longrightarrow> triple I (m \<bind> f) Q"
  by (rule triple_bind [where R = "\<lambda>_. I"]) (auto simp: triple_keeps)

section \<open>The guest is restored\<close>

definition restart_trace :: "string \<Rightarrow> string \<Rightarrow> sysevent list \<Rightarrow> sysevent list" where
  "restart_trace v s pre = EvVMStart v (Inr ()) # EvVMRollback v s (Inr ()) # pre"

lemma restore_outcome:
  "triple (on_trace (suffix base)) (Restore env r t)
     (\<lambda>res w. \<forall>u. res = Inr u \<longrightarrow>
        (\<exists>pre. suffix base pre \<and> trace w = restart_trace (VMID r) (Snapshot r) pre))"
proof -
  let ?Q = "\<lambda>res w. \<forall>u. res = Inr u \<longrightarrow>
        (\<exists>pre. suffix base pre \<and> trace w = restart_trace (VMID r) (Snapshot r) pre)"
  have last: "triple (on_trace (suffix base))
      (bindE (wrapE a (VMRollback (host_ops env) (VMID r) (Snapshot r))) (\<lambda>_. wrapE b (VMStart (host_ops env) (VMID r)))) ?Q"
    for a b
    by (auto simp: triple_def bindE_def wrapE_def host_ops_def on_trace_def restart_trace_def split: sum.split)
  show ?thesis
    unfolding Restore_def
    by (intro triple_stepE triple_if last keeps_rules) (simp_all add: triple_def throwE_def)
qed

section \<open>The restarted guest is identified\<close>

text \<open>\<open>identified lib env r base identity w\<close>: at a moment of the run whose trace already contained
  \<open>base\<close> the guest reported \<open>identity\<close>, and it is that of the baseline except for the boot.\<close>

definition identified :: "libs \<Rightarrow> env \<Rightarrow> Record \<Rightarrow> sysevent list \<Rightarrow> Identity \<Rightarrow> 'a world_scheme \<Rightarrow> bool" where
  "identified lib env r base identity w \<longleftrightarrow>
     verifyRestored lib identity (Baseline r) = None \<and>
     (\<exists>v :: 'a world_scheme. suffix base (trace v) \<and> suffix (trace v) (trace w) \<and>
        fst (run_state (ReadIdentity lib env (VMID r) (ManifestPaths r)) v) = Inr identity)"

lemma identified_later:
  fixes w w' :: "'a world_scheme"
  shows "identified lib env r base identity w \<Longrightarrow> suffix (trace w) (trace w') \<Longrightarrow>
    identified lib env r base identity w'"
  unfolding identified_def by (meson suffix_order.trans)

lemma extends: "keeps (on_trace (suffix (trace w))) m \<Longrightarrow> run_state m w = (a, w') \<Longrightarrow> suffix (trace w) (trace w')"
  by (auto simp: keeps_def on_trace_def dest: spec [of _ w])

lemma round_found:
  assumes "run_state (restored_round lib env r) w = (Inr (Some identity), w')"
  shows "fst (run_state (ReadIdentity lib env (VMID r) (ManifestPaths r)) w) = Inr identity \<and>
     verifyRestored lib identity (Baseline r) = None"
proof -
  obtain read w1 where read: "run_state (ReadIdentity lib env (VMID r) (ManifestPaths r)) w = (read, w1)"
    by fastforce
  obtain results w2 where results: "run_state (engine_check env (RestoredRequiredChecks r)) w1 = (results, w2)"
    by fastforce
  obtain status w3 where status: "run_state (store_observe lib env (OperationID r) (Generation r) results) w2 = (status, w3)"
    by fastforce
  have "\<exists>i. read = Inr i \<and> verifyRestored lib i (Baseline r) = None \<and> identity = i"
    using assms read results status
    by (cases read; cases status) (simp_all add: restored_round_def bindE_def throwE_def now_op_def split: if_splits)
  with read show ?thesis
    by auto
qed

lemma await_round:
  assumes "run_state (awaitRestored (Suc n) lib env r) w = (Inr identity, w')"
  obtains (read) "fst (run_state (ReadIdentity lib env (VMID r) (ManifestPaths r)) w) = Inr identity"
      and "verifyRestored lib identity (Baseline r) = None"
    | (again) w1 where "suffix (trace w) (trace w1)" and "run_state (awaitRestored n lib env r) w1 = (Inr identity, w')"
proof -
  obtain found w1 where ran: "run_state (restored_round lib env r) w = (found, w1)"
    by fastforce
  obtain fired w2 where waited: "run_state (wait_op env) w1 = (fired, w2)"
    by fastforce
  have later: "suffix (trace w) (trace w2)"
    using extends [OF ext.engine_restored_round ran] waited by (auto simp: wait_op_def)
  have "found = Inr (Some identity) \<or>
      found = Inr None \<and> run_state (awaitRestored n lib env r) w2 = (Inr identity, w')"
    using assms ran waited by (auto simp: bindE_def split: sum.splits option.splits)
  then show thesis
  proof
    assume "found = Inr (Some identity)"
    then show thesis
      using read round_found [of lib env r w identity w1] ran by simp
  next
    assume "found = Inr None \<and> run_state (awaitRestored n lib env r) w2 = (Inr identity, w')"
    then show thesis
      using again [OF later] by simp
  qed
qed

lemma await_outcome:
  "triple (on_trace (suffix base)) (awaitRestored n lib env r)
     (\<lambda>res w. \<forall>identity. res = Inr identity \<longrightarrow> identified lib env r base identity w)"
proof (induction n)
  case (Suc n)
  show ?case
  proof (rule tripleI, intro allI impI)
    fix w w' :: "'a world_scheme" and res identity
    assume base: "on_trace (suffix base) w"
      and "run_state (awaitRestored (Suc n) lib env r) w = (res, w')" and "res = Inr identity"
    then have run: "run_state (awaitRestored (Suc n) lib env r) w = (Inr identity, w')"
      by simp
    have ext: "suffix (trace w) (trace w')"
      by (rule extends [OF ext.engine_awaitRestored run])
    from run show "identified lib env r base identity w'"
    proof (cases rule: await_round)
      case read
      with base ext show ?thesis
        unfolding identified_def on_trace_def by blast
    next
      case (again w1)
      then have "on_trace (suffix base) w1"
        using base by (auto simp: on_trace_def intro: suffix_order.trans)
      with Suc.IH again(2) show ?thesis
        by (blast dest: tripleD)
    qed
  qed
qed (simp add: triple_def)

section \<open>The record of the recovery\<close>

definition restored_record :: "libs \<Rightarrow> string \<Rightarrow> string \<Rightarrow> Identity \<Rightarrow> 'a world_scheme \<Rightarrow> bool" where
  "restored_record lib oid gen identity w \<longleftrightarrow>
     (\<exists>r. op_file w = Some (OpRecord r) \<and> OperationID r = oid \<and> Generation r = gen \<and>
        RecStatus r = Recovered \<and> RecLease r = None \<and> RestoredIdentity r = Some identity \<and>
        verifyRestored lib identity (Baseline r) = None)"

lemma triple_finish:
  "triple (\<lambda>w. True) (store_finishRecovery lib env oid gen (Some identity) reason)
     (\<lambda>res w. \<forall>u. res = Inr u \<longrightarrow> restored_record lib oid gen identity w)"
proof (rule tripleI, intro allI impI)
  fix w w' :: "'a world_scheme" and res u
  assume "run_state (store_finishRecovery lib env oid gen (Some identity) reason) w = (res, w')" and "res = Inr u"
  then have run: "run_state (change lib env oid gen (finish_recovery_update lib env (Some identity) reason)) w = (Inr u, w')"
    by (simp add: store_finishRecovery_def)
  then show "restored_record lib oid gen identity w'"
  proof (cases rule: finish.change_cases)
    case (same f)
    then show ?thesis
      by auto
  next
    case (wrote r r1 x w1 w2 t)
    have "r1 = r\<lparr>RecStatus := Recovered, RecLease := None, RestoredIdentity := Some identity, Reason := reason\<rparr>"
      "verifyRestored lib identity (Baseline r) = None"
      using wrote(5)
      by (auto simp: finish_recovery_update_def now_op_def split: if_splits option.splits)
    with wrote(2,3,6) show ?thesis
      by (simp add: restored_record_def)
  qed
qed

text \<open>The outcome of a recovery that started with the trace \<open>base\<close>.\<close>

definition restored_by :: "libs \<Rightarrow> env \<Rightarrow> string \<Rightarrow> string \<Rightarrow> sysevent list \<Rightarrow> Identity \<Rightarrow> 'a world_scheme \<Rightarrow> bool" where
  "restored_by lib env oid gen base identity w \<longleftrightarrow>
     (\<exists>r pre. OperationID r = oid \<and> Generation r = gen \<and> suffix base pre \<and>
        identified lib env r (restart_trace (VMID r) (Snapshot r) pre) identity w)"

lemma restored_by_later:
  fixes w w' :: "'a world_scheme"
  shows "restored_by lib env oid gen base identity w \<Longrightarrow> suffix (trace w) (trace w') \<Longrightarrow>
    restored_by lib env oid gen base identity w'"
  unfolding restored_by_def using identified_later by blast

definition recovered_by :: "libs \<Rightarrow> env \<Rightarrow> string \<Rightarrow> string \<Rightarrow> sysevent list \<Rightarrow> 'a world_scheme \<Rightarrow> bool" where
  "recovered_by lib env oid gen base w \<longleftrightarrow>
     (\<exists>identity. restored_record lib oid gen identity w \<and> restored_by lib env oid gen base identity w)"

lemma finish_outcome:
  "triple (restored_by lib env oid gen base identity)
     (store_finishRecovery lib env oid gen (Some identity) reason)
     (\<lambda>res w. \<forall>u. res = Inr u \<longrightarrow> recovered_by lib env oid gen base w)"
proof (rule tripleI, intro allI impI)
  fix w w' :: "'a world_scheme" and res u
  assume before: "restored_by lib env oid gen base identity w"
    and run: "run_state (store_finishRecovery lib env oid gen (Some identity) reason) w = (res, w')" and "res = Inr u"
  then have "restored_record lib oid gen identity w'"
    using tripleD [OF triple_finish _ run] by blast
  moreover have "suffix (trace w) (trace w')"
    by (rule extends [OF _ run]) (intro keeps_rules)
  ultimately show "recovered_by lib env oid gen base w'"
    unfolding recovered_by_def using restored_by_later [OF before] by blast
qed

lemma keeps_recovered_resolve: "keeps (recovered_by lib env' oid gen base) (resolve_alert env kind key msg)"
  by (simp add: keeps_def resolve_alert_def now_op_def recovered_by_def restored_record_def restored_by_def
      identified_def)

lemma triple_fact: "(A \<Longrightarrow> triple P m Q) \<Longrightarrow> triple (\<lambda>w. A \<and> P w) m Q"
  by (auto simp: triple_def)

lemma triple_ex: "(\<And>x. triple (P x) m Q) \<Longrightarrow> triple (\<lambda>w. \<exists>x. P x w) m Q"
  by (fastforce simp: triple_def)

lemma store_Read_valid:
  "triple (\<lambda>_. True) (store_Read lib env)
     (\<lambda>res w. \<forall>r. res = Inr r \<longrightarrow> op_file w = Some (OpRecord r) \<and> record_validate lib r = None)"
proof (rule tripleI, intro allI impI)
  fix w w' :: "'a world_scheme" and res r
  assume "run_state (store_Read lib env) w = (res, w')" and res: "res = Inr r"
  then have "run_state (locked env (store_read lib env)) w = (Inr r, w')"
    by (simp add: store_Read_def)
  then show "op_file w' = Some (OpRecord r) \<and> record_validate lib r = None"
  proof (cases rule: run_locked)
    case (ran w1 q w2 c)
    then show ?thesis
      using run_store_read [OF ran(3)] by (auto simp: join_close_Inr dest!: sym [of "Inr _"])
  qed simp
qed

lemma exact_outcome:
  "triple (\<lambda>_. True) (engine_exact lib env oid gen)
     (\<lambda>res w. case res of Inl e \<Rightarrow> True | Inr r \<Rightarrow> op_file w = Some (OpRecord r) \<and> record_validate lib r = None \<and>
        OperationID r = oid \<and> Generation r = gen)"
  unfolding engine_exact_def
  by (rule triple_bindE [OF triple_weaken [OF store_Read_valid]])
     (auto simp: triple_def throwE_def split: sum.split)

lemma exact_run:
  assumes "run_state (engine_exact lib env oid gen) w = (Inr r, w')"
  shows "op_file w' = Some (OpRecord r)" and "record_validate lib r = None"
    and "OperationID r = oid" and "Generation r = gen" and "suffix (trace w) (trace w')"
  using tripleD [OF exact_outcome _ assms] extends [OF keeps_engine_exact assms] by simp_all

lemma after_restart:
  assumes "OperationID r = oid" and "Generation r = gen" and "suffix base pre"
  shows "triple (on_trace (suffix (restart_trace (VMID r) (Snapshot r) pre)))
     (bindE (awaitRestored n lib env r) (\<lambda>identity.
       bindE (store_finishRecovery lib env oid gen (Some identity) reason) (\<lambda>_. do {
         resolve_alert env kind key msg;
         forM kinds (\<lambda>kind. resolve_alert env kind key msg');
         returnM (Inr ())
       })))
     (\<lambda>res w. \<forall>u. res = Inr u \<longrightarrow> recovered_by lib env oid gen base w)"
proof (rule triple_bindE [where R = "restored_by lib env oid gen base"])
  show "triple (on_trace (suffix (restart_trace (VMID r) (Snapshot r) pre))) (awaitRestored n lib env r)
      (\<lambda>res w. case res of Inl e \<Rightarrow> \<forall>u :: unit. Inl e = Inr u \<longrightarrow> recovered_by lib env oid gen base w
         | Inr identity \<Rightarrow> restored_by lib env oid gen base identity w)"
    by (rule triple_weaken [OF await_outcome]) (use assms in \<open>auto simp: restored_by_def split: sum.split\<close>)
next
  fix identity
  show "triple (restored_by lib env oid gen base identity)
      (bindE (store_finishRecovery lib env oid gen (Some identity) reason) (\<lambda>_. do {
         resolve_alert env kind key msg;
         forM kinds (\<lambda>kind. resolve_alert env kind key msg');
         returnM (Inr ())
       }))
      (\<lambda>res w. \<forall>u. res = Inr u \<longrightarrow> recovered_by lib env oid gen base w)"
  proof (rule triple_bindE [where R = "\<lambda>_. recovered_by lib env oid gen base"])
    show "triple (restored_by lib env oid gen base identity)
        (store_finishRecovery lib env oid gen (Some identity) reason)
        (\<lambda>r w. case r of Inl e \<Rightarrow> \<forall>u :: unit. Inl e = Inr u \<longrightarrow> recovered_by lib env oid gen base w
           | Inr a \<Rightarrow> recovered_by lib env oid gen base w)"
      by (rule triple_weaken [OF finish_outcome]) (auto split: sum.split)
  next
    show "triple (recovered_by lib env oid gen base)
        (do { resolve_alert env kind key msg; forM kinds (\<lambda>kind. resolve_alert env kind key msg'); returnM (Inr ()) })
        (\<lambda>res w. \<forall>u. res = Inr u \<longrightarrow> recovered_by lib env oid gen base w)"
      by (rule triple_weaken [where P' = "recovered_by lib env oid gen base" and Q' = "\<lambda>_. recovered_by lib env oid gen base"])
         (unfold triple_keeps [symmetric], intro keeps_rules keeps_recovered_resolve, simp_all)
  qed
qed

lemma recover_body_outcome:
  "triple (on_trace (suffix base)) (recover_body n lib env oid gen)
     (\<lambda>res w. \<forall>u. res = Inr u \<longrightarrow> recovered_by lib env oid gen base w)"
  unfolding recover_body_def
proof (rule triple_stepE)
  let ?I = "on_trace (suffix base)"
  let ?Q = "\<lambda>res w. \<forall>u. res = Inr u \<longrightarrow> recovered_by lib env oid gen base w"
  fix a :: unit
  let ?rest = "\<lambda>r. bindE (awaitRestored n lib env r) (\<lambda>identity.
       bindE (store_finishRecovery lib env oid gen (Some identity) ''baseline identity and application responses restored'') (\<lambda>_. do {
         resolve_alert env ''deploy_operation_observation_failed'' (operation_key oid gen)
           ''Deployment baseline application responses restored'';
         forM [''deploy_operation_watch_failed'', ''deploy_operation_recovery'', ''deploy_operation_recovery_failed'']
           (\<lambda>kind. resolve_alert env kind (operation_key oid gen)
              ''Deployment baseline identity and application responses restored'');
         returnM (Inr ())
       }))"
  have restored: "triple ?I (bindE (Restore env r t) (\<lambda>_. ?rest r)) ?Q"
    if "OperationID r = oid" "Generation r = gen" for r t
  proof (rule triple_bindE [where R = "\<lambda>_ w. \<exists>pre. suffix base pre \<and> trace w = restart_trace (VMID r) (Snapshot r) pre"])
    show "triple ?I (Restore env r t) (\<lambda>res w. case res of Inl e \<Rightarrow> ?Q (Inl e) w
        | Inr u \<Rightarrow> \<exists>pre. suffix base pre \<and> trace w = restart_trace (VMID r) (Snapshot r) pre)"
      by (rule triple_weaken [OF restore_outcome]) (auto split: sum.split)
    show "triple (\<lambda>w. \<exists>pre. suffix base pre \<and> trace w = restart_trace (VMID r) (Snapshot r) pre) (?rest r) ?Q"
      by (rule triple_ex, rule triple_fact, rule triple_weaken [OF after_restart [OF that]])
         (auto simp: on_trace_def suffix_def)
  qed
  show "triple ?I (bindE (engine_exact lib env oid gen) (\<lambda>r. do { t \<leftarrow> now_op env; bindE (Restore env r t) (\<lambda>_. ?rest r) })) ?Q"
  proof (rule triple_bindE [where R = "\<lambda>r w. (OperationID r = oid \<and> Generation r = gen) \<and> ?I w"])
    show "triple ?I (engine_exact lib env oid gen)
        (\<lambda>res w. case res of Inl e \<Rightarrow> ?Q (Inl e) w | Inr r \<Rightarrow> (OperationID r = oid \<and> Generation r = gen) \<and> ?I w)"
      by (auto intro!: tripleI simp: on_trace_def split: sum.split
          dest: exact_run(3,4) suffix_order.trans [OF _ exact_run(5)])
  next
    fix r
    show "triple (\<lambda>w. (OperationID r = oid \<and> Generation r = gen) \<and> ?I w)
        (do { t \<leftarrow> now_op env; bindE (Restore env r t) (\<lambda>_. ?rest r) }) ?Q"
      by (rule triple_fact, rule triple_step, intro keeps_rules, rule restored) simp_all
  qed
qed (auto intro: keeps_rules)

lemma verified_Recovered:
  "record_validate lib r = None \<Longrightarrow> RecStatus r = Recovered \<Longrightarrow>
     \<exists>identity. RestoredIdentity r = Some identity \<and> verifyRestored lib identity (Baseline r) = None"
  by (auto simp: record_validate_def split: if_splits option.splits)

lemma begun_outcome:
  "triple (on_trace (suffix base)) (recover_begun n lib env oid gen r)
     (\<lambda>res w. \<forall>u. res = Inr u \<longrightarrow> recovered_by lib env oid gen base w)"
  unfolding recover_begun_def
proof (rule triple_step, intro keeps_rules, rule triple_step, intro keeps_rules, rule triple_bind [OF recover_body_outcome])
  let ?Q = "\<lambda>res w. \<forall>u. res = Inr u \<longrightarrow> recovered_by lib env oid gen base w"
  fix outcome
  show "triple (?Q outcome)
      (case outcome of
          Inr u \<Rightarrow> returnM (Inr u)
        | Inl e \<Rightarrow> do {
            _ \<leftarrow> store_finishRecovery lib env oid gen None (op_error_text e);
            transition env r ''deploy_operation_recovery_failed'' ''Deployment snapshot recovery failed'';
            returnM (Inl e)
          }) ?Q"
    by (cases outcome) (auto simp: triple_def split_beta)
qed

lemma recover_outcome:
  assumes "run_state (RecoverCoordinated n lib env owns oid gen reason) w = (Inr u, w')"
  obtains (already) r where "fst (run_state (engine_exact lib env oid gen) w) = Inr r" and "RecStatus r = Recovered"
      and "op_file w' = Some (OpRecord r)" and "record_validate lib r = None" and "OperationID r = oid" and "Generation r = gen"
    | (restored) "recovered_by lib env oid gen (trace w) w'"
proof -
  obtain found w1 where exact: "run_state (engine_exact lib env oid gen) w = (found, w1)"
    by fastforce
  from assms obtain r where found: "found = Inr r"
    and rest: "run_state (if RecStatus r = Recovered then returnM (Inr ())
        else bindE (store_BeginRecovery lib env oid gen reason) (\<lambda>_. recover_begun n lib env oid gen r)) w1 = (Inr u, w')"
    using exact by (cases found) (auto simp: RecoverCoordinated_def bindE_def [of "engine_exact lib env oid gen"] throwE_def split: if_splits)
  note read = exact_run [OF exact [unfolded found]]
  show thesis
  proof (cases "RecStatus r = Recovered")
    case True
    then show thesis
      using already [of r] exact found rest read by simp
  next
    case False
    have "triple (on_trace (suffix (trace w)))
        (bindE (store_BeginRecovery lib env oid gen reason) (\<lambda>_. recover_begun n lib env oid gen r))
        (\<lambda>res w'. \<forall>u. res = Inr u \<longrightarrow> recovered_by lib env oid gen (trace w) w')"
      by (rule triple_stepE [OF _ begun_outcome]) (auto intro: keeps_rules)
    then show thesis
      using False rest read(5) restored by (auto simp: on_trace_def dest: tripleD)
  qed
qed

end
