(* ===== verification/DeployLiveness.thy ===== *)
theory DeployLiveness
  imports DeployRecovery
begin

text \<open>
  A recovery completes: when the hypervisor, the guest and the file system of
  \<^verbatim>\<open>internal/deployoperation\<close> answer, \<^verbatim>\<open>RecoverCoordinated\<close> reports success. \<open>succeeds P m Q\<close> says that
  a program with errors returns no error from the states of \<open>P\<close>.
\<close>

definition succeeds :: "('s \<Rightarrow> bool) \<Rightarrow> ('s, 'e + 'a) state \<Rightarrow> ('a \<Rightarrow> 's \<Rightarrow> bool) \<Rightarrow> bool" where
  "succeeds P m Q \<longleftrightarrow> triple P m (\<lambda>res w. case res of Inl _ \<Rightarrow> False | Inr a \<Rightarrow> Q a w)"

lemma succeedsI: "(\<And>w. P w \<Longrightarrow> \<exists>a w'. run_state m w = (Inr a, w') \<and> Q a w') \<Longrightarrow> succeeds P m Q"
  by (fastforce simp: succeeds_def triple_def)

lemma succeedsD: "succeeds P m Q \<Longrightarrow> P w \<Longrightarrow> \<exists>a w'. run_state m w = (Inr a, w') \<and> Q a w'"
  by (cases "run_state m w"; cases "fst (run_state m w)") (auto simp: succeeds_def dest: tripleD)

lemma succeeds_bindE: "succeeds P m R \<Longrightarrow> (\<And>a. succeeds (R a) (f a) Q) \<Longrightarrow> succeeds P (bindE m f) Q"
  unfolding succeeds_def by (rule triple_bindE [where R = R]) (auto simp: triple_def split: sum.splits)

lemma succeeds_bind: "triple P m R \<Longrightarrow> (\<And>a. succeeds (R a) (f a) Q) \<Longrightarrow> succeeds P (m \<bind> f) Q"
  unfolding succeeds_def by (rule triple_bind)

lemma succeeds_step: "keeps I m \<Longrightarrow> (\<And>a. succeeds I (f a) Q) \<Longrightarrow> succeeds I (m \<bind> f) Q"
  unfolding succeeds_def by (rule triple_step)

lemma succeeds_return: "(\<And>w. P w \<Longrightarrow> Q a w) \<Longrightarrow> succeeds P (returnM (Inr a)) Q"
  by (simp add: succeeds_def triple_def)

lemma succeeds_weaken:
  "succeeds P' m Q' \<Longrightarrow> (\<And>w. P w \<Longrightarrow> P' w) \<Longrightarrow> (\<And>a w. Q' a w \<Longrightarrow> Q a w) \<Longrightarrow> succeeds P m Q"
  unfolding succeeds_def by (erule triple_weaken) (auto split: sum.splits)

lemma succeeds_fact: "(A \<Longrightarrow> succeeds P m Q) \<Longrightarrow> succeeds (\<lambda>w. A \<and> P w) m Q"
  unfolding succeeds_def by (rule triple_fact)

section \<open>The operation under recovery\<close>

text \<open>The operating system answers: no I/O fails, the lock is free and nobody else writes the record.\<close>

definition calm :: "env \<Rightarrow> bool" where
  "calm env \<longleftrightarrow> (\<forall>n. o_io env n \<and> o_acquire env n = None \<and> o_interfere env n = (\<lambda>f. f) \<and> o_now env n \<noteq> zero_time)"

lemma calm_simps:
  assumes "calm env"
  shows "o_io env n" "o_acquire env n = None" "o_interfere env n = (\<lambda>f. f)" "o_now env n \<noteq> zero_time"
  using assms by (simp_all add: calm_def)

definition recovering_record :: "libs \<Rightarrow> Manifest \<Rightarrow> Record \<Rightarrow> bool" where
  "recovering_record lib m r \<longleftrightarrow>
     record_validate lib r = None \<and> Manifest.truncate r = m \<and> RecStatus r = Recovering \<and> RecLease r = None"

definition recovering_file :: "libs \<Rightarrow> Manifest \<Rightarrow> 'a world_scheme \<Rightarrow> bool" where
  "recovering_file lib m w \<longleftrightarrow> (\<exists>r. op_file w = Some (OpRecord r) \<and> recovering_record lib m r)"

lemma manifest_fields:
  assumes "Manifest.truncate r = m"
  shows "OperationID r = OperationID m" "Generation r = Generation m" "VMID r = VMID m" "Snapshot r = Snapshot m"
    "Baseline r = Baseline m" "ManifestPaths r = ManifestPaths m" "RestoredRequiredChecks r = RestoredRequiredChecks m"
  using assms by (auto simp: Manifest.defs)

lemma recovering_fields:
  assumes "recovering_record lib m r"
  shows "OperationID r = OperationID m" "Generation r = Generation m" "VMID r = VMID m" "Snapshot r = Snapshot m"
    "Baseline r = Baseline m" "ManifestPaths r = ManifestPaths m" "RestoredRequiredChecks r = RestoredRequiredChecks m"
    "RecStatus r = Recovering" "RecLease r = None" "record_validate lib r = None"
  using assms manifest_fields [of r m] unfolding recovering_record_def by blast+

lemma validate_cong:
  assumes "record_validate lib r = None" and "Manifest.truncate r' = Manifest.truncate r" and "UpdatedAt r' \<noteq> zero_time"
    and "RecLease r' = None" and "RecStatus r' \<in> {Armed, Recovering, RecoveryFailed, Committed, Disarmed} \<or>
      RecStatus r' = Recovered \<and> (\<exists>identity. RestoredIdentity r' = Some identity \<and> verifyRestored lib identity (Baseline r) = None)"
  shows "record_validate lib r' = None"
proof -
  have fields: "OperationID r' = OperationID r" "Generation r' = Generation r" "VMID r' = VMID r" "Snapshot r' = Snapshot r"
    "Baseline r' = Baseline r" "Deadline r' = Deadline r"
    using assms(2) by (auto simp: Manifest.defs)
  have "manifest_validate lib r' = manifest_validate lib r"
    using assms(2) by (metis manifest_validate_truncate)
  with assms(1,3-5) show ?thesis
    unfolding record_validate_def fields by (auto split: option.splits if_splits)
qed

lemma liveness_truncate_updates [simp]:
  fixes r :: Record
  shows "Manifest.truncate (r\<lparr>UpdatedAt := t\<rparr>) = Manifest.truncate r"
    "Manifest.truncate (r\<lparr>RecStatus := s\<rparr>) = Manifest.truncate r"
    "Manifest.truncate (r\<lparr>Reason := x\<rparr>) = Manifest.truncate r"
    "Manifest.truncate (r\<lparr>RecLease := l\<rparr>) = Manifest.truncate r"
    "Manifest.truncate (r\<lparr>RestoredIdentity := i\<rparr>) = Manifest.truncate r"
    "Manifest.truncate (r\<lparr>Results := rs\<rparr>) = Manifest.truncate r"
    "Manifest.truncate (r\<lparr>ObservedAt := t\<rparr>) = Manifest.truncate r"
  by (simp_all add: Manifest.defs)

lemma read_succeeds:
  "calm env \<Longrightarrow> succeeds (recovering_file lib m) (store_Read lib env)
     (\<lambda>r w. recovering_record lib m r \<and> recovering_file lib m w)"
  by (rule succeedsI) (auto simp: store_Read_def locked_def store_read_def io_op_def calm_simps recovering_file_def
      recovering_record_def)

lemma exact_succeeds:
  assumes "calm env"
  shows "succeeds (recovering_file lib m) (engine_exact lib env (OperationID m) (Generation m))
     (\<lambda>r w. recovering_record lib m r \<and> recovering_file lib m w)"
  unfolding engine_exact_def
proof (rule succeeds_bindE [OF read_succeeds [OF assms]], rule succeeds_fact)
  fix r
  assume r: "recovering_record lib m r"
  from r show "succeeds (recovering_file lib m)
      (if OperationID r \<noteq> OperationID m \<or> Generation r \<noteq> Generation m
       then throwE ''deployment operation identity differs from the request'' else returnM (Inr r))
      (\<lambda>r w. recovering_record lib m r \<and> recovering_file lib m w)"
    by (simp add: recovering_fields [OF r] succeeds_return)
qed

lemma wait_succeeds:
  assumes "calm env"
  shows "succeeds (recovering_file lib m) (WaitForLease (Suc n) lib env (OperationID m) (Generation m))
     (\<lambda>_. recovering_file lib m)"
  unfolding WaitForLease.simps
proof (rule succeeds_bindE [OF read_succeeds [OF assms]], rule succeeds_fact)
  fix r
  assume r: "recovering_record lib m r"
  show "succeeds (recovering_file lib m)
      (if OperationID r \<noteq> OperationID m \<or> Generation r \<noteq> Generation m \<or> RecStatus r \<noteq> Recovering
       then throwE ''deploy recovery operation identity or state has changed''
       else case RecLease r of
         None \<Rightarrow> returnM (Inr ())
       | Some lease \<Rightarrow> do {
           t \<leftarrow> now_op env;
           if \<not> t < ExpiresAt lease then returnM (Inr ())
           else bindE (wait_op env) (\<lambda>_. WaitForLease n lib env (OperationID m) (Generation m))
         }) (\<lambda>_. recovering_file lib m)"
    by (simp add: recovering_fields [OF r] succeeds_return)
qed

lemma observe_succeeds:
  assumes "calm env"
  shows "succeeds (recovering_file lib m) (store_observe lib env (OperationID m) (Generation m) results)
     (\<lambda>status w. status = Recovering \<and> recovering_file lib m w)"
proof (rule succeedsI)
  fix w :: "'a world_scheme"
  assume "recovering_file lib m w"
  then obtain r where r: "op_file w = Some (OpRecord r)" "recovering_record lib m r"
    by (auto simp: recovering_file_def)
  note ids = recovering_fields(1,2) [OF r(2)]
  have valid: "recovering_record lib m (r\<lparr>Results := results, ObservedAt := t, UpdatedAt := t'\<rparr>)" if "t' \<noteq> zero_time" for t t'
    using r(2) that unfolding recovering_record_def by (auto intro: validate_cong [of lib r])
  show "\<exists>a w'. run_state (store_observe lib env (OperationID m) (Generation m) results) w = (Inr a, w') \<and>
      a = Recovering \<and> recovering_file lib m w'"
    using r valid [OF calm_simps(4) [OF assms]]
    by (simp add: store_observe_def locked_def store_read_def io_op_def now_op_def calm_simps [OF assms] store_write_def
        recovering_file_def recovering_record_def ids settled_def)
qed

lemma begin_succeeds:
  assumes "calm env" and "record_validate lib r = None"
    and "RecStatus r \<in> {Armed, Recovering, RecoveryFailed}" and "RecLease r = None" and "trim_space reason \<noteq> []"
  shows "succeeds (\<lambda>w. op_file w = Some (OpRecord r)) (store_BeginRecovery lib env (OperationID r) (Generation r) reason)
     (\<lambda>_. recovering_file lib (Manifest.truncate r))"
proof (rule succeedsI)
  fix w :: "'a world_scheme"
  assume r: "op_file w = Some (OpRecord r)"
  have valid: "record_validate lib (r\<lparr>RecStatus := Recovering, Reason := x, UpdatedAt := t\<rparr>) = None"
    if "t \<noteq> zero_time" for t x
    using assms that by (auto intro: validate_cong [of lib r])
  have valid': "record_validate lib (r\<lparr>UpdatedAt := t\<rparr>) = None" if "t \<noteq> zero_time" "RecStatus r = Recovering" for t
    using assms that by (auto intro: validate_cong [of lib r])
  show "\<exists>a w'. run_state (store_BeginRecovery lib env (OperationID r) (Generation r) reason) w = (Inr a, w') \<and>
      recovering_file lib (Manifest.truncate r) w'"
    using assms r valid [OF calm_simps(4) [OF assms(1)]] valid' [OF calm_simps(4) [OF assms(1)]]
    by (auto simp: store_BeginRecovery_def change_def begin_recovery_update_def locked_def store_read_def io_op_def
        now_op_def calm_simps store_write_def recovering_file_def recovering_record_def)
qed

lemma finish_succeeds:
  assumes "calm env" and "verifyRestored lib identity (Baseline m) = None"
  shows "succeeds (recovering_file lib m)
     (store_finishRecovery lib env (OperationID m) (Generation m) (Some identity) reason) (\<lambda>_ _. True)"
proof (rule succeedsI)
  fix w :: "'a world_scheme"
  assume "recovering_file lib m w"
  then obtain r where r: "op_file w = Some (OpRecord r)" "recovering_record lib m r"
    by (auto simp: recovering_file_def)
  note ids = recovering_fields(1,2,5) [OF r(2)]
  have valid: "record_validate lib (r\<lparr>RecStatus := Recovered, RecLease := None, RestoredIdentity := Some identity,
      Reason := reason, UpdatedAt := t\<rparr>) = None" if "t \<noteq> zero_time" for t
    using r(2) that assms(2) ids unfolding recovering_record_def by (auto intro: validate_cong [of lib r])
  show "\<exists>a w'. run_state (store_finishRecovery lib env (OperationID m) (Generation m) (Some identity) reason) w = (Inr a, w') \<and> True"
    using r valid [OF calm_simps(4) [OF assms(1)]] assms(2)
    by (simp add: store_finishRecovery_def change_def finish_recovery_update_def locked_def store_read_def io_op_def
        now_op_def calm_simps [OF assms(1)] store_write_def recovering_record_def ids)
qed

section \<open>The guest is restored and identified\<close>

text \<open>The hypervisor answers: the snapshot is listed, the guest stops, is restored and starts.\<close>

definition hypervisor_answers :: "env \<Rightarrow> Manifest \<Rightarrow> string \<Rightarrow> bool" where
  "hypervisor_answers env m listing \<longleftrightarrow>
     snapshotExists listing (Snapshot m) \<and>
     (\<forall>n. h_VMSnapshots env n (VMID m) = Inr listing \<and> h_VMStop env n (VMID m) = Inr () \<and>
        h_VMStatus env n (VMID m) = Inr False \<and> (\<forall>s. h_VMDelSnapshot env n (VMID m) s = Inr ()) \<and>
        h_VMRollback env n (VMID m) (Snapshot m) = Inr () \<and> h_VMStart env n (VMID m) = Inr ())"

lemma hypervisor_succeeds:
  assumes "hypervisor_answers env m listing"
  shows "succeeds (\<lambda>w. op_file w = f) (wrapE msg (VMSnapshots (host_ops env) (VMID m))) (\<lambda>a w. a = listing \<and> op_file w = f)"
    "succeeds (\<lambda>w. op_file w = f) (wrapE msg (VMStop (host_ops env) (VMID m))) (\<lambda>_ w. op_file w = f)"
    "succeeds (\<lambda>w. op_file w = f) (wrapE msg (VMStatus (host_ops env) (VMID m))) (\<lambda>a w. a = False \<and> op_file w = f)"
    "succeeds (\<lambda>w. op_file w = f) (wrapE msg (VMDelSnapshot (host_ops env) (VMID m) s)) (\<lambda>_ w. op_file w = f)"
    "succeeds (\<lambda>w. op_file w = f) (wrapE msg (VMRollback (host_ops env) (VMID m) (Snapshot m))) (\<lambda>_ w. op_file w = f)"
    "succeeds (\<lambda>w. op_file w = f) (wrapE msg (VMStart (host_ops env) (VMID m))) (\<lambda>_ w. op_file w = f)"
  using assms by (simp_all add: hypervisor_answers_def host_ops_def succeeds_def triple_def wrapE_def)

lemma descendants_succeed:
  assumes "hypervisor_answers env m listing"
  shows "succeeds (\<lambda>w. op_file w = f) (delete_descendants env (VMID m) ss) (\<lambda>_ w. op_file w = f)"
proof (induction ss)
  case (Cons s ss)
  show ?case
    unfolding delete_descendants.simps by (rule succeeds_bindE [OF hypervisor_succeeds(4) [OF assms] Cons.IH])
qed (simp add: succeeds_return)

lemma restore_succeeds:
  assumes answers: "hypervisor_answers env m listing" and r: "recovering_record lib m r"
  shows "succeeds (recovering_file lib m) (Restore env r t) (\<lambda>_. recovering_file lib m)"
proof -
  note calls = hypervisor_succeeds [OF answers]
  have stopped: "succeeds (\<lambda>w. op_file w = f)
      (bindE (delete_descendants env (VMID m) ss) (\<lambda>_.
         bindE (wrapE a (VMRollback (host_ops env) (VMID m) (Snapshot m))) (\<lambda>_. wrapE b (VMStart (host_ops env) (VMID m)))))
      (\<lambda>_ w. op_file w = f)" for f ss a b
    by (intro succeeds_bindE [OF descendants_succeed [OF answers]] succeeds_bindE [OF calls(5)] calls(6))
  have listed: "snapshotExists listing (Snapshot m)"
    using answers by (simp add: hypervisor_answers_def)
  have status: "succeeds (\<lambda>w. op_file w = f)
      (bindE (wrapE c (VMStop (host_ops env) (VMID m))) (\<lambda>_.
        bindE (wrapE d (VMStatus (host_ops env) (VMID m))) (\<lambda>running.
          if running then throwE e
          else bindE (delete_descendants env (VMID m) ss) (\<lambda>_.
            bindE (wrapE a (VMRollback (host_ops env) (VMID m) (Snapshot m))) (\<lambda>_. wrapE b (VMStart (host_ops env) (VMID m)))))))
      (\<lambda>_ w. op_file w = f)" for f ss a b c d e
  proof (rule succeeds_bindE [OF calls(2)], rule succeeds_bindE [OF calls(3)], rule succeeds_fact)
    fix running
    assume "running = False"
    then show "succeeds (\<lambda>w. op_file w = f)
        (if running then throwE e
         else bindE (delete_descendants env (VMID m) ss) (\<lambda>_.
            bindE (wrapE a (VMRollback (host_ops env) (VMID m) (Snapshot m))) (\<lambda>_. wrapE b (VMStart (host_ops env) (VMID m)))))
        (\<lambda>_ w. op_file w = f)"
      using stopped by simp
  qed
  have run: "succeeds (\<lambda>w. op_file w = f) (Restore env r t) (\<lambda>_ w. op_file w = f)" for f
    unfolding Restore_def recovering_fields [OF r]
    by (subst if_not_P, simp, rule succeeds_bindE [OF calls(1)], rule succeeds_fact, subst if_not_P,
        simp add: listed, rule status)
  show ?thesis
  proof (rule succeedsI)
    fix w :: "'a world_scheme"
    assume "recovering_file lib m w"
    then show "\<exists>a w'. run_state (Restore env r t) w = (Inr a, w') \<and> recovering_file lib m w'"
      using succeedsD [OF run [of "op_file w"], of w] by (auto simp: recovering_file_def)
  qed
qed

lemma run_engine_check:
  assumes "\<And>n c. o_check env n c = answer c"
  shows "run_state (engine_check env checks) w = (map answer checks, w\<lparr>tick := tick w + length checks\<rparr>)"
  by (induction checks arbitrary: w) (simp_all add: assms)

lemma identity_keeps_file: "keeps (\<lambda>w. op_file w = f) (ReadIdentity lib env vmid paths)"
proof -
  have exec: "keeps (\<lambda>w. op_file w = f) (GuestExec (host_ops env) v args)" for v args
    by (simp add: keeps_def host_ops_def)
  show ?thesis
    unfolding ReadIdentity_def guestDigest_def guestText_def by (intro keeps_rules exec)
qed

lemma round_succeeds:
  assumes calm: "calm env" and r: "recovering_record lib m r" and verified: "verifyRestored lib identity (Baseline m) = None"
    and reports: "\<And>w :: 'a world_scheme. fst (run_state (ReadIdentity lib env (VMID m) (ManifestPaths m)) w) = Inr identity"
    and answer: "\<And>n c. o_check env n c = answer c"
    and passed: "\<And>n. checksPassed lib (RestoredRequiredChecks m) (map answer (RestoredRequiredChecks m)) (o_now env n)"
  shows "succeeds (recovering_file lib m :: 'a world_scheme \<Rightarrow> bool) (restored_round lib env r)
    (\<lambda>found w. found = Some identity \<and> recovering_file lib m w)"
proof (rule succeedsI)
  fix w :: "'a world_scheme"
  assume start: "recovering_file lib m w"
  obtain w1 where read: "run_state (ReadIdentity lib env (VMID m) (ManifestPaths m)) w = (Inr identity, w1)"
    using reports [of w] by (cases "run_state (ReadIdentity lib env (VMID m) (ManifestPaths m)) w") simp
  have "op_file w1 = op_file w"
    using keeps_run [OF identity_keeps_file [of "op_file w" lib env "VMID m" "ManifestPaths m"], of w] read by simp
  let ?w2 = "w1\<lparr>tick := tick w1 + length (RestoredRequiredChecks m)\<rparr>"
  have "recovering_file lib m ?w2"
    using start \<open>op_file w1 = op_file w\<close> by (simp add: recovering_file_def)
  from succeedsD [OF observe_succeeds [OF calm, of lib m] this, of "map answer (RestoredRequiredChecks m)"]
  obtain w3 where "run_state (store_observe lib env (OperationID m) (Generation m) (map answer (RestoredRequiredChecks m))) ?w2 =
      (Inr Recovering, w3)" "recovering_file lib m w3"
    by auto
  then show "\<exists>found w'. run_state (restored_round lib env r) w = (Inr found, w') \<and>
      found = Some identity \<and> recovering_file lib m w'"
    by (simp add: restored_round_def recovering_fields [OF r] read verified run_engine_check [OF answer] bindE_def
        now_op_def passed recovering_file_def)
qed

section \<open>The recovery completes\<close>

lemma alerts_keep_file:
  "keeps (recovering_file lib m) (transition env r kind msg)"
  "keeps (recovering_file lib m) (watch_verify env identity)"
  "keeps (recovering_file lib m) (now_op env)"
  by (simp_all add: keeps_def transition_def engine_alert_def raise_alert_def now_op_def watch_verify_def recovering_file_def)

lemma body_succeeds:
  assumes calm: "calm env" and answers: "hypervisor_answers env m listing"
    and verified: "verifyRestored lib identity (Baseline m) = None"
    and reports: "\<And>w :: 'a world_scheme. fst (run_state (ReadIdentity lib env (VMID m) (ManifestPaths m)) w) = Inr identity"
    and answer: "\<And>n c. o_check env n c = answer c"
    and passed: "\<And>n. checksPassed lib (RestoredRequiredChecks m) (map answer (RestoredRequiredChecks m)) (o_now env n)"
  shows "succeeds (recovering_file lib m :: 'a world_scheme \<Rightarrow> bool)
    (recover_body (Suc n) lib env (OperationID m) (Generation m)) (\<lambda>_ _. True)"
  unfolding recover_body_def
proof (rule succeeds_bindE [OF wait_succeeds [OF calm]], rule succeeds_bindE [OF exact_succeeds [OF calm]], rule succeeds_fact,
    rule succeeds_step, rule alerts_keep_file)
  fix r t
  assume r: "recovering_record lib m r"
  have await: "succeeds (recovering_file lib m :: 'a world_scheme \<Rightarrow> bool) (awaitRestored (Suc n) lib env r)
      (\<lambda>found w. found = identity \<and> recovering_file lib m w)"
    unfolding awaitRestored.simps
    by (rule succeeds_bindE [OF round_succeeds [OF calm r verified reports answer passed]], rule succeeds_fact)
       (simp add: succeeds_return)
  show "succeeds (recovering_file lib m :: 'a world_scheme \<Rightarrow> bool)
      (bindE (Restore env r t) (\<lambda>_. bindE (awaitRestored (Suc n) lib env r) (\<lambda>identity.
         bindE (store_finishRecovery lib env (OperationID m) (Generation m) (Some identity)
             ''baseline identity and application responses restored'') (\<lambda>_. do {
           resolve_alert env ''deploy_operation_observation_failed'' (operation_key (OperationID m) (Generation m))
             ''Deployment baseline application responses restored'';
           forM [''deploy_operation_watch_failed'', ''deploy_operation_recovery'', ''deploy_operation_recovery_failed'']
             (\<lambda>kind. resolve_alert env kind (operation_key (OperationID m) (Generation m))
                ''Deployment baseline identity and application responses restored'');
           returnM (Inr ())
         })))) (\<lambda>_ _. True)"
  proof (rule succeeds_bindE [OF restore_succeeds [OF answers r]], rule succeeds_bindE [OF await], rule succeeds_fact,
      rule succeeds_bindE)
    fix found
    assume "found = identity"
    then show "succeeds (recovering_file lib m :: 'a world_scheme \<Rightarrow> bool)
        (store_finishRecovery lib env (OperationID m) (Generation m) (Some found)
           ''baseline identity and application responses restored'') (\<lambda>_ _. True)"
      using finish_succeeds [OF calm verified] by simp
  qed (rule succeedsI, simp add: resolve_alert_def now_op_def)
qed

lemma begun_succeeds:
  assumes "succeeds (recovering_file lib m :: 'a world_scheme \<Rightarrow> bool)
    (recover_body n lib env (OperationID m) (Generation m)) (\<lambda>_ _. True)"
  shows "succeeds (recovering_file lib m :: 'a world_scheme \<Rightarrow> bool)
    (recover_begun n lib env (OperationID m) (Generation m) r) (\<lambda>_ _. True)"
proof -
  have body: "triple (recovering_file lib m :: 'a world_scheme \<Rightarrow> bool) (recover_body n lib env (OperationID m) (Generation m))
      (\<lambda>res _. res = Inr ())"
    using assms unfolding succeeds_def by (rule triple_weaken) (auto split: sum.splits)
  show ?thesis
    unfolding recover_begun_def
    by (rule succeeds_step, intro keeps_when keeps_bind alerts_keep_file, rule succeeds_step,
        rule alerts_keep_file, rule succeeds_bind [OF body])
       (auto simp: succeeds_def triple_def)
qed

lemma recovery_succeeds:
  assumes calm: "calm env" and "op_file w = Some (OpRecord r)" and "record_validate lib r = None"
    and "RecStatus r \<in> {Armed, Recovering, RecoveryFailed}" and "RecLease r = None" and "trim_space reason \<noteq> []"
    and "hypervisor_answers env (Manifest.truncate r) listing"
    and "verifyRestored lib identity (Baseline r) = None"
    and "\<And>w :: 'a world_scheme. fst (run_state (ReadIdentity lib env (VMID r) (ManifestPaths r)) w) = Inr identity"
    and "\<And>n c. o_check env n c = answer c"
    and "\<And>n. checksPassed lib (RestoredRequiredChecks r) (map answer (RestoredRequiredChecks r)) (o_now env n)"
  shows "\<exists>w' :: 'a world_scheme. run_state (RecoverCoordinated (Suc rounds) lib env True (OperationID r) (Generation r) reason) w = (Inr (), w')"
proof -
  let ?m = "Manifest.truncate r"
  note ids = manifest_fields [of r ?m, OF refl]
  obtain w1 where exact: "run_state (engine_exact lib env (OperationID r) (Generation r)) w = (Inr r, w1)"
    and same_record: "op_file w1 = Some (OpRecord r)"
    using assms(2,3) by (simp add: engine_exact_def bindE_def store_Read_def locked_def store_read_def io_op_def calm_simps [OF calm])
  have "succeeds (\<lambda>w :: 'a world_scheme. op_file w = Some (OpRecord r))
      (bindE (store_BeginRecovery lib env (OperationID r) (Generation r) reason)
        (\<lambda>_. recover_begun (Suc rounds) lib env (OperationID r) (Generation r) r)) (\<lambda>_ _. True)"
  proof (rule succeeds_bindE [OF begin_succeeds [OF calm assms(3-6)]])
    show "succeeds (recovering_file lib ?m :: 'a world_scheme \<Rightarrow> bool)
        (recover_begun (Suc rounds) lib env (OperationID r) (Generation r) r) (\<lambda>_ _. True)"
      unfolding ids(1,2)
      by (rule begun_succeeds, rule body_succeeds [OF calm assms(7) _ _ assms(10)])
         (use assms(8,9,11) in \<open>simp_all add: ids\<close>)
  qed
  from succeedsD [OF this same_record] show ?thesis
    using assms(4) exact by (auto simp: RecoverCoordinated_def bindE_def [of "engine_exact lib env (OperationID r) (Generation r)"])
qed

section \<open>A sample recovery\<close>

definition sample_guest :: "string list \<Rightarrow> string" where
  "sample_guest args =
     (if args = [''cat'', ''/etc/machine-id''] then MachineID (sample_identity ''b1'')
      else if args = [''cat'', ''/proc/sys/kernel/random/boot_id''] then BootID (sample_identity ''b1'')
      else if args = [''sha256sum'', ''--'', ''/usr/bin/mwan''] then ExecutableSHA256 (sample_identity ''b1'') @ ''  /usr/bin/mwan''
      else if args = [''sha256sum'', ''--'', ''/etc/network''] then NetworkSHA256 (sample_identity ''b1'') @ ''  /etc/network''
      else RuntimeSHA256 (sample_identity ''b1'') @ ''  /etc/mwan'')"

definition restorable_env :: env where
  "restorable_env = quiet_env\<lparr>h_VMStatus := (\<lambda>_ _. Inr False),
     h_GuestExec := (\<lambda>_ _ args. Inr \<lparr>ExitCode = 0, Stdout = sample_guest args, Stderr = []\<rparr>)\<rparr>"

lemma restorable_env_fields [simp]:
  "o_now restorable_env n = quiet_time" "o_io restorable_env n" "o_acquire restorable_env n = None"
  "o_interfere restorable_env n = (\<lambda>f. f)" "o_check restorable_env n spec = passing_result quiet_time spec"
  "h_VMStatus restorable_env n v = Inr False" "h_VMStart restorable_env n v = Inr ()" "h_VMStop restorable_env n v = Inr ()"
  "h_VMSnapshots restorable_env n v = Inr ''`-> pre-deploy-1 2026-01-01 before''"
  "h_VMDelSnapshot restorable_env n v s = Inr ()" "h_VMRollback restorable_env n v s = Inr ()"
  "h_GuestExec restorable_env n v args = Inr \<lparr>ExitCode = 0, Stdout = sample_guest args, Stderr = []\<rparr>"
  by (simp_all add: restorable_env_def)

lemma sample_guest_texts:
  "trim_space (sample_guest [''cat'', ''/etc/machine-id'']) = MachineID (sample_identity ''b1'')"
  "trim_space (sample_guest [''cat'', ''/proc/sys/kernel/random/boot_id'']) = ''b1''"
  "string_fields (trim_space (sample_guest [''sha256sum'', ''--'', ''/usr/bin/mwan''])) =
     [ExecutableSHA256 (sample_identity ''b1''), ''/usr/bin/mwan'']"
  "string_fields (trim_space (sample_guest [''sha256sum'', ''--'', ''/etc/network''])) =
     [NetworkSHA256 (sample_identity ''b1''), ''/etc/network'']"
  "string_fields (trim_space (sample_guest [''sha256sum'', ''--'', ''/etc/mwan''])) =
     [RuntimeSHA256 (sample_identity ''b1''), ''/etc/mwan'']"
  by code_simp+

lemma sample_guest_nonempty:
  "trim_space (sample_guest [''sha256sum'', ''--'', ''/usr/bin/mwan'']) \<noteq> []"
  "trim_space (sample_guest [''sha256sum'', ''--'', ''/etc/network'']) \<noteq> []"
  "trim_space (sample_guest [''sha256sum'', ''--'', ''/etc/mwan'']) \<noteq> []"
  by code_simp+

lemma sample_reports:
  "fst (run_state (ReadIdentity sample_libs restorable_env (VMID sample_record) (ManifestPaths sample_record)) w) =
     Inr (sample_identity ''b1'')"
  using sample_identity_valid [of "''b1''"]
  by (simp add: ReadIdentity_def guestDigest_def guestText_def bindE_def wrapE_def host_ops_def sample_record_def is_abs_def
      sample_guest_texts sample_guest_nonempty Let_def) (simp add: sample_identity_def)

lemma sample_restored: "verifyRestored sample_libs (sample_identity ''b1'') (Baseline sample_record) = None"
  by (simp add: verifyRestored_def sample_identity_valid sample_record_def) (simp add: sample_identity_def)

lemma sample_checks_pass:
  "checksPassed sample_libs (RestoredRequiredChecks sample_record)
     (map (passing_result quiet_time) (RestoredRequiredChecks sample_record)) quiet_time"
  by (simp add: sample_record_def checksPassed_def sample_checks_def sample_app_check_def
        passing_result_def RequiredPassed.simps requiredPathPassed_def requiredReplyPassed_def sample_libs_def
        observation_constants seconds_def nanosecond_per_second_def quiet_time_def)

lemma sample_calm: "calm restorable_env"
  by (simp add: calm_def quiet_time_def)

lemma sample_hypervisor:
  "hypervisor_answers restorable_env (Manifest.truncate sample_record) ''`-> pre-deploy-1 2026-01-01 before''"
proof -
  have "snapshotExists ''`-> pre-deploy-1 2026-01-01 before'' ''pre-deploy-1''"
    by code_simp
  then show ?thesis
    by (simp add: hypervisor_answers_def sample_record_def Manifest.defs)
qed

lemma sample_armed_valid: "record_validate sample_libs sample_record = None"
  using sample_record_valid [of quiet_time None] by (simp add: sample_record_def quiet_time_def)

lemma sample_recovery:
  "\<exists>w'. run_state (RecoverCoordinated 1 sample_libs restorable_env True ''op1'' ''gen1'' ''watch failed'')
     (quiet_world\<lparr>op_file := Some (OpRecord sample_record)\<rparr>) = (Inr (), w')"
proof -
  have reason: "trim_space ''watch failed'' \<noteq> []"
    by code_simp
  have ids: "OperationID sample_record = ''op1''" "Generation sample_record = ''gen1''"
    by (simp_all add: sample_record_def)
  have "\<exists>w'. run_state (RecoverCoordinated (Suc 0) sample_libs restorable_env True (OperationID sample_record)
      (Generation sample_record) ''watch failed'') (quiet_world\<lparr>op_file := Some (OpRecord sample_record)\<rparr>) = (Inr (), w')"
    by (rule recovery_succeeds [OF sample_calm _ sample_armed_valid _ _ reason sample_hypervisor sample_restored sample_reports,
          where answer = "passing_result quiet_time"])
       (use sample_checks_pass in \<open>simp_all add: sample_record_def\<close>)
  then show ?thesis
    by (simp add: ids)
qed

section \<open>Properties\<close>




text \<open>
  C5: A recovery completes. When no I/O fails, nobody else writes the record, the hypervisor
  lists the snapshot and answers its calls, the guest is found stopped after the stop, the
  restarted guest reports an identity that matches the baseline and the required checks pass,
  recovering an unsettled operation without a lease reports success in the first round of its
  wait, from any state of the world and for every reason that is not blank.
\<close>

theorem recovery_completes:
  assumes "calm env" and "op_file w = Some (OpRecord r)" and "record_validate lib r = None"
    and "RecStatus r \<in> {Armed, Recovering, RecoveryFailed}" and "RecLease r = None" and "trim_space reason \<noteq> []"
    and "hypervisor_answers env (Manifest.truncate r) listing"
    and "verifyRestored lib identity (Baseline r) = None"
    and "\<And>w :: 'a world_scheme. fst (run_state (ReadIdentity lib env (VMID r) (ManifestPaths r)) w) = Inr identity"
    and "\<And>n c. o_check env n c = answer c"
    and "\<And>n. checksPassed lib (RestoredRequiredChecks r) (map answer (RestoredRequiredChecks r)) (o_now env n)"
  shows "\<exists>w' :: 'a world_scheme. run_state (RecoverCoordinated (Suc rounds) lib env True (OperationID r) (Generation r) reason) w =
       (Inr (), w') \<and> (\<exists>identity. restored_by lib env (OperationID r) (Generation r) (trace w) identity w')"
proof -
  from recovery_succeeds [OF assms(1-7) assms(8) assms(9-11)] obtain w' where
    run: "run_state (RecoverCoordinated (Suc rounds) lib env True (OperationID r) (Generation r) reason) w = (Inr (), w')"
    by blast
  from run have "\<exists>identity. restored_by lib env (OperationID r) (Generation r) (trace w) identity w'"
  proof (cases rule: recover_outcome)
    case (already r')
    then show ?thesis
      using assms(1-4) by (simp add: engine_exact_def bindE_def store_Read_def locked_def store_read_def io_op_def calm_simps)
  next
    case restored
    then show ?thesis
      by (auto simp: recovered_by_def)
  qed
  with run show ?thesis
    by blast
qed

theorem recovery_completes_witness:
  "\<exists>w'. run_state (RecoverCoordinated (Suc 0) sample_libs restorable_env True (OperationID sample_record)
      (Generation sample_record) ''watch failed'') (quiet_world\<lparr>op_file := Some (OpRecord sample_record)\<rparr>) = (Inr (), w')"
proof -
  have reason: "trim_space ''watch failed'' \<noteq> []"
    by code_simp
  have "\<exists>w'. run_state (RecoverCoordinated (Suc 0) sample_libs restorable_env True (OperationID sample_record)
      (Generation sample_record) ''watch failed'') (quiet_world\<lparr>op_file := Some (OpRecord sample_record)\<rparr>) = (Inr (), w') \<and>
      (\<exists>identity. restored_by sample_libs restorable_env (OperationID sample_record) (Generation sample_record)
         (trace (quiet_world\<lparr>op_file := Some (OpRecord sample_record)\<rparr>)) identity w')"
    by (rule recovery_completes [OF sample_calm _ sample_armed_valid _ _ reason sample_hypervisor sample_restored sample_reports,
          where answer = "passing_result quiet_time"])
       (use sample_checks_pass in \<open>simp_all add: sample_record_def\<close>)
  then show ?thesis
    by blast
qed

end
