(* ===== verification/Connections.thy ===== *)
theory Connections
  imports GoStrings
begin

text \<open>
  The identity of a provider connection on the gateway: \<^verbatim>\<open>internal/connectionid\<close>, the shared
  reference of \<^verbatim>\<open>internal/ifmgr/wanref.go\<close> and the check of \<^verbatim>\<open>internal/networkjson/identity.go\<close> that
  runs when the network configuration is loaded. An entry carries only what the check reads:
  its name, its explicit identifier and the name of its provider section.
\<close>

definition conn_Resolve :: "string \<Rightarrow> string \<Rightarrow> string \<Rightarrow> string" where
  "conn_Resolve explicit provider iface =
     (if explicit \<noteq> [] then explicit else if provider \<noteq> [] then provider else iface)"

record WANRef =
  ref_ID :: string
  ref_Name :: string
  Iface :: string

definition ref_Key :: "'a WANRef_scheme \<Rightarrow> string" where
  "ref_Key w = (if ref_ID w \<noteq> [] then ref_ID w else ref_Name w)"

record ifaceEntry =
  entry_Name :: string
  entry_ConnectionID :: string
  entry_WAN :: "string option"

definition entry_id :: "ifaceEntry \<Rightarrow> string" where
  "entry_id e = conn_Resolve (entry_ConnectionID e) (case entry_WAN e of None \<Rightarrow> [] | Some n \<Rightarrow> n) (entry_Name e)"

definition forbidden_chars :: "char list" where
  "forbidden_chars = [CHR 0x27, CHR 0x22, CHR ''['', CHR '']'', CHR ''/'', CHR '':'', CHR 0x0D, CHR 0x0A]"

definition bad_id :: "string \<Rightarrow> bool" where
  "bad_id i \<longleftrightarrow> i = [] \<or> trim_space i \<noteq> i \<or> list_ex (\<lambda>c. c \<in> set forbidden_chars) i"

fun normalize_loop :: "ifaceEntry list \<Rightarrow> (string \<rightharpoonup> string) \<Rightarrow> (string \<rightharpoonup> string) \<Rightarrow> (string \<rightharpoonup> string)
    \<Rightarrow> string + ((string \<rightharpoonup> string) \<times> (string \<rightharpoonup> string))" where
  "normalize_loop [] ids explicit seen = Inr (ids, explicit)"
| "normalize_loop (e # es) ids explicit seen =
     (let i = entry_id e in
      if bad_id i then Inl (''interface '' @ entry_Name e @ '' has invalid connection-id '' @ i)
      else case seen i of
        Some previous \<Rightarrow> Inl (''connection-id '' @ i @ '' is shared by interfaces '' @ previous @ '' and '' @ entry_Name e)
      | None \<Rightarrow> normalize_loop es (ids(entry_Name e \<mapsto> i))
                  (if entry_ConnectionID e \<noteq> [] then explicit(entry_Name e \<mapsto> i) else explicit)
                  (seen(i \<mapsto> entry_Name e)))"

definition normalizeConnectionIDs :: "ifaceEntry list \<Rightarrow> string + ((string \<rightharpoonup> string) \<times> (string \<rightharpoonup> string))" where
  "normalizeConnectionIDs entries = normalize_loop entries Map.empty Map.empty Map.empty"

section \<open>Accepted identifiers\<close>

lemma fold_update_other:
  "k \<notin> f ` set es \<Longrightarrow> fold (\<lambda>e m. m(f e \<mapsto> g e)) es m k = m k"
  by (induction es arbitrary: m) auto

lemma fold_update_member:
  "distinct (map f es) \<Longrightarrow> e \<in> set es \<Longrightarrow> fold (\<lambda>e m. m(f e \<mapsto> g e)) es m (f e) = Some (g e)"
  by (induction es arbitrary: m) (auto simp: fold_update_other)

lemma normalize_loop_accepts:
  "(\<exists>r. normalize_loop es ids explicit seen = Inr r) \<longleftrightarrow>
     (\<forall>e\<in>set es. \<not> bad_id (entry_id e) \<and> seen (entry_id e) = None) \<and> distinct (map entry_id es)"
proof (induction es arbitrary: ids explicit seen)
  case (Cons e es)
  show ?case
  proof (cases "bad_id (entry_id e) \<or> seen (entry_id e) \<noteq> None")
    case True
    then show ?thesis
      by (auto simp: Let_def)
  next
    case False
    then have "normalize_loop (e # es) ids explicit seen = normalize_loop es (ids(entry_Name e \<mapsto> entry_id e))
        (if entry_ConnectionID e \<noteq> [] then explicit(entry_Name e \<mapsto> entry_id e) else explicit)
        (seen(entry_id e \<mapsto> entry_Name e))"
      by (simp add: Let_def)
    with False show ?thesis
      by (simp only: Cons.IH) (auto simp: image_iff)
  qed
qed simp

lemma normalize_loop_ids:
  "normalize_loop es ids explicit seen = Inr (ids', explicit') \<Longrightarrow>
     ids' = fold (\<lambda>e m. m(entry_Name e \<mapsto> entry_id e)) es ids"
  by (induction es arbitrary: ids explicit seen) (auto simp: Let_def split: option.splits if_splits)

text \<open>
  C37: Loading accepts a list of interfaces exactly when every connection identifier is non-empty,
  has no surrounding space and none of the reserved characters, and no two interfaces share one.
  With distinct interface names every interface is then found under its own identifier.
\<close>

theorem connection_ids_accepted:
  "((\<exists>r. normalizeConnectionIDs es = Inr r) \<longleftrightarrow>
      list_all (\<lambda>e. \<not> bad_id (entry_id e)) es \<and> distinct (map entry_id es)) \<and>
   (normalizeConnectionIDs es = Inr (ids, explicit) \<and> distinct (map entry_Name es) \<and> e \<in> set es \<longrightarrow>
      ids (entry_Name e) = Some (entry_id e))"
  using normalize_loop_accepts [of es Map.empty Map.empty Map.empty]
    normalize_loop_ids [of es Map.empty Map.empty Map.empty ids explicit]
  by (auto simp: normalizeConnectionIDs_def list_all_iff fold_update_member)

definition sample_entries :: "ifaceEntry list" where
  "sample_entries =
     [\<lparr>entry_Name = ''eth1'', entry_ConnectionID = [], entry_WAN = Some ''att''\<rparr>,
      \<lparr>entry_Name = ''eth2'', entry_ConnectionID = ''web'', entry_WAN = Some ''webpass''\<rparr>]"

theorem connection_ids_accepted_witness:
  "case normalizeConnectionIDs sample_entries of Inl _ \<Rightarrow> False | Inr (ids, _) \<Rightarrow> ids ''eth2'' = Some ''web''"
proof -
  have "list_all (\<lambda>e. \<not> bad_id (entry_id e)) sample_entries \<and> distinct (map entry_id sample_entries)"
    by code_simp
  then obtain ids explicit where ok: "normalizeConnectionIDs sample_entries = Inr (ids, explicit)"
    using connection_ids_accepted [of sample_entries Map.empty Map.empty "hd sample_entries"] by (metis prod.exhaust)
  have "ids (entry_Name (sample_entries ! 1)) = Some (entry_id (sample_entries ! 1))"
    using connection_ids_accepted [of sample_entries ids explicit "sample_entries ! 1"] ok
    by (simp add: sample_entries_def)
  with ok show ?thesis
    by (simp add: sample_entries_def entry_id_def conn_Resolve_def)
qed

end
