(* ===== verification/HealthState.thy ===== *)
theory HealthState
  imports Connections Prelude "HOL-Library.Word"
begin

text \<open>
  The health state file and what its readers decide from it: \<^verbatim>\<open>internal/netif/health.go\<close>,
  \<^verbatim>\<open>internal/netif/tier.go\<close> and the status message of \<^verbatim>\<open>internal/statuspush\<close>. A file is its
  content, \<open>None\<close> when it does not exist; whether opening it fails is an argument. A
  scanner rejects a line of 65536 bytes or more. Tiers are 8-bit words.
\<close>

definition HealthStateHealthy :: string where "HealthStateHealthy = ''healthy''"
definition HealthStateUnhealthy :: string where "HealthStateUnhealthy = ''unhealthy''"
definition HealthStateUnknown :: string where "HealthStateUnknown = ''unknown''"

lemmas health_state_defs = HealthStateHealthy_def HealthStateUnhealthy_def HealthStateUnknown_def

type_synonym HealthStates = "string \<rightharpoonup> string"

definition max_token :: nat where
  "max_token = 65536"

fun scan_states :: "string list \<Rightarrow> HealthStates \<Rightarrow> string + HealthStates" where
  "scan_states [] states = Inr states"
| "scan_states (l # ls) states =
     (if max_token \<le> length l then Inl ''scan health state: token too long''
      else let line = trim_space l in
        if line = [] then scan_states ls states
        else case cut (CHR '':'') line of
          None \<Rightarrow> scan_states ls states
        | Some (wanName, state) \<Rightarrow> scan_states ls (states(trim_space wanName \<mapsto> trim_space state)))"

definition ReadHealthState :: "bool \<Rightarrow> string option \<Rightarrow> string + HealthStates" where
  "ReadHealthState open_ok content =
     (if \<not> open_ok then Inl ''open health state''
      else case content of
        None \<Rightarrow> Inr Map.empty
      | Some text \<Rightarrow> scan_states (split_at newline text) Map.empty)"

definition health_State :: "HealthStates \<Rightarrow> string \<Rightarrow> string" where
  "health_State states wanName = (case states wanName of None \<Rightarrow> HealthStateUnknown | Some state \<Rightarrow> state)"

definition HealthIsHealthy :: "string \<Rightarrow> bool" where
  "HealthIsHealthy state \<longleftrightarrow> state \<noteq> HealthStateUnhealthy"

section \<open>The active tier\<close>

type_synonym tier = "8 word"

record TierMember =
  tm_Name :: string
  tm_Tier :: tier

fun active_tier_loop :: "TierMember list \<Rightarrow> HealthStates \<Rightarrow> tier \<Rightarrow> bool \<Rightarrow> tier \<times> bool" where
  "active_tier_loop [] health active found = (active, found)"
| "active_tier_loop (member # members) health active found =
     (if \<not> HealthIsHealthy (health_State health (tm_Name member)) then active_tier_loop members health active found
      else if \<not> found \<or> tm_Tier member < active then active_tier_loop members health (tm_Tier member) True
      else active_tier_loop members health active found)"

definition ActiveTier :: "TierMember list \<Rightarrow> HealthStates \<Rightarrow> tier \<times> bool" where
  "ActiveTier members health = active_tier_loop members health 0 False"

definition usable_tiers :: "TierMember list \<Rightarrow> HealthStates \<Rightarrow> tier list" where
  "usable_tiers members health =
     map tm_Tier (filter (\<lambda>m. HealthIsHealthy (health_State health (tm_Name m))) members)"

lemma active_tier_loop_min:
  "active_tier_loop members health active True = (fold min (usable_tiers members health) active, True)"
  by (induction members arbitrary: active) (auto simp: usable_tiers_def min_def not_less)

lemma active_tier_loop_start:
  "active_tier_loop members health active False =
     (case usable_tiers members health of [] \<Rightarrow> (active, False) | t # ts \<Rightarrow> (fold min ts t, True))"
  by (induction members arbitrary: active) (auto simp: usable_tiers_def active_tier_loop_min)

lemma ActiveTier_Min:
  "ActiveTier members health =
     (if usable_tiers members health = [] then (0, False) else (Min (set (usable_tiers members health)), True))"
  by (auto simp: ActiveTier_def active_tier_loop_start Min.set_eq_fold split: list.split simp del: list.set)

section \<open>The pushed status\<close>

record push_message =
  pm_SentAt :: gotime
  pm_ActiveTier :: tier
  pm_Providers :: HealthStates

definition recognized :: "string \<Rightarrow> string" where
  "recognized verdict =
     (if verdict \<in> {HealthStateHealthy, HealthStateUnhealthy, HealthStateUnknown} then verdict else HealthStateUnknown)"

definition NewStatus :: "gotime \<Rightarrow> TierMember list \<Rightarrow> HealthStates \<Rightarrow> push_message" where
  "NewStatus sentAt members states =
     (let verdicts = fold (\<lambda>m v. v(tm_Name m \<mapsto> recognized (health_State states (tm_Name m)))) members Map.empty
      in \<lparr>pm_SentAt = sentAt, pm_ActiveTier = fst (ActiveTier members verdicts), pm_Providers = verdicts\<rparr>)"

lemma fold_update_same:
  "fold (\<lambda>m v. v(f m \<mapsto> g (f m))) ms v k = (if k \<in> f ` set ms then Some (g k) else v k)"
  by (induction ms arbitrary: v) auto

lemma pushed_providers:
  "pm_Providers (NewStatus t members states) =
     (\<lambda>k. if k \<in> tm_Name ` set members then Some (recognized (health_State states k)) else None)"
  by (rule ext) (simp add: NewStatus_def Let_def fold_update_same [of tm_Name "\<lambda>k. recognized (health_State states k)"])

lemma recognized_usable [simp]: "HealthIsHealthy (recognized s) = HealthIsHealthy s"
  by (simp add: recognized_def HealthIsHealthy_def health_state_defs)

lemma active_tier_push: "pm_ActiveTier (NewStatus t members health) = fst (ActiveTier members health)"
proof -
  have "usable_tiers members (pm_Providers (NewStatus t members health)) = usable_tiers members health"
    unfolding usable_tiers_def pushed_providers
    by (rule arg_cong [where f = "map tm_Tier"], rule filter_cong) (simp_all add: health_State_def)
  then show ?thesis
    by (simp add: NewStatus_def Let_def ActiveTier_Min)
qed

section \<open>Properties\<close>

text \<open>
  C33: The active tier is the lowest tier with a usable member: a tier is reported exactly when some
  member is usable, it is the tier of a usable member and no usable member has a lower one. The
  status pushed to the hypervisor names that same tier, and for every member its verdict, with
  every unrecognized verdict read as unknown.
\<close>

theorem active_tier_lowest:
  "let usable = filter (\<lambda>m. HealthIsHealthy (health_State health (tm_Name m))) members;
       (active, found) = ActiveTier members health;
       status = NewStatus t members health in
   found = (usable \<noteq> []) \<and>
   (if found then active \<in> tm_Tier ` set usable \<and> list_all (\<lambda>m. active \<le> tm_Tier m) usable else active = 0) \<and>
   pm_ActiveTier status = active \<and>
   pm_Providers status = (\<lambda>k. if k \<in> tm_Name ` set members then Some (recognized (health_State health k)) else None)"
proof -
  show ?thesis
    unfolding Let_def active_tier_push pushed_providers ActiveTier_Min
    by (auto simp: usable_tiers_def list_all_iff filter_empty_conv intro: Min_in Min_le)
qed

end
