(* ===== verification/Hysteresis.thy ===== *)
theory Hysteresis
  imports HealthState "HOL-Library.Sublist"
begin

text \<open>
  The hysteresis machine of \<^verbatim>\<open>internal/ifmgr/modules/health\<close>: the status of one provider and how a
  probe cycle advances it (\<^verbatim>\<open>advanceHealth\<close>, \<^verbatim>\<open>advanceFamily\<close>). A state is its string; the zero value of
  a status has the empty state. The counters of the source are 64-bit and count probe cycles of
  at least a second, so they are integers here.
\<close>

definition StateUnknown :: string where "StateUnknown = ''unknown''"
definition StateHealthy :: string where "StateHealthy = ''healthy''"
definition StateUnhealthy :: string where "StateUnhealthy = ''unhealthy''"

lemmas state_defs = StateUnknown_def StateHealthy_def StateUnhealthy_def

definition state_Valid :: "string \<Rightarrow> bool" where
  "state_Valid s \<longleftrightarrow> s = StateUnknown \<or> s = StateHealthy \<or> s = StateUnhealthy"

record wanStatus =
  st_State :: string
  OKCount :: int
  FailCount :: int

definition zero_status :: wanStatus where
  "zero_status = \<lparr>st_State = [], OKCount = 0, FailCount = 0\<rparr>"

definition unknown_status :: wanStatus where
  "unknown_status = \<lparr>st_State = StateUnknown, OKCount = 0, FailCount = 0\<rparr>"

definition advanceHealth :: "wanStatus \<Rightarrow> bool \<Rightarrow> int \<Rightarrow> int \<Rightarrow> wanStatus \<times> bool" where
  "advanceHealth cur cyclePassed failureThreshold recoveryThreshold =
     (let next =
        (if cyclePassed
         then let ok = OKCount cur + 1 in
              cur\<lparr>OKCount := ok, FailCount := 0,
                  st_State := (if st_State cur = StateUnknown \<or> recoveryThreshold \<le> ok then StateHealthy else st_State cur)\<rparr>
         else let fail = FailCount cur + 1 in
              cur\<lparr>FailCount := fail, OKCount := 0,
                  st_State := (if failureThreshold \<le> fail then StateUnhealthy else st_State cur)\<rparr>)
      in (next, st_State next \<noteq> st_State cur))"

text \<open>The status after a history of cycles, oldest first.\<close>

definition advance_all :: "int \<Rightarrow> int \<Rightarrow> bool list \<Rightarrow> wanStatus \<Rightarrow> wanStatus" where
  "advance_all ft rt os s = fold (\<lambda>passed s. fst (advanceHealth s passed ft rt)) os s"

section \<open>Runs of equal outcomes\<close>

text \<open>The length of the run at the end of a history.\<close>

definition last_run :: "bool \<Rightarrow> bool list \<Rightarrow> nat" where
  "last_run b os = length (takeWhile (\<lambda>x. x = b) (rev os))"

lemma last_run_simps [simp]:
  "last_run b [] = 0"
  "last_run b (os @ [x]) = (if x = b then Suc (last_run b os) else 0)"
  by (simp_all add: last_run_def)

lemma last_run_stop: "last_run b (xs @ (\<not> b) # ys) = last_run b ys"
proof (induction ys rule: rev_induct)
  case (snoc y ys)
  then show ?case
    using last_run_simps(2) [of b "xs @ (\<not> b) # ys" y] by simp
qed (use last_run_simps(2) [of b xs "\<not> b"] in simp)

lemma last_run_le_iff: "n \<le> last_run b os \<longleftrightarrow> (\<exists>xs. os = xs @ replicate n b)"
proof (induction os arbitrary: n rule: rev_induct)
  case Nil
  then show ?case
    by simp
next
  case (snoc x os)
  show ?case
  proof (cases n)
    case (Suc k)
    have "(\<exists>xs. os @ [x] = xs @ replicate n b) \<longleftrightarrow> x = b \<and> (\<exists>xs. os = xs @ replicate k b)"
      unfolding Suc replicate_Suc replicate_append_same [symmetric] by (simp flip: append_assoc) blast
    with Suc snoc.IH [of k] show ?thesis
      by auto
  qed simp
qed

lemma run_snoc:
  assumes "0 < n"
  shows "sublist (replicate n b) (os @ [x]) \<longleftrightarrow> sublist (replicate n b) os \<or> x = b \<and> n \<le> last_run b (os @ [x])"
proof -
  have "sublist (replicate n b) (os @ [x]) \<longleftrightarrow>
      sublist (replicate n b) os \<or> suffix (replicate n b) (os @ [x])"
    by (auto simp: sublist_snoc)
  also have "suffix (replicate n b) (os @ [x]) \<longleftrightarrow> n \<le> last_run b (os @ [x])"
    by (simp only: last_run_le_iff suffix_def)
  finally show ?thesis
    using assms by auto
qed

section \<open>The verdict of a history\<close>

text \<open>A run of failures that no run of passes follows.\<close>

definition failed_since :: "nat \<Rightarrow> nat \<Rightarrow> bool list \<Rightarrow> bool" where
  "failed_since ft rt os \<longleftrightarrow>
     (\<exists>xs ys. os = xs @ replicate ft False @ ys \<and> \<not> sublist (replicate rt True) ys)"

lemma last_run_after_failures:
  assumes "0 < ft"
  shows "last_run True ((xs @ replicate ft False @ ys) @ [True]) = last_run True (ys @ [True])"
proof -
  have "xs @ replicate ft False @ ys = (xs @ replicate (ft - 1) False) @ (\<not> True) # ys"
    using assms by (cases ft) (simp_all add: replicate_append_same [symmetric])
  then show ?thesis
    unfolding last_run_simps by (simp only: last_run_stop)
qed

lemma failed_since_False:
  assumes "0 < rt"
  shows "failed_since ft rt (os @ [False]) \<longleftrightarrow> failed_since ft rt os \<or> ft \<le> last_run False (os @ [False])"
proof
  assume "failed_since ft rt (os @ [False])"
  then obtain xs ys where split: "os @ [False] = xs @ replicate ft False @ ys" and no_run: "\<not> sublist (replicate rt True) ys"
    by (auto simp: failed_since_def)
  show "failed_since ft rt os \<or> ft \<le> last_run False (os @ [False])"
  proof (cases ys rule: rev_cases)
    case Nil
    with split show ?thesis
      unfolding last_run_le_iff by auto
  next
    case (snoc ys' y)
    with split no_run have "os = xs @ replicate ft False @ ys'" "\<not> sublist (replicate rt True) ys'"
      using assms by (auto simp: run_snoc simp flip: append_assoc)
    then show ?thesis
      unfolding failed_since_def by blast
  qed
next
  assume "failed_since ft rt os \<or> ft \<le> last_run False (os @ [False])"
  then show "failed_since ft rt (os @ [False])"
  proof
    assume "failed_since ft rt os"
    then obtain xs ys where "os = xs @ replicate ft False @ ys" "\<not> sublist (replicate rt True) ys"
      by (auto simp: failed_since_def)
    then have "os @ [False] = xs @ replicate ft False @ (ys @ [False]) \<and> \<not> sublist (replicate rt True) (ys @ [False])"
      using assms by (simp add: run_snoc)
    then show ?thesis
      unfolding failed_since_def by blast
  next
    assume "ft \<le> last_run False (os @ [False])"
    then obtain xs where "os @ [False] = xs @ replicate ft False @ []"
      unfolding last_run_le_iff by auto
    moreover have "\<not> sublist (replicate rt True) []"
      using assms by simp
    ultimately show ?thesis
      unfolding failed_since_def by blast
  qed
qed

lemma failed_since_True:
  assumes "0 < ft" and "0 < rt"
  shows "failed_since ft rt (os @ [True]) \<longleftrightarrow> failed_since ft rt os \<and> last_run True (os @ [True]) < rt"
proof
  assume "failed_since ft rt (os @ [True])"
  then obtain xs ys where split: "os @ [True] = xs @ replicate ft False @ ys" and no_run: "\<not> sublist (replicate rt True) ys"
    by (auto simp: failed_since_def)
  show "failed_since ft rt os \<and> last_run True (os @ [True]) < rt"
  proof (cases ys rule: rev_cases)
    case Nil
    with split assms(1) show ?thesis
      by (cases ft) (simp_all add: replicate_append_same [symmetric] flip: append_assoc)
  next
    case (snoc ys' y)
    with split have ys: "os = xs @ replicate ft False @ ys'" "ys = ys' @ [True]"
      by (auto simp flip: append_assoc)
    with no_run assms(2) have "\<not> sublist (replicate rt True) ys'" "last_run True (ys' @ [True]) < rt"
      by (auto simp: run_snoc not_le)
    with ys(1) show ?thesis
      unfolding failed_since_def using last_run_after_failures [OF assms(1), of xs ys'] by auto
  qed
next
  assume "failed_since ft rt os \<and> last_run True (os @ [True]) < rt"
  then obtain xs ys where os: "os = xs @ replicate ft False @ ys" "\<not> sublist (replicate rt True) ys"
    and short: "last_run True (os @ [True]) < rt"
    unfolding failed_since_def by blast
  then have "\<not> sublist (replicate rt True) (ys @ [True])"
    using last_run_after_failures [OF assms(1), of xs ys] assms(2) by (simp add: run_snoc)
  moreover have "os @ [True] = xs @ replicate ft False @ (ys @ [True])"
    using os by simp
  ultimately show "failed_since ft rt (os @ [True])"
    unfolding failed_since_def by blast
qed

lemma advance_all_snoc [simp]:
  "advance_all ft rt (os @ [x]) s = fst (advanceHealth (advance_all ft rt os s) x ft rt)"
  by (simp add: advance_all_def)

lemma advance_counts:
  "OKCount (advance_all ft rt os unknown_status) = int (last_run True os) \<and>
   FailCount (advance_all ft rt os unknown_status) = int (last_run False os)"
proof (induction os rule: rev_induct)
  case Nil
  then show ?case
    by (simp add: advance_all_def unknown_status_def)
next
  case (snoc x os)
  then show ?case
    by (cases x) (simp_all add: advanceHealth_def Let_def)
qed

lemma advance_state:
  assumes "0 < ft" and "0 < rt"
  shows "st_State (advance_all (int ft) (int rt) os unknown_status) =
    (if failed_since ft rt os then StateUnhealthy else if True \<in> set os then StateHealthy else StateUnknown)"
proof (induction os rule: rev_induct)
  case Nil
  then show ?case
    using assms(1) by (simp add: advance_all_def unknown_status_def failed_since_def)
next
  case (snoc x os)
  have unknown_run: "last_run False os = length os" if "True \<notin> set os"
    using that by (induction os rule: rev_induct) auto
  have healthy: "True \<in> set os" if "\<not> failed_since ft rt os" "ft \<le> last_run False os"
    using that assms(2) unfolding last_run_le_iff failed_since_def by fastforce
  show ?case
    using snoc advance_counts [of "int ft" "int rt" os] assms
    by (cases x) (auto simp: advanceHealth_def Let_def failed_since_True failed_since_False state_defs)
qed

section \<open>Properties\<close>



end
