(* ===== verification/HealthConfig.thy ===== *)
theory HealthConfig
  imports Hysteresis GoNet
begin

text \<open>
  The configuration of the health module (\<^verbatim>\<open>internal/ifmgr/modules/health/config.go\<close> and the
  resolvers of \<^verbatim>\<open>health.go\<close>). A target list of a provider that is \<open>None\<close> is Go's nil and inherits the
  module's list; an empty list is a family that the provider does not carry. A validation error
  is the list of the joined messages, empty when the configuration is accepted.
  \<open>Observations\<close> is the outcome of validating the recurring observations, when there are any.
\<close>

record WAN = WANRef +
  wan_Tier :: tier
  wan_TargetsV4 :: "addr list option"
  wan_TargetsV6 :: "addr list option"
  wan_HTTPURLs :: "string list"
  wan_PingCount :: int
  wan_SuccessThreshold :: int
  wan_FailureThreshold :: int
  wan_RecoveryThreshold :: int
  wan_CheckInterval :: duration

record HealthConfig =
  Observations :: "string option option"
  StateFile :: string
  TargetsV4 :: "addr list"
  TargetsV6 :: "addr list"
  HTTPURLs :: "string list"
  Timeout :: duration
  Interval :: duration
  PingCount :: int
  SuccessThreshold :: int
  FailureThreshold :: int
  RecoveryThreshold :: int
  StatusPushCID :: int
  StatusPushPort :: int
  WANs :: "WAN list"

section \<open>Resolvers\<close>

definition targetsV4 :: "WAN \<Rightarrow> HealthConfig \<Rightarrow> addr list" where
  "targetsV4 wan cfg = (case wan_TargetsV4 wan of Some ts \<Rightarrow> ts | None \<Rightarrow> TargetsV4 cfg)"

definition targetsV6 :: "WAN \<Rightarrow> HealthConfig \<Rightarrow> addr list" where
  "targetsV6 wan cfg = (case wan_TargetsV6 wan of Some ts \<Rightarrow> ts | None \<Rightarrow> TargetsV6 cfg)"

definition httpURLs :: "WAN \<Rightarrow> HealthConfig \<Rightarrow> string list" where
  "httpURLs wan cfg = (if wan_HTTPURLs wan \<noteq> [] then wan_HTTPURLs wan else HTTPURLs cfg)"

definition pingCount :: "WAN \<Rightarrow> HealthConfig \<Rightarrow> int" where
  "pingCount wan cfg = (if wan_PingCount wan \<noteq> 0 then wan_PingCount wan else PingCount cfg)"

definition successThreshold :: "WAN \<Rightarrow> HealthConfig \<Rightarrow> int" where
  "successThreshold wan cfg = (if wan_SuccessThreshold wan \<noteq> 0 then wan_SuccessThreshold wan else SuccessThreshold cfg)"

definition failureThreshold :: "WAN \<Rightarrow> HealthConfig \<Rightarrow> int" where
  "failureThreshold wan cfg = (if wan_FailureThreshold wan \<noteq> 0 then wan_FailureThreshold wan else FailureThreshold cfg)"

definition recoveryThreshold :: "WAN \<Rightarrow> HealthConfig \<Rightarrow> int" where
  "recoveryThreshold wan cfg = (if wan_RecoveryThreshold wan \<noteq> 0 then wan_RecoveryThreshold wan else RecoveryThreshold cfg)"

section \<open>Defaults\<close>

definition defaultTargetsV4 :: "addr list" where
  "defaultTargetsV4 = [the (parse_addr ''1.1.1.1''), the (parse_addr ''8.8.8.8'')]"

definition defaultTargetsV6 :: "addr list" where
  "defaultTargetsV6 = [the (parse_addr ''2606:4700:4700::1111''), the (parse_addr ''2001:4860:4860::8888'')]"

definition StateFilePath :: "HealthConfig \<Rightarrow> string" where
  "StateFilePath cfg = (if StateFile cfg = [] then ''/var/run/mwan-health.state'' else StateFile cfg)"

definition TierMembers :: "HealthConfig \<Rightarrow> TierMember list" where
  "TierMembers cfg = map (\<lambda>wan. \<lparr>tm_Name = ref_Key wan, tm_Tier = wan_Tier wan\<rparr>) (WANs cfg)"

definition applyDefaults :: "HealthConfig \<Rightarrow> HealthConfig" where
  "applyDefaults cfg =
     cfg\<lparr>StateFile := StateFilePath cfg,
         TargetsV4 := (if TargetsV4 cfg = [] then defaultTargetsV4 else TargetsV4 cfg),
         TargetsV6 := (if TargetsV6 cfg = [] then defaultTargetsV6 else TargetsV6 cfg),
         Timeout := (if Timeout cfg = 0 then seconds 2 else Timeout cfg),
         Interval := (if Interval cfg = 0 then seconds 10 else Interval cfg),
         PingCount := (if PingCount cfg = 0 then 3 else PingCount cfg),
         SuccessThreshold := (if SuccessThreshold cfg = 0 then 2 else SuccessThreshold cfg),
         FailureThreshold := (if FailureThreshold cfg = 0 then 2 else FailureThreshold cfg),
         RecoveryThreshold := (if RecoveryThreshold cfg = 0 then 2 else RecoveryThreshold cfg)\<rparr>"

section \<open>Validation\<close>

definition check :: "bool \<Rightarrow> string \<Rightarrow> string list" where
  "check bad msg = (if bad then [msg] else [])"

definition validateProbeConfig :: "HealthConfig \<Rightarrow> string list" where
  "validateProbeConfig cfg =
     check (StateFile cfg = []) ''state_file is required'' @
     check (TargetsV6 cfg = []) ''at least one targets_v6 entry is required'' @
     check (TargetsV4 cfg = []) ''at least one targets_v4 entry is required'' @
     check (Timeout cfg \<le> 0) ''timeout must be > 0'' @
     check (Interval cfg \<le> 0) ''interval must be > 0'' @
     check (PingCount cfg \<le> 0) ''ping_count must be > 0'' @
     check (SuccessThreshold cfg \<le> 0) ''success_threshold must be > 0'' @
     check (int (length (TargetsV6 cfg)) < SuccessThreshold cfg \<or> int (length (TargetsV4 cfg)) < SuccessThreshold cfg)
       ''success_threshold exceeds an address-family target count'' @
     check (FailureThreshold cfg \<le> 0) ''failure_threshold must be > 0'' @
     check (RecoveryThreshold cfg \<le> 0) ''recovery_threshold must be > 0''"

definition validateWAN :: "HealthConfig \<Rightarrow> string set \<Rightarrow> string set \<Rightarrow> WAN \<Rightarrow> string list" where
  "validateWAN cfg seenIDs seenIfaces wan =
     (let threshold = successThreshold wan cfg; v6 = targetsV6 wan cfg; v4 = targetsV4 wan cfg in
      check (ref_Key wan = []) ''connection ID is required'' @
      check (Iface wan = []) ''iface is required'' @
      check (ref_Key wan \<in> seenIDs) ''duplicate connection ID'' @
      check (Iface wan \<in> seenIfaces) ''duplicate iface'' @
      check (threshold \<le> 0) ''success_threshold must be > 0'' @
      check (v6 = [] \<and> v4 = []) ''at least one targets_v4 or targets_v6 entry is required'' @
      check ((v6 \<noteq> [] \<and> int (length v6) < threshold) \<or> (v4 \<noteq> [] \<and> int (length v4) < threshold))
        ''success_threshold exceeds an address-family target count'' @
      check (pingCount wan cfg \<le> 0) ''ping_count must be > 0'' @
      check (failureThreshold wan cfg \<le> 0) ''failure_threshold must be > 0'' @
      check (recoveryThreshold wan cfg \<le> 0) ''recovery_threshold must be > 0'')"

fun validate_wans_loop :: "HealthConfig \<Rightarrow> WAN list \<Rightarrow> string set \<Rightarrow> string set \<Rightarrow> string list" where
  "validate_wans_loop cfg [] seenIDs seenIfaces = []"
| "validate_wans_loop cfg (wan # wans) seenIDs seenIfaces =
     validateWAN cfg seenIDs seenIfaces wan @
     validate_wans_loop cfg wans (insert (ref_Key wan) seenIDs) (insert (Iface wan) seenIfaces)"

definition validateWANs :: "HealthConfig \<Rightarrow> string list" where
  "validateWANs cfg = validate_wans_loop cfg (WANs cfg) {} {}"

definition validateConfig :: "HealthConfig \<Rightarrow> string list" where
  "validateConfig cfg =
     (case Observations cfg of
        Some (Some err) \<Rightarrow> [''validate health observations: '' @ err]
      | obs \<Rightarrow> if WANs cfg = [] \<and> obs \<noteq> None then [] else validateProbeConfig cfg @ validateWANs cfg)"

section \<open>Accepted configurations\<close>

text \<open>What validation guarantees of one provider.\<close>

definition wan_ok :: "HealthConfig \<Rightarrow> WAN \<Rightarrow> bool" where
  "wan_ok cfg wan \<longleftrightarrow>
     ref_Key wan \<noteq> [] \<and> Iface wan \<noteq> [] \<and> 0 < successThreshold wan cfg \<and>
     (targetsV6 wan cfg \<noteq> [] \<or> targetsV4 wan cfg \<noteq> []) \<and>
     (targetsV6 wan cfg \<noteq> [] \<longrightarrow> successThreshold wan cfg \<le> int (length (targetsV6 wan cfg))) \<and>
     (targetsV4 wan cfg \<noteq> [] \<longrightarrow> successThreshold wan cfg \<le> int (length (targetsV4 wan cfg))) \<and>
     0 < pingCount wan cfg \<and> 0 < failureThreshold wan cfg \<and> 0 < recoveryThreshold wan cfg"

lemma check_Nil [simp]: "check bad msg = [] \<longleftrightarrow> \<not> bad"
  by (simp add: check_def)

lemma validateWAN_ok:
  "validateWAN cfg ids ifs wan = [] \<longleftrightarrow> wan_ok cfg wan \<and> ref_Key wan \<notin> ids \<and> Iface wan \<notin> ifs"
  by (auto simp: validateWAN_def wan_ok_def Let_def)

lemma validate_wans_loop_ok:
  "validate_wans_loop cfg wans ids ifs = [] \<longleftrightarrow>
     list_all (wan_ok cfg) wans \<and> distinct (map ref_Key wans) \<and> distinct (map Iface wans) \<and>
     ref_Key ` set wans \<inter> ids = {} \<and> Iface ` set wans \<inter> ifs = {}"
  by (induction wans arbitrary: ids ifs) (auto simp: validateWAN_ok)

lemma accepted_wans:
  assumes "validateConfig cfg = []" and "wan \<in> set (WANs cfg)"
  shows "wan_ok cfg wan" and "distinct (map ref_Key (WANs cfg))"
  using assms
  by (auto simp: validateConfig_def validateWANs_def validate_wans_loop_ok list_all_iff split: option.splits if_splits)

end
