(* ===== verification/HealthModule.thy ===== *)
theory HealthModule
  imports HealthConfig Notify
begin

text \<open>
  The health module of the gateway (\<^verbatim>\<open>internal/ifmgr/modules/health\<close>): probing, the cycle that
  commits verdicts, the state file and what the module tells the other parts of the daemon.
  The outside is a record of answers, indexed by a counter of calls: whether a ping or an HTTP
  request came back without an error, the clock, and whether replacing the state file
  succeeded. \<^verbatim>\<open>writeFileAtomic\<close> renames a complete temporary file, so a failure at any of its steps
  leaves the old content. \<open>outs\<close> collects, newest first, the calls that leave the module; alerts go
  to the notifier. The mutexes make a cycle atomic; log output is left out.
\<close>

datatype probe_leg = ProbeNone | ProbePass | ProbeFail

record MemberHealth =
  Verdict :: string
  ConsecutiveFailures :: "32 word"
  LastTransition :: gotime
  mh_V4 :: probe_leg
  mh_V6 :: probe_leg
  V4Verdict :: string
  V6Verdict :: string

datatype health_out =
    VerifyDHCPv4 string
  | SetHealth "string \<rightharpoonup> MemberHealth"
  | HealthTransition string string string
  | RequestReconcile string
  | PushStatus push_message

record health_env =
  p_V4 :: "nat \<Rightarrow> string \<Rightarrow> addr \<Rightarrow> bool"
  p_V6 :: "nat \<Rightarrow> string \<Rightarrow> addr \<Rightarrow> bool"
  p_HTTP4 :: "nat \<Rightarrow> string \<Rightarrow> string \<Rightarrow> bool"
  p_HTTP6 :: "nat \<Rightarrow> string \<Rightarrow> string \<Rightarrow> bool"
  p_now :: "nat \<Rightarrow> gotime"
  p_write :: "nat \<Rightarrow> bool"
  has_LiveState :: bool
  has_Alerts :: bool
  has_RequestReconcile :: bool
  has_VerifyDHCPv4 :: bool
  has_pusher :: bool

record familyStatuses =
  fam_v4 :: wanStatus
  fam_v6 :: wanStatus

record health_module =
  hm_tick :: nat
  statuses :: "string \<rightharpoonup> wanStatus"
  families :: "string \<rightharpoonup> familyStatuses"
  lastTransition :: "string \<rightharpoonup> gotime"
  reconcilePending :: bool
  reconcileCycleRunning :: bool
  state_file :: "string option"
  hm_ntf :: notifier
  outs :: "health_out list"

record probeResult =
  Passed :: bool
  V6Probed :: bool
  V4Probed :: bool
  V6Passed :: bool
  V4Passed :: bool
  V6Successes :: int
  V4Successes :: int
  HTTP6Successes :: int
  HTTP4Successes :: int

type_synonym 'a health_op = "(health_module, 'a) state"

definition answer :: "(nat \<Rightarrow> 'a) \<Rightarrow> 'a health_op" where
  "answer f = do { n \<leftarrow> gets hm_tick; modify (hm_tick_update Suc); returnM (f n) }"

definition out :: "health_out \<Rightarrow> unit health_op" where
  "out e = modify (outs_update (\<lambda>es. e # es))"

section \<open>Probing\<close>

fun ping_target :: "nat \<Rightarrow> (nat \<Rightarrow> bool) \<Rightarrow> bool health_op" where
  "ping_target 0 probe = returnM False"
| "ping_target (Suc n) probe = do { ok \<leftarrow> answer probe; rest \<leftarrow> ping_target n probe; returnM (ok \<or> rest) }"

fun probe_targets :: "nat \<Rightarrow> (nat \<Rightarrow> addr \<Rightarrow> bool) \<Rightarrow> addr list \<Rightarrow> int health_op" where
  "probe_targets count probe [] = returnM 0"
| "probe_targets count probe (target # targets) = do {
     reached \<leftarrow> ping_target count (\<lambda>n. probe n target);
     rest \<leftarrow> probe_targets count probe targets;
     returnM ((if reached then 1 else 0) + rest)
   }"

definition probeTargets :: "HealthConfig \<Rightarrow> WAN \<Rightarrow> addr list \<Rightarrow> (nat \<Rightarrow> string \<Rightarrow> addr \<Rightarrow> bool) \<Rightarrow> int health_op" where
  "probeTargets cfg wan targets probe = probe_targets (nat (pingCount wan cfg)) (\<lambda>n. probe n (Iface wan)) targets"

fun probe_urls :: "(nat \<Rightarrow> string \<Rightarrow> bool) \<Rightarrow> string list \<Rightarrow> int health_op" where
  "probe_urls probe [] = returnM 0"
| "probe_urls probe (url # urls) = do {
     reachable \<leftarrow> answer (\<lambda>n. probe n url);
     rest \<leftarrow> probe_urls probe urls;
     returnM ((if reachable then 1 else 0) + rest)
   }"

definition probeHTTPURLs :: "HealthConfig \<Rightarrow> WAN \<Rightarrow> (nat \<Rightarrow> string \<Rightarrow> string \<Rightarrow> bool) \<Rightarrow> int health_op" where
  "probeHTTPURLs cfg wan probe = probe_urls (\<lambda>n. probe n (Iface wan)) (httpURLs wan cfg)"

definition probeWAN :: "HealthConfig \<Rightarrow> health_env \<Rightarrow> WAN \<Rightarrow> probeResult health_op" where
  "probeWAN cfg env wan = do {
     let v6Probed = (targetsV6 wan cfg \<noteq> []);
     let v4Probed = (targetsV4 wan cfg \<noteq> []);
     v6 \<leftarrow> (if v6Probed then probeTargets cfg wan (targetsV6 wan cfg) (p_V6 env) else returnM 0);
     http6 \<leftarrow> (if v6Probed then probeHTTPURLs cfg wan (p_HTTP6 env) else returnM 0);
     v4 \<leftarrow> (if v4Probed then probeTargets cfg wan (targetsV4 wan cfg) (p_V4 env) else returnM 0);
     http4 \<leftarrow> (if v4Probed then probeHTTPURLs cfg wan (p_HTTP4 env) else returnM 0);
     let threshold = successThreshold wan cfg;
     let v6Passed = (v6Probed \<and> (threshold \<le> v6 \<or> 1 \<le> http6));
     let v4Passed = (v4Probed \<and> (threshold \<le> v4 \<or> 1 \<le> http4));
     returnM \<lparr>Passed = (v6Passed \<or> v4Passed), V6Probed = v6Probed, V4Probed = v4Probed, V6Passed = v6Passed,
       V4Passed = v4Passed, V6Successes = v6, V4Successes = v4, HTTP6Successes = http6, HTTP4Successes = http4\<rparr>
   }"

section \<open>The cycle\<close>

definition status_of :: "(string \<rightharpoonup> wanStatus) \<Rightarrow> string \<Rightarrow> wanStatus" where
  "status_of m k = (case m k of None \<Rightarrow> zero_status | Some s \<Rightarrow> s)"

definition zero_families :: familyStatuses where
  "zero_families = \<lparr>fam_v4 = zero_status, fam_v6 = zero_status\<rparr>"

definition advanceFamily :: "WAN \<Rightarrow> HealthConfig \<Rightarrow> wanStatus \<Rightarrow> bool \<Rightarrow> bool \<Rightarrow> wanStatus \<times> bool" where
  "advanceFamily wan cfg cur probed passed =
     (if \<not> probed then (cur, False)
      else advanceHealth (if state_Valid (st_State cur) then cur else cur\<lparr>st_State := StateUnknown\<rparr>) passed
             (failureThreshold wan cfg) (recoveryThreshold wan cfg))"

definition advanceFamilies :: "HealthConfig \<Rightarrow> health_env \<Rightarrow> WAN \<Rightarrow> probeResult \<Rightarrow> bool health_op" where
  "advanceFamilies cfg env wan result = do {
     fams \<leftarrow> gets families;
     let cur = (case fams (ref_Key wan) of None \<Rightarrow> zero_families | Some f \<Rightarrow> f);
     let (v4, v4Changed) = advanceFamily wan cfg (fam_v4 cur) (V4Probed result) (V4Passed result);
     let (v6, v6Changed) = advanceFamily wan cfg (fam_v6 cur) (V6Probed result) (V6Passed result);
     whenM (v4Changed \<and> st_State v4 = StateUnhealthy \<and> has_VerifyDHCPv4 env) (out (VerifyDHCPv4 (Iface wan)));
     modify (families_update (\<lambda>f. f(ref_Key wan \<mapsto> \<lparr>fam_v4 = v4, fam_v6 = v6\<rparr>)));
     returnM (v4Changed \<or> v6Changed)
   }"

record health_transition =
  tr_WAN :: WAN
  tr_From :: string
  tr_To :: string

definition serializeState :: "HealthConfig \<Rightarrow> (string \<rightharpoonup> wanStatus) \<Rightarrow> string" where
  "serializeState cfg sts =
     concat (map (\<lambda>wan.
       let state = (case sts (ref_Key wan) of
            None \<Rightarrow> StateUnknown
          | Some s \<Rightarrow> if state_Valid (st_State s) then st_State s else StateUnknown)
       in ref_Key wan @ '':'' @ state @ [newline]) (WANs cfg))"

definition writeStateFile :: "HealthConfig \<Rightarrow> health_env \<Rightarrow> (string \<rightharpoonup> wanStatus) \<Rightarrow> string option health_op" where
  "writeStateFile cfg env sts = do {
     ok \<leftarrow> answer (p_write env);
     if ok then do { modify (state_file_update (\<lambda>_. Some (serializeState cfg sts))); returnM None }
     else returnM (Some ''write runtime state'')
   }"

text \<open>The probing loop of a cycle; it threads the new statuses, the transitions and the results.\<close>

fun cycle_loop :: "HealthConfig \<Rightarrow> health_env \<Rightarrow> WAN list \<Rightarrow> (string \<rightharpoonup> wanStatus) \<Rightarrow> health_transition list
    \<Rightarrow> (string \<rightharpoonup> probeResult) \<Rightarrow> bool
    \<Rightarrow> ((string \<rightharpoonup> wanStatus) \<times> health_transition list \<times> (string \<rightharpoonup> probeResult) \<times> bool) health_op" where
  "cycle_loop cfg env [] sts trs results familyChanged = returnM (sts, trs, results, familyChanged)"
| "cycle_loop cfg env (wan # wans) sts trs results familyChanged = do {
     result \<leftarrow> probeWAN cfg env wan;
     let cur = status_of sts (ref_Key wan);
     let (next, changed) = advanceHealth cur (Passed result) (failureThreshold wan cfg) (recoveryThreshold wan cfg);
     famChanged \<leftarrow> advanceFamilies cfg env wan result;
     whenM changed (do {
       t \<leftarrow> answer (p_now env);
       modify (lastTransition_update (\<lambda>m. m(ref_Key wan \<mapsto> t)))
     });
     cycle_loop cfg env wans (sts(ref_Key wan \<mapsto> next))
       (if changed then trs @ [\<lparr>tr_WAN = wan, tr_From = st_State cur, tr_To = st_State next\<rparr>] else trs)
       (results(ref_Key wan \<mapsto> result)) (famChanged \<or> familyChanged)
   }"

definition verdictOf :: "string \<Rightarrow> string" where
  "verdictOf state = (if state = StateHealthy then HealthStateHealthy
     else if state = StateUnhealthy then HealthStateUnhealthy else HealthStateUnknown)"

definition legResult :: "int \<Rightarrow> int \<Rightarrow> int \<Rightarrow> probe_leg" where
  "legResult pingSuccesses httpSuccesses threshold =
     (if threshold \<le> pingSuccesses \<or> 1 \<le> httpSuccesses then ProbePass else ProbeFail)"

definition member_health :: "HealthConfig \<Rightarrow> health_module \<Rightarrow> (string \<rightharpoonup> wanStatus) \<Rightarrow> (string \<rightharpoonup> probeResult) \<Rightarrow> WAN \<Rightarrow> MemberHealth" where
  "member_health cfg m sts results wan =
     (let status = status_of sts (ref_Key wan);
          fam = (case families m (ref_Key wan) of None \<Rightarrow> zero_families | Some f \<Rightarrow> f);
          threshold = successThreshold wan cfg
      in \<lparr>Verdict = verdictOf (st_State status),
          ConsecutiveFailures = (if 0 < FailCount status \<and> FailCount status \<le> 4294967295 then of_int (FailCount status) else 0),
          LastTransition = (case lastTransition m (ref_Key wan) of None \<Rightarrow> zero_time | Some t \<Rightarrow> t),
          mh_V4 = (case results (ref_Key wan) of
              Some r \<Rightarrow> if V4Probed r then legResult (V4Successes r) (HTTP4Successes r) threshold else ProbeNone
            | None \<Rightarrow> ProbeNone),
          mh_V6 = (case results (ref_Key wan) of
              Some r \<Rightarrow> if V6Probed r then legResult (V6Successes r) (HTTP6Successes r) threshold else ProbeNone
            | None \<Rightarrow> ProbeNone),
          V4Verdict = verdictOf (st_State (fam_v4 fam)),
          V6Verdict = verdictOf (st_State (fam_v6 fam))\<rparr>)"

definition publishLiveState :: "HealthConfig \<Rightarrow> health_env \<Rightarrow> (string \<rightharpoonup> wanStatus) \<Rightarrow> (string \<rightharpoonup> probeResult) \<Rightarrow> unit health_op" where
  "publishLiveState cfg env sts results = whenM (has_LiveState env) (do {
     m \<leftarrow> gets id;
     out (SetHealth (fold (\<lambda>wan members. members(ref_Key wan \<mapsto> member_health cfg m sts results wan)) (WANs cfg) Map.empty))
   })"

definition pushStatus :: "HealthConfig \<Rightarrow> health_env \<Rightarrow> (string \<rightharpoonup> wanStatus) \<Rightarrow> unit health_op" where
  "pushStatus cfg env sts = whenM (has_pusher env) (do {
     let states = fold (\<lambda>wan m. m(ref_Key wan \<mapsto>
           (case sts (ref_Key wan) of
              None \<Rightarrow> StateUnknown
            | Some s \<Rightarrow> if state_Valid (st_State s) then st_State s else StateUnknown))) (WANs cfg) Map.empty;
     t \<leftarrow> answer (p_now env);
     out (PushStatus (NewStatus t (TierMembers cfg) states))
   })"

definition alertKindWANUnhealthy :: string where
  "alertKindWANUnhealthy = ''wan-health''"

definition emit_alert :: "health_env \<Rightarrow> health_transition \<Rightarrow> unit health_op" where
  "emit_alert env tr = do {
     now \<leftarrow> answer (p_now env);
     t \<leftarrow> answer (p_now env);
     if tr_To tr = StateUnhealthy
     then modify (hm_ntf_update (Notify t \<lparr>Now = now, Level = LevelWarn, Kind = alertKindWANUnhealthy,
            Key = ref_Key (tr_WAN tr), Message = ''health: WAN became unhealthy'', IsRecovery = False\<rparr>))
     else whenM (tr_To tr = StateHealthy \<and> tr_From tr \<noteq> StateUnknown)
       (modify (hm_ntf_update (Resolve t alertKindWANUnhealthy (ref_Key (tr_WAN tr)) ''health: WAN recovered'')))
   }"

definition emitTransition :: "health_env \<Rightarrow> health_transition \<Rightarrow> unit health_op" where
  "emitTransition env tr = do {
     whenM (has_LiveState env)
       (out (HealthTransition (ref_Key (tr_WAN tr)) (verdictOf (tr_From tr)) (verdictOf (tr_To tr))));
     whenM (has_RequestReconcile env)
       (out (RequestReconcile (''health '' @ ref_Name (tr_WAN tr) @ '' '' @ tr_From tr @ ''->'' @ tr_To tr)));
     whenM (has_Alerts env) (emit_alert env tr)
   }"

definition runCycle :: "HealthConfig \<Rightarrow> health_env \<Rightarrow> string option health_op" where
  "runCycle cfg env = do {
     sts \<leftarrow> gets statuses;
     (next, trs, results, familyChanged) \<leftarrow> cycle_loop cfg env (WANs cfg) sts [] Map.empty False;
     err \<leftarrow> writeStateFile cfg env next;
     case err of
       Some e \<Rightarrow> returnM (Some (''health: write state file: '' @ e))
     | None \<Rightarrow> do {
         modify (statuses_update (\<lambda>_. next));
         publishLiveState cfg env next results;
         forM trs (emitTransition env);
         whenM (familyChanged \<and> has_RequestReconcile env) (out (RequestReconcile ''health address family verdict changed''));
         pushStatus cfg env next;
         returnM None
       }
   }"

end
