(* ===== verification/HealthCycle.thy ===== *)
theory HealthCycle
  imports HealthModule
begin

text \<open>
  The life of the health module: \<^verbatim>\<open>Init\<close>, the interval loop, the cycles that \<^verbatim>\<open>Reconcile\<close> starts in the
  background, and the invariant that ties the committed verdicts, the state file and the open
  alerts together in every reachable state.
\<close>

section \<open>Start and reconcile\<close>

text \<open>The status map has exactly the configured keys, so the source's loop over the map is one over the list.\<close>

definition anyUnknown :: "HealthConfig \<Rightarrow> health_module \<Rightarrow> bool" where
  "anyUnknown cfg m \<longleftrightarrow> list_ex (\<lambda>wan. st_State (status_of (statuses m) (ref_Key wan)) = StateUnknown) (WANs cfg)"

definition initStatuses :: "HealthConfig \<Rightarrow> unit health_op" where
  "initStatuses cfg = modify (statuses_update (\<lambda>_. fold (\<lambda>wan m. m(ref_Key wan \<mapsto> unknown_status)) (WANs cfg) Map.empty))"

datatype init_outcome = ModuleDisabled | InitFailed string | Initialized

definition health_Init :: "HealthConfig \<Rightarrow> health_env \<Rightarrow> init_outcome health_op" where
  "health_Init cfg env =
     (if WANs cfg = [] \<and> Observations cfg = None then returnM ModuleDisabled
      else if validateConfig cfg \<noteq> [] then returnM (InitFailed (''health: invalid config: '' @ join ''; '' (validateConfig cfg)))
      else if Observations cfg \<noteq> None \<and> (\<not> has_LiveState env \<or> \<not> has_Alerts env)
      then returnM (InitFailed ''recurring observations require live state and alerts'')
      else if WANs cfg = [] then returnM Initialized
      else do {
        initStatuses cfg;
        sts \<leftarrow> gets statuses;
        err \<leftarrow> writeStateFile cfg env sts;
        returnM (case err of Some e \<Rightarrow> InitFailed (''health: initialize state file: '' @ e) | None \<Rightarrow> Initialized)
      })"

text \<open>
  \<^verbatim>\<open>Reconcile\<close> starts at most one background cycle; the cycle ends on its own, whether or not the
  caller still waits for it.
\<close>

definition Reconcile_start :: "HealthConfig \<Rightarrow> health_module \<Rightarrow> health_module option" where
  "Reconcile_start cfg m =
     (if WANs cfg = [] then None
      else if reconcileCycleRunning m \<or> (\<not> reconcilePending m \<and> \<not> anyUnknown cfg m) then None
      else Some (m\<lparr>reconcilePending := False, reconcileCycleRunning := True\<rparr>))"

definition Reconcile_cycle :: "HealthConfig \<Rightarrow> health_env \<Rightarrow> unit health_op" where
  "Reconcile_cycle cfg env = do {
     err \<leftarrow> runCycle cfg env;
     modify (reconcileCycleRunning_update (\<lambda>_. False));
     whenM (err \<noteq> None) (modify (reconcilePending_update (\<lambda>_. True)))
   }"

inductive health_step :: "HealthConfig \<Rightarrow> health_env \<Rightarrow> health_module \<Rightarrow> health_module \<Rightarrow> bool" for cfg env where
  interval: "health_step cfg env m (snd (run_state (runCycle cfg env) m))"
| started: "Reconcile_start cfg m = Some m' \<Longrightarrow> health_step cfg env m m'"
| finished: "reconcileCycleRunning m \<Longrightarrow> health_step cfg env m (snd (run_state (Reconcile_cycle cfg env) m))"

inductive_simps health_step_iff: "health_step cfg env m m'"

section \<open>What a cycle leaves alone\<close>

text \<open>The parts of the module that only a committed cycle changes.\<close>

definition committed :: "health_module \<Rightarrow> (string \<rightharpoonup> wanStatus) \<times> string option \<times> notifier \<times> bool \<times> bool" where
  "committed m = (statuses m, state_file m, hm_ntf m, reconcilePending m, reconcileCycleRunning m)"

abbreviation same_commit :: "(string \<rightharpoonup> wanStatus) \<times> string option \<times> notifier \<times> bool \<times> bool \<Rightarrow> health_module \<Rightarrow> bool" where
  "same_commit c m \<equiv> committed m = c"

lemma keeps_commit [keeps_rules]:
  "keeps (same_commit c) (answer f)"
  "keeps (same_commit c) (out e)"
  "keeps (same_commit c) (modify (families_update g))"
  "keeps (same_commit c) (modify (lastTransition_update h))"
  by (simp_all add: keeps_def committed_def answer_def out_def)

lemma commit_ping [keeps_rules]: "keeps (same_commit c) (ping_target n probe)"
  by (induction n) (auto intro!: keeps_rules)

lemma commit_targets [keeps_rules]: "keeps (same_commit c) (probe_targets n probe ts)"
  by (induction ts) (auto intro!: keeps_rules)

lemma commit_urls [keeps_rules]: "keeps (same_commit c) (probe_urls probe us)"
  by (induction us) (auto intro!: keeps_rules)

lemma commit_probeWAN [keeps_rules]: "keeps (same_commit c) (probeWAN cfg env wan)"
  unfolding probeWAN_def probeTargets_def probeHTTPURLs_def by (intro keeps_rules)

lemma commit_families [keeps_rules]: "keeps (same_commit c) (advanceFamilies cfg env wan r)"
  unfolding advanceFamilies_def by (intro keeps_rules)

section \<open>The loop of a cycle\<close>

definition change_of :: "(string \<rightharpoonup> wanStatus) \<Rightarrow> (string \<rightharpoonup> wanStatus) \<Rightarrow> WAN \<Rightarrow> health_transition" where
  "change_of sts sts' wan =
     \<lparr>tr_WAN = wan, tr_From = st_State (status_of sts (ref_Key wan)), tr_To = st_State (status_of sts' (ref_Key wan))\<rparr>"

definition changes :: "(string \<rightharpoonup> wanStatus) \<Rightarrow> (string \<rightharpoonup> wanStatus) \<Rightarrow> WAN list \<Rightarrow> health_transition list" where
  "changes sts sts' wans = map (change_of sts sts') (filter (\<lambda>wan. tr_From (change_of sts sts' wan) \<noteq> tr_To (change_of sts sts' wan)) wans)"

lemma changes_Cons:
  "changes sts sts' (wan # wans) =
     (if st_State (status_of sts (ref_Key wan)) \<noteq> st_State (status_of sts' (ref_Key wan)) then [change_of sts sts' wan] else []) @
     changes sts sts' wans"
  by (simp add: changes_def change_of_def)

text \<open>One status advanced by one cycle of the provider.\<close>

definition advanced :: "HealthConfig \<Rightarrow> (string \<rightharpoonup> wanStatus) \<Rightarrow> (string \<rightharpoonup> wanStatus) \<Rightarrow> WAN \<Rightarrow> bool" where
  "advanced cfg sts sts' wan \<longleftrightarrow>
     (\<exists>passed. sts' (ref_Key wan) =
        Some (fst (advanceHealth (status_of sts (ref_Key wan)) passed (failureThreshold wan cfg) (recoveryThreshold wan cfg))))"

lemma cycle_loop_run:
  assumes "run_state (cycle_loop cfg env wans sts trs results fc) m = ((sts', trs', results', fc'), m')"
    and "distinct (map ref_Key wans)"
  shows "committed m' = committed m \<and> (\<forall>k. k \<notin> ref_Key ` set wans \<longrightarrow> sts' k = sts k) \<and>
    (\<forall>wan\<in>set wans. advanced cfg sts sts' wan) \<and> trs' = trs @ changes sts sts' wans"
  using assms
proof (induction wans arbitrary: sts trs results fc m)
  case Nil
  then show ?case
    by (simp add: changes_def)
next
  case (Cons wan wans)
  let ?k = "ref_Key wan" and ?cur = "status_of sts (ref_Key wan)"
  obtain result m1 where probe: "run_state (probeWAN cfg env wan) m = (result, m1)"
    by fastforce
  obtain fam m2 where fam: "run_state (advanceFamilies cfg env wan result) m1 = (fam, m2)"
    by fastforce
  obtain nxt changed where adv:
    "advanceHealth ?cur (Passed result) (failureThreshold wan cfg) (recoveryThreshold wan cfg) = (nxt, changed)"
    by fastforce
  have changed: "changed \<longleftrightarrow> st_State nxt \<noteq> st_State ?cur"
    using adv by (auto simp: advanceHealth_def Let_def)
  define m3 where "m3 = (if changed then snd (run_state (do { t \<leftarrow> answer (p_now env);
       modify (lastTransition_update (\<lambda>l. l(?k \<mapsto> t))) }) m2) else m2)"
  have "committed m3 = committed m2"
    by (simp add: m3_def answer_def committed_def)
  moreover have "committed m1 = committed m"
    using keepsD [OF commit_probeWAN _ probe] by blast
  moreover have "committed m2 = committed m1"
    using keepsD [OF commit_families _ fam] by blast
  ultimately have commit: "committed m3 = committed m"
    by simp
  have rest: "run_state (cycle_loop cfg env wans (sts(?k \<mapsto> nxt))
      (if changed then trs @ [\<lparr>tr_WAN = wan, tr_From = st_State ?cur, tr_To = st_State nxt\<rparr>] else trs)
      (results(?k \<mapsto> result)) (fam \<or> fc)) m3 = ((sts', trs', results', fc'), m')"
    using Cons.prems(1) probe fam adv by (auto simp: m3_def answer_def Let_def split: if_splits)
  have distinct: "distinct (map ref_Key wans)" "?k \<notin> ref_Key ` set wans"
    using Cons.prems(2) by auto
  note IH = Cons.IH [OF rest distinct(1)]
  have own: "sts' ?k = Some nxt"
    using IH distinct(2) by simp
  have other: "status_of (sts(?k \<mapsto> nxt)) (ref_Key w) = status_of sts (ref_Key w)" if "w \<in> set wans" for w
    using imageI [OF that, of ref_Key] distinct(2) by (auto simp: status_of_def)
  have same: "changes (sts(?k \<mapsto> nxt)) sts' wans = changes sts sts' wans"
    unfolding changes_def change_of_def using other by (auto intro!: map_cong filter_cong)
  have own': "status_of sts' ?k = nxt"
    by (simp add: status_of_def own)
  have "trs' = (if changed then trs @ [\<lparr>tr_WAN = wan, tr_From = st_State ?cur, tr_To = st_State nxt\<rparr>] else trs) @
      changes sts sts' wans"
    using IH unfolding same by blast
  then have "trs' = trs @ changes sts sts' (wan # wans)"
    unfolding changes_Cons own' changed by (simp add: change_of_def own' split: if_splits)
  moreover have "advanced cfg sts sts' wan"
    unfolding advanced_def own using adv by (metis fst_conv)
  moreover have "advanced cfg sts sts' w" if "w \<in> set wans" for w
  proof -
    have "advanced cfg (sts(?k \<mapsto> nxt)) sts' w"
      using IH that by blast
    then show ?thesis
      unfolding advanced_def other [OF that] .
  qed
  ultimately show ?case
    using IH commit distinct(2) by auto
qed

section \<open>The alerts of a cycle\<close>

text \<open>\<open>alerts_show cur n\<close>: the notifier is a manager whose open health alerts are those of the unhealthy keys.\<close>

definition alerts_show :: "(string \<Rightarrow> string) \<Rightarrow> notifier \<Rightarrow> bool" where
  "alerts_show cur n \<longleftrightarrow> (\<exists>mgr. n = ManagerNotifier mgr) \<and>
     (\<forall>k. Active alertKindWANUnhealthy k n \<longleftrightarrow> cur k = StateUnhealthy)"

lemma Active_open: "Active kind k (ManagerNotifier mgr) \<longleftrightarrow> open_alert (alert_id kind k) mgr"
  by (simp add: Manager_Active_def open_alert_def)

lemma alert_id_eq [simp]: "alert_id kind k = alert_id kind k' \<longleftrightarrow> k = k'"
  by (simp add: alert_id_def)

lemma Active_Notify:
  assumes "IsRecovery ev = False" and "Kind ev = kind"
  shows "Active kind k (Notify t ev (ManagerNotifier mgr)) \<longleftrightarrow> k = Key ev \<or> Active kind k (ManagerNotifier mgr)"
  using notify_book.open_serve [of "alert_id kind k" "ReqNotify t ev" mgr] assms
  by (auto simp: Active_open simp del: Active.simps)

lemma Active_Resolve:
  "Active kind k (Resolve t kind key msg (ManagerNotifier mgr)) \<longleftrightarrow> k \<noteq> key \<and> Active kind k (ManagerNotifier mgr)"
  using notify_book.open_serve [of "alert_id kind k" "ReqResolve t kind key msg" mgr]
  by (auto simp: Active_open simp del: Active.simps)

lemma notifier_stays:
  "\<exists>mgr'. Notify t ev (ManagerNotifier mgr) = ManagerNotifier mgr'"
  "\<exists>mgr'. Resolve t kind key msg (ManagerNotifier mgr) = ManagerNotifier mgr'"
  by simp_all

lemma emit_shows:
  assumes "alerts_show cur (hm_ntf m)" and "has_Alerts env" and "tr_From tr = cur (ref_Key (tr_WAN tr))"
    and "tr_From tr \<noteq> tr_To tr" and "tr_To tr = StateHealthy \<or> tr_To tr = StateUnhealthy"
  shows "alerts_show (cur(ref_Key (tr_WAN tr) := tr_To tr)) (hm_ntf (snd (run_state (emitTransition env tr) m)))"
proof -
  obtain mgr where mgr: "hm_ntf m = ManagerNotifier mgr"
    using assms(1) by (auto simp: alerts_show_def)
  then have "open": "Active alertKindWANUnhealthy k (ManagerNotifier mgr) \<longleftrightarrow> cur k = StateUnhealthy" for k
    using assms(1) by (simp add: alerts_show_def)
  obtain t ev where ev: "IsRecovery ev = False" "Kind ev = alertKindWANUnhealthy" "Key ev = ref_Key (tr_WAN tr)"
    and ntf: "hm_ntf (snd (run_state (emitTransition env tr) m)) =
      (if tr_To tr = StateUnhealthy then Notify t ev (ManagerNotifier mgr)
       else if tr_From tr \<noteq> StateUnknown then Resolve t alertKindWANUnhealthy (ref_Key (tr_WAN tr)) ''health: WAN recovered'' (ManagerNotifier mgr)
       else ManagerNotifier mgr)"
  proof
    show "hm_ntf (snd (run_state (emitTransition env tr) m)) =
      (if tr_To tr = StateUnhealthy
       then Notify (p_now env (Suc (hm_tick m))) \<lparr>Now = p_now env (hm_tick m), Level = LevelWarn, Kind = alertKindWANUnhealthy,
            Key = ref_Key (tr_WAN tr), Message = ''health: WAN became unhealthy'', IsRecovery = False\<rparr> (ManagerNotifier mgr)
       else if tr_From tr \<noteq> StateUnknown
       then Resolve (p_now env (Suc (hm_tick m))) alertKindWANUnhealthy (ref_Key (tr_WAN tr)) ''health: WAN recovered'' (ManagerNotifier mgr)
       else ManagerNotifier mgr)"
      using assms(2,5) mgr
      by (cases "has_LiveState env"; cases "has_RequestReconcile env")
         (simp_all add: emitTransition_def emit_alert_def out_def answer_def disj_imp)
  qed simp_all
  have "tr_To tr \<noteq> StateUnhealthy \<Longrightarrow> tr_From tr = StateUnknown \<Longrightarrow> cur (ref_Key (tr_WAN tr)) \<noteq> StateUnhealthy"
    using assms(3) by (simp add: state_defs)
  then show ?thesis
    unfolding ntf alerts_show_def using notifier_stays "open" Active_Notify [OF ev(1,2)] ev(3)
    by (auto simp: Active_Resolve simp del: Active.simps Notify.simps Resolve.simps)
qed

lemma emit_all_shows:
  assumes "alerts_show (\<lambda>k. st_State (status_of sts k)) (hm_ntf m)" and "has_Alerts env" and "distinct (map ref_Key wans)"
    and "\<And>wan. wan \<in> set wans \<Longrightarrow> st_State (status_of sts' (ref_Key wan)) \<in> {st_State (status_of sts (ref_Key wan)), StateHealthy, StateUnhealthy}"
    and "\<And>k. k \<notin> ref_Key ` set wans \<Longrightarrow> sts' k = sts k" and "\<And>wan. wan \<in> set wans \<Longrightarrow> sts' (ref_Key wan) \<noteq> None"
  shows "alerts_show (\<lambda>k. st_State (status_of sts' k)) (hm_ntf (snd (run_state (forM (changes sts sts' wans) (emitTransition env)) m)))"
  using assms
proof (induction wans arbitrary: sts m)
  case Nil
  then have "sts' = sts"
    by auto
  with Nil show ?case
    by (simp add: changes_def)
next
  case (Cons wan wans)
  let ?k = "ref_Key wan"
  define sts1 where "sts1 = sts(?k \<mapsto> status_of sts' ?k)"
  have cur1: "(\<lambda>k. st_State (status_of sts1 k)) = (\<lambda>k. st_State (status_of sts k))(?k := st_State (status_of sts' ?k))"
    by (auto simp: sts1_def status_of_def)
  have "?k \<notin> ref_Key ` set wans"
    using Cons.prems(3) by auto
  then have same: "status_of sts1 (ref_Key w) = status_of sts (ref_Key w)" if "w \<in> set wans" for w
    using imageI [OF that, of ref_Key] by (auto simp: sts1_def status_of_def)
  then have changes: "changes sts1 sts' wans = changes sts sts' wans"
    unfolding changes_def change_of_def by (auto intro!: map_cong filter_cong)
  define m1 where "m1 = (if st_State (status_of sts ?k) \<noteq> st_State (status_of sts' ?k)
     then snd (run_state (emitTransition env (change_of sts sts' wan)) m) else m)"
  have "alerts_show (\<lambda>k. st_State (status_of sts1 k)) (hm_ntf m1)"
  proof (cases "st_State (status_of sts ?k) = st_State (status_of sts' ?k)")
    case True
    then show ?thesis
      using Cons.prems(1) by (simp add: m1_def cur1 fun_upd_idem)
  next
    case False
    then show ?thesis
      unfolding cur1 m1_def
      using emit_shows [OF Cons.prems(1,2), of "change_of sts sts' wan"] Cons.prems(4) [of wan] by (auto simp: change_of_def)
  qed
  moreover have "sts' k = sts1 k" if "k \<notin> ref_Key ` set wans" for k
    using that Cons.prems(5) [of k] Cons.prems(6) [of wan] by (auto simp: sts1_def status_of_def)
  moreover have "st_State (status_of sts' (ref_Key w)) \<in> {st_State (status_of sts1 (ref_Key w)), StateHealthy, StateUnhealthy}"
    if "w \<in> set wans" for w
    using Cons.prems(4) [of w] that same [OF that] by simp
  ultimately have "alerts_show (\<lambda>k. st_State (status_of sts' k)) (hm_ntf (snd (run_state (forM (changes sts1 sts' wans) (emitTransition env)) m1)))"
    using Cons.IH [of sts1 m1] Cons.prems(2,3,6) by simp
  then show ?case
    unfolding changes changes_Cons m1_def by (simp add: forM_Cons_state del: forM.simps split: if_splits)
qed

section \<open>A whole cycle\<close>

lemma advance_result: "st_State (fst (advanceHealth s p f r)) \<in> {st_State s, StateHealthy, StateUnhealthy}"
  by (simp add: advanceHealth_def Let_def)

lemma advanced_state:
  assumes "advanced cfg sts sts' wan"
  shows "st_State (status_of sts' (ref_Key wan)) \<in> {st_State (status_of sts (ref_Key wan)), StateHealthy, StateUnhealthy}"
    and "sts' (ref_Key wan) \<noteq> None"
proof -
  obtain passed where nxt: "sts' (ref_Key wan) =
      Some (fst (advanceHealth (status_of sts (ref_Key wan)) passed (failureThreshold wan cfg) (recoveryThreshold wan cfg)))"
    using assms unfolding advanced_def by blast
  then show "sts' (ref_Key wan) \<noteq> None"
    by simp
  from nxt have "status_of sts' (ref_Key wan) =
      fst (advanceHealth (status_of sts (ref_Key wan)) passed (failureThreshold wan cfg) (recoveryThreshold wan cfg))"
    by (simp add: status_of_def)
  then show "st_State (status_of sts' (ref_Key wan)) \<in> {st_State (status_of sts (ref_Key wan)), StateHealthy, StateUnhealthy}"
    using advance_result by simp
qed

text \<open>After the commit only alerts and outputs change.\<close>

definition kept :: "health_module \<Rightarrow> (string \<rightharpoonup> wanStatus) \<times> string option \<times> bool \<times> bool" where
  "kept m = (statuses m, state_file m, reconcilePending m, reconcileCycleRunning m)"

lemma keeps_kept:
  "keeps (\<lambda>m. kept m = c) (answer f)"
  "keeps (\<lambda>m. kept m = c) (out e)"
  "keeps (\<lambda>m. kept m = c) (modify (hm_ntf_update g))"
  by (simp_all add: keeps_def kept_def answer_def out_def)

lemma kept_emit: "keeps (\<lambda>m. kept m = c) (emitTransition env tr)"
  unfolding emitTransition_def emit_alert_def by (intro keeps_kept keeps_rules)

lemma kept_after:
  "kept (snd (run_state (forM trs (emitTransition env)) m)) = kept m"
proof -
  have "keeps (\<lambda>x. kept x = kept m) (forM trs (emitTransition env))"
    by (intro keeps_forM kept_emit)
  from keeps_run [OF this refl] show ?thesis .
qed

lemma report_same:
  "kept (snd (run_state (publishLiveState cfg env sts results) m)) = kept m"
  "hm_ntf (snd (run_state (publishLiveState cfg env sts results) m)) = hm_ntf m"
  "kept (snd (run_state (pushStatus cfg env sts) m)) = kept m"
  "hm_ntf (snd (run_state (pushStatus cfg env sts) m)) = hm_ntf m"
  "kept (snd (run_state (whenM b (out e)) m)) = kept m"
  "hm_ntf (snd (run_state (whenM b (out e)) m)) = hm_ntf m"
  by (simp_all add: publishLiveState_def pushStatus_def out_def answer_def kept_def)

lemma runCycle_run:
  assumes run: "run_state (runCycle cfg env) m = (err, m')" and "distinct (map ref_Key (WANs cfg))"
  obtains (failed) e where "err = Some e" and "committed m' = committed m"
  | (commit) sts' m0 where "err = None"
      and "kept m' = (sts', Some (serializeState cfg sts'), reconcilePending m, reconcileCycleRunning m)"
      and "\<And>wan. wan \<in> set (WANs cfg) \<Longrightarrow> advanced cfg (statuses m) sts' wan"
      and "\<And>k. k \<notin> ref_Key ` set (WANs cfg) \<Longrightarrow> sts' k = statuses m k"
      and "hm_ntf m' = hm_ntf (snd (run_state (forM (changes (statuses m) sts' (WANs cfg)) (emitTransition env)) m0))"
      and "hm_ntf m0 = hm_ntf m"
proof -
  obtain sts' trs results fc m1 where loop:
    "run_state (cycle_loop cfg env (WANs cfg) (statuses m) [] Map.empty False) m = ((sts', trs, results, fc), m1)"
    by (metis prod.exhaust)
  note L = cycle_loop_run [OF loop assms(2)]
  then have trs: "trs = changes (statuses m) sts' (WANs cfg)"
    by simp
  define m2 where "m2 = hm_tick_update Suc m1"
  show thesis
  proof (cases "p_write env (hm_tick m1)")
    case False
    then have "err \<noteq> None" "m' = m2"
      using run loop by (auto simp: runCycle_def writeStateFile_def answer_def m2_def)
    then show thesis
      using failed L by (auto simp: m2_def committed_def)
  next
    case True
    define m3 where "m3 = m2\<lparr>state_file := Some (serializeState cfg sts'), statuses := sts'\<rparr>"
    define m4 where "m4 = snd (run_state (publishLiveState cfg env sts' results) m3)"
    define m5 where "m5 = snd (run_state (forM trs (emitTransition env)) m4)"
    define m6 where "m6 = snd (run_state (whenM (fc \<and> has_RequestReconcile env)
       (out (RequestReconcile ''health address family verdict changed''))) m5)"
    have end_state: "err = None" "m' = snd (run_state (pushStatus cfg env sts') m6)"
      using run loop True
      by (simp_all add: runCycle_def writeStateFile_def answer_def m2_def m3_def m4_def m5_def m6_def split_beta
          del: run_state_whenM)
    have "kept m' = kept m3"
      by (simp add: end_state(2) report_same m6_def m5_def kept_after m4_def del: run_state_whenM)
    moreover have "kept m3 = (sts', Some (serializeState cfg sts'), reconcilePending m, reconcileCycleRunning m)"
      using L by (simp add: kept_def m3_def m2_def committed_def)
    moreover have "hm_ntf m' = hm_ntf m5"
      by (simp add: end_state(2) report_same m6_def del: run_state_whenM)
    moreover have "hm_ntf m4 = hm_ntf m"
      using L by (simp add: m4_def report_same m3_def m2_def committed_def)
    ultimately show thesis
      using commit [of sts' m4] end_state(1) L trs by (simp add: m5_def)
  qed
qed

end
