(* ===== verification/HealthSafety.thy ===== *)
theory HealthSafety
  imports HealthCycle
begin

text \<open>
  Properties of the health module over any number of cycles: the state file, the alerts and the
  pushed status always show the committed verdicts, for connection identifiers that the
  configuration loader accepts.
\<close>

section \<open>The state file reads back\<close>

definition shown_state :: "(string \<rightharpoonup> wanStatus) \<Rightarrow> string \<Rightarrow> string" where
  "shown_state sts k = (case sts k of
     None \<Rightarrow> StateUnknown
   | Some s \<Rightarrow> if state_Valid (st_State s) then st_State s else StateUnknown)"

definition state_line :: "(string \<rightharpoonup> wanStatus) \<Rightarrow> WAN \<Rightarrow> string" where
  "state_line sts wan = ref_Key wan @ CHR '':'' # shown_state sts (ref_Key wan)"

lemma serializeState_lines:
  "serializeState cfg sts = concat (map (\<lambda>wan. state_line sts wan @ [newline]) (WANs cfg))"
  by (simp add: serializeState_def state_line_def shown_state_def Let_def)

lemma shown_state_cases: "shown_state sts k \<in> {StateUnknown, StateHealthy, StateUnhealthy}"
  by (auto simp: shown_state_def state_Valid_def split: option.splits)

lemma shown_state_text:
  "trimmed (shown_state sts k)" "shown_state sts k \<noteq> []" "newline \<notin> set (shown_state sts k)" "length (shown_state sts k) \<le> 9"
proof -
  have "trimmed s \<and> s \<noteq> [] \<and> newline \<notin> set s \<and> length s \<le> 9" if "s \<in> {StateUnknown, StateHealthy, StateUnhealthy}" for s
    using that by (auto simp: state_defs trimmed_def is_space_def newline_def)
  then show "trimmed (shown_state sts k)" "shown_state sts k \<noteq> []" "newline \<notin> set (shown_state sts k)"
    "length (shown_state sts k) \<le> 9"
    using shown_state_cases by blast+
qed

text \<open>A key that the loader accepts and that leaves room for the verdict in one scanner token.\<close>

definition key_fits :: "string \<Rightarrow> bool" where
  "key_fits k \<longleftrightarrow> \<not> bad_id k \<and> length k < 65526"

lemma key_fits_text:
  assumes "key_fits k"
  shows "k \<noteq> []" "trim_space k = k" "CHR '':'' \<notin> set k" "newline \<notin> set k" "length k < 65526"
  using assms by (auto simp: key_fits_def bad_id_def list_ex_iff forbidden_chars_def newline_def)

lemma split_lines:
  "\<forall>l\<in>set ls. newline \<notin> set l \<Longrightarrow> split_at newline (concat (map (\<lambda>l. l @ [newline]) ls)) = ls @ [[]]"
  by (induction ls) (simp_all add: split_at_append)

lemma state_line_scan:
  assumes "key_fits (ref_Key wan)"
  shows "scan_states (state_line sts wan # ls) states =
    scan_states ls (states(ref_Key wan \<mapsto> shown_state sts (ref_Key wan)))"
proof -
  note key = key_fits_text [OF assms] and state = shown_state_text [of sts "ref_Key wan"]
  have "trimmed (ref_Key wan)"
    using trimmed_trim_space [of "ref_Key wan"] key(2) by simp
  then have "trimmed (state_line sts wan)"
    unfolding state_line_def using trimmed_append [OF key(1) _ state(2,1), of "[CHR '':'']"] by simp
  then show ?thesis
    using key state by (simp add: state_line_def trim_space_trimmed cut_append max_token_def)
qed

lemma scan_lines:
  assumes "list_all (\<lambda>wan. key_fits (ref_Key wan)) wans"
  shows "scan_states (map (state_line sts) wans @ [[]]) states =
    Inr (\<lambda>k. if k \<in> ref_Key ` set wans then Some (shown_state sts k) else states k)"
  using assms
proof (induction wans arbitrary: states)
  case Nil
  then show ?case
    by (simp add: trim_space_def trim_left_def trim_right_def max_token_def)
next
  case (Cons wan wans)
  then show ?case
    by (simp add: state_line_scan del: scan_states.simps) auto
qed

lemma state_file_reads_back:
  assumes "list_all (\<lambda>wan. key_fits (ref_Key wan)) (WANs cfg)"
  shows "ReadHealthState True (Some (serializeState cfg sts)) =
    Inr (\<lambda>k. if k \<in> ref_Key ` set (WANs cfg) then Some (shown_state sts k) else None)"
proof -
  have "newline \<notin> set (state_line sts wan)" if "wan \<in> set (WANs cfg)" for wan
    using assms that key_fits_text(4) shown_state_text(3) by (auto simp: state_line_def list_all_iff newline_def)
  then have "split_at newline (serializeState cfg sts) = map (state_line sts) (WANs cfg) @ [[]]"
    using split_lines [of "map (state_line sts) (WANs cfg)"] by (simp add: serializeState_lines o_def)
  then show ?thesis
    using scan_lines [OF assms] by (simp add: ReadHealthState_def)
qed

section \<open>The invariant\<close>

definition health_inv :: "HealthConfig \<Rightarrow> health_env \<Rightarrow> health_module \<Rightarrow> bool" where
  "health_inv cfg env m \<longleftrightarrow>
     list_all (\<lambda>wan. case statuses m (ref_Key wan) of None \<Rightarrow> False | Some s \<Rightarrow> state_Valid (st_State s)) (WANs cfg) \<and>
     state_file m = Some (serializeState cfg (statuses m)) \<and>
     (has_Alerts env \<longrightarrow> alerts_show (\<lambda>k. st_State (status_of (statuses m) k)) (hm_ntf m))"

lemma health_inv_commit:
  "committed m' = committed m \<Longrightarrow> health_inv cfg env m' = health_inv cfg env m"
  by (simp add: health_inv_def committed_def)

lemma advanced_valid:
  assumes "advanced cfg sts sts' wan" and "case sts (ref_Key wan) of None \<Rightarrow> False | Some s \<Rightarrow> state_Valid (st_State s)"
  shows "case sts' (ref_Key wan) of None \<Rightarrow> False | Some s \<Rightarrow> state_Valid (st_State s)"
proof -
  obtain s s' where "sts (ref_Key wan) = Some s" "sts' (ref_Key wan) = Some s'" "state_Valid (st_State s)"
    using assms(2) advanced_state(2) [OF assms(1)] by (auto split: option.splits)
  then show ?thesis
    using advanced_state(1) [OF assms(1)] by (auto simp: status_of_def state_Valid_def)
qed

lemma runCycle_inv:
  assumes "distinct (map ref_Key (WANs cfg))"
  shows "keeps (health_inv cfg env) (runCycle cfg env)"
proof (rule keepsI)
  fix m err m'
  assume inv: "health_inv cfg env m" and run: "run_state (runCycle cfg env) m = (err, m')"
  from run assms show "health_inv cfg env m'"
  proof (cases rule: runCycle_run)
    case (failed e)
    then show ?thesis
      using inv health_inv_commit [of m' m] by simp
  next
    case (commit sts' m0)
    have "alerts_show (\<lambda>k. st_State (status_of sts' k)) (hm_ntf m')" if "has_Alerts env"
      unfolding commit(5)
    proof (rule emit_all_shows [OF _ that assms])
      show "alerts_show (\<lambda>k. st_State (status_of (statuses m) k)) (hm_ntf m0)"
        using inv that commit(6) by (simp add: health_inv_def)
    qed (use commit(3,4) advanced_state in blast)+
    moreover have "list_all (\<lambda>wan. case sts' (ref_Key wan) of None \<Rightarrow> False | Some s \<Rightarrow> state_Valid (st_State s)) (WANs cfg)"
      unfolding list_all_iff
    proof
      fix wan
      assume wan: "wan \<in> set (WANs cfg)"
      have "case statuses m (ref_Key wan) of None \<Rightarrow> False | Some s \<Rightarrow> state_Valid (st_State s)"
        using inv wan by (simp add: health_inv_def list_all_iff)
      then show "case sts' (ref_Key wan) of None \<Rightarrow> False | Some s \<Rightarrow> state_Valid (st_State s)"
        by (rule advanced_valid [OF commit(3) [OF wan]])
    qed
    ultimately show ?thesis
      using commit(2) by (simp add: health_inv_def kept_def)
  qed
qed

lemma step_inv:
  assumes "health_step cfg env m m'" and "distinct (map ref_Key (WANs cfg))" and "health_inv cfg env m"
  shows "health_inv cfg env m'"
  using assms
proof (cases rule: health_step.cases)
  case interval
  then show ?thesis
    using keeps_run [OF runCycle_inv [OF assms(2)] assms(3)] by simp
next
  case started
  then show ?thesis
    using assms(3) by (auto simp: Reconcile_start_def health_inv_def split: if_splits)
next
  case finished
  have "keeps (health_inv cfg env) (Reconcile_cycle cfg env)"
    unfolding Reconcile_cycle_def
    by (intro keeps_rules runCycle_inv [OF assms(2)] keeps_modify) (simp_all add: health_inv_def)
  from keeps_run [OF this assms(3)] finished(1) show ?thesis
    by simp
qed

lemma steps_inv:
  assumes "(health_step cfg env)\<^sup>*\<^sup>* m m'" and "distinct (map ref_Key (WANs cfg))" and "health_inv cfg env m"
  shows "health_inv cfg env m'"
  using assms by (induction rule: rtranclp_induct) (auto intro: step_inv)

lemma init_statuses_fold:
  "fold (\<lambda>wan m. m(ref_Key wan \<mapsto> x)) wans m k = (if k \<in> ref_Key ` set wans then Some x else m k)"
  by (induction wans arbitrary: m) auto

text \<open>A daemon that starts: a manager without an open health alert.\<close>

definition fresh_alerts :: "health_module \<Rightarrow> bool" where
  "fresh_alerts m \<longleftrightarrow> alerts_show (\<lambda>_. []) (hm_ntf m)"

lemma Init_inv:
  assumes "run_state (health_Init cfg env) m = (Initialized, m')" and "WANs cfg \<noteq> []" and "fresh_alerts m"
  shows "validateConfig cfg = [] \<and> health_inv cfg env m'"
proof -
  let ?sts = "fold (\<lambda>wan m. m(ref_Key wan \<mapsto> unknown_status)) (WANs cfg) Map.empty"
  have state: "st_State (status_of ?sts k) \<noteq> StateUnhealthy" for k
    by (simp add: init_statuses_fold status_of_def unknown_status_def zero_status_def state_defs)
  have m': "validateConfig cfg = []" "statuses m' = ?sts" "state_file m' = Some (serializeState cfg ?sts)" "hm_ntf m' = hm_ntf m"
    using assms(1,2) by (auto simp: health_Init_def initStatuses_def writeStateFile_def answer_def split: if_splits)
  have "alerts_show (\<lambda>k. st_State (status_of ?sts k)) (hm_ntf m)"
    using assms(3) state by (simp add: fresh_alerts_def alerts_show_def state_defs)
  then show ?thesis
    using m' by (simp add: health_inv_def list_all_iff init_statuses_fold unknown_status_def state_Valid_def)
qed

section \<open>Properties\<close>

lemma shown_valid:
  "health_inv cfg env m \<Longrightarrow> wan \<in> set (WANs cfg) \<Longrightarrow>
     shown_state (statuses m) (ref_Key wan) = st_State (status_of (statuses m) (ref_Key wan))"
  by (auto simp: health_inv_def list_all_iff shown_state_def status_of_def split: option.splits)


definition sample_wan :: WAN where
  "sample_wan = \<lparr>ref_ID = ''att'', ref_Name = ''AT&T'', Iface = ''eth1'', wan_Tier = 0, wan_TargetsV4 = None,
     wan_TargetsV6 = Some [], wan_HTTPURLs = [], wan_PingCount = 0, wan_SuccessThreshold = 0, wan_FailureThreshold = 1,
     wan_RecoveryThreshold = 0, wan_CheckInterval = 0\<rparr>"

definition sample_health :: HealthConfig where
  "sample_health = \<lparr>Observations = None, StateFile = ''/run/health'', TargetsV4 = [Addr4 1], TargetsV6 = [Addr6 1 []],
     HTTPURLs = [], Timeout = seconds 2, Interval = seconds 10, PingCount = 1, SuccessThreshold = 1, FailureThreshold = 2,
     RecoveryThreshold = 2, StatusPushCID = 2, StatusPushPort = 50053, WANs = [sample_wan]\<rparr>"

definition dead_env :: health_env where
  "dead_env = \<lparr>p_V4 = (\<lambda>_ _ _. False), p_V6 = (\<lambda>_ _ _. False), p_HTTP4 = (\<lambda>_ _ _. False), p_HTTP6 = (\<lambda>_ _ _. False),
     p_now = (\<lambda>_. 1), p_write = (\<lambda>_. True), has_LiveState = True, has_Alerts = True, has_RequestReconcile = True,
     has_VerifyDHCPv4 = True, has_pusher = True\<rparr>"

definition new_module :: health_module where
  "new_module = \<lparr>hm_tick = 0, statuses = Map.empty, families = Map.empty, lastTransition = Map.empty, reconcilePending = True,
     reconcileCycleRunning = False, state_file = None, hm_ntf = ManagerNotifier (newManager 0 Map.empty None), outs = []\<rparr>"

lemmas sample_health_defs = sample_health_def sample_wan_def dead_env_def new_module_def newManager_def
lemmas resolver_defs = targetsV4_def targetsV6_def httpURLs_def pingCount_def successThreshold_def failureThreshold_def
  recoveryThreshold_def ref_Key_def

lemma sample_started:
  "run_state (health_Init sample_health dead_env) new_module =
     (Initialized, new_module\<lparr>hm_tick := 1, statuses := [''att'' \<mapsto> unknown_status], state_file := Some (''att:unknown'' @ [newline])\<rparr>)"
  by (simp add: health_Init_def sample_health_defs validateConfig_def validateProbeConfig_def validateWANs_def validateWAN_def
      resolver_defs check_def initStatuses_def writeStateFile_def answer_def serializeState_def state_Valid_def
      unknown_status_def state_defs seconds_def nanosecond_per_second_def Let_def)


end
