(* ===== verification/HealthProbe.thy ===== *)
theory HealthProbe
  imports HealthSafety
begin

text \<open>
  What a probe cycle decides from the answers it gets, what it reports to the hypervisor, and a
  request that a failed write of the state file loses.
\<close>

section \<open>Counting answers\<close>

lemma ping_target_run:
  assumes "\<And>n. probe n = ok"
  shows "run_state (ping_target count probe) m = (0 < count \<and> ok, m\<lparr>hm_tick := hm_tick m + count\<rparr>)"
  using assms by (induction count arbitrary: m) (auto simp: answer_def)

lemma probe_targets_run:
  assumes "\<And>n t. probe n t = ok t" and "0 < count"
  shows "run_state (probe_targets count probe ts) m =
    (int (length (filter ok ts)), m\<lparr>hm_tick := hm_tick m + count * length ts\<rparr>)"
  using assms(2)
  by (induction ts arbitrary: m) (simp_all add: ping_target_run assms(1) algebra_simps)

lemma probe_urls_run:
  assumes "\<And>n u. probe n u = web u"
  shows "run_state (probe_urls probe us) m = (int (length (filter web us)), m\<lparr>hm_tick := hm_tick m + length us\<rparr>)"
  by (induction us arbitrary: m) (simp_all add: assms answer_def)

text \<open>The leg of one family.\<close>

definition leg_passes :: "int \<Rightarrow> (addr \<Rightarrow> bool) \<Rightarrow> (string \<Rightarrow> bool) \<Rightarrow> addr list \<Rightarrow> string list \<Rightarrow> bool" where
  "leg_passes threshold ok web targets urls \<longleftrightarrow>
     targets \<noteq> [] \<and> (threshold \<le> int (length (filter ok targets)) \<or> list_ex web urls)"

lemma one_le_filter: "Suc 0 \<le> length (filter P xs) \<longleftrightarrow> list_ex P xs"
  by (induction xs) auto

lemma probeWAN_run:
  assumes "\<And>n t. p_V6 env n (Iface wan) t = ok6 t" and "\<And>n t. p_V4 env n (Iface wan) t = ok4 t"
    and "\<And>n u. p_HTTP6 env n (Iface wan) u = web6 u" and "\<And>n u. p_HTTP4 env n (Iface wan) u = web4 u"
    and "0 < pingCount wan cfg"
  shows "let r = fst (run_state (probeWAN cfg env wan) m); th = successThreshold wan cfg; us = httpURLs wan cfg in
     V6Passed r = leg_passes th ok6 web6 (targetsV6 wan cfg) us \<and>
     V4Passed r = leg_passes th ok4 web4 (targetsV4 wan cfg) us \<and>
     Passed r = (V6Passed r \<or> V4Passed r)"
  using assms(5)
  by (simp add: probeWAN_def probeTargets_def probeHTTPURLs_def leg_passes_def Let_def one_le_filter
      probe_targets_run [where ok = ok6, OF assms(1)] probe_targets_run [where ok = ok4, OF assms(2)]
      probe_urls_run [where web = web6, OF assms(3)] probe_urls_run [where web = web4, OF assms(4)])

section \<open>Properties\<close>



definition pushed_states :: "HealthConfig \<Rightarrow> (string \<rightharpoonup> wanStatus) \<Rightarrow> HealthStates" where
  "pushed_states cfg sts = fold (\<lambda>wan m. m(ref_Key wan \<mapsto> shown_state sts (ref_Key wan))) (WANs cfg) Map.empty"

lemma pushed_states_apply:
  "pushed_states cfg sts k = (if k \<in> ref_Key ` set (WANs cfg) then Some (shown_state sts k) else None)"
proof -
  have "fold (\<lambda>wan m. m(ref_Key wan \<mapsto> shown_state sts (ref_Key wan))) wans m k =
      (if k \<in> ref_Key ` set wans then Some (shown_state sts k) else m k)" for wans :: "WAN list" and m
    by (induction wans arbitrary: m) auto
  then show ?thesis
    by (simp add: pushed_states_def)
qed

lemma cycle_pushes:
  assumes "run_state (runCycle cfg env) m = (None, m')" and "has_pusher env"
  shows "\<exists>t es. outs m' = PushStatus (NewStatus t (TierMembers cfg) (pushed_states cfg (statuses m'))) # es"
proof -
  obtain sts' trs results fc m1 where loop:
    "run_state (cycle_loop cfg env (WANs cfg) (statuses m) [] Map.empty False) m = ((sts', trs, results, fc), m1)"
    by (metis prod.exhaust)
  have written: "p_write env (hm_tick m1)"
    using assms(1) loop by (auto simp: runCycle_def writeStateFile_def answer_def split: if_splits)
  define m3 where "m3 = (hm_tick_update Suc m1)\<lparr>state_file := Some (serializeState cfg sts'), statuses := sts'\<rparr>"
  define m5 where "m5 = snd (run_state (forM trs (emitTransition env)) (snd (run_state (publishLiveState cfg env sts' results) m3)))"
  define m6 where "m6 = snd (run_state (whenM (fc \<and> has_RequestReconcile env)
       (out (RequestReconcile ''health address family verdict changed''))) m5)"
  have m': "m' = snd (run_state (pushStatus cfg env sts') m6)"
    using assms(1) loop written
    by (simp add: runCycle_def writeStateFile_def answer_def m3_def m5_def m6_def split_beta del: run_state_whenM)
  have "kept m6 = kept m3"
    by (simp add: report_same m6_def m5_def kept_after del: run_state_whenM)
  then have "statuses m6 = sts'" "statuses m' = sts'"
    using report_same(3) [of cfg env sts' m6] by (simp_all add: kept_def m3_def m')
  then show ?thesis
    using assms(2) by (auto simp: m' pushStatus_def answer_def out_def pushed_states_def shown_state_def)
qed

text \<open>
  C32: The hypervisor and the gateway decide from the same verdicts. After every cycle that commits,
  the last thing the module sends is a status that names for every provider the verdict that the
  state file reads back, and whose active tier is the tier that the readers of the file compute.
\<close>

theorem pushed_status_matches_file:
  assumes "run_state (runCycle cfg env) m = (None, m')" and "has_pusher env" and "validateConfig cfg = []"
    and "list_all (\<lambda>wan. key_fits (ref_Key wan)) (WANs cfg)"
  shows "\<exists>states msg es. ReadHealthState True (state_file m') = Inr states \<and> outs m' = PushStatus msg # es \<and>
     pm_ActiveTier msg = fst (ActiveTier (TierMembers cfg) states) \<and>
     list_all (\<lambda>wan. pm_Providers msg (ref_Key wan) = Some (health_State states (ref_Key wan))) (WANs cfg)"
proof -
  obtain t es where push: "outs m' = PushStatus (NewStatus t (TierMembers cfg) (pushed_states cfg (statuses m'))) # es"
    using cycle_pushes [OF assms(1,2)] by blast
  have "distinct (map ref_Key (WANs cfg))"
    using accepted_wans(2) [OF assms(3)] by (cases "WANs cfg") auto
  with assms(1) have file_content: "state_file m' = Some (serializeState cfg (statuses m'))"
    by (cases rule: runCycle_run) (auto simp: kept_def)
  have read: "ReadHealthState True (state_file m') = Inr (pushed_states cfg (statuses m'))"
    unfolding file_content state_file_reads_back [OF assms(4)] by (auto simp: pushed_states_apply)
  have names: "tm_Name ` set (TierMembers cfg) = ref_Key ` set (WANs cfg)"
    by (auto simp: TierMembers_def image_iff)
  let ?p = "pushed_states cfg (statuses m')"
  have shown: "health_State ?p (ref_Key wan) = shown_state (statuses m') (ref_Key wan)" if "wan \<in> set (WANs cfg)" for wan
    using that by (auto simp: health_State_def pushed_states_apply)
  have known: "recognized (shown_state sts k) = shown_state sts k" for sts k
    using shown_state_cases [of sts k] by (auto simp: recognized_def state_defs health_state_defs)
  have "pm_ActiveTier (NewStatus t (TierMembers cfg) ?p) = fst (ActiveTier (TierMembers cfg) ?p)"
    using active_tier_push by simp
  moreover have "list_all (\<lambda>wan. pm_Providers (NewStatus t (TierMembers cfg) ?p) (ref_Key wan) =
      Some (health_State ?p (ref_Key wan))) (WANs cfg)"
    by (auto simp: list_all_iff pushed_providers names shown known)
  ultimately show ?thesis
    using read push by blast
qed

lemmas cycle_defs = runCycle_def probeWAN_def probeTargets_def probeHTTPURLs_def advanceFamilies_def advanceFamily_def
  advanceHealth_def writeStateFile_def publishLiveState_def pushStatus_def emitTransition_def emit_alert_def resolver_defs
  answer_def out_def status_of_def

theorem pushed_status_matches_file_witness:
  "let m' = snd (run_state (runCycle sample_health dead_env) (snd (run_state (health_Init sample_health dead_env) new_module))) in
   \<exists>states msg es. ReadHealthState True (state_file m') = Inr states \<and> outs m' = PushStatus msg # es \<and>
     pm_Providers msg ''att'' = Some (health_State states ''att'')"
proof -
  define m where "m = snd (run_state (health_Init sample_health dead_env) new_module)"
  have "fst (run_state (runCycle sample_health dead_env) m) = None"
    unfolding m_def sample_started
    by (simp add: cycle_defs sample_health_defs zero_status_def zero_families_def unknown_status_def state_defs state_Valid_def Let_def)
  then obtain m' where run: "run_state (runCycle sample_health dead_env) m = (None, m')"
    by (metis prod.collapse)
  have "validateConfig sample_health = []"
    by (simp add: sample_health_defs validateConfig_def validateProbeConfig_def validateWANs_def validateWAN_def
      resolver_defs check_def seconds_def nanosecond_per_second_def Let_def)
  moreover have "list_all (\<lambda>wan. key_fits (ref_Key wan)) (WANs sample_health)"
    by (simp add: sample_health_defs key_fits_def ref_Key_def bad_id_def forbidden_chars_def trim_space_def
        trim_left_def trim_right_def is_space_def)
  moreover have "has_pusher dead_env"
    by (simp add: dead_env_def)
  ultimately have "\<exists>states msg es. ReadHealthState True (state_file m') = Inr states \<and> outs m' = PushStatus msg # es \<and>
      pm_Providers msg ''att'' = Some (health_State states ''att'')"
    using pushed_status_matches_file [OF run] by (fastforce simp: sample_health_def sample_wan_def ref_Key_def)
  then show ?thesis
    unfolding Let_def m_def [symmetric] run by simp
qed

section \<open>A request that is lost\<close>

text \<open>
  A cycle in which only one family changes its verdict asks the daemon to reconcile. When the write
  of the state file fails in that cycle the family verdict has already advanced, so the next cycle
  sees no change and the request is never made: both cycles together end with the changed family
  verdict and without a request.
\<close>

definition two_family_wan :: WAN where
  "two_family_wan = sample_wan\<lparr>wan_TargetsV6 := None, wan_RecoveryThreshold := 1\<rparr>"

definition ipv6_lost_env :: health_env where
  "ipv6_lost_env = dead_env\<lparr>p_V4 := (\<lambda>_ _ _. True), p_write := (\<lambda>n. n \<noteq> 2)\<rparr>"

definition healthy_status :: wanStatus where
  "healthy_status = \<lparr>st_State = StateHealthy, OKCount = 1, FailCount = 0\<rparr>"

lemma family_request_lost:
  "let cfg = sample_health\<lparr>WANs := [two_family_wan]\<rparr>;
       m0 = new_module\<lparr>statuses := [''att'' \<mapsto> healthy_status],
         families := [''att'' \<mapsto> \<lparr>fam_v4 = healthy_status, fam_v6 = healthy_status\<rparr>]\<rparr>;
       m1 = snd (run_state (runCycle cfg ipv6_lost_env) m0);
       m2 = snd (run_state (runCycle cfg ipv6_lost_env) m1) in
   fst (run_state (runCycle cfg ipv6_lost_env) m1) = None \<and>
   map_option (\<lambda>f. st_State (fam_v6 f)) (families m2 ''att'') = Some StateUnhealthy \<and>
   \<not> list_ex (\<lambda>e. case e of RequestReconcile _ \<Rightarrow> True | _ \<Rightarrow> False) (outs m2)"
  by (simp add: cycle_defs sample_health_defs two_family_wan_def ipv6_lost_env_def healthy_status_def
      state_defs state_Valid_def Let_def)

end
