(* ===== verification/GoPrefix.thy ===== *)
theory GoPrefix
  imports GoNet
begin

text \<open>
  The \<^verbatim>\<open>netip.Prefix\<close> of Go's standard library as the modelled code uses it: parsing, masking and
  membership. A prefix is an address without a zone and a number of bits; all invalid prefixes are
  the zero prefix \<open>(NoAddr, 0)\<close>.
\<close>

type_synonym prefix = "addr \<times> nat"

fun addr_bits :: "addr \<Rightarrow> nat" where
  "addr_bits NoAddr = 0"
| "addr_bits (Addr4 _) = 32"
| "addr_bits (Addr6 _ _) = 128"

fun addr_value :: "addr \<Rightarrow> int" where
  "addr_value NoAddr = 0"
| "addr_value (Addr4 v) = v"
| "addr_value (Addr6 v _) = v"

fun addr_zone :: "addr \<Rightarrow> string" where
  "addr_zone (Addr6 _ z) = z"
| "addr_zone _ = []"

fun without_zone :: "addr \<Rightarrow> addr" where
  "without_zone (Addr6 v _) = Addr6 v []"
| "without_zone a = a"

definition prefix_from :: "addr \<Rightarrow> nat \<Rightarrow> prefix" where
  "prefix_from ip bits = (if addr_valid ip \<and> bits \<le> addr_bits ip then (without_zone ip, bits) else (NoAddr, 0))"

definition parse_prefix :: "string \<Rightarrow> prefix option" where
  "parse_prefix s =
     (case cut_last (CHR ''/'') s of
        None \<Rightarrow> None
      | Some (a, bits) \<Rightarrow>
          (case parse_addr a of
             None \<Rightarrow> None
           | Some ip \<Rightarrow>
               if addr_zone ip \<noteq> [] then None
               else if 1 < length bits \<and> (\<not> is_digit (hd bits) \<or> hd bits = CHR ''0'') then None
               else (case parse_int bits of
                       ParseOk n \<Rightarrow> if n < 0 \<or> int (addr_bits ip) < n then None else Some (ip, nat n)
                     | _ \<Rightarrow> None)))"

definition keep_bits :: "nat \<Rightarrow> nat \<Rightarrow> int \<Rightarrow> int" where
  "keep_bits width bits v = (v div 2 ^ (width - bits)) * 2 ^ (width - bits)"

fun masked :: "prefix \<Rightarrow> prefix" where
  "masked (NoAddr, n) = (NoAddr, n)"
| "masked (Addr4 v, n) = (Addr4 (keep_bits 32 n v), n)"
| "masked (Addr6 v z, n) = (Addr6 (keep_bits 128 n v) z, n)"

definition prefix_contains :: "prefix \<Rightarrow> addr \<Rightarrow> bool" where
  "prefix_contains p a \<longleftrightarrow>
     (case p of (b, n) \<Rightarrow>
        addr_bits b = addr_bits a \<and> addr_bits a \<noteq> 0 \<and> addr_zone a = [] \<and>
        keep_bits (addr_bits a) n (addr_value a) = keep_bits (addr_bits a) n (addr_value b))"

lemma masked_family [simp]: "addr_is4 (fst (masked p)) = addr_is4 (fst p)"
  by (cases p rule: masked.cases) simp_all

lemma masked_bits [simp]: "snd (masked p) = snd p"
  by (cases p rule: masked.cases) simp_all

lemma keep_bits_idem [simp]: "keep_bits w n (keep_bits w n v) = keep_bits w n v"
  by (simp add: keep_bits_def)

lemma masked_idem [simp]: "masked (masked p) = masked p"
  by (cases p rule: masked.cases) simp_all

lemma masked_contains [simp]: "prefix_contains (masked p) a = prefix_contains p a"
  by (cases p rule: masked.cases) (auto simp: prefix_contains_def)

end
