(* ===== verification/Steering.thy ===== *)
theory Steering
  imports HealthState GoPrefix "HOL-Library.Multiset"
begin

text \<open>
  The steering module (\<^verbatim>\<open>internal/ifmgr/modules/steering\<close>): which rules it programs from the health
  state file and the readiness that routing and translation published. Prefixes are an address
  with a length; marks are 32-bit words. A rule either assigns a mark to a new connection or, with
  a \<open>DropIface\<close>, guards the egress of a provider. The text of a rule is not modelled.
\<close>

type_synonym mark = "32 word"

record steer_Member = WANRef +
  SelectionEnabled :: "bool option"
  Mark :: mark
  mem_Tier :: tier
  Weight :: int

record steer_Config =
  InternalIface :: string
  InternalNetV4 :: string
  InternalPrefix :: string
  OpnsenseEdgeV6 :: string
  HashMode :: string
  HealthStateFile :: string
  Members :: "steer_Member list"

definition hashModeRandom :: string where "hashModeRandom = ''random''"
definition hashModeSource :: string where "hashModeSource = ''source''"
definition hashModeSourceDestination :: string where "hashModeSourceDestination = ''source-destination''"

definition maxSlots :: int where "maxSlots = 1024"

definition ConnectionSelectionEnabled :: "bool option \<Rightarrow> bool" where
  "ConnectionSelectionEnabled enabled = (case enabled of None \<Rightarrow> True | Some b \<Rightarrow> b)"

section \<open>Validation\<close>

fun validate_members :: "steer_Member list \<Rightarrow> string set \<Rightarrow> int \<Rightarrow> string + int" where
  "validate_members [] seenIDs weightSum = Inr weightSum"
| "validate_members (member # members) seenIDs weightSum =
     (if ref_Key member = [] then Inl ''connection ID is required''
      else if Iface member = [] then Inl ''iface is required''
      else if ref_Key member \<in> seenIDs then Inl ''duplicate connection ID''
      else if Mark member = 0 then Inl ''mark must be > 0''
      else if Weight member < 1 then Inl ''weight must be >= 1''
      else validate_members members (insert (ref_Key member) seenIDs) (wrap64 (weightSum + Weight member)))"

definition steer_validateConfig :: "steer_Config \<Rightarrow> string option" where
  "steer_validateConfig cfg =
     (if InternalIface cfg = [] then Some ''steering: internal_iface is required''
      else if HashMode cfg \<notin> {hashModeRandom, hashModeSource, hashModeSourceDestination}
      then Some ''steering: hash_mode is not one of random, source, source-destination''
      else case validate_members (Members cfg) {} 0 of
        Inl e \<Rightarrow> Some (''steering: '' @ e)
      | Inr weightSum \<Rightarrow> if maxSlots < weightSum then Some ''steering: weights above the limit'' else None)"

section \<open>Balancing\<close>

record balancer =
  bal_Mark :: mark
  Modulus :: mark
  Slots :: "mark list"

definition no_balancer :: balancer where
  "no_balancer = \<lparr>bal_Mark = 0, Modulus = 0, Slots = []\<rparr>"

definition tierMembers :: "steer_Member list \<Rightarrow> TierMember list" where
  "tierMembers members = map (\<lambda>m. \<lparr>tm_Name = ref_Key m, tm_Tier = mem_Tier m\<rparr>) members"

fun slot_loop :: "steer_Member list \<Rightarrow> mark list \<Rightarrow> mark \<Rightarrow> mark list \<times> mark" where
  "slot_loop [] slots modulus = (slots, modulus)"
| "slot_loop (m # ms) slots modulus =
     slot_loop ms (slots @ replicate (nat (Weight m)) (Mark m)) (((+) 1 ^^ nat (Weight m)) modulus)"

definition balancerFor :: "steer_Member list \<Rightarrow> HealthStates \<Rightarrow> balancer \<times> bool" where
  "balancerFor members health =
     (let (activeTier, anyHealthy) = ActiveTier (tierMembers members) health in
      if \<not> anyHealthy then (no_balancer, False)
      else let carrying = filter (\<lambda>m. mem_Tier m = activeTier \<and> HealthIsHealthy (health_State health (ref_Key m))) members in
        if carrying = [] then (no_balancer, False)
        else let sorted = sort_key Mark carrying in
          if length sorted = 1 then (\<lparr>bal_Mark = Mark (hd sorted), Modulus = 0, Slots = []\<rparr>, True)
          else let (slots, modulus) = slot_loop sorted [] 0 in (\<lparr>bal_Mark = 0, Modulus = modulus, Slots = slots\<rparr>, True))"

section \<open>Rules\<close>

record steerRule =
  IifName :: string
  Source :: prefix
  Mode :: string
  Assign :: balancer
  MatchMark :: mark
  DropIface :: string
  AllowedMarks :: "mark list"

text \<open>A Go map from marks to true is the set of its marks.\<close>

record ruleInput =
  in_InternalIface :: string
  in_InternalNetV4 :: prefix
  in_InternalPrefix :: prefix
  in_OpnsenseEdgeV6 :: addr
  in_Mode :: string
  AssignV4 :: balancer
  AssignV6 :: balancer
  in_Members :: "steer_Member list"
  EligibleV4 :: "mark set"
  EligibleV6 :: "mark set"

definition shouldAppendMemberRule :: "bool \<Rightarrow> bool \<Rightarrow> bool \<Rightarrow> bool" where
  "shouldAppendMemberRule hasAssignment selectionEnabled eligible =
     (if selectionEnabled \<and> eligible then False
      else if hasAssignment then True
      else \<not> selectionEnabled \<and> eligible)"

definition eligibleMarks :: "mark set \<Rightarrow> mark list" where
  "eligibleMarks eligible = sorted_list_of_set eligible"

definition has_assignment :: "balancer \<Rightarrow> bool" where
  "has_assignment b \<longleftrightarrow> bal_Mark b \<noteq> 0 \<or> Slots b \<noteq> []"

text \<open>The rule for unmarked connections and the rules that replace the mark of a member.\<close>

definition assign_rules :: "ruleInput \<Rightarrow> string \<Rightarrow> prefix \<Rightarrow> balancer \<Rightarrow> mark set \<Rightarrow> steerRule list" where
  "assign_rules inp iif source assign eligible =
     (let base = \<lparr>IifName = iif, Source = source, Mode = in_Mode inp, Assign = assign, MatchMark = 0, DropIface = [], AllowedMarks = []\<rparr>
      in (if has_assignment assign then [base] else []) @
         map (\<lambda>m. base\<lparr>MatchMark := Mark m\<rparr>)
           (filter (\<lambda>m. shouldAppendMemberRule (has_assignment assign) (ConnectionSelectionEnabled (SelectionEnabled m)) (Mark m \<in> eligible))
             (in_Members inp)))"

definition guard_rule :: "ruleInput \<Rightarrow> prefix \<Rightarrow> mark set \<Rightarrow> steer_Member \<Rightarrow> steerRule" where
  "guard_rule inp source eligible m =
     \<lparr>IifName = in_InternalIface inp, Source = source, Mode = [], Assign = no_balancer, MatchMark = 0, DropIface = Iface m,
      AllowedMarks = (if Mark m \<in> eligible then eligibleMarks eligible else [])\<rparr>"

definition buildRules :: "ruleInput \<Rightarrow> steerRule list" where
  "buildRules inp =
     assign_rules inp (in_InternalIface inp) (in_InternalNetV4 inp) (AssignV4 inp) (EligibleV4 inp) @
     concat (map (\<lambda>source. assign_rules inp [] source (AssignV6 inp) (EligibleV6 inp))
       [prefix_from (in_OpnsenseEdgeV6 inp) 128, in_InternalPrefix inp]) @
     concat (map (\<lambda>m. [guard_rule inp (Addr4 0, 0) (EligibleV4 inp) m, guard_rule inp (Addr6 0 [], 0) (EligibleV6 inp) m])
       (in_Members inp))"

section \<open>The module\<close>

text \<open>The parts of the published snapshot that the module reads; a missing member reads as not ready.\<close>

record family_ready =
  V4Ready :: bool
  V6Ready :: bool

record wan_snapshot =
  snap_Routing :: "string \<rightharpoonup> family_ready"
  snap_Translation :: "string \<rightharpoonup> family_ready"

definition ready4 :: "(string \<rightharpoonup> family_ready) \<Rightarrow> string \<Rightarrow> bool" where
  "ready4 m k = (case m k of None \<Rightarrow> False | Some r \<Rightarrow> V4Ready r)"

definition ready6 :: "(string \<rightharpoonup> family_ready) \<Rightarrow> string \<Rightarrow> bool" where
  "ready6 m k = (case m k of None \<Rightarrow> False | Some r \<Rightarrow> V6Ready r)"

record steer_Module =
  sm_cfg :: steer_Config
  sm_internalNetV4 :: prefix
  sm_internalPrefix :: prefix
  sm_opnsenseEdge :: addr
  sm_mode :: string

definition newConfiguredModule :: "steer_Config \<Rightarrow> steer_Module" where
  "newConfiguredModule cfg =
     \<lparr>sm_cfg = (if HealthStateFile cfg = [] \<and> Members cfg \<noteq> [] then cfg\<lparr>HealthStateFile := ''/var/run/mwan-health.state''\<rparr> else cfg),
      sm_internalNetV4 = (NoAddr, 0), sm_internalPrefix = (NoAddr, 0), sm_opnsenseEdge = NoAddr, sm_mode = []\<rparr>"

definition steer_parse :: "steer_Module \<Rightarrow> string + steer_Module" where
  "steer_parse m =
     (let cfg = sm_cfg m in
      case steer_validateConfig cfg of
        Some e \<Rightarrow> Inl e
      | None \<Rightarrow>
          (case parse_prefix (InternalNetV4 cfg) of
             None \<Rightarrow> Inl ''steering: internal_net_v4''
           | Some net4 \<Rightarrow>
               if \<not> addr_is4 (fst net4) then Inl ''steering: internal_net_v4 is not IPv4''
               else (case parse_prefix (InternalPrefix cfg) of
                       None \<Rightarrow> Inl ''steering: internal_prefix''
                     | Some net6 \<Rightarrow>
                         if addr_is4 (fst net6) then Inl ''steering: internal_prefix is not IPv6''
                         else (case parse_addr (OpnsenseEdgeV6 cfg) of
                                 None \<Rightarrow> Inl ''steering: opnsense_edge_v6''
                               | Some edge \<Rightarrow>
                                   if addr_is4 edge then Inl ''steering: opnsense_edge_v6 is not IPv6''
                                   else Inr (m\<lparr>sm_internalNetV4 := masked net4, sm_internalPrefix := masked net6,
                                               sm_opnsenseEdge := edge, sm_mode := HashMode cfg\<rparr>)))))"

definition eligible_in :: "((string \<rightharpoonup> family_ready) \<Rightarrow> string \<Rightarrow> bool) \<Rightarrow> HealthStates \<Rightarrow> wan_snapshot \<Rightarrow> steer_Member \<Rightarrow> bool" where
  "eligible_in ready health snap m \<longleftrightarrow>
     ready (snap_Routing snap) (ref_Key m) \<and> ready (snap_Translation snap) (ref_Key m) \<and>
     HealthIsHealthy (health_State health (ref_Key m))"

definition rulesForSnapshot :: "steer_Module \<Rightarrow> HealthStates \<Rightarrow> wan_snapshot \<Rightarrow> steerRule list" where
  "rulesForSnapshot m health snap =
     (let members = Members (sm_cfg m);
          eligible4 = filter (eligible_in ready4 health snap) members;
          eligible6 = filter (eligible_in ready6 health snap) members;
          v4 = filter (\<lambda>w. ConnectionSelectionEnabled (SelectionEnabled w)) eligible4;
          v6 = filter (\<lambda>w. ConnectionSelectionEnabled (SelectionEnabled w)) eligible6
      in buildRules \<lparr>in_InternalIface = InternalIface (sm_cfg m), in_InternalNetV4 = sm_internalNetV4 m,
           in_InternalPrefix = sm_internalPrefix m, in_OpnsenseEdgeV6 = sm_opnsenseEdge m, in_Mode = sm_mode m,
           AssignV4 = fst (balancerFor v4 health), AssignV6 = fst (balancerFor v6 health), in_Members = members,
           EligibleV4 = Mark ` set eligible4, EligibleV6 = Mark ` set eligible6\<rparr>)"

text \<open>\<open>live\<close>: the snapshot of the live state, when the host keeps one. An error leaves the kernel alone.\<close>

definition steer_Reconcile :: "steer_Module \<Rightarrow> bool \<Rightarrow> string option \<Rightarrow> wan_snapshot option \<Rightarrow> string + steerRule list" where
  "steer_Reconcile m open_ok content live =
     (case ReadHealthState open_ok content of
        Inl e \<Rightarrow> Inl (''read health state: '' @ e)
      | Inr health \<Rightarrow> Inr (case live of None \<Rightarrow> [] | Some snap \<Rightarrow> rulesForSnapshot m health snap))"

section \<open>Accepted configurations\<close>

definition total_weight :: "steer_Member list \<Rightarrow> int" where
  "total_weight ms = sum_list (map Weight ms)"

lemma total_weight_simps [simp]:
  "total_weight [] = 0"
  "total_weight (m # ms) = Weight m + total_weight ms"
  by (simp_all add: total_weight_def)

lemma total_weight_nonneg: "list_all (\<lambda>m. 1 \<le> Weight m) ms \<Longrightarrow> 0 \<le> total_weight ms"
  by (induction ms) auto

lemma total_weight_filter: "list_all (\<lambda>m. 1 \<le> Weight m) ms \<Longrightarrow> total_weight (filter P ms) \<le> total_weight ms"
  by (induction ms) (auto simp: total_weight_nonneg)

definition member_ok :: "steer_Member \<Rightarrow> bool" where
  "member_ok m \<longleftrightarrow> ref_Key m \<noteq> [] \<and> Iface m \<noteq> [] \<and> Mark m \<noteq> 0 \<and> 1 \<le> Weight m"

lemma validate_members_ok:
  assumes "validate_members ms seen w = Inr w'"
  shows "list_all member_ok ms"
  using assms by (induction ms seen w rule: validate_members.induct) (auto simp: member_ok_def not_less split: if_splits)

lemma member_ok_weight: "list_all member_ok ms \<Longrightarrow> list_all (\<lambda>m. 1 \<le> Weight m) ms"
  by (auto simp: list_all_iff member_ok_def)

lemma validate_members_sum:
  assumes "validate_members ms seen w = Inr w'" and "0 \<le> w" and "w + total_weight ms \<le> int64_max"
  shows "w' = w + total_weight ms"
  using assms
proof (induction ms seen w rule: validate_members.induct)
  case (2 member members seen w)
  then have rest: "validate_members members (insert (ref_Key member) seen) (wrap64 (w + Weight member)) = Inr w'"
    and pos: "1 \<le> Weight member"
    by (auto split: if_splits)
  have "0 \<le> total_weight members"
    using validate_members_ok [OF rest] by (intro total_weight_nonneg member_ok_weight)
  then have "wrap64 (w + Weight member) = w + Weight member"
    using "2.prems" pos by (intro wrap64_id) (auto simp: int64_min_def)
  moreover have "w' = wrap64 (w + Weight member) + total_weight members"
    using "2" rest pos calculation by (auto split: if_splits)
  ultimately show ?case by simp
qed simp

lemma accepted_members:
  assumes "steer_validateConfig cfg = None"
  shows "list_all member_ok (Members cfg)"
  using assms by (auto simp: steer_validateConfig_def split: if_splits sum.splits intro: validate_members_ok)

lemma accepted_weights:
  assumes "steer_validateConfig cfg = None" and "total_weight (Members cfg) \<le> int64_max"
  shows "total_weight (Members cfg) \<le> maxSlots"
  using assms by (auto simp: steer_validateConfig_def split: if_splits sum.splits dest: validate_members_sum)

section \<open>The slots\<close>

lemma succ_funpow: "((+) 1 ^^ n) (w :: mark) = w + of_nat n"
  by (induction n) (simp_all add: algebra_simps)

definition slots_of :: "steer_Member list \<Rightarrow> mark list" where
  "slots_of ms = concat (map (\<lambda>m. replicate (nat (Weight m)) (Mark m)) ms)"

lemma slot_loop_run: "slot_loop ms slots modulus = (slots @ slots_of ms, modulus + of_nat (length (slots_of ms)))"
  by (induction ms slots modulus rule: slot_loop.induct) (simp_all add: slots_of_def succ_funpow add.assoc)

lemma slots_length: "list_all (\<lambda>m. 1 \<le> Weight m) ms \<Longrightarrow> int (length (slots_of ms)) = total_weight ms"
  by (induction ms) (auto simp: slots_of_def)

lemma count_list_replicate: "count_list (replicate n x) y = (if x = y then n else 0)"
  by (induction n) auto

lemma replicate_numeral: "replicate (numeral n) x = x # replicate (pred_numeral n) x"
  by (simp add: numeral_eq_Suc)

lemma sort_key_empty [simp]: "sort_key f xs = [] \<longleftrightarrow> xs = []"
  by (metis length_0_conv length_sort)

lemma slots_count:
  "list_all (\<lambda>m. 1 \<le> Weight m) ms \<Longrightarrow>
   int (count_list (slots_of ms) k) = total_weight (filter (\<lambda>m. Mark m = k) ms)"
  by (induction ms) (auto simp: slots_of_def count_list_replicate)

lemma slots_mset: "mset (slots_of ms) = (\<Sum>m\<in>#mset ms. replicate_mset (nat (Weight m)) (Mark m))"
  by (induction ms) (simp_all add: slots_of_def)

lemma slots_sorted: "sorted (map Mark ms) \<Longrightarrow> sorted (slots_of ms)"
  by (induction ms) (auto simp: slots_of_def sorted_append sorted_replicate)

lemma slots_set: "list_all (\<lambda>m. 1 \<le> Weight m) ms \<Longrightarrow> set (slots_of ms) = Mark ` set ms"
  by (induction ms) (auto simp: slots_of_def)

text \<open>The usable members of the lowest tier that has one.\<close>

definition usable :: "HealthStates \<Rightarrow> steer_Member \<Rightarrow> bool" where
  "usable health m \<longleftrightarrow> HealthIsHealthy (health_State health (ref_Key m))"

definition carrying_members :: "steer_Member list \<Rightarrow> HealthStates \<Rightarrow> steer_Member list" where
  "carrying_members members health =
     filter (\<lambda>m. usable health m \<and> list_all (\<lambda>n. usable health n \<longrightarrow> mem_Tier m \<le> mem_Tier n) members) members"

lemma usable_tiers_members:
  "usable_tiers (tierMembers members) health = map mem_Tier (filter (usable health) members)"
  by (simp add: usable_tiers_def tierMembers_def filter_map comp_def usable_def [abs_def])

lemma balancer_carrying:
  "balancerFor members health =
     (let carrying = sort_key Mark (carrying_members members health) in
      if carrying = [] then (no_balancer, False)
      else if length carrying = 1 then (\<lparr>bal_Mark = Mark (hd carrying), Modulus = 0, Slots = []\<rparr>, True)
      else (\<lparr>bal_Mark = 0, Modulus = of_nat (length (slots_of carrying)), Slots = slots_of carrying\<rparr>, True))"
proof (cases "filter (usable health) members = []")
  case True
  then have "carrying_members members health = []"
    by (auto simp: carrying_members_def filter_empty_conv)
  with True show ?thesis
    by (simp add: balancerFor_def ActiveTier_Min usable_tiers_members)
next
  case False
  let ?t = "Min (mem_Tier ` set (filter (usable health) members))"
  have "(\<lambda>m. mem_Tier m = ?t \<and> HealthIsHealthy (health_State health (ref_Key m))) m =
        (usable health m \<and> list_all (\<lambda>n. usable health n \<longrightarrow> mem_Tier m \<le> mem_Tier n) members)"
    if "m \<in> set members" for m
    using that False by (auto simp: usable_def [symmetric] list_all_iff intro!: Min_eqI [symmetric] Min_le)
  then have "filter (\<lambda>m. mem_Tier m = ?t \<and> HealthIsHealthy (health_State health (ref_Key m))) members =
      carrying_members members health"
    unfolding carrying_members_def by (intro filter_cong) auto
  with False show ?thesis
    by (simp add: balancerFor_def ActiveTier_Min usable_tiers_members slot_loop_run Let_def)
qed

lemma carrying_nonempty: "carrying_members members health \<noteq> [] \<longleftrightarrow> filter (usable health) members \<noteq> []"
proof
  assume "filter (usable health) members \<noteq> []"
  then have "Min (mem_Tier ` set (filter (usable health) members)) \<in> mem_Tier ` set (filter (usable health) members)"
    by (intro Min_in) (auto simp: filter_empty_conv)
  then obtain m where m: "m \<in> set (filter (usable health) members)"
    and least: "mem_Tier m = Min (mem_Tier ` set (filter (usable health) members))"
    by auto
  have "m \<in> set (carrying_members members health)"
    using m by (auto simp: carrying_members_def list_all_iff least intro!: Min_le)
  then show "carrying_members members health \<noteq> []" by auto
qed (auto simp: carrying_members_def filter_empty_conv)

lemma carrying_mset:
  assumes "mset members = mset members'"
  shows "mset (carrying_members members health) = mset (carrying_members members' health)"
  using assms mset_eq_setD [OF assms] by (simp add: carrying_members_def list_all_iff)

lemma sorted_unique:
  assumes "mset xs = mset ys" and "sorted xs" and "sorted ys"
  shows "xs = (ys :: mark list)"
  using properties_for_sort [of xs ys] assms by (simp add: sorted_sort_id)

lemma same_multiset_sorted:
  assumes "mset xs = mset ys"
  shows "slots_of (sort_key Mark xs) = slots_of (sort_key Mark ys)"
    and "map Mark (sort_key Mark xs) = map Mark (sort_key Mark ys)"
  by (rule sorted_unique; simp add: slots_mset assms slots_sorted)+

lemma balancer_permuted:
  assumes "mset ms = mset members"
  shows "balancerFor ms health = balancerFor members health"
proof -
  let ?xs = "sort_key Mark (carrying_members ms health)" and ?ys = "sort_key Mark (carrying_members members health)"
  note same = same_multiset_sorted [OF carrying_mset [OF assms, of health]]
  have "length ?xs = length ?ys"
    using arg_cong [OF same(2), of length] by simp
  moreover have "hd (map Mark ?xs) = hd (map Mark ?ys)"
    by (simp only: same(2))
  ultimately show ?thesis
    using same(1) by (cases "?xs"; cases "?ys") (auto simp: balancer_carrying Let_def)
qed

lemma carrying_slots_fit:
  assumes valid: "steer_validateConfig cfg = None"
    and fits: "total_weight (Members cfg) \<le> int64_max"
    and carrying: "carrying = sort_key Mark (carrying_members (filter P (Members cfg)) health)"
  shows "list_all (\<lambda>m. 1 \<le> Weight m) carrying" and "length (slots_of carrying) \<le> 1024"
    and "unat (of_nat (length (slots_of carrying)) :: mark) = length (slots_of carrying)"
proof -
  let ?ms = "filter P (Members cfg)" and ?c = "carrying_members (filter P (Members cfg)) health"
  have weights: "list_all (\<lambda>m. 1 \<le> Weight m) (Members cfg)"
    using accepted_members [OF valid] by (rule member_ok_weight)
  then show w: "list_all (\<lambda>m. 1 \<le> Weight m) carrying"
    by (auto simp: list_all_iff carrying carrying_members_def)
  have "total_weight ?c \<le> total_weight ?ms"
    using weights unfolding carrying_members_def by (intro total_weight_filter) (auto simp: list_all_iff)
  moreover have "total_weight ?ms \<le> total_weight (Members cfg)"
    using weights by (rule total_weight_filter)
  ultimately have "total_weight ?c \<le> 1024"
    using accepted_weights [OF valid fits] by (simp add: maxSlots_def)
  moreover have "total_weight carrying = total_weight ?c"
    unfolding total_weight_def carrying by (metis mset_map mset_sort sum_mset_sum_list)
  ultimately show len: "length (slots_of carrying) \<le> 1024"
    using slots_length [OF w] by simp
  then show "unat (of_nat (length (slots_of carrying)) :: mark) = length (slots_of carrying)"
    by (simp add: unsigned_of_nat take_bit_nat_eq_self)
qed

section \<open>Properties\<close>

text \<open>
  C36: The shares of an accepted configuration, for any selection of its members. The balancer
  answers exactly when some member of the selection is usable; one carrying member takes every
  connection; several share them with one slot per unit of weight, in ascending order of the
  marks, at most 1024 of them, with the modulus equal to the number of slots, so that a mark has
  as many slots as its members have weight. The answer does not depend on the order in which
  the members are listed.
\<close>

theorem balancer_shares:
  assumes valid: "steer_validateConfig cfg = None"
    and fits: "total_weight (Members cfg) \<le> int64_max"
    and carrying: "carrying = carrying_members (filter P (Members cfg)) health"
  shows "let (b, ok) = balancerFor (filter P (Members cfg)) health in
    ok = (filter (usable health) (filter P (Members cfg)) \<noteq> []) \<and>
    (carrying = [] \<longrightarrow> b = no_balancer) \<and>
    (length carrying = 1 \<longrightarrow> b = \<lparr>bal_Mark = Mark (hd carrying), Modulus = 0, Slots = []\<rparr>) \<and>
    (1 < length carrying \<longrightarrow>
       bal_Mark b = 0 \<and> unat (Modulus b) = length (Slots b) \<and> length (Slots b) \<le> 1024 \<and> sorted (Slots b) \<and>
       (\<forall>k. int (count_list (Slots b) k) = total_weight (filter (\<lambda>m. Mark m = k) carrying))) \<and>
    (\<forall>ms. mset ms = mset (filter P (Members cfg)) \<longrightarrow> balancerFor ms health = (b, ok))"
proof -
  let ?ms = "filter P (Members cfg)"
  note fit = carrying_slots_fit [OF valid fits refl, of P health, folded carrying]
  have same: "total_weight (filter Q (sort_key Mark carrying)) = total_weight (filter Q carrying)" for Q
    unfolding total_weight_def by (metis mset_filter mset_map mset_sort sum_mset_sum_list)
  have one: "sort_key Mark carrying = carrying" if "length carrying = 1"
    using that by (cases carrying) auto
  have perm: "balancerFor ms health = balancerFor ?ms health" if "mset ms = mset ?ms" for ms
    using that by (rule balancer_permuted)
  show ?thesis
    using carrying_nonempty [of ?ms health] fit(2,3) one slots_count [OF fit(1)] slots_sorted [of "sort_key Mark carrying"] perm
    unfolding balancer_carrying [of ?ms] carrying [symmetric] Let_def by (auto simp: same)
qed

definition sample_member :: "string \<Rightarrow> mark \<Rightarrow> tier \<Rightarrow> int \<Rightarrow> steer_Member" where
  "sample_member name mk tr w =
     \<lparr>ref_ID = [], ref_Name = name, Iface = name, SelectionEnabled = None, Mark = mk, mem_Tier = tr, Weight = w\<rparr>"

definition sample_steering :: steer_Config where
  "sample_steering =
     \<lparr>InternalIface = ''lan0'', InternalNetV4 = ''10.0.0.0/8'', InternalPrefix = ''fd00::/56'', OpnsenseEdgeV6 = ''fd00::2'',
      HashMode = ''source'', HealthStateFile = [],
      Members = [sample_member ''fiber'' 2 0 3, sample_member ''cable'' 1 0 1, sample_member ''lte'' 3 1 5]\<rparr>"

lemmas steering_validation_defs =
  sample_member_def sample_steering_def steer_validateConfig_def hashModeRandom_def hashModeSource_def
  hashModeSourceDestination_def ref_Key_def conn_Resolve_def wrap64_def maxSlots_def

theorem balancer_shares_witness:
  "let b = fst (balancerFor (Members sample_steering) Map.empty) in
   steer_validateConfig sample_steering = None \<and> Slots b = [1, 2, 2, 2] \<and> unat (Modulus b) = 4 \<and>
   fst (balancerFor (rev (Members sample_steering)) Map.empty) = b"
proof -
  have valid: "steer_validateConfig sample_steering = None"
    by (simp add: steering_validation_defs)
  have fits: "total_weight (Members sample_steering) \<le> int64_max"
    by (simp add: sample_steering_def sample_member_def int64_max_def)
  have slots: "Slots (fst (balancerFor (Members sample_steering) Map.empty)) = [1, 2, 2, 2]"
    by (simp add: steering_validation_defs balancerFor_def ActiveTier_def tierMembers_def health_State_def HealthIsHealthy_def
        health_state_defs word_le_nat_alt replicate_numeral)
  have many: "1 < length (carrying_members (filter (\<lambda>_. True) (Members sample_steering)) Map.empty)"
    by (simp add: steering_validation_defs carrying_members_def usable_def health_State_def HealthIsHealthy_def health_state_defs)
  obtain b ok where run: "balancerFor (filter (\<lambda>_. True) (Members sample_steering)) Map.empty = (b, ok)"
    by fastforce
  have shares: "unat (Modulus b) = length (Slots b) \<and> balancerFor (rev (Members sample_steering)) Map.empty = (b, ok)"
    using balancer_shares [OF valid fits refl, of "\<lambda>_. True" Map.empty] many
    unfolding run Let_def prod.case by (metis filter_True mset_rev)
  show ?thesis
    using valid slots shares run by simp
qed

end
