(* ===== verification/SteeringNft.thy ===== *)
theory SteeringNft
  imports Steering
begin

unbundle bit_operations_syntax

text \<open>
  The nftables rules of the steering module (\<^verbatim>\<open>steering/applier.go\<close>): the expressions of a rule and
  the batch that replaces both chains. The bytes of a comparison, a mask or an immediate are the
  value they encode in the byte order they are written in. The netlink connection is a
  parameter: its answers are those of a \<open>nft_conn\<close>.
\<close>

section \<open>Expressions\<close>

datatype meta_key = MetaKeyIIFNAME | MetaKeyOIFNAME | MetaKeyNFPROTO | MetaKeyMARK | MetaKeyPRIORITY

datatype datum = NoData | NameData string | ByteData nat | WordData "32 word" | AddrData int

datatype expr =
    Meta meta_key nat
  | MetaSet meta_key nat
  | CmpEq nat datum
  | CmpNeq nat datum
  | Payload nat nat nat
  | Bitwise nat nat nat datum datum
  | CtState nat
  | Immediate nat datum
  | NumgenRandom nat mark
  | HashJenkins nat nat nat mark "32 word"
  | Lookup nat nat "(mark \<times> mark) list"
  | VerdictDrop

definition ipv4SaddrOffset :: nat where "ipv4SaddrOffset = 12"
definition ipv4DaddrOffset :: nat where "ipv4DaddrOffset = 16"
definition ipv4AddrLen :: nat where "ipv4AddrLen = 4"
definition ipv4AddrBits :: nat where "ipv4AddrBits = 32"
definition ipv6SaddrOffset :: nat where "ipv6SaddrOffset = 8"
definition ipv6DaddrOffset :: nat where "ipv6DaddrOffset = 24"
definition ipv6AddrLen :: nat where "ipv6AddrLen = 16"
definition ipv6AddrBits :: nat where "ipv6AddrBits = 128"
definition ctStateNew :: "32 word" where "ctStateNew = 0x08"
definition hairpinPriorityMask :: "32 word" where "hairpinPriorityMask = 0xffff0000"
definition hairpinPriorityTag :: "32 word" where "hairpinPriorityTag = 0x4e500000"
definition hashSeed :: "32 word" where "hashSeed = 0x6d77616e"

text \<open>\<^verbatim>\<open>NFT_REG32_00\<close>, \<^verbatim>\<open>NFT_REG32_01\<close> and \<^verbatim>\<open>NFT_REG32_04\<close> of the kernel interface.\<close>

definition hashKeyRegister :: nat where "hashKeyRegister = 8"
definition hashKeyRegisterV4Second :: nat where "hashKeyRegisterV4Second = 9"
definition hashKeyRegisterV6Second :: nat where "hashKeyRegisterV6Second = 12"

text \<open>\<^verbatim>\<open>NFPROTO_IPV4\<close> and \<^verbatim>\<open>NFPROTO_IPV6\<close>.\<close>

definition nfproto_ipv4 :: nat where "nfproto_ipv4 = 2"
definition nfproto_ipv6 :: nat where "nfproto_ipv6 = 10"

definition familyMatchExprs :: "prefix \<Rightarrow> expr list" where
  "familyMatchExprs source =
     [Meta MetaKeyNFPROTO 1, CmpEq 1 (ByteData (if addr_is4 (fst source) then nfproto_ipv4 else nfproto_ipv6))]"

text \<open>\<^verbatim>\<open>net.CIDRMask\<close>, as the number its bytes write.\<close>

definition cidr_mask :: "nat \<Rightarrow> nat \<Rightarrow> int" where
  "cidr_mask ones bits = (2 ^ ones - 1) * 2 ^ (bits - ones)"

definition addrBytes :: "addr \<Rightarrow> int" where
  "addrBytes a = addr_value a"

definition sourceMatchExprs :: "prefix \<Rightarrow> expr list" where
  "sourceMatchExprs source0 =
     (let source = masked source0; is4 = addr_is4 (fst source);
          offset = (if is4 then ipv4SaddrOffset else ipv6SaddrOffset);
          len = (if is4 then ipv4AddrLen else ipv6AddrLen);
          bits = (if is4 then ipv4AddrBits else ipv6AddrBits);
          load = Payload 1 offset len;
          network = AddrData (addrBytes (fst source))
      in if snd source = bits then [load, CmpEq 1 network]
         else [load, Bitwise 1 1 len (AddrData (cidr_mask (snd source) bits)) (AddrData 0), CmpEq 1 network])"

definition markMatchExprs :: "mark \<Rightarrow> expr list" where
  "markMatchExprs m = [Meta MetaKeyMARK 1, CmpEq 1 (WordData m)]"

definition nonHairpinGuardExprs :: "expr list" where
  "nonHairpinGuardExprs =
     [Meta MetaKeyPRIORITY 1, Bitwise 1 1 4 (WordData hairpinPriorityMask) (WordData 0), CmpNeq 1 (WordData hairpinPriorityTag)]"

definition ctStateNewExprs :: "expr list" where
  "ctStateNewExprs = [CtState 1, Bitwise 1 1 4 (WordData ctStateNew) (WordData 0), CmpNeq 1 (WordData 0)]"

definition hashExprs :: "prefix \<Rightarrow> mark \<Rightarrow> bool \<Rightarrow> expr list" where
  "hashExprs source modulus withDestination =
     (let is4 = addr_is4 (fst source);
          saddrOffset = (if is4 then ipv4SaddrOffset else ipv6SaddrOffset);
          daddrOffset = (if is4 then ipv4DaddrOffset else ipv6DaddrOffset);
          addrLen = (if is4 then ipv4AddrLen else ipv6AddrLen);
          secondRegister = (if is4 then hashKeyRegisterV4Second else hashKeyRegisterV6Second);
          keyLength = (if withDestination then addrLen * 2 else addrLen)
      in [Payload hashKeyRegister saddrOffset addrLen] @
         (if withDestination then [Payload secondRegister daddrOffset addrLen] else []) @
         [HashJenkins hashKeyRegister 1 keyLength modulus hashSeed])"

definition generatorExprs :: "steerRule \<Rightarrow> string + expr list" where
  "generatorExprs rule =
     (if Mode rule = hashModeRandom then Inr [NumgenRandom 1 (Modulus (Assign rule))]
      else if Mode rule = hashModeSource then Inr (hashExprs (Source rule) (Modulus (Assign rule)) False)
      else if Mode rule = hashModeSourceDestination then Inr (hashExprs (Source rule) (Modulus (Assign rule)) True)
      else Inl (''steering: unknown hash mode '' @ Mode rule))"

text \<open>The elements of the anonymous map; the slot counter is a 32-bit word.\<close>

fun slot_elements :: "mark \<Rightarrow> mark list \<Rightarrow> (mark \<times> mark) list" where
  "slot_elements i [] = []"
| "slot_elements i (mk # marks) = (i, mk) # slot_elements (i + 1) marks"

record nft_chain =
  nc_Table :: "string option"
  nc_Name :: string
  nc_Priority :: "int option"

record nft_conn =
  open_err :: "string option"
  list_chains :: "string + nft_chain list"
  set_err :: "(mark \<times> mark) list \<Rightarrow> string option"
  flush_err :: "string option"

definition slotMapSet :: "nft_conn \<Rightarrow> mark list \<Rightarrow> string + (mark \<times> mark) list" where
  "slotMapSet conn slots =
     (let elements = slot_elements 0 slots in
      case set_err conn elements of Some e \<Rightarrow> Inl (''add slot map: '' @ e) | None \<Rightarrow> Inr elements)"

definition assignExprs :: "nft_conn \<Rightarrow> steerRule \<Rightarrow> string + expr list" where
  "assignExprs conn rule =
     (if Slots (Assign rule) = [] then Inr [Immediate 1 (WordData (bal_Mark (Assign rule))), MetaSet MetaKeyMARK 1]
      else case generatorExprs rule of
        Inl e \<Rightarrow> Inl e
      | Inr generator \<Rightarrow>
          (case slotMapSet conn (Slots (Assign rule)) of
             Inl e \<Rightarrow> Inl e
           | Inr elements \<Rightarrow> Inr (generator @ [Lookup 1 1 elements, MetaSet MetaKeyMARK 1])))"

definition guardExprs :: "steerRule \<Rightarrow> expr list" where
  "guardExprs rule =
     [Meta MetaKeyIIFNAME 1, CmpEq 1 (NameData (IifName rule)), Meta MetaKeyOIFNAME 1, CmpEq 1 (NameData (DropIface rule))] @
     familyMatchExprs (Source rule) @
     (if AllowedMarks rule \<noteq> [] then Meta MetaKeyMARK 1 # map (\<lambda>mk. CmpNeq 1 (WordData mk)) (AllowedMarks rule) else []) @
     [VerdictDrop]"

definition ruleExprs :: "nft_conn \<Rightarrow> steerRule \<Rightarrow> string + expr list" where
  "ruleExprs conn rule =
     (if DropIface rule \<noteq> [] then Inr (guardExprs rule)
      else case assignExprs conn rule of
        Inl e \<Rightarrow> Inl e
      | Inr assign \<Rightarrow>
          Inr ((if IifName rule \<noteq> [] then [Meta MetaKeyIIFNAME 1, CmpEq 1 (NameData (IifName rule))] else []) @
            familyMatchExprs (Source rule) @ sourceMatchExprs (Source rule) @ markMatchExprs (MatchMark rule) @
            (if addr_is6 (fst (Source rule)) then nonHairpinGuardExprs else []) @ ctStateNewExprs @ assign))"

section \<open>The batch\<close>

definition steerTableName :: string where "steerTableName = ''mwan_steer''"
definition steerChainName :: string where "steerChainName = ''prerouting''"
definition guardChainName :: string where "guardChainName = ''forward''"
definition steerChainPriority :: int where "steerChainPriority = -99"
definition guardChainPriority :: int where "guardChainPriority = 1"

datatype nft_op =
    OpAddTable string
  | OpFlushChain string
  | OpDelChain string
  | OpAddChain string int
  | OpAddRule string "expr list"

text \<open>The operations on the chain an earlier version left with another priority.\<close>

fun old_chain_ops :: "nft_chain list \<Rightarrow> nft_op list" where
  "old_chain_ops [] = []"
| "old_chain_ops (old # existing) =
     (if nc_Table old \<noteq> Some steerTableName \<or> nc_Name old \<noteq> steerChainName then old_chain_ops existing
      else if nc_Priority old \<noteq> Some steerChainPriority then [OpFlushChain (nc_Name old), OpDelChain (nc_Name old)]
      else [])"

fun rule_ops :: "nft_conn \<Rightarrow> steerRule list \<Rightarrow> string + nft_op list" where
  "rule_ops conn [] = Inr []"
| "rule_ops conn (rule # desired) =
     (case ruleExprs conn rule of
        Inl e \<Rightarrow> Inl (''build steering rule: '' @ e)
      | Inr exprs \<Rightarrow>
          (case rule_ops conn desired of
             Inl e \<Rightarrow> Inl e
           | Inr ops \<Rightarrow> Inr (OpAddRule (if DropIface rule \<noteq> [] then guardChainName else steerChainName) exprs # ops)))"

text \<open>The batch that \<^verbatim>\<open>Flush\<close> commits, or the error of the call; on an error nothing is committed.\<close>

definition nft_Apply :: "nft_conn \<Rightarrow> steerRule list \<Rightarrow> string + nft_op list" where
  "nft_Apply conn desired =
     (case open_err conn of
        Some e \<Rightarrow> Inl e
      | None \<Rightarrow>
          (case list_chains conn of
             Inl e \<Rightarrow> Inl (''list inet chains: '' @ e)
           | Inr existing \<Rightarrow>
               (case rule_ops conn desired of
                  Inl e \<Rightarrow> Inl e
                | Inr ops \<Rightarrow>
                    (case flush_err conn of
                       Some e \<Rightarrow> Inl (''nft flush: '' @ e)
                     | None \<Rightarrow>
                         Inr ([OpAddTable steerTableName] @ old_chain_ops existing @
                           [OpAddChain steerChainName steerChainPriority, OpAddChain guardChainName guardChainPriority,
                            OpFlushChain steerChainName, OpFlushChain guardChainName] @ ops)))))"

end
