(* ===== verification/SteeringPackets.thy ===== *)
theory SteeringPackets
  imports SteeringNft
begin

unbundle bit_operations_syntax

text \<open>
  What the programmed chains do to a packet. The evaluation of expressions follows the documented
  nftables semantics for the expressions the module uses: a failed comparison ends the rule, a
  verdict ends the chain, a chain without verdict accepts. The generators are parameters:
  \<open>draw\<close> is the sequence of random numbers and \<open>jhash\<close> the hash of a key, both reduced by the modulus.
\<close>

section \<open>Evaluation\<close>

record packet =
  pk_iif :: string
  pk_oif :: string
  pk_src :: addr
  pk_dst :: addr
  pk_mark :: mark
  pk_priority :: "32 word"
  pk_ctstate :: "32 word"

record generators =
  draw :: "nat \<Rightarrow> mark \<Rightarrow> mark"
  jhash :: "datum list \<Rightarrow> 32 word \<Rightarrow> mark \<Rightarrow> mark"

record nft_run =
  regs :: "nat \<Rightarrow> datum"
  pkt :: packet
  draws :: nat

datatype verdict = Next nft_run | Break nft_run | Dropped

fun meta_value :: "packet \<Rightarrow> meta_key \<Rightarrow> datum" where
  "meta_value p MetaKeyIIFNAME = NameData (pk_iif p)"
| "meta_value p MetaKeyOIFNAME = NameData (pk_oif p)"
| "meta_value p MetaKeyNFPROTO = ByteData (if addr_is4 (pk_src p) then nfproto_ipv4 else nfproto_ipv6)"
| "meta_value p MetaKeyMARK = WordData (pk_mark p)"
| "meta_value p MetaKeyPRIORITY = WordData (pk_priority p)"

definition header_value :: "packet \<Rightarrow> nat \<Rightarrow> datum" where
  "header_value p offset =
     (let is4 = addr_is4 (pk_src p) in
      if offset = (if is4 then 12 else 8) then AddrData (addr_value (pk_src p))
      else if offset = (if is4 then 16 else 24) then AddrData (addr_value (pk_dst p))
      else NoData)"

fun bitwise :: "datum \<Rightarrow> datum \<Rightarrow> datum \<Rightarrow> datum" where
  "bitwise (WordData v) (WordData m) (WordData x) = WordData ((v AND m) XOR x)"
| "bitwise (AddrData v) (AddrData m) (AddrData x) = AddrData ((v AND m) XOR x)"
| "bitwise _ _ _ = NoData"

text \<open>The registers that a key of a given length starting at a register covers.\<close>

definition key_registers :: "nat \<Rightarrow> nat \<Rightarrow> nat list" where
  "key_registers source len = (if len = 8 then [source, source + 1] else if len = 32 then [source, source + 4] else [source])"

definition load :: "nat \<Rightarrow> datum \<Rightarrow> nft_run \<Rightarrow> verdict" where
  "load r d s = Next (s\<lparr>regs := (regs s)(r := d)\<rparr>)"

fun exec_expr :: "generators \<Rightarrow> expr \<Rightarrow> nft_run \<Rightarrow> verdict" where
  "exec_expr g (Meta k r) s = load r (meta_value (pkt s) k) s"
| "exec_expr g (MetaSet k r) s =
     (case (k, regs s r) of (MetaKeyMARK, WordData w) \<Rightarrow> Next (s\<lparr>pkt := (pkt s)\<lparr>pk_mark := w\<rparr>\<rparr>) | _ \<Rightarrow> Break s)"
| "exec_expr g (CmpEq r d) s = (if regs s r = d then Next s else Break s)"
| "exec_expr g (CmpNeq r d) s = (if regs s r = d then Break s else Next s)"
| "exec_expr g (Payload r offset len) s = load r (header_value (pkt s) offset) s"
| "exec_expr g (Bitwise src r len m x) s = load r (bitwise (regs s src) m x) s"
| "exec_expr g (CtState r) s = load r (WordData (pk_ctstate (pkt s))) s"
| "exec_expr g (Immediate r d) s = load r d s"
| "exec_expr g (NumgenRandom r modulus) s = load r (WordData (draw g (draws s) modulus)) (s\<lparr>draws := Suc (draws s)\<rparr>)"
| "exec_expr g (HashJenkins src r len modulus seed) s =
     load r (WordData (jhash g (map (regs s) (key_registers src len)) seed modulus)) s"
| "exec_expr g (Lookup src r elements) s =
     (case regs s src of
        WordData w \<Rightarrow> (case map_of elements w of None \<Rightarrow> Break s | Some v \<Rightarrow> load r (WordData v) s)
      | _ \<Rightarrow> Break s)"
| "exec_expr g VerdictDrop s = Dropped"

text \<open>A rule leaves the run and whether it dropped the packet.\<close>

fun run_rule :: "generators \<Rightarrow> expr list \<Rightarrow> nft_run \<Rightarrow> nft_run \<times> bool" where
  "run_rule g [] s = (s, False)"
| "run_rule g (e # es) s =
     (case exec_expr g e s of Next s' \<Rightarrow> run_rule g es s' | Break s' \<Rightarrow> (s', False) | Dropped \<Rightarrow> (s, True))"

fun run_chain :: "generators \<Rightarrow> expr list list \<Rightarrow> nft_run \<Rightarrow> nft_run \<times> bool" where
  "run_chain g [] s = (s, False)"
| "run_chain g (r # rs) s = (case run_rule g r s of (s', dropped) \<Rightarrow> if dropped then (s', True) else run_chain g rs s')"

text \<open>The rules of a chain after a batch: a batch is atomic, flushing empties a chain, adding a rule appends it.\<close>

fun commit :: "nft_op list \<Rightarrow> (string \<rightharpoonup> expr list list) \<Rightarrow> (string \<rightharpoonup> expr list list)" where
  "commit [] ks = ks"
| "commit (OpAddTable t # ops) ks = commit ops ks"
| "commit (OpFlushChain c # ops) ks = commit ops (if ks c = None then ks else ks(c \<mapsto> []))"
| "commit (OpDelChain c # ops) ks = commit ops (ks(c := None))"
| "commit (OpAddChain c p # ops) ks = commit ops (if ks c = None then ks(c \<mapsto> []) else ks)"
| "commit (OpAddRule c es # ops) ks =
     commit ops (case ks c of None \<Rightarrow> ks | Some rs \<Rightarrow> ks(c \<mapsto> rs @ [es]))"

text \<open>A packet through the prerouting chain and, once routed to an interface, through the forward chain.\<close>

definition prerouting :: "generators \<Rightarrow> (string \<rightharpoonup> expr list list) \<Rightarrow> packet \<Rightarrow> nft_run \<times> bool" where
  "prerouting g ks p =
     run_chain g (case ks steerChainName of None \<Rightarrow> [] | Some rs \<Rightarrow> rs) \<lparr>regs = (\<lambda>_. NoData), pkt = p, draws = 0\<rparr>"

definition forwarded :: "generators \<Rightarrow> (string \<rightharpoonup> expr list list) \<Rightarrow> packet \<Rightarrow> bool" where
  "forwarded g ks p \<longleftrightarrow>
     \<not> snd (run_chain g (case ks guardChainName of None \<Rightarrow> [] | Some rs \<Rightarrow> rs) \<lparr>regs = (\<lambda>_. NoData), pkt = p, draws = 0\<rparr>)"

section \<open>Masks\<close>

lemma keep_bits_full [simp]: "keep_bits w w v = v"
  by (simp add: keep_bits_def)

lemma keep_bits_mask:
  assumes "0 \<le> v" and "v < 2 ^ w" and "n \<le> w"
  shows "(v AND cidr_mask n w) = keep_bits w n v"
proof -
  have "cidr_mask n w = push_bit (w - n) (mask n)"
    by (simp add: cidr_mask_def push_bit_eq_mult mask_eq_exp_minus_1)
  moreover have "v div 2 ^ (w - n) < 2 ^ n"
  proof -
    have "v < 2 ^ n * 2 ^ (w - n)"
      using assms by (simp flip: power_add)
    moreover have "v div 2 ^ (w - n) * 2 ^ (w - n) \<le> v"
      by (metis div_mult_mod_eq le_add_same_cancel1 pos_mod_sign zero_less_numeral zero_less_power)
    ultimately show ?thesis
      by (metis mult_less_cancel_right_disj not_less order_le_less_trans zero_le_numeral zero_le_power)
  qed
  moreover have "v AND push_bit k b = push_bit k (drop_bit k v AND b)" for k and b :: int
    by (rule bit_eqI) (auto simp: bit_and_iff bit_push_bit_iff bit_drop_bit_eq)
  ultimately show ?thesis
    using assms by (simp add: keep_bits_def push_bit_eq_mult drop_bit_eq_div take_bit_eq_mask [symmetric] take_bit_int_eq_self pos_imp_zdiv_nonneg_iff)
qed

section \<open>Rules on packets\<close>

fun addr_ok :: "addr \<Rightarrow> bool" where
  "addr_ok NoAddr \<longleftrightarrow> False"
| "addr_ok (Addr4 v) \<longleftrightarrow> 0 \<le> v \<and> v < 2 ^ 32"
| "addr_ok (Addr6 v z) \<longleftrightarrow> 0 \<le> v \<and> v < 2 ^ 128 \<and> z = []"

definition prefix_ok :: "prefix \<Rightarrow> bool" where
  "prefix_ok p \<longleftrightarrow> addr_valid (fst p) \<and> snd p \<le> addr_bits (fst p)"

definition new_connection :: "packet \<Rightarrow> bool" where
  "new_connection p \<longleftrightarrow> pk_ctstate p AND ctStateNew \<noteq> 0"

definition hairpin :: "packet \<Rightarrow> bool" where
  "hairpin p \<longleftrightarrow> pk_priority p AND hairpinPriorityMask = hairpinPriorityTag"

text \<open>Everything a rule that assigns a mark asks for, except the mark.\<close>

definition selects :: "steerRule \<Rightarrow> packet \<Rightarrow> bool" where
  "selects r p \<longleftrightarrow>
     (IifName r = [] \<or> pk_iif p = IifName r) \<and> prefix_contains (Source r) (pk_src p) \<and>
     \<not> (addr_is6 (fst (Source r)) \<and> hairpin p) \<and> new_connection p"

definition assignable :: "balancer \<Rightarrow> mark set" where
  "assignable b = (if Slots b = [] then {bal_Mark b} else set (Slots b))"

text \<open>A sequence of expressions that only tests the packet.\<close>

definition tests :: "expr list \<Rightarrow> (packet \<Rightarrow> bool) \<Rightarrow> bool" where
  "tests es P \<longleftrightarrow> (\<forall>g rest s. addr_ok (pk_src (pkt s)) \<longrightarrow>
     (\<exists>R. run_rule g (es @ rest) s =
       (if P (pkt s) then run_rule g rest (s\<lparr>regs := R\<rparr>) else (s\<lparr>regs := R\<rparr>, False))))"

lemma tests_nil: "tests [] (\<lambda>_. True)"
proof -
  have "run_rule g rest s = run_rule g rest (s\<lparr>regs := regs s\<rparr>)" for g rest and s :: nft_run by simp
  then show ?thesis unfolding tests_def by (metis append_Nil)
qed

lemma tests_append:
  assumes "tests as P" and "tests bs Q"
  shows "tests (as @ bs) (\<lambda>p. P p \<and> Q p)"
  unfolding tests_def
proof (intro allI impI)
  fix g rest and s :: nft_run
  assume ok: "addr_ok (pk_src (pkt s))"
  then obtain R where R: "run_rule g (as @ (bs @ rest)) s =
      (if P (pkt s) then run_rule g (bs @ rest) (s\<lparr>regs := R\<rparr>) else (s\<lparr>regs := R\<rparr>, False))"
    using assms(1) unfolding tests_def by blast
  have "addr_ok (pk_src (pkt (s\<lparr>regs := R\<rparr>)))" using ok by simp
  then obtain R' where "run_rule g (bs @ rest) (s\<lparr>regs := R\<rparr>) =
      (if Q (pkt s) then run_rule g rest (s\<lparr>regs := R\<rparr>\<lparr>regs := R'\<rparr>) else (s\<lparr>regs := R\<rparr>\<lparr>regs := R'\<rparr>, False))"
    using assms(2) unfolding tests_def by (metis nft_run.select_convs(2) nft_run.surjective nft_run.update_convs(1))
  with R show "\<exists>R. run_rule g ((as @ bs) @ rest) s =
      (if P (pkt s) \<and> Q (pkt s) then run_rule g rest (s\<lparr>regs := R\<rparr>) else (s\<lparr>regs := R\<rparr>, False))"
    by (cases "P (pkt s)") (auto intro: exI [of _ R'])
qed

lemma tests_cong: "tests es P \<Longrightarrow> (\<And>p. addr_ok (pk_src p) \<Longrightarrow> P p = Q p) \<Longrightarrow> tests es Q"
  unfolding tests_def by simp

lemma tests_meta_eq: "tests [Meta k 1, CmpEq 1 d] (\<lambda>p. meta_value p k = d)"
  unfolding tests_def by (auto simp: load_def)

lemma tests_iif: "tests [Meta MetaKeyIIFNAME 1, CmpEq 1 (NameData n)] (\<lambda>p. pk_iif p = n)"
  by (rule tests_cong [OF tests_meta_eq]) simp

lemma tests_oif: "tests [Meta MetaKeyOIFNAME 1, CmpEq 1 (NameData n)] (\<lambda>p. pk_oif p = n)"
  by (rule tests_cong [OF tests_meta_eq]) simp

lemma tests_mark: "tests (markMatchExprs k) (\<lambda>p. pk_mark p = k)"
  unfolding markMatchExprs_def by (rule tests_cong [OF tests_meta_eq]) simp

lemma tests_family: "tests (familyMatchExprs source) (\<lambda>p. addr_is4 (pk_src p) = addr_is4 (fst source))"
  unfolding familyMatchExprs_def
  by (rule tests_cong [OF tests_meta_eq]) (simp add: nfproto_ipv4_def nfproto_ipv6_def)

lemma tests_hairpin: "tests nonHairpinGuardExprs (\<lambda>p. \<not> hairpin p)"
  unfolding tests_def nonHairpinGuardExprs_def hairpin_def by (auto simp: load_def)

lemma tests_new: "tests ctStateNewExprs new_connection"
  unfolding tests_def ctStateNewExprs_def new_connection_def by (auto simp: load_def)

lemma tests_source:
  assumes "prefix_ok source"
  shows "tests (familyMatchExprs source @ sourceMatchExprs source) (\<lambda>p. prefix_contains source (pk_src p))"
  unfolding tests_def
proof (intro allI impI)
  fix g rest and s :: nft_run
  assume ok: "addr_ok (pk_src (pkt s))"
  obtain a n where source: "source = (a, n)" by (cases source)
  show "\<exists>R. run_rule g ((familyMatchExprs source @ sourceMatchExprs source) @ rest) s =
      (if prefix_contains source (pk_src (pkt s)) then run_rule g rest (s\<lparr>regs := R\<rparr>) else (s\<lparr>regs := R\<rparr>, False))"
    using ok assms
    by (cases a; cases "pk_src (pkt s)")
      (auto simp: source prefix_ok_def prefix_contains_def familyMatchExprs_def sourceMatchExprs_def Let_def load_def header_value_def
        nfproto_ipv4_def nfproto_ipv6_def ipv4SaddrOffset_def ipv6SaddrOffset_def ipv4AddrBits_def ipv6AddrBits_def
        addrBytes_def keep_bits_mask)
qed

text \<open>The tests in front of an assignment.\<close>

definition match_exprs :: "steerRule \<Rightarrow> expr list" where
  "match_exprs rule =
     (if IifName rule \<noteq> [] then [Meta MetaKeyIIFNAME 1, CmpEq 1 (NameData (IifName rule))] else []) @
     (familyMatchExprs (Source rule) @ sourceMatchExprs (Source rule)) @ markMatchExprs (MatchMark rule) @
     (if addr_is6 (fst (Source rule)) then nonHairpinGuardExprs else []) @ ctStateNewExprs"

lemma tests_match:
  assumes "prefix_ok (Source rule)"
  shows "tests (match_exprs rule) (\<lambda>p. selects rule p \<and> pk_mark p = MatchMark rule)"
proof -
  have iif: "tests (if IifName rule \<noteq> [] then [Meta MetaKeyIIFNAME 1, CmpEq 1 (NameData (IifName rule))] else [])
      (\<lambda>p. IifName rule = [] \<or> pk_iif p = IifName rule)"
    using tests_nil tests_iif by auto
  have hair: "tests (if addr_is6 (fst (Source rule)) then nonHairpinGuardExprs else [])
      (\<lambda>p. \<not> (addr_is6 (fst (Source rule)) \<and> hairpin p))"
    using tests_nil tests_hairpin by auto
  show ?thesis
    unfolding match_exprs_def
    by (rule tests_cong [OF tests_append [OF iif tests_append [OF tests_source [OF assms]
          tests_append [OF tests_mark tests_append [OF hair tests_new]]]]]) (auto simp: selects_def)
qed

section \<open>Assignments\<close>

text \<open>What is documented of the generators: a number below the modulus.\<close>

definition generators_ok :: "generators \<Rightarrow> bool" where
  "generators_ok g \<longleftrightarrow> (\<forall>n m. 0 < m \<longrightarrow> draw g n m < m) \<and> (\<forall>k s m. 0 < m \<longrightarrow> jhash g k s m < m)"

definition balancer_ok :: "balancer \<Rightarrow> bool" where
  "balancer_ok b \<longleftrightarrow> unat (Modulus b) = length (Slots b) \<or> Slots b = []"

lemma slot_elements_zip: "slot_elements i xs = zip (map (\<lambda>k. i + of_nat k) [0..<length xs]) xs"
proof (induction xs arbitrary: i)
  case (Cons x xs)
  have "map (\<lambda>k. i + of_nat k) [Suc 0..<Suc (length xs)] = map (\<lambda>k. i + 1 + of_nat k) [0..<length xs]"
    by (simp add: map_Suc_upt [symmetric] comp_def add.assoc del: upt_Suc)
  then show ?case by (simp add: Cons upt_conv_Cons del: upt_Suc)
qed simp

lemma slot_lookup:
  assumes "w < modulus" and "unat modulus = length xs"
  shows "\<exists>mk \<in> set xs. map_of (slot_elements 0 xs) w = Some mk"
proof -
  have "unat w < length xs"
    using assms by (simp add: word_less_nat_alt)
  then have "w \<in> fst ` set (slot_elements 0 xs)"
    by (auto simp: slot_elements_zip set_zip image_iff intro!: exI [of _ "unat w"])
  then obtain mk where "map_of (slot_elements 0 xs) w = Some mk"
    by (metis map_of_eq_None_iff not_Some_eq)
  moreover from this have "mk \<in> set xs"
    by (auto simp: slot_elements_zip dest!: map_of_SomeD set_zip_rightD)
  ultimately show ?thesis by blast
qed

lemma generator_effect:
  assumes "generatorExprs r = Inr gen" and "generators_ok g" and "0 < Modulus (Assign r)"
  shows "\<exists>R w n. w < Modulus (Assign r) \<and> R 1 = WordData w \<and>
    run_rule g (gen @ rest) s = run_rule g rest (s\<lparr>regs := R, draws := n\<rparr>)"
proof -
  let ?m = "Modulus (Assign r)"
  have ok: "draw g n ?m < ?m" "jhash g k e ?m < ?m" for n k e
    using assms(2,3) by (auto simp: generators_ok_def)
  consider "gen = [NumgenRandom 1 ?m]" | b where "gen = hashExprs (Source r) ?m b"
    using assms(1) by (auto simp: generatorExprs_def split: if_splits)
  then show ?thesis
  proof cases
    case 1
    then show ?thesis
      using ok(1) by (intro exI [of _ "(regs s)(1 := WordData (draw g (draws s) ?m))"] exI [of _ "draw g (draws s) ?m"] exI [of _ "Suc (draws s)"])
        (cases s, simp add: load_def)
  next
    case 2
    have "\<exists>R k. run_rule g (gen @ rest) s = run_rule g rest (s\<lparr>regs := R(1 := WordData (jhash g k hashSeed ?m))\<rparr>)"
      by (cases b) (auto simp: 2 hashExprs_def Let_def load_def)
    then obtain R k where "run_rule g (gen @ rest) s =
        run_rule g rest (s\<lparr>regs := R(1 := WordData (jhash g k hashSeed ?m)), draws := draws s\<rparr>)"
      by auto
    with ok(2) show ?thesis
      by (metis fun_upd_same)
  qed
qed

lemma assign_effect:
  assumes "assignExprs conn r = Inr es" and "generators_ok g" and "balancer_ok (Assign r)"
  shows "\<exists>R mk n. mk \<in> assignable (Assign r) \<and>
    run_rule g es s = (s\<lparr>regs := R, pkt := (pkt s)\<lparr>pk_mark := mk\<rparr>, draws := n\<rparr>, False)"
proof (cases "Slots (Assign r) = []")
  case True
  with assms show ?thesis
    by (intro exI [of _ "(regs s)(1 := WordData (bal_Mark (Assign r)))"] exI [of _ "bal_Mark (Assign r)"] exI [of _ "draws s"])
      (auto simp: assignExprs_def assignable_def load_def)
next
  case False
  then have modulus: "unat (Modulus (Assign r)) = length (Slots (Assign r))" "0 < Modulus (Assign r)"
    using assms(3) by (auto simp: balancer_ok_def word_less_nat_alt)
  obtain gen where gen: "generatorExprs r = Inr gen"
    and es: "es = gen @ [Lookup 1 1 (slot_elements 0 (Slots (Assign r))), MetaSet MetaKeyMARK 1]"
    using assms(1) False by (auto simp: assignExprs_def slotMapSet_def Let_def split: sum.splits option.splits)
  obtain R w n where w: "w < Modulus (Assign r)" "R 1 = WordData w"
    and run: "run_rule g es s = run_rule g [Lookup 1 1 (slot_elements 0 (Slots (Assign r))), MetaSet MetaKeyMARK 1] (s\<lparr>regs := R, draws := n\<rparr>)"
    using generator_effect [OF gen assms(2) modulus(2)] unfolding es by blast
  obtain mk where "mk \<in> set (Slots (Assign r))" "map_of (slot_elements 0 (Slots (Assign r))) w = Some mk"
    using slot_lookup [OF w(1) modulus(1)] by blast
  with w(2) False have "mk \<in> assignable (Assign r) \<and>
      run_rule g es s = (s\<lparr>regs := R(1 := WordData mk), pkt := (pkt s)\<lparr>pk_mark := mk\<rparr>, draws := n\<rparr>, False)"
    by (simp add: run assignable_def load_def)
  then show ?thesis by blast
qed

definition rule_ok :: "steerRule \<Rightarrow> bool" where
  "rule_ok r \<longleftrightarrow> DropIface r = [] \<and> prefix_ok (Source r) \<and> balancer_ok (Assign r)"

lemma rule_effect:
  assumes "ruleExprs conn r = Inr es" and "rule_ok r" and "generators_ok g" and "addr_ok (pk_src (pkt s))"
  shows "\<exists>R p n. run_rule g es s = (s\<lparr>regs := R, pkt := p, draws := n\<rparr>, False) \<and>
    (if selects r (pkt s) \<and> pk_mark (pkt s) = MatchMark r
     then \<exists>mk \<in> assignable (Assign r). p = (pkt s)\<lparr>pk_mark := mk\<rparr> else p = pkt s)"
proof -
  obtain as where as: "assignExprs conn r = Inr as" and es: "es = match_exprs r @ as"
    using assms(1,2) by (auto simp: ruleExprs_def rule_ok_def match_exprs_def split: sum.splits)
  obtain R where R: "run_rule g es s =
      (if selects r (pkt s) \<and> pk_mark (pkt s) = MatchMark r then run_rule g as (s\<lparr>regs := R\<rparr>) else (s\<lparr>regs := R\<rparr>, False))"
    using tests_match [of r] assms(2,4) unfolding tests_def es rule_ok_def by blast
  show ?thesis
  proof (cases "selects r (pkt s) \<and> pk_mark (pkt s) = MatchMark r")
    case True
    obtain R' mk n where "mk \<in> assignable (Assign r)"
      "run_rule g as (s\<lparr>regs := R\<rparr>) = (s\<lparr>regs := R\<rparr>\<lparr>regs := R', pkt := (pkt s)\<lparr>pk_mark := mk\<rparr>, draws := n\<rparr>, False)"
      using assign_effect [OF as assms(3), of "s\<lparr>regs := R\<rparr>"] assms(2) by (auto simp: rule_ok_def)
    with R True show ?thesis by auto
  next
    case False
    with R show ?thesis
      by (intro exI [of _ R] exI [of _ "pkt s"] exI [of _ "draws s"]) auto
  qed
qed

text \<open>The marks a packet may leave a list of rules with.\<close>

fun possible_marks :: "steerRule list \<Rightarrow> packet \<Rightarrow> mark set" where
  "possible_marks [] p = {pk_mark p}"
| "possible_marks (r # rs) p =
     (if selects r p \<and> pk_mark p = MatchMark r
      then (\<Union>mk \<in> assignable (Assign r). possible_marks rs (p\<lparr>pk_mark := mk\<rparr>)) else possible_marks rs p)"

lemma chain_effect:
  assumes "list_all2 (\<lambda>r es. ruleExprs conn r = Inr es) rs ess" and "list_all rule_ok rs" and "generators_ok g"
    and "addr_ok (pk_src (pkt s))"
  shows "\<exists>s' mk. run_chain g ess s = (s', False) \<and> mk \<in> possible_marks rs (pkt s) \<and> pkt s' = (pkt s)\<lparr>pk_mark := mk\<rparr>"
  using assms
proof (induction rs ess arbitrary: s rule: list_all2_induct)
  case (Cons r rs es ess)
  obtain R p n where run: "run_rule g es s = (s\<lparr>regs := R, pkt := p, draws := n\<rparr>, False)"
    and p: "if selects r (pkt s) \<and> pk_mark (pkt s) = MatchMark r
      then \<exists>mk \<in> assignable (Assign r). p = (pkt s)\<lparr>pk_mark := mk\<rparr> else p = pkt s"
    using rule_effect [OF Cons.hyps(1) _ Cons.prems(2,3)] Cons.prems(1) by auto
  from p have same: "pk_src p = pk_src (pkt s)" "p\<lparr>pk_mark := mk\<rparr> = (pkt s)\<lparr>pk_mark := mk\<rparr>" for mk
    by (auto split: if_splits)
  obtain s' mk where "run_chain g ess (s\<lparr>regs := R, pkt := p, draws := n\<rparr>) = (s', False)"
    "mk \<in> possible_marks rs p" "pkt s' = p\<lparr>pk_mark := mk\<rparr>"
    using Cons.IH [of "s\<lparr>regs := R, pkt := p, draws := n\<rparr>"] Cons.prems same by auto
  with run p same show ?case by (auto split: if_splits)
qed auto

end
