(* ===== verification/SteeringSafety.thy ===== *)
theory SteeringSafety
  imports SteeringPackets
begin

unbundle bit_operations_syntax

text \<open>
  What the steering module does to traffic: the mark a connection of the internal network leaves
  the prerouting chain with, and the packets the forward chain lets out of a provider interface,
  for every accepted configuration, health verdict and readiness.
\<close>

section \<open>Lists of rules\<close>

lemma selects_mark [simp]: "selects r (p\<lparr>pk_mark := k\<rparr>) = selects r p"
  by (simp add: selects_def hairpin_def new_connection_def)

lemma possible_append_left:
  "(\<And>r. r \<in> set rs \<Longrightarrow> \<not> selects r p) \<Longrightarrow> possible_marks (rs @ rs') p = possible_marks rs' p"
  by (induction rs) auto

lemma possible_unselected: "(\<And>r. r \<in> set rs \<Longrightarrow> \<not> selects r p) \<Longrightarrow> possible_marks rs p = {pk_mark p}"
  using possible_append_left [of rs p "[]"] by simp

lemma possible_append_right:
  "(\<And>r. r \<in> set rs' \<Longrightarrow> \<not> selects r p) \<Longrightarrow> possible_marks (rs @ rs') p = possible_marks rs p"
  by (induction rs arbitrary: p) (auto simp: possible_unselected)

lemma possible_missed:
  "(\<And>r. r \<in> set rs \<Longrightarrow> selects r p \<Longrightarrow> MatchMark r \<noteq> pk_mark p) \<Longrightarrow> possible_marks rs p = {pk_mark p}"
proof (induction rs)
  case (Cons r rs)
  then have "\<not> (selects r p \<and> pk_mark p = MatchMark r)"
    by (metis list.set_intros(1))
  with Cons show ?case by auto
qed simp

lemma possible_bound:
  "(\<And>r. r \<in> set rs \<Longrightarrow> Assign r = b) \<Longrightarrow> possible_marks rs p \<subseteq> insert (pk_mark p) (assignable b)"
proof (induction rs arbitrary: p)
  case (Cons r rs)
  then have "possible_marks rs q \<subseteq> insert (pk_mark q) (assignable b)" for q
    by simp
  then have "possible_marks rs (p\<lparr>pk_mark := mk\<rparr>) \<subseteq> assignable b" if "mk \<in> assignable b" for mk
    using that by (metis insert_absorb packet.select_convs(5) packet.surjective packet.update_convs(5))
  moreover have "possible_marks rs p \<subseteq> insert (pk_mark p) (assignable b)"
    using Cons by simp
  ultimately show ?case
    using Cons.prems [of r] by auto
qed simp

lemma possible_hit:
  "(\<And>r. r \<in> set rs \<Longrightarrow> Assign r = b) \<Longrightarrow> r \<in> set rs \<Longrightarrow> selects r p \<Longrightarrow> MatchMark r = pk_mark p \<Longrightarrow>
   possible_marks rs p \<subseteq> assignable b"
proof (induction rs)
  case (Cons r' rs)
  show ?case
  proof (cases "selects r' p \<and> pk_mark p = MatchMark r'")
    case True
    have "possible_marks rs (p\<lparr>pk_mark := mk\<rparr>) \<subseteq> assignable b" if "mk \<in> assignable b" for mk
      using possible_bound [of rs b "p\<lparr>pk_mark := mk\<rparr>"] Cons.prems(1) that by auto
    then show ?thesis using True Cons.prems(1) by auto
  next
    case False
    then have "r \<in> set rs" using Cons.prems by auto
    then show ?thesis using False Cons by auto
  qed
qed simp

section \<open>The committed chains\<close>

lemma commit_append: "commit (as @ bs) ks = commit bs (commit as ks)"
  by (induction as ks rule: commit.induct) (simp_all add: fun_upd_def split: option.split)

lemma chain_names [simp]: "steerChainName \<noteq> guardChainName" "guardChainName \<noteq> steerChainName"
  by (simp_all add: steerChainName_def guardChainName_def)

lemma commit_rules:
  assumes "rule_ops conn rs = Inr ops" and "ks steerChainName = Some as" and "ks guardChainName = Some bs"
  shows "\<exists>es gs. list_all2 (\<lambda>r e. ruleExprs conn r = Inr e) (filter (\<lambda>r. DropIface r = []) rs) es \<and>
    list_all2 (\<lambda>r e. ruleExprs conn r = Inr e) (filter (\<lambda>r. DropIface r \<noteq> []) rs) gs \<and>
    commit ops ks steerChainName = Some (as @ es) \<and> commit ops ks guardChainName = Some (bs @ gs)"
  using assms
proof (induction rs arbitrary: ops ks as bs)
  case (Cons r rs)
  then obtain e ops' where e: "ruleExprs conn r = Inr e" and ops': "rule_ops conn rs = Inr ops'"
    and ops: "ops = OpAddRule (if DropIface r \<noteq> [] then guardChainName else steerChainName) e # ops'"
    by (auto split: sum.splits)
  show ?case
  proof (cases "DropIface r = []")
    case True
    obtain es gs where "list_all2 (\<lambda>r e. ruleExprs conn r = Inr e) (filter (\<lambda>r. DropIface r = []) rs) es"
      "list_all2 (\<lambda>r e. ruleExprs conn r = Inr e) (filter (\<lambda>r. DropIface r \<noteq> []) rs) gs"
      "commit ops' (ks(steerChainName \<mapsto> as @ [e])) steerChainName = Some ((as @ [e]) @ es)"
      "commit ops' (ks(steerChainName \<mapsto> as @ [e])) guardChainName = Some (bs @ gs)"
      using Cons.IH [OF ops', of "ks(steerChainName \<mapsto> as @ [e])" "as @ [e]" bs] Cons.prems(2,3) by (auto simp: fun_upd_def)
    with True e Cons.prems(2) show ?thesis
      by (intro exI [of _ "e # es"] exI [of _ gs]) (simp add: ops)
  next
    case False
    obtain es gs where "list_all2 (\<lambda>r e. ruleExprs conn r = Inr e) (filter (\<lambda>r. DropIface r = []) rs) es"
      "list_all2 (\<lambda>r e. ruleExprs conn r = Inr e) (filter (\<lambda>r. DropIface r \<noteq> []) rs) gs"
      "commit ops' (ks(guardChainName \<mapsto> bs @ [e])) steerChainName = Some (as @ es)"
      "commit ops' (ks(guardChainName \<mapsto> bs @ [e])) guardChainName = Some ((bs @ [e]) @ gs)"
      using Cons.IH [OF ops', of "ks(guardChainName \<mapsto> bs @ [e])" as "bs @ [e]"] Cons.prems(2,3) by (auto simp: fun_upd_def)
    with False e Cons.prems(3) show ?thesis
      by (intro exI [of _ es] exI [of _ "e # gs"]) (simp add: ops)
  qed
qed simp

lemma applied_chains:
  assumes "nft_Apply conn rs = Inr ops"
  obtains es gs where
    "list_all2 (\<lambda>r e. ruleExprs conn r = Inr e) (filter (\<lambda>r. DropIface r = []) rs) es"
    "list_all2 (\<lambda>r e. ruleExprs conn r = Inr e) (filter (\<lambda>r. DropIface r \<noteq> []) rs) gs"
    "commit ops ks steerChainName = Some es" "commit ops ks guardChainName = Some gs"
proof -
  obtain existing added where added: "rule_ops conn rs = Inr added"
    and ops: "ops = [OpAddTable steerTableName] @ old_chain_ops existing @
      [OpAddChain steerChainName steerChainPriority, OpAddChain guardChainName guardChainPriority,
       OpFlushChain steerChainName, OpFlushChain guardChainName] @ added"
    using assms by (auto simp: nft_Apply_def split: option.splits sum.splits)
  let ?pre = "[OpAddTable steerTableName] @ old_chain_ops existing @
      [OpAddChain steerChainName steerChainPriority, OpAddChain guardChainName guardChainPriority,
       OpFlushChain steerChainName, OpFlushChain guardChainName]"
  have "commit ?pre ks steerChainName = Some []" "commit ?pre ks guardChainName = Some []"
    by (auto simp: commit_append)
  from commit_rules [OF added this] that show thesis
    unfolding ops by (auto simp: commit_append)
qed

section \<open>Guards\<close>

definition guard_hits :: "steerRule \<Rightarrow> packet \<Rightarrow> bool" where
  "guard_hits r p \<longleftrightarrow>
     pk_iif p = IifName r \<and> pk_oif p = DropIface r \<and> addr_is4 (pk_src p) = addr_is4 (fst (Source r)) \<and>
     pk_mark p \<notin> set (AllowedMarks r)"

lemma run_neq_list:
  "regs s 1 = WordData w \<Longrightarrow>
   run_rule g (map (\<lambda>mk. CmpNeq 1 (WordData mk)) ks @ rest) s = (if w \<in> set ks then (s, False) else run_rule g rest s)"
  by (induction ks) auto

lemma tests_outside:
  "tests (if ks \<noteq> [] then Meta MetaKeyMARK 1 # map (\<lambda>mk. CmpNeq 1 (WordData mk)) ks else []) (\<lambda>p. pk_mark p \<notin> set ks)"
proof (cases "ks = []")
  case True
  then show ?thesis using tests_nil by simp
next
  case False
  have "run_rule g ((Meta MetaKeyMARK 1 # map (\<lambda>mk. CmpNeq 1 (WordData mk)) ks) @ rest) s =
      (if pk_mark (pkt s) \<notin> set ks then run_rule g rest (s\<lparr>regs := (regs s)(1 := WordData (pk_mark (pkt s)))\<rparr>)
       else (s\<lparr>regs := (regs s)(1 := WordData (pk_mark (pkt s)))\<rparr>, False))" for g rest and s :: nft_run
    using run_neq_list [of "s\<lparr>regs := (regs s)(1 := WordData (pk_mark (pkt s)))\<rparr>" "pk_mark (pkt s)" g ks rest]
    by (simp add: load_def)
  with False show ?thesis unfolding tests_def by auto
qed

lemma guard_effect:
  assumes "ruleExprs conn r = Inr es" and "DropIface r \<noteq> []" and "addr_ok (pk_src (pkt s))"
  shows "snd (run_rule g es s) = guard_hits r (pkt s)" and "pkt (fst (run_rule g es s)) = pkt s"
proof -
  have es: "es = ([Meta MetaKeyIIFNAME 1, CmpEq 1 (NameData (IifName r))] @ [Meta MetaKeyOIFNAME 1, CmpEq 1 (NameData (DropIface r))] @
      familyMatchExprs (Source r) @
      (if AllowedMarks r \<noteq> [] then Meta MetaKeyMARK 1 # map (\<lambda>mk. CmpNeq 1 (WordData mk)) (AllowedMarks r) else [])) @ [VerdictDrop]"
    using assms(1,2) by (simp add: ruleExprs_def guardExprs_def)
  have "tests ([Meta MetaKeyIIFNAME 1, CmpEq 1 (NameData (IifName r))] @ [Meta MetaKeyOIFNAME 1, CmpEq 1 (NameData (DropIface r))] @
      familyMatchExprs (Source r) @
      (if AllowedMarks r \<noteq> [] then Meta MetaKeyMARK 1 # map (\<lambda>mk. CmpNeq 1 (WordData mk)) (AllowedMarks r) else [])) (guard_hits r)"
    by (rule tests_cong [OF tests_append [OF tests_iif tests_append [OF tests_oif tests_append [OF tests_family tests_outside]]]])
      (simp add: guard_hits_def)
  then obtain R where "run_rule g es s =
      (if guard_hits r (pkt s) then run_rule g [VerdictDrop] (s\<lparr>regs := R\<rparr>) else (s\<lparr>regs := R\<rparr>, False))"
    using assms(3) unfolding tests_def es by blast
  then show "snd (run_rule g es s) = guard_hits r (pkt s)" "pkt (fst (run_rule g es s)) = pkt s"
    by auto
qed

lemma guard_chain:
  assumes "list_all2 (\<lambda>r es. ruleExprs conn r = Inr es) rs ess" and "list_all (\<lambda>r. DropIface r \<noteq> []) rs"
    and "addr_ok (pk_src (pkt s))"
  shows "snd (run_chain g ess s) \<longleftrightarrow> (\<exists>r \<in> set rs. guard_hits r (pkt s))"
  using assms
proof (induction rs ess arbitrary: s rule: list_all2_induct)
  case (Cons r rs es ess)
  note e = guard_effect [OF Cons.hyps(1) _ Cons.prems(2), of g]
  obtain s' b where run: "run_rule g es s = (s', b)" by fastforce
  with e Cons.prems(1) have "b = guard_hits r (pkt s)" "pkt s' = pkt s" by auto
  with run Cons show ?case by auto
qed simp

section \<open>The rules of a snapshot\<close>

text \<open>Per family: the members that may carry traffic, and those of them new connections go to.\<close>

definition eligible_members :: "steer_Module \<Rightarrow> HealthStates \<Rightarrow> wan_snapshot \<Rightarrow> bool \<Rightarrow> steer_Member list" where
  "eligible_members m health snap v4 = filter (eligible_in (if v4 then ready4 else ready6) health snap) (Members (sm_cfg m))"

definition eligible_set :: "steer_Module \<Rightarrow> HealthStates \<Rightarrow> wan_snapshot \<Rightarrow> bool \<Rightarrow> mark set" where
  "eligible_set m health snap v4 = Mark ` set (eligible_members m health snap v4)"

abbreviation enabled :: "steer_Member \<Rightarrow> bool" where
  "enabled w \<equiv> ConnectionSelectionEnabled (SelectionEnabled w)"

definition carrying_set :: "steer_Module \<Rightarrow> HealthStates \<Rightarrow> wan_snapshot \<Rightarrow> bool \<Rightarrow> mark set" where
  "carrying_set m health snap v4 = Mark ` set (carrying_members (filter enabled (eligible_members m health snap v4)) health)"

definition family_balancer :: "steer_Module \<Rightarrow> HealthStates \<Rightarrow> wan_snapshot \<Rightarrow> bool \<Rightarrow> balancer" where
  "family_balancer m health snap v4 = fst (balancerFor (filter enabled (eligible_members m health snap v4)) health)"

text \<open>A packet of a new connection that the module steers.\<close>

definition steered :: "steer_Module \<Rightarrow> packet \<Rightarrow> bool" where
  "steered m p \<longleftrightarrow> new_connection p \<and>
     (if addr_is4 (pk_src p) then pk_iif p = InternalIface (sm_cfg m) \<and> prefix_contains (sm_internalNetV4 m) (pk_src p)
      else \<not> hairpin p \<and>
        (prefix_contains (prefix_from (sm_opnsenseEdge m) 128) (pk_src p) \<or> prefix_contains (sm_internalPrefix m) (pk_src p)))"

lemma parse_addr_valid: "parse_addr s = Some a \<Longrightarrow> addr_valid a"
  by (auto simp: parse_addr_def parse_ipv6_def Let_def split: list.splits if_splits option.splits prod.splits)

lemma parse_prefix_ok: "parse_prefix s = Some p \<Longrightarrow> prefix_ok p"
  by (auto simp: parse_prefix_def prefix_ok_def split: option.splits prod.splits if_splits parsed_int.splits dest: parse_addr_valid)

lemma prefix_ok_masked: "prefix_ok p \<Longrightarrow> prefix_ok (masked p)"
  by (cases p rule: masked.cases) (auto simp: prefix_ok_def)

lemma valid_family: "addr_valid a \<Longrightarrow> addr_is6 a = (\<not> addr_is4 a)"
  by (cases a) auto

lemma parsed_module:
  assumes "steer_parse m0 = Inr m"
  shows "steer_validateConfig (sm_cfg m) = None"
    and "prefix_ok (sm_internalNetV4 m)" and "addr_is4 (fst (sm_internalNetV4 m))"
    and "prefix_ok (sm_internalPrefix m)" and "\<not> addr_is4 (fst (sm_internalPrefix m))"
    and "prefix_ok (prefix_from (sm_opnsenseEdge m) 128)" and "\<not> addr_is4 (fst (prefix_from (sm_opnsenseEdge m) 128))"
proof -
  obtain net4 net6 edge where parsed: "steer_validateConfig (sm_cfg m0) = None"
    "parse_prefix (InternalNetV4 (sm_cfg m0)) = Some net4" "addr_is4 (fst net4)"
    "parse_prefix (InternalPrefix (sm_cfg m0)) = Some net6" "\<not> addr_is4 (fst net6)"
    "parse_addr (OpnsenseEdgeV6 (sm_cfg m0)) = Some edge" "\<not> addr_is4 edge"
    and m: "m = m0\<lparr>sm_internalNetV4 := masked net4, sm_internalPrefix := masked net6, sm_opnsenseEdge := edge, sm_mode := HashMode (sm_cfg m0)\<rparr>"
    using assms by (auto simp: steer_parse_def Let_def split: option.splits if_splits)
  from parsed show "steer_validateConfig (sm_cfg m) = None" "addr_is4 (fst (sm_internalNetV4 m))"
    "\<not> addr_is4 (fst (sm_internalPrefix m))"
    by (simp_all add: m)
  from parsed show "prefix_ok (sm_internalNetV4 m)" "prefix_ok (sm_internalPrefix m)"
    by (auto simp: m intro: prefix_ok_masked parse_prefix_ok)
  have "addr_valid edge" using parsed(6) by (rule parse_addr_valid)
  then show "prefix_ok (prefix_from (sm_opnsenseEdge m) 128)" "\<not> addr_is4 (fst (prefix_from (sm_opnsenseEdge m) 128))"
    using parsed(7) by (cases edge; simp add: m prefix_from_def prefix_ok_def)+
qed

lemma family_balancer_facts:
  assumes "steer_validateConfig (sm_cfg m) = None" and "total_weight (Members (sm_cfg m)) \<le> int64_max"
  shows "balancer_ok (family_balancer m health snap v4)"
    and "has_assignment (family_balancer m health snap v4) \<longleftrightarrow> carrying_set m health snap v4 \<noteq> {}"
    and "assignable (family_balancer m health snap v4) =
      (if carrying_set m health snap v4 = {} then {0} else carrying_set m health snap v4)"
proof -
  let ?P = "\<lambda>w. enabled w \<and> eligible_in (if v4 then ready4 else ready6) health snap w"
  define c where "c = sort_key Mark (carrying_members (filter ?P (Members (sm_cfg m))) health)"
  have members: "filter enabled (eligible_members m health snap v4) = filter ?P (Members (sm_cfg m))"
    by (auto simp: eligible_members_def intro: filter_cong)
  note fit = carrying_slots_fit [OF assms c_def]
  have set: "carrying_set m health snap v4 = Mark ` set c"
    by (simp add: carrying_set_def members c_def)
  have "set c \<subseteq> set (Members (sm_cfg m))"
    by (auto simp: c_def carrying_members_def)
  then have nonzero: "0 \<notin> Mark ` set c"
    using accepted_members [OF assms(1)] by (auto simp: list_all_iff member_ok_def)
  have b: "family_balancer m health snap v4 =
      (if c = [] then no_balancer else if length c = 1 then \<lparr>bal_Mark = Mark (hd c), Modulus = 0, Slots = []\<rparr>
       else \<lparr>bal_Mark = 0, Modulus = of_nat (length (slots_of c)), Slots = slots_of c\<rparr>)"
    by (simp add: family_balancer_def members balancer_carrying Let_def flip: c_def)
  have slots: "set (slots_of c) = Mark ` set c" by (rule slots_set [OF fit(1)])
  show "balancer_ok (family_balancer m health snap v4)"
    using fit(3) by (auto simp: b balancer_ok_def no_balancer_def)
  show "has_assignment (family_balancer m health snap v4) \<longleftrightarrow> carrying_set m health snap v4 \<noteq> {}"
    using slots nonzero by (cases c) (auto simp: b set has_assignment_def no_balancer_def)
  show "assignable (family_balancer m health snap v4) =
      (if carrying_set m health snap v4 = {} then {0} else carrying_set m health snap v4)"
  proof (cases "length c = 1")
    case True
    then obtain w where "c = [w]" by (auto simp: length_Suc_conv)
    then show ?thesis by (simp add: b set assignable_def)
  next
    case False
    then show ?thesis using slots by (cases c) (auto simp: b set assignable_def no_balancer_def)
  qed
qed

definition matched_marks :: "balancer \<Rightarrow> mark set \<Rightarrow> steer_Member list \<Rightarrow> mark set" where
  "matched_marks b E ms =
     (if has_assignment b then {0} else {}) \<union>
     Mark ` {w \<in> set ms. shouldAppendMemberRule (has_assignment b) (enabled w) (Mark w \<in> E)}"

lemma assign_rules_facts:
  "r \<in> set (assign_rules inp iif src b E) \<Longrightarrow> IifName r = iif \<and> Source r = src \<and> Assign r = b \<and> DropIface r = []"
  "MatchMark ` set (assign_rules inp iif src b E) = matched_marks b E (in_Members inp)"
  by (auto simp: assign_rules_def Let_def matched_marks_def image_iff split: if_splits)

definition rule_input :: "steer_Module \<Rightarrow> HealthStates \<Rightarrow> wan_snapshot \<Rightarrow> ruleInput" where
  "rule_input m health snap =
     \<lparr>in_InternalIface = InternalIface (sm_cfg m), in_InternalNetV4 = sm_internalNetV4 m,
      in_InternalPrefix = sm_internalPrefix m, in_OpnsenseEdgeV6 = sm_opnsenseEdge m, in_Mode = sm_mode m,
      AssignV4 = family_balancer m health snap True, AssignV6 = family_balancer m health snap False,
      in_Members = Members (sm_cfg m),
      EligibleV4 = eligible_set m health snap True, EligibleV6 = eligible_set m health snap False\<rparr>"

lemma rules_input: "rulesForSnapshot m health snap = buildRules (rule_input m health snap)"
  by (simp add: rulesForSnapshot_def rule_input_def family_balancer_def eligible_members_def eligible_set_def Let_def)

definition marking_rules :: "steer_Module \<Rightarrow> HealthStates \<Rightarrow> wan_snapshot \<Rightarrow> bool \<Rightarrow> steerRule list" where
  "marking_rules m health snap v4 =
     (let rules = (\<lambda>iif src. assign_rules (rule_input m health snap) iif src (family_balancer m health snap v4) (eligible_set m health snap v4))
      in if v4 then rules (InternalIface (sm_cfg m)) (sm_internalNetV4 m)
         else rules [] (prefix_from (sm_opnsenseEdge m) 128) @ rules [] (sm_internalPrefix m))"

definition guard_rules :: "steer_Module \<Rightarrow> HealthStates \<Rightarrow> wan_snapshot \<Rightarrow> steerRule list" where
  "guard_rules m health snap =
     concat (map (\<lambda>w. [guard_rule (rule_input m health snap) (Addr4 0, 0) (eligible_set m health snap True) w,
                       guard_rule (rule_input m health snap) (Addr6 0 [], 0) (eligible_set m health snap False) w]) (Members (sm_cfg m)))"

lemma rules_split:
  assumes "steer_validateConfig (sm_cfg m) = None"
  shows "filter (\<lambda>r. DropIface r = []) (rulesForSnapshot m health snap) =
      marking_rules m health snap True @ marking_rules m health snap False"
    and "filter (\<lambda>r. DropIface r \<noteq> []) (rulesForSnapshot m health snap) = guard_rules m health snap"
proof -
  have all: "rulesForSnapshot m health snap =
      marking_rules m health snap True @ marking_rules m health snap False @ guard_rules m health snap"
    by (simp add: rules_input buildRules_def marking_rules_def guard_rules_def Let_def) (simp add: rule_input_def)
  have marking: "DropIface r = []" if "r \<in> set (marking_rules m health snap v4)" for r v4
    using that by (auto simp: marking_rules_def Let_def dest: assign_rules_facts(1) split: if_splits)
  have guards: "DropIface r \<noteq> []" if "r \<in> set (guard_rules m health snap)" for r
    using that accepted_members [OF assms] by (auto simp: guard_rules_def guard_rule_def list_all_iff member_ok_def)
  show "filter (\<lambda>r. DropIface r = []) (rulesForSnapshot m health snap) =
      marking_rules m health snap True @ marking_rules m health snap False"
    using marking guards by (auto simp: all filter_empty_conv filter_id_conv)
  show "filter (\<lambda>r. DropIface r \<noteq> []) (rulesForSnapshot m health snap) = guard_rules m health snap"
    using marking guards by (auto simp: all filter_empty_conv filter_id_conv)
qed

lemma snapshot_chains:
  assumes valid: "steer_validateConfig (sm_cfg m) = None" and applied: "nft_Apply conn (rulesForSnapshot m health snap) = Inr ops"
  obtains es gs where
    "list_all2 (\<lambda>r e. ruleExprs conn r = Inr e) (marking_rules m health snap True @ marking_rules m health snap False) es"
    "commit ops ks steerChainName = Some es"
    "list_all2 (\<lambda>r e. ruleExprs conn r = Inr e) (guard_rules m health snap) gs" "commit ops ks guardChainName = Some gs"
proof -
  obtain es gs where
    "list_all2 (\<lambda>r e. ruleExprs conn r = Inr e) (filter (\<lambda>r. DropIface r = []) (rulesForSnapshot m health snap)) es"
    "list_all2 (\<lambda>r e. ruleExprs conn r = Inr e) (filter (\<lambda>r. DropIface r \<noteq> []) (rulesForSnapshot m health snap)) gs"
    "commit ops ks steerChainName = Some es" "commit ops ks guardChainName = Some gs"
    by (rule applied_chains [OF applied])
  then show thesis
    using that unfolding rules_split [OF valid] by blast
qed

lemma contains_family: "prefix_contains q a \<Longrightarrow> addr_is4 (fst q) = addr_is4 a"
  by (cases "fst q"; cases a) (auto simp: prefix_contains_def split: prod.splits)

lemma marking_selects:
  assumes "steer_parse m0 = Inr m" and "addr_ok (pk_src p)"
  shows "(\<exists>r \<in> set (marking_rules m health snap v4). selects r p \<and> MatchMark r = k) \<longleftrightarrow>
    v4 = addr_is4 (pk_src p) \<and> steered m p \<and>
    k \<in> matched_marks (family_balancer m health snap v4) (eligible_set m health snap v4) (Members (sm_cfg m))"
proof -
  let ?b = "family_balancer m health snap v4" and ?E = "eligible_set m health snap v4" and ?i = "rule_input m health snap"
  have members: "in_Members ?i = Members (sm_cfg m)" by (simp add: rule_input_def)
  have pick: "(\<exists>r \<in> set (assign_rules ?i iif src ?b ?E). selects r p \<and> MatchMark r = k) \<longleftrightarrow>
      ((iif = [] \<or> pk_iif p = iif) \<and> prefix_contains src (pk_src p) \<and> \<not> (addr_is6 (fst src) \<and> hairpin p) \<and> new_connection p) \<and>
      k \<in> matched_marks ?b ?E (Members (sm_cfg m))" (is "?l \<longleftrightarrow> ?sel \<and> _") for iif src
  proof -
    have "selects r p \<longleftrightarrow> ?sel" if "r \<in> set (assign_rules ?i iif src ?b ?E)" for r
      using assign_rules_facts(1) [OF that] by (simp add: selects_def)
    then have "?l \<longleftrightarrow> ?sel \<and> k \<in> MatchMark ` set (assign_rules ?i iif src ?b ?E)"
      by blast
    then show ?thesis
      unfolding assign_rules_facts(2) members .
  qed
  note parsed = parsed_module [OF assms(1)]
  have v6: "addr_is6 (fst q) = (\<not> addr_is4 (fst q))" if "prefix_ok q" for q
    using that valid_family by (simp add: prefix_ok_def)
  have iface: "InternalIface (sm_cfg m) \<noteq> []"
    using parsed(1) by (auto simp: steer_validateConfig_def split: if_splits)
  show ?thesis
  proof (cases v4)
    case True
    then show ?thesis
      using parsed(3) v6 [OF parsed(2)] iface contains_family [of "sm_internalNetV4 m" "pk_src p"]
      unfolding marking_rules_def Let_def if_P [OF True] pick by (auto simp: steered_def)
  next
    case False
    then show ?thesis
      using parsed(5,7) v6 [OF parsed(4)] v6 [OF parsed(6)] contains_family [of "sm_internalPrefix m" "pk_src p"]
        contains_family [of "prefix_from (sm_opnsenseEdge m) 128" "pk_src p"]
      unfolding marking_rules_def Let_def if_not_P [OF False] set_append bex_Un pick by (auto simp: steered_def)
  qed
qed

lemma marking_rules_ok:
  assumes "steer_parse m0 = Inr m" and "total_weight (Members (sm_cfg m)) \<le> int64_max"
    and "r \<in> set (marking_rules m health snap v4)"
  shows "rule_ok r" and "Assign r = family_balancer m health snap v4"
  using assms(3) parsed_module [OF assms(1)] family_balancer_facts(1) [OF parsed_module(1) [OF assms(1)] assms(2)]
  by (auto simp: marking_rules_def Let_def rule_ok_def dest!: assign_rules_facts(1) split: if_splits)

lemma matched_carrying:
  assumes "steer_validateConfig (sm_cfg m) = None" and "total_weight (Members (sm_cfg m)) \<le> int64_max"
  shows "matched_marks (family_balancer m health snap v4) (eligible_set m health snap v4) (Members (sm_cfg m)) =
    (if carrying_set m health snap v4 = {}
     then Mark ` {w \<in> set (Members (sm_cfg m)). \<not> enabled w \<and> Mark w \<in> eligible_set m health snap v4}
     else insert 0 (Mark ` {w \<in> set (Members (sm_cfg m)). \<not> (enabled w \<and> Mark w \<in> eligible_set m health snap v4)}))"
  using family_balancer_facts(2) [OF assms, of health snap v4]
  by (auto simp: matched_marks_def shouldAppendMemberRule_def split: if_splits)

text \<open>The rules of a parsed module can always be written: only the connection can fail.\<close>

lemma rule_ops_written:
  assumes "\<And>els. set_err conn els = None"
    and "list_all (\<lambda>r. Mode r \<in> {hashModeRandom, hashModeSource, hashModeSourceDestination} \<or> DropIface r \<noteq> []) rs"
  shows "\<exists>ops. rule_ops conn rs = Inr ops"
  using assms(2)
proof (induction rs)
  case (Cons r rs)
  then have "\<exists>es. ruleExprs conn r = Inr es"
    using assms(1) by (auto simp: ruleExprs_def assignExprs_def generatorExprs_def slotMapSet_def Let_def)
  with Cons show ?case by (auto split: sum.split)
qed simp

lemma parsed_rules_written:
  assumes "steer_parse m0 = Inr m" and "open_err conn = None" and "list_chains conn = Inr cs"
    and "\<And>els. set_err conn els = None" and "flush_err conn = None"
  shows "\<exists>ops. nft_Apply conn (rulesForSnapshot m health snap) = Inr ops"
proof -
  have mode: "sm_mode m \<in> {hashModeRandom, hashModeSource, hashModeSourceDestination}"
    using assms(1) by (auto simp: steer_parse_def steer_validateConfig_def Let_def split: if_splits option.splits sum.splits)
  have "\<forall>w \<in> set (Members (sm_cfg m)). Iface w \<noteq> []"
    using accepted_members [OF parsed_module(1) [OF assms(1)]] by (auto simp: list_all_iff member_ok_def)
  then have "list_all (\<lambda>r. Mode r \<in> {hashModeRandom, hashModeSource, hashModeSourceDestination} \<or> DropIface r \<noteq> [])
      (rulesForSnapshot m health snap)"
    using mode unfolding rules_input buildRules_def
    by (auto simp: list_all_iff rule_input_def assign_rules_def guard_rule_def Let_def split: if_splits)
  from rule_ops_written [OF assms(4) this] show ?thesis
    using assms(2,3,5) by (auto simp: nft_Apply_def)
qed

section \<open>Properties\<close>

text \<open>
  C34: What the applied rules do to the mark of a packet, whatever the chains held before. A packet
  that is not the first of a connection from the internal network, or that is tagged as a
  hairpin, keeps its mark. When some member of the family is ready, translated, not unhealthy and
  open for selection, an unmarked connection and one that carries the mark of a member that is
  not get the mark of such a member of the lowest tier. When there is none, a mark
  that selection does not offer is cleared. Every other mark stays. No packet is dropped here.
\<close>

theorem steering_assigns:
  assumes "steer_parse (newConfiguredModule cfg) = Inr m" and "total_weight (Members (sm_cfg m)) \<le> int64_max"
    and "nft_Apply conn (rulesForSnapshot m health snap) = Inr ops" and "generators_ok g" and "addr_ok (pk_src p)"
  shows "let v4 = addr_is4 (pk_src p); C = carrying_set m health snap v4; E = eligible_set m health snap v4;
      unoffered = {w \<in> set (Members (sm_cfg m)). \<not> (enabled w \<and> Mark w \<in> E)};
      (s, dropped) = prerouting g (commit ops ks) p; k = pk_mark p; k' = pk_mark (pkt s) in
    \<not> dropped \<and> pkt s = p\<lparr>pk_mark := k'\<rparr> \<and>
    (if steered m p \<and> C \<noteq> {} \<and> (k = 0 \<or> k \<in> Mark ` unoffered) then k' \<in> C
     else if steered m p \<and> C = {} \<and> k \<in> Mark ` {w \<in> unoffered. Mark w \<in> E} then k' = 0
     else k' = k)"
proof -
  define v4 where "v4 = addr_is4 (pk_src p)"
  let ?C = "carrying_set m health snap v4" and ?E = "eligible_set m health snap v4" and ?b = "family_balancer m health snap v4"
  let ?M = "matched_marks ?b ?E (Members (sm_cfg m))"
  note valid = parsed_module(1) [OF assms(1)]
  obtain es where es: "list_all2 (\<lambda>r e. ruleExprs conn r = Inr e) (marking_rules m health snap True @ marking_rules m health snap False) es"
    and chain: "commit ops ks steerChainName = Some es"
    by (rule snapshot_chains [OF valid assms(3)])
  have ok: "list_all rule_ok (marking_rules m health snap True @ marking_rules m health snap False)"
    using marking_rules_ok(1) [OF assms(1,2)] by (auto simp: list_all_iff)
  obtain s k' where run: "prerouting g (commit ops ks) p = (s, False)" and s: "pkt s = p\<lparr>pk_mark := k'\<rparr>"
    and possible: "k' \<in> possible_marks (marking_rules m health snap True @ marking_rules m health snap False) p"
    using chain_effect [OF es ok assms(4), of "\<lparr>regs = (\<lambda>_. NoData), pkt = p, draws = 0\<rparr>"] assms(5)
    by (auto simp: prerouting_def chain)
  have other: "\<not> selects r p" if "r \<in> set (marking_rules m health snap (\<not> v4))" for r
    using marking_selects [OF assms(1,5), of health snap "\<not> v4" "MatchMark r"] that by (auto simp: v4_def)
  have k': "k' \<in> possible_marks (marking_rules m health snap v4) p"
    using possible other by (cases v4) (simp_all add: possible_append_left possible_append_right)
  have hit: "k' \<in> assignable ?b" if sel: "steered m p" "pk_mark p \<in> ?M"
  proof -
    obtain r where "r \<in> set (marking_rules m health snap v4)" "selects r p" "MatchMark r = pk_mark p"
      using marking_selects [OF assms(1,5), of health snap v4 "pk_mark p"] sel by (auto simp: v4_def)
    then show ?thesis
      using possible_hit [OF marking_rules_ok(2) [OF assms(1,2)]] k' by blast
  qed
  have miss: "k' = pk_mark p" if "\<not> (steered m p \<and> pk_mark p \<in> ?M)"
    using possible_missed [of "marking_rules m health snap v4" p] marking_selects [OF assms(1,5), of health snap v4 "pk_mark p"] that k'
    by (auto simp: v4_def)
  have matched: "?M = (if ?C = {}
     then Mark ` {w \<in> set (Members (sm_cfg m)). \<not> enabled w \<and> Mark w \<in> ?E}
     else insert 0 (Mark ` {w \<in> set (Members (sm_cfg m)). \<not> (enabled w \<and> Mark w \<in> ?E)}))"
    by (rule matched_carrying [OF valid assms(2)])
  have given: "assignable ?b = (if ?C = {} then {0} else ?C)"
    by (rule family_balancer_facts(3) [OF valid assms(2)])
  have same: "{w \<in> {w \<in> set (Members (sm_cfg m)). \<not> (enabled w \<and> Mark w \<in> ?E)}. Mark w \<in> ?E} =
      {w \<in> set (Members (sm_cfg m)). \<not> enabled w \<and> Mark w \<in> ?E}"
    by auto
  have mark: "pk_mark (pkt s) = k'" by (simp add: s)
  have result: "if steered m p \<and> ?C \<noteq> {} \<and> (pk_mark p = 0 \<or> pk_mark p \<in> Mark ` {w \<in> set (Members (sm_cfg m)). \<not> (enabled w \<and> Mark w \<in> ?E)})
      then k' \<in> ?C
      else if steered m p \<and> ?C = {} \<and> pk_mark p \<in> Mark ` {w \<in> set (Members (sm_cfg m)). \<not> enabled w \<and> Mark w \<in> ?E} then k' = 0
      else k' = pk_mark p"
  proof (cases "?C = {}")
    case True
    with hit miss show ?thesis unfolding matched given by (simp split del: if_split) (simp split: if_split)
  next
    case False
    with hit miss show ?thesis unfolding matched given by (simp split del: if_split) (simp split: if_split)
  qed
  show ?thesis
    unfolding Let_def run prod.case v4_def [symmetric] same mark
    by (intro conjI not_False_eq_True [THEN iffD2] TrueI s result)
qed

definition sample_module :: steer_Module where
  "sample_module =
     \<lparr>sm_cfg = sample_steering\<lparr>HealthStateFile := ''/var/run/mwan-health.state''\<rparr>, sm_internalNetV4 = (Addr4 167772160, 8),
      sm_internalPrefix = (Addr6 (253 * 2 ^ 120) [], 56), sm_opnsenseEdge = Addr6 (253 * 2 ^ 120 + 2) [], sm_mode = ''source''\<rparr>"

definition sample_ready :: wan_snapshot where
  "sample_ready =
     (let ready = [''fiber'' \<mapsto> \<lparr>V4Ready = True, V6Ready = False\<rparr>, ''lte'' \<mapsto> \<lparr>V4Ready = True, V6Ready = True\<rparr>]
      in \<lparr>snap_Routing = ready, snap_Translation = ready\<rparr>)"

definition sample_conn :: nft_conn where
  "sample_conn = \<lparr>open_err = None, list_chains = Inr [], set_err = (\<lambda>_. None), flush_err = None\<rparr>"

definition sample_packet :: packet where
  "sample_packet =
     \<lparr>pk_iif = ''lan0'', pk_oif = ''fiber'', pk_src = Addr4 167837187, pk_dst = Addr4 16843009, pk_mark = 0, pk_priority = 0, pk_ctstate = 8\<rparr>"

definition first_slot :: generators where
  "first_slot = \<lparr>draw = (\<lambda>_ _. 0), jhash = (\<lambda>_ _ _. 0)\<rparr>"

lemma sample_parsed: "steer_parse (newConfiguredModule sample_steering) = Inr sample_module"
proof -
  have prefixes: "parse_prefix ''10.0.0.0/8'' = Some (Addr4 167772160, 8)" "parse_prefix ''fd00::/56'' = Some (Addr6 (253 * 2 ^ 120) [], 56)"
    "parse_addr ''fd00::2'' = Some (Addr6 (253 * 2 ^ 120 + 2) [])"
    by code_simp+
  have valid: "steer_validateConfig (sample_steering\<lparr>HealthStateFile := ''/var/run/mwan-health.state''\<rparr>) = None"
    by (simp add: steering_validation_defs)
  show ?thesis
    using prefixes valid by (simp add: steer_parse_def newConfiguredModule_def sample_module_def sample_steering_def keep_bits_def)
qed

lemma sample_weights: "total_weight (Members (sm_cfg sample_module)) \<le> int64_max"
  by (simp add: sample_module_def sample_steering_def sample_member_def int64_max_def)

lemma sample_written: "\<exists>ops. nft_Apply sample_conn (rulesForSnapshot sample_module Map.empty sample_ready) = Inr ops"
  by (rule parsed_rules_written [OF sample_parsed]) (simp_all add: sample_conn_def)

lemma sample_sets:
  "carrying_set sample_module Map.empty sample_ready True = {2}"
  "eligible_set sample_module Map.empty sample_ready True = {2, 3}"
  by (simp_all add: carrying_set_def eligible_set_def eligible_members_def carrying_members_def eligible_in_def ready4_def usable_def
      sample_module_def sample_ready_def steering_validation_defs ConnectionSelectionEnabled_def health_State_def
      HealthIsHealthy_def health_state_defs Let_def)

theorem steering_assigns_witness:
  "\<exists>ops. nft_Apply sample_conn (rulesForSnapshot sample_module Map.empty sample_ready) = Inr ops \<and>
     (\<forall>ks. pk_mark (pkt (fst (prerouting first_slot (commit ops ks) sample_packet))) = 2)"
proof -
  obtain ops where ops: "nft_Apply sample_conn (rulesForSnapshot sample_module Map.empty sample_ready) = Inr ops"
    using sample_written by blast
  have g: "generators_ok first_slot" by (simp add: generators_ok_def first_slot_def)
  have a: "addr_ok (pk_src sample_packet)" "addr_is4 (pk_src sample_packet)" by (simp_all add: sample_packet_def)
  have "steered sample_module sample_packet" "pk_mark sample_packet = 0"
    by (simp_all add: steered_def sample_packet_def sample_module_def sample_steering_def new_connection_def ctStateNew_def
        prefix_contains_def keep_bits_def)
  then have "pk_mark (pkt (fst (prerouting first_slot (commit ops ks) sample_packet))) = 2" for ks
    using steering_assigns [OF sample_parsed sample_weights ops g a(1), of ks] a(2) by (simp add: sample_sets Let_def split_beta)
  with ops show ?thesis by blast
qed

text \<open>
  C35: What leaves through the providers, whatever the chains held before: a packet from the internal
  interface is forwarded to an interface exactly when every member behind that interface is
  eligible in the family of the packet and the mark of the packet belongs to an eligible member.
  Packets from other interfaces are not touched.
\<close>

theorem steering_guards:
  assumes "steer_parse (newConfiguredModule cfg) = Inr m"
    and "nft_Apply conn (rulesForSnapshot m health snap) = Inr ops" and "addr_ok (pk_src p)"
  shows "let E = eligible_set m health snap (addr_is4 (pk_src p)) in
    forwarded g (commit ops ks) p \<longleftrightarrow>
      pk_iif p \<noteq> InternalIface (sm_cfg m) \<or>
      (\<forall>w \<in> set (Members (sm_cfg m)). Iface w = pk_oif p \<longrightarrow> Mark w \<in> E \<and> pk_mark p \<in> E)"
proof -
  note valid = parsed_module(1) [OF assms(1)]
  obtain gs where gs: "list_all2 (\<lambda>r e. ruleExprs conn r = Inr e) (guard_rules m health snap) gs"
    and chain: "commit ops ks guardChainName = Some gs"
    by (rule snapshot_chains [OF valid assms(2)])
  have drop: "list_all (\<lambda>r. DropIface r \<noteq> []) (guard_rules m health snap)"
    by (simp add: list_all_iff flip: rules_split(2) [OF valid])
  have marks: "set (if k \<in> eligible_set m health snap v4 then eligibleMarks (eligible_set m health snap v4) else []) =
      (if k \<in> eligible_set m health snap v4 then eligible_set m health snap v4 else {})" for k v4
    by (simp add: eligibleMarks_def eligible_set_def)
  have hits: "(\<exists>r \<in> set (guard_rules m health snap). guard_hits r p) \<longleftrightarrow>
      pk_iif p = InternalIface (sm_cfg m) \<and>
      (\<exists>w \<in> set (Members (sm_cfg m)). pk_oif p = Iface w \<and>
        pk_mark p \<notin> (if Mark w \<in> eligible_set m health snap (addr_is4 (pk_src p)) then eligible_set m health snap (addr_is4 (pk_src p)) else {}))"
    by (cases "addr_is4 (pk_src p)")
      (simp_all add: guard_rules_def guard_rule_def guard_hits_def rule_input_def marks cong: if_cong split del: if_split)
  have "forwarded g (commit ops ks) p \<longleftrightarrow> \<not> (\<exists>r \<in> set (guard_rules m health snap). guard_hits r p)"
    using guard_chain [OF gs drop, of "\<lparr>regs = (\<lambda>_. NoData), pkt = p, draws = 0\<rparr>" g] assms(3)
    by (simp add: forwarded_def chain)
  then show ?thesis
    unfolding hits Let_def by (auto split: if_splits)
qed

theorem steering_guards_witness:
  "\<exists>ops. nft_Apply sample_conn (rulesForSnapshot sample_module Map.empty sample_ready) = Inr ops \<and>
     (\<forall>ks. \<not> forwarded first_slot (commit ops ks) sample_packet \<and>
       forwarded first_slot (commit ops ks) (sample_packet\<lparr>pk_mark := 2\<rparr>) \<and>
       \<not> forwarded first_slot (commit ops ks) (sample_packet\<lparr>pk_mark := 2, pk_oif := ''cable''\<rparr>))"
proof -
  obtain ops where ops: "nft_Apply sample_conn (rulesForSnapshot sample_module Map.empty sample_ready) = Inr ops"
    using sample_written by blast
  have a: "addr_ok (pk_src (sample_packet\<lparr>pk_mark := k, pk_oif := n\<rparr>))" "addr_is4 (pk_src sample_packet)" for k n
    by (simp_all add: sample_packet_def)
  have "forwarded first_slot (commit ops ks) (sample_packet\<lparr>pk_mark := k, pk_oif := n\<rparr>) \<longleftrightarrow>
      (\<forall>w \<in> set (Members sample_steering). Iface w = n \<longrightarrow> Mark w \<in> {2, 3} \<and> k \<in> {2, 3})" for ks k n
    using steering_guards [OF sample_parsed ops a(1) [where k = k and n = n], where g = first_slot and ks = ks] a(2)
    by (simp add: sample_sets) (simp add: sample_packet_def sample_module_def sample_steering_def)
  from this [where k = 0 and n = "''fiber''"] this [where k = 2 and n = "''fiber''"] this [where k = 2 and n = "''cable''"] ops
  show ?thesis
    by (auto simp: sample_packet_def sample_steering_def sample_member_def)
qed

end
