(* ===== verification/Spec2Isabelle.thy ===== *)
theory Spec2Isabelle
  imports WatchdogActions DeployLiveness HealthProbe SteeringSafety
begin

text \<open>
  Verification of the hypervisor side of the multi-WAN gateway.
\<close>

end
